(* ===== verification/Prelude.thy ===== *)
theory Prelude
  imports Main "HOL-Library.AList" "HOL-Library.Sublist"
begin

text \<open>
  Shared vocabulary of the development: Go's \<^verbatim>\<open>error\<close> values, the
  state-and-error computations in which the handlers are written, Go maps and strings,
  64-bit durations, and the interface of a typed Kubernetes object client.

  A handler of the program is a HOL function that takes the state of the API server
  (an opaque type \<open>'w\<close>), calls it through a \<open>client\<close> record and returns either an
  error or a value together with the server's next state.  The API server is not part of
  the repository: every definition that calls it takes the client as an argument, and what
  the program relies on is stated once, as the locale \<open>api_client\<close>.
\<close>

named_theorems act_simps \<open>evaluation of state-and-error computations\<close>
named_theorems gostr \<open>evaluation of the Go string functions\<close>

section \<open>Errors\<close>

text \<open>
  Go's \<^verbatim>\<open>error\<close>.  The first four constructors are the API status errors that
  the sources test for (\<^verbatim>\<open>apierrors.IsNotFound\<close> and its kin); \<open>Err\<close> is an
  error made by \<^verbatim>\<open>fmt.Errorf\<close> or \<^verbatim>\<open>errors.New\<close>, reduced to the fixed
  part of its message; \<open>Wrapped\<close> is \<^verbatim>\<open>errors.Wrapf\<close>, which keeps the cause but
  is no API status error any more; \<open>HttpErr\<close> is an \<^verbatim>\<open>httperror.APIError\<close>
  with its status.
\<close>

datatype error =
    NotFound
  | AlreadyExists
  | Conflict
  | Forbidden
  | Err string
  | Wrapped string error
  | HttpErr int string

definition IsNotFound :: "error \<Rightarrow> bool" where
  "IsNotFound e \<longleftrightarrow> e = NotFound"

definition IsAlreadyExists :: "error \<Rightarrow> bool" where
  "IsAlreadyExists e \<longleftrightarrow> e = AlreadyExists"

definition IsConflict :: "error \<Rightarrow> bool" where
  "IsConflict e \<longleftrightarrow> e = Conflict"

lemma error_tests [simp]:
  "IsNotFound NotFound" "\<not> IsNotFound AlreadyExists" "\<not> IsNotFound Conflict"
  "\<not> IsNotFound Forbidden" "\<not> IsNotFound (Err s)" "\<not> IsNotFound (Wrapped s e)"
  "\<not> IsNotFound (HttpErr i s)"
  "IsAlreadyExists AlreadyExists" "\<not> IsAlreadyExists NotFound" "\<not> IsAlreadyExists Conflict"
  "\<not> IsAlreadyExists Forbidden" "\<not> IsAlreadyExists (Err s)" "\<not> IsAlreadyExists (Wrapped s e)"
  "IsConflict Conflict" "\<not> IsConflict NotFound" "\<not> IsConflict AlreadyExists"
  by (simp_all add: IsNotFound_def IsAlreadyExists_def IsConflict_def)

type_synonym 'a result = "error + 'a"

section \<open>State-and-error computations\<close>

type_synonym ('w, 'a) act = "'w \<Rightarrow> 'a result \<times> 'w"

definition ret :: "'a \<Rightarrow> ('w, 'a) act" where
  "ret x w = (Inr x, w)"

definition raise :: "error \<Rightarrow> ('w, 'a) act" where
  "raise e w = (Inl e, w)"

text \<open>\<open>bindA\<close> is the idiom \<^verbatim>\<open>x, err := m(); if err != nil { return err }\<close>.\<close>

definition bindA :: "('w, 'a) act \<Rightarrow> ('a \<Rightarrow> ('w, 'b) act) \<Rightarrow> ('w, 'b) act" where
  "bindA m f w = (case m w of (Inl e, w') \<Rightarrow> (Inl e, w') | (Inr x, w') \<Rightarrow> f x w')"

text \<open>\<open>caseA\<close> runs a call and continues on its error or on its value.\<close>

definition caseA :: "('w, 'a) act \<Rightarrow> (error \<Rightarrow> ('w, 'b) act) \<Rightarrow> ('a \<Rightarrow> ('w, 'b) act) \<Rightarrow> ('w, 'b) act" where
  "caseA m h f w = (case m w of (Inl e, w') \<Rightarrow> h e w' | (Inr x, w') \<Rightarrow> f x w')"

text \<open>\<open>liftR\<close> uses a pure fallible computation (a read of an informer cache).\<close>

definition liftR :: "'a result \<Rightarrow> ('w, 'a) act" where
  "liftR r w = (r, w)"

text \<open>\<open>forA\<close> is a range loop whose body returns early on an error.\<close>

fun forA :: "('a \<Rightarrow> ('w, unit) act) \<Rightarrow> 'a list \<Rightarrow> ('w, unit) act" where
  "forA f [] w = (Inr (), w)"
| "forA f (x # xs) w = (case f x w of (Inl e, w') \<Rightarrow> (Inl e, w') | (Inr _, w') \<Rightarrow> forA f xs w')"

text \<open>\<open>foldA\<close> is a range loop that also updates local variables.\<close>

fun foldA :: "('a \<Rightarrow> 's \<Rightarrow> ('w, 's) act) \<Rightarrow> 'a list \<Rightarrow> 's \<Rightarrow> ('w, 's) act" where
  "foldA f [] s w = (Inr s, w)"
| "foldA f (x # xs) s w = (case f x s w of (Inl e, w') \<Rightarrow> (Inl e, w') | (Inr s', w') \<Rightarrow> foldA f xs s' w')"

text \<open>\<open>zoomA\<close> runs a call on one part of a larger state.\<close>

definition zoomA :: "('s \<Rightarrow> 'w) \<Rightarrow> (('w \<Rightarrow> 'w) \<Rightarrow> 's \<Rightarrow> 's) \<Rightarrow> ('w, 'a) act \<Rightarrow> ('s, 'a) act" where
  "zoomA get upd m s = (case m (get s) of (r, w) \<Rightarrow> (r, upd (\<lambda>_. w) s))"

lemma zoomA_eq: "m (get s) = (r, w) \<Longrightarrow> zoomA get upd m s = (r, upd (\<lambda>_. w) s)"
  by (simp add: zoomA_def)

lemma ret_eq [simp, act_simps]: "ret x w = (Inr x, w)"
  by (simp add: ret_def)

lemma raise_eq [simp, act_simps]: "raise e w = (Inl e, w)"
  by (simp add: raise_def)

lemma liftR_eq [simp, act_simps]: "liftR r w = (r, w)"
  by (simp add: liftR_def)

lemma bindA_Inl [act_simps]: "m w = (Inl e, w') \<Longrightarrow> bindA m f w = (Inl e, w')"
  by (simp add: bindA_def)

lemma bindA_Inr [act_simps]: "m w = (Inr x, w') \<Longrightarrow> bindA m f w = f x w'"
  by (simp add: bindA_def)

lemma bindA_ret [simp]: "bindA (ret x) f = f x"
  by (simp add: bindA_def fun_eq_iff)

lemma bindA_raise [simp]: "bindA (raise e) f = raise e"
  by (simp add: bindA_def fun_eq_iff)

lemma bindA_liftR [simp]: "bindA (liftR (Inr x)) f = f x" "bindA (liftR (Inl e)) f = raise e"
  by (simp_all add: bindA_def fun_eq_iff liftR_def raise_def)

lemma bindA_Pair [simp]: "bindA (Pair (Inr x)) f = f x"
  by (simp add: bindA_def fun_eq_iff)

lemma bindA_assoc: "bindA (bindA m f) g = bindA m (\<lambda>x. bindA (f x) g)"
  by (auto simp: bindA_def fun_eq_iff split: prod.splits sum.splits)

lemma bindA_eq_Inr:
  "bindA m f w = (Inr y, w'') \<longleftrightarrow> (\<exists>x w'. m w = (Inr x, w') \<and> f x w' = (Inr y, w''))"
  by (auto simp: bindA_def split: prod.splits sum.splits)

lemma bindA_eq_Inl:
  "bindA m f w = (Inl e, w'') \<longleftrightarrow>
     m w = (Inl e, w'') \<or> (\<exists>x w'. m w = (Inr x, w') \<and> f x w' = (Inl e, w''))"
  by (auto simp: bindA_def split: prod.splits sum.splits)

lemma caseA_split:
  "P (caseA m h f w) \<longleftrightarrow>
     (\<forall>e w'. m w = (Inl e, w') \<longrightarrow> P (h e w')) \<and> (\<forall>x w'. m w = (Inr x, w') \<longrightarrow> P (f x w'))"
  by (cases "m w" rule: prod.exhaust) (auto simp: caseA_def split: sum.splits)

lemma bindA_split:
  "P (bindA m f w) \<longleftrightarrow>
     (\<forall>e w'. m w = (Inl e, w') \<longrightarrow> P (Inl e, w')) \<and> (\<forall>x w'. m w = (Inr x, w') \<longrightarrow> P (f x w'))"
  by (cases "m w" rule: prod.exhaust) (auto simp: bindA_def split: sum.splits)

text \<open>An invariant of the server that every call of a body keeps is kept by the loop.\<close>

lemma forA_invariant:
  assumes "\<And>x w. x \<in> set xs \<Longrightarrow> P w \<Longrightarrow> P (snd (f x w))" and "P w"
  shows "P (snd (forA f xs w))"
  using assms
proof (induction xs arbitrary: w)
  case Nil
  then show ?case by simp
next
  case (Cons x xs)
  have "P (snd (f x w))" using Cons.prems by simp
  then show ?case
    using Cons.IH [of "snd (f x w)"] Cons.prems(1) by (auto split: prod.splits sum.splits)
qed

lemma foldA_invariant:
  assumes "\<And>x s w. x \<in> set xs \<Longrightarrow> P w \<Longrightarrow> P (snd (f x s w))" and "P w"
  shows "P (snd (foldA f xs s w))"
  using assms
proof (induction xs arbitrary: s w)
  case Nil
  then show ?case by simp
next
  case (Cons x xs)
  have "P (snd (f x s w))" using Cons.prems by simp
  then show ?case
    using Cons.IH [of "snd (f x s w)"] Cons.prems(1) by (auto split: prod.splits sum.splits)
qed

lemma forA_Cons_Inr:
  "forA f (x # xs) w = (Inr (), w') \<longleftrightarrow> (\<exists>w1. f x w = (Inr (), w1) \<and> forA f xs w1 = (Inr (), w'))"
  by (simp split: prod.splits sum.splits)

lemma forA_append:
  "forA f (xs @ ys) w = (case forA f xs w of (Inl e, w') \<Rightarrow> (Inl e, w') | (Inr _, w') \<Rightarrow> forA f ys w')"
  by (induction xs arbitrary: w) (auto split: prod.splits sum.splits)

subsection \<open>Weakest preconditions\<close>

text \<open>
  \<open>wp m Q E w\<close>: started in \<open>w\<close>, the computation ends in \<open>Q\<close> if it returns a value and in
  \<open>E\<close> if it returns an error.  The equations of \<open>wp_simps\<close> push it through a handler down
  to the calls of the server, for which the locale \<open>api_client\<close> has one rule each.
\<close>

definition wp :: "('w, 'a) act \<Rightarrow> ('a \<Rightarrow> 'w \<Rightarrow> bool) \<Rightarrow> (error \<Rightarrow> 'w \<Rightarrow> bool) \<Rightarrow> 'w \<Rightarrow> bool" where
  "wp m Q E w = (case m w of (Inr x, w') \<Rightarrow> Q x w' | (Inl e, w') \<Rightarrow> E e w')"

named_theorems wp_simps \<open>weakest preconditions of the combinators\<close>

lemma wp_iff: "wp m Q E w \<longleftrightarrow> (\<forall>x w'. m w = (Inr x, w') \<longrightarrow> Q x w') \<and> (\<forall>e w'. m w = (Inl e, w') \<longrightarrow> E e w')"
  by (auto simp: wp_def split: prod.splits sum.splits)

lemma wp_ret [wp_simps]: "wp (ret x) Q E w = Q x w"
  by (simp add: wp_def)

lemma wp_raise [wp_simps]: "wp (raise e) Q E w = E e w"
  by (simp add: wp_def)

lemma wp_liftR [wp_simps]: "wp (liftR r) Q E w = (case r of Inl e \<Rightarrow> E e w | Inr x \<Rightarrow> Q x w)"
  by (simp add: wp_def split: sum.splits)

lemma wp_bindA [wp_simps]: "wp (bindA m f) Q E w = wp m (\<lambda>x. wp (f x) Q E) E w"
  by (simp add: wp_def bindA_def split: prod.splits sum.splits)

lemma wp_caseA [wp_simps]: "wp (caseA m h f) Q E w = wp m (\<lambda>x. wp (f x) Q E) (\<lambda>e. wp (h e) Q E) w"
  by (simp add: wp_def caseA_def split: prod.splits sum.splits)

lemma wp_zoomA [wp_simps]:
  "wp (zoomA get upd m) Q E s = wp m (\<lambda>x w. Q x (upd (\<lambda>_. w) s)) (\<lambda>e w. E e (upd (\<lambda>_. w) s)) (get s)"
  by (simp add: wp_def zoomA_def split: prod.splits sum.splits)

lemma wp_if [wp_simps]: "wp (if b then m else n) Q E w = (if b then wp m Q E w else wp n Q E w)"
  by simp

text \<open>Branching conditions become goals of their own.\<close>

lemma ifI: "(c \<Longrightarrow> A) \<Longrightarrow> (\<not> c \<Longrightarrow> B) \<Longrightarrow> (if c then A else B)"
  by simp

lemma optI: "(x = None \<Longrightarrow> A) \<Longrightarrow> (\<And>y. x = Some y \<Longrightarrow> B y) \<Longrightarrow> (case x of None \<Rightarrow> A | Some y \<Rightarrow> B y)"
  by (cases x) simp_all

lemma sumI: "(\<And>e. x = Inl e \<Longrightarrow> A e) \<Longrightarrow> (\<And>y. x = Inr y \<Longrightarrow> B y) \<Longrightarrow> (case x of Inl e \<Rightarrow> A e | Inr y \<Rightarrow> B y)"
  by (cases x) simp_all

lemma wp_case_option [wp_simps]:
  "wp (case x of None \<Rightarrow> m | Some y \<Rightarrow> f y) Q E w = (case x of None \<Rightarrow> wp m Q E w | Some y \<Rightarrow> wp (f y) Q E w)"
  by (cases x) simp_all

lemma wp_case_sum [wp_simps]:
  "wp (case x of Inl e \<Rightarrow> h e | Inr y \<Rightarrow> f y) Q E w = (case x of Inl e \<Rightarrow> wp (h e) Q E w | Inr y \<Rightarrow> wp (f y) Q E w)"
  by (cases x) simp_all

lemma prodI: "(\<And>a b. x = (a, b) \<Longrightarrow> A a b) \<Longrightarrow> (case x of (a, b) \<Rightarrow> A a b)"
  by (cases x) simp

lemma listI: "(x = [] \<Longrightarrow> A) \<Longrightarrow> (\<And>y ys. x = y # ys \<Longrightarrow> B y ys) \<Longrightarrow> (case x of [] \<Rightarrow> A | y # ys \<Rightarrow> B y ys)"
  by (cases x) simp_all

lemma wp_case_prod [wp_simps]: "wp (case x of (a, b) \<Rightarrow> f a b) Q E w = (case x of (a, b) \<Rightarrow> wp (f a b) Q E w)"
  by (cases x) simp

lemma wp_case_list [wp_simps]:
  "wp (case x of [] \<Rightarrow> m | y # ys \<Rightarrow> f y ys) Q E w = (case x of [] \<Rightarrow> wp m Q E w | y # ys \<Rightarrow> wp (f y ys) Q E w)"
  by (cases x) simp_all

lemmas branchI = ifI optI sumI prodI listI

lemma wp_mono:
  "wp m Q E w \<Longrightarrow> (\<And>x w'. Q x w' \<Longrightarrow> Q' x w') \<Longrightarrow> (\<And>e w'. E e w' \<Longrightarrow> E' e w') \<Longrightarrow> wp m Q' E' w"
  by (auto simp: wp_iff)

lemma wp_conj: "wp m Q E w \<Longrightarrow> wp m Q' E' w \<Longrightarrow> wp m (\<lambda>x w. Q x w \<and> Q' x w) (\<lambda>e w. E e w \<and> E' e w) w"
  by (auto simp: wp_iff)

lemma wp_snd: "wp m (\<lambda>_. R) (\<lambda>_. R) w \<longleftrightarrow> R (snd (m w))"
  by (cases "m w"; cases "fst (m w)") (auto simp: wp_def)

lemma wp_total: "wp m Q (\<lambda>_ _. False) w \<longleftrightarrow> (\<exists>x w'. m w = (Inr x, w') \<and> Q x w')"
  by (cases "m w"; cases "fst (m w)") (auto simp: wp_def)

lemma wp_anyI: "(\<And>x w'. Q x w') \<Longrightarrow> (\<And>e w'. E e w') \<Longrightarrow> wp m Q E w"
  by (simp add: wp_iff)

lemma wp_Pair [simp]: "wp (Pair (Inl e)) Q E w = E e w" "wp (Pair (Inr x)) Q E w = Q x w"
  by (simp_all add: wp_def)

lemma wp_forA:
  assumes "I w" and "\<And>x w. x \<in> set xs \<Longrightarrow> I w \<Longrightarrow> wp (f x) (\<lambda>_. I) E w" and "\<And>w. I w \<Longrightarrow> Q () w"
  shows "wp (forA f xs) Q E w"
  using assms
proof (induction xs arbitrary: w)
  case (Cons x xs)
  have "wp (f x) (\<lambda>_. I) E w" using Cons.prems by simp
  moreover have "wp (forA f xs) Q E w'" if "I w'" for w'
    using Cons.IH [OF that] Cons.prems by simp
  ultimately show ?case by (auto simp: wp_iff split: prod.splits sum.splits)
qed (simp add: wp_def)

lemma wp_forA_each:
  assumes "I w" and "\<And>x w. x \<in> set xs \<Longrightarrow> I w \<Longrightarrow> wp (f x) (\<lambda>_ w'. I w' \<and> D x w' \<and> (\<forall>y. D y w \<longrightarrow> D y w')) E w"
    and "\<And>w. I w \<Longrightarrow> (\<forall>x \<in> set xs. D x w) \<Longrightarrow> Q () w"
  shows "wp (forA f xs) Q E w"
  using assms
proof (induction xs arbitrary: w I)
  case (Cons x xs)
  have "wp (f x) (\<lambda>_ w'. I w' \<and> D x w') E w" by (rule wp_mono [OF Cons.prems(2)]) (use Cons.prems(1) in simp_all)
  moreover have "wp (forA f xs) Q E w'" if "I w' \<and> D x w'" for w'
  proof (rule Cons.IH [of "\<lambda>w. I w \<and> D x w"])
    show "wp (f y) (\<lambda>_ w'. (I w' \<and> D x w') \<and> D y w' \<and> (\<forall>z. D z w \<longrightarrow> D z w')) E w" if "y \<in> set xs" "I w \<and> D x w" for y w
      by (rule wp_mono [OF Cons.prems(2) [of y w]]) (use that in auto)
  qed (use that Cons.prems(3) in auto)
  ultimately show ?case by (auto simp: wp_iff split: prod.splits sum.splits)
qed (simp add: wp_def)

lemma wp_foldA:
  assumes "I s w" and "\<And>x s w. x \<in> set xs \<Longrightarrow> I s w \<Longrightarrow> wp (f x s) I E w" and "\<And>s w. I s w \<Longrightarrow> Q s w"
  shows "wp (foldA f xs s) Q E w"
  using assms
proof (induction xs arbitrary: s w)
  case (Cons x xs)
  have "wp (f x s) I E w" using Cons.prems by simp
  moreover have "wp (foldA f xs s') Q E w'" if "I s' w'" for s' w'
    using Cons.IH [OF that] Cons.prems by simp
  ultimately show ?case by (auto simp: wp_iff split: prod.splits sum.splits)
qed (simp add: wp_def)

section \<open>Lists\<close>

lemma find_by_key_iff:
  "distinct (map f xs) \<Longrightarrow> find (\<lambda>x. f x = k) xs = Some x \<longleftrightarrow> x \<in> set xs \<and> f x = k"
  by (induction xs) (auto simp: image_iff)

section \<open>Go maps\<close>

text \<open>
  A Go map is an association list; \<^const>\<open>map_of\<close> reads it.  Go iterates over a map in
  an unspecified order, so a definition that ranges over a map takes the order as it comes
  in the list (its theorems quantify over the list) or as an explicit argument.
\<close>

type_synonym ('k, 'v) gomap = "('k \<times> 'v) list"

definition map_get :: "('k, 'v) gomap \<Rightarrow> 'k \<Rightarrow> 'v \<Rightarrow> 'v" where
  "map_get m k z = (case map_of m k of None \<Rightarrow> z | Some v \<Rightarrow> v)"

definition map_has :: "('k, 'v) gomap \<Rightarrow> 'k \<Rightarrow> bool" where
  "map_has m k \<longleftrightarrow> map_of m k \<noteq> None"

definition map_put :: "'k \<Rightarrow> 'v \<Rightarrow> ('k, 'v) gomap \<Rightarrow> ('k, 'v) gomap" where
  "map_put k v m = AList.update k v m"

definition map_del :: "'k \<Rightarrow> ('k, 'v) gomap \<Rightarrow> ('k, 'v) gomap" where
  "map_del k m = AList.delete k m"

text \<open>\<^verbatim>\<open>reflect.DeepEqual\<close> on two non-nil maps.\<close>

definition map_eq :: "('k, 'v) gomap \<Rightarrow> ('k, 'v) gomap \<Rightarrow> bool" where
  "map_eq m n \<longleftrightarrow> list_all (\<lambda>k. map_of m k = map_of n k) (map fst m @ map fst n)"

lemma map_of_put [simp]: "map_of (map_put k v m) = (map_of m)(k \<mapsto> v)"
  by (simp add: map_put_def update_conv')

lemma map_of_del [simp]: "map_of (map_del k m) = (map_of m)(k := None)"
  by (simp add: map_del_def delete_conv')

lemma map_eq_iff: "map_eq m n \<longleftrightarrow> map_of m = map_of n"
proof
  assume eq: "map_eq m n"
  show "map_of m = map_of n"
  proof
    fix k
    show "map_of m k = map_of n k"
    proof (cases "k \<in> fst ` set m \<or> k \<in> fst ` set n")
      case True
      with eq show ?thesis by (auto simp: map_eq_def list_all_iff)
    next
      case False
      then have "map_of m k = None" "map_of n k = None"
        by (simp_all add: map_of_eq_None_iff)
      then show ?thesis by simp
    qed
  qed
qed (simp add: map_eq_def list_all_iff)

lemma distinct_map_put: "distinct (map fst m) \<Longrightarrow> distinct (map fst (map_put k v m))"
  by (simp add: map_put_def distinct_update)

lemma distinct_map_del: "distinct (map fst m) \<Longrightarrow> distinct (map fst (map_del k m))"
  by (simp add: map_del_def distinct_delete)

lemma set_map_put_keys [simp]: "fst ` set (map_put k v m) = insert k (fst ` set m)"
  by (metis dom_map_of_conv_image_fst dom_fun_upd map_of_put option.simps(3))

section \<open>Strings\<close>

text \<open>
  Strings are lists of bytes, as in Go.  \<open>str_split\<close> is \<^verbatim>\<open>strings.Split\<close> for a
  non-empty separator: it cuts at every non-overlapping occurrence from the left, and an
  input without the separator gives the one-element list.
\<close>

function split_at :: "string \<Rightarrow> string \<Rightarrow> string \<Rightarrow> string list" where
  "split_at sep acc [] = [rev acc]"
| "split_at sep acc (c # cs) =
     (if sep \<noteq> [] \<and> take (length sep) (c # cs) = sep
      then rev acc # split_at sep [] (drop (length sep) (c # cs))
      else split_at sep (c # acc) cs)"
  by pat_completeness auto
termination
  by (relation "measure (\<lambda>(sep, acc, s). length s)") (auto simp: Suc_diff_le split: list.splits)

definition str_split :: "string \<Rightarrow> string \<Rightarrow> string list" where
  "str_split s sep = split_at sep [] s"

text \<open>\<^verbatim>\<open>strings.SplitN(s, sep, 2)\<close> for a separator of one byte.\<close>

definition split_n2 :: "string \<Rightarrow> char \<Rightarrow> string list" where
  "split_n2 s c =
     (if c \<in> set s then [takeWhile (\<lambda>x. x \<noteq> c) s, drop 1 (dropWhile (\<lambda>x. x \<noteq> c) s)] else [s])"

definition has_prefix :: "string \<Rightarrow> string \<Rightarrow> bool" where
  "has_prefix s p \<longleftrightarrow> take (length p) s = p"

definition has_suffix :: "string \<Rightarrow> string \<Rightarrow> bool" where
  "has_suffix s p \<longleftrightarrow> has_prefix (rev s) (rev p)"

definition trim_prefix :: "string \<Rightarrow> string \<Rightarrow> string" where
  "trim_prefix s p = (if has_prefix s p then drop (length p) s else s)"

lemma has_prefix_append [simp]: "has_prefix (p @ s) p"
  by (simp add: has_prefix_def)

lemma trim_prefix_append [simp]: "trim_prefix (p @ s) p = s"
  by (simp add: trim_prefix_def)

lemma split_at_not_empty [simp]: "split_at sep acc s \<noteq> []"
  by (induction sep acc s rule: split_at.induct) simp_all

lemma split_not_empty [simp]: "str_split s sep \<noteq> []"
  by (simp add: str_split_def)

lemma split_at_single_absent:
  "c \<notin> set s \<Longrightarrow> split_at [c] acc s = [rev acc @ s]"
  by (induction s arbitrary: acc) auto

lemma split_at_single_append:
  "c \<notin> set s \<Longrightarrow> split_at [c] acc (s @ c # t) = (rev acc @ s) # split_at [c] [] t"
  by (induction s arbitrary: acc) auto

lemma split_two [gostr]:
  "c \<notin> set a \<Longrightarrow> c \<notin> set b \<Longrightarrow> str_split (a @ c # b) [c] = [a, b]"
  by (simp add: str_split_def split_at_single_append split_at_single_absent)

lemma split_absent [gostr]: "c \<notin> set a \<Longrightarrow> str_split a [c] = [a]"
  by (simp add: str_split_def split_at_single_absent)

text \<open>Joining the parts of a split with the separator gives the string back.\<close>

fun join :: "string \<Rightarrow> string list \<Rightarrow> string" where
  "join sep [] = []"
| "join sep [s] = s"
| "join sep (s # t # ts) = s @ sep @ join sep (t # ts)"

lemma join_Cons: "ts \<noteq> [] \<Longrightarrow> join sep (s # ts) = s @ sep @ join sep ts"
  by (cases ts) simp_all

lemma join_split_at: "join sep (split_at sep acc s) = rev acc @ s"
proof (induction sep acc s rule: split_at.induct)
  case (1 sep acc)
  then show ?case by simp
next
  case (2 sep acc c cs)
  show ?case
  proof (cases "sep \<noteq> [] \<and> take (length sep) (c # cs) = sep")
    case True
    then have "sep @ drop (length sep) (c # cs) = c # cs"
      by (metis append_take_drop_id)
    with True 2 show ?thesis by (simp add: join_Cons)
  next
    case False
    with 2 show ?thesis by auto
  qed
qed

lemma join_split: "join sep (str_split s sep) = s"
  by (simp add: str_split_def join_split_at)

lemma split_single_inj: "str_split s [c] = [a, b] \<Longrightarrow> s = a @ c # b"
  using join_split [of "[c]" s] by simp

text \<open>\<^verbatim>\<open>strings.TrimSpace\<close>: the UTF-8 encodings of Unicode's white space.\<close>

definition spaces :: "string list" where
  "spaces =
     [[CHR 0x20], [CHR 0x09], [CHR 0x0A], [CHR 0x0B], [CHR 0x0C], [CHR 0x0D],
      [CHR 0xC2, CHR 0x85], [CHR 0xC2, CHR 0xA0], [CHR 0xE1, CHR 0x9A, CHR 0x80],
      [CHR 0xE2, CHR 0x80, CHR 0x80], [CHR 0xE2, CHR 0x80, CHR 0x81],
      [CHR 0xE2, CHR 0x80, CHR 0x82], [CHR 0xE2, CHR 0x80, CHR 0x83],
      [CHR 0xE2, CHR 0x80, CHR 0x84], [CHR 0xE2, CHR 0x80, CHR 0x85],
      [CHR 0xE2, CHR 0x80, CHR 0x86], [CHR 0xE2, CHR 0x80, CHR 0x87],
      [CHR 0xE2, CHR 0x80, CHR 0x88], [CHR 0xE2, CHR 0x80, CHR 0x89],
      [CHR 0xE2, CHR 0x80, CHR 0x8A], [CHR 0xE2, CHR 0x80, CHR 0xA8],
      [CHR 0xE2, CHR 0x80, CHR 0xA9], [CHR 0xE2, CHR 0x80, CHR 0xAF],
      [CHR 0xE2, CHR 0x81, CHR 0x9F], [CHR 0xE3, CHR 0x80, CHR 0x80]]"

function strip :: "string list \<Rightarrow> string \<Rightarrow> string" where
  "strip ps s =
     (case find (\<lambda>p. p \<noteq> [] \<and> has_prefix s p) ps of
        None \<Rightarrow> s
      | Some p \<Rightarrow> strip ps (drop (length p) s))"
  by pat_completeness auto
termination
proof (relation "measure (\<lambda>(ps, s). length s)")
  fix ps s p
  assume "find (\<lambda>p. p \<noteq> [] \<and> has_prefix s p) ps = Some p"
  then have "p \<noteq> []" and "has_prefix s p" by (auto simp: find_Some_iff)
  then have "s \<noteq> []" by (auto simp: has_prefix_def)
  with \<open>p \<noteq> []\<close> show "((ps, drop (length p) s), (ps, s)) \<in> measure (\<lambda>(ps, s). length s)"
    by simp
qed simp

declare strip.simps [simp del]

definition trim_space :: "string \<Rightarrow> string" where
  "trim_space s = rev (strip (map rev spaces) (rev (strip spaces s)))"

text \<open>
  \<^verbatim>\<open>strings.EqualFold\<close> against an ASCII pattern: ASCII letters fold, and so do the
  two other code points whose simple folding is an ASCII letter (long s, Kelvin sign).
\<close>

definition fold_char :: "char \<Rightarrow> char" where
  "fold_char c = (if 65 \<le> (of_char c :: nat) \<and> (of_char c :: nat) \<le> 90 then char_of (of_char c + 32 :: nat) else c)"

fun fold_ascii :: "string \<Rightarrow> string" where
  "fold_ascii [] = []"
| "fold_ascii (a # b # c # s) =
     (if a = CHR 0xC5 \<and> b = CHR 0xBF then CHR ''s'' # fold_ascii (c # s)
      else if a = CHR 0xE2 \<and> b = CHR 0x84 \<and> c = CHR 0xAA then CHR ''k'' # fold_ascii s
      else fold_char a # fold_ascii (b # c # s))"
| "fold_ascii [a, b] =
     (if a = CHR 0xC5 \<and> b = CHR 0xBF then [CHR ''s''] else [fold_char a, fold_char b])"
| "fold_ascii [a] = [fold_char a]"

definition equal_fold :: "string \<Rightarrow> string \<Rightarrow> bool" where
  "equal_fold s t \<longleftrightarrow> fold_ascii s = fold_ascii t"


section \<open>Sixty-four bit durations\<close>

text \<open>
  \<^verbatim>\<open>time.Duration\<close> is an int64 count of nanoseconds and its arithmetic wraps.
  \<^verbatim>\<open>time.Since\<close> saturates at the ends of the range instead.
\<close>

definition wrap64 :: "int \<Rightarrow> int" where
  "wrap64 x = (x + 2 ^ 63) mod 2 ^ 64 - 2 ^ 63"

definition max_duration :: int where
  "max_duration = 2 ^ 63 - 1"

definition min_duration :: int where
  "min_duration = - (2 ^ 63)"

definition time_since :: "int \<Rightarrow> int \<Rightarrow> int" where
  "time_since now t = max min_duration (min max_duration (now - t))"

definition second :: int where
  "second = 1000000000"

definition millisecond :: int where
  "millisecond = 1000000"

lemma wrap64_id: "- (2 ^ 63) \<le> x \<Longrightarrow> x < 2 ^ 63 \<Longrightarrow> wrap64 x = x"
  by (simp add: wrap64_def)

lemma wrap64_range: "- (2 ^ 63) \<le> wrap64 x \<and> wrap64 x < 2 ^ 63"
  by (simp add: wrap64_def)

section \<open>Typed object clients\<close>

text \<open>
  The calls the program makes on one kind of object: \<open>'k\<close> is the key (a name, or a
  namespace and a name), \<open>'o\<close> the object, \<open>'w\<close> the state of the server that stores the
  kind.  \<open>clist\<close> takes the label or field selector as a predicate.
\<close>

record ('w, 'k, 'o) client =
  cget :: "'k \<Rightarrow> ('w, 'o) act"
  clist :: "('o \<Rightarrow> bool) \<Rightarrow> ('w, 'o list) act"
  ccreate :: "'o \<Rightarrow> ('w, 'o) act"
  cupdate :: "'o \<Rightarrow> ('w, 'o) act"
  cdelete :: "'k \<Rightarrow> ('w, unit) act"

text \<open>
  What the program relies on.  \<open>view\<close> is the contents of the server, \<open>key\<close> the key of an
  object, and \<open>stored o p\<close> says that \<open>p\<close> is \<open>o\<close> up to the fields the server itself
  assigns (a generated name, the creation time).  A call that reports an error has changed
  nothing; a read changes nothing; a successful write changes exactly the object it names.
  \<open>avail\<close> describes a server that answers: its calls fail only for the documented reasons.
\<close>

locale api_client =
  fixes cl :: "('w, 'k, 'o) client"
    and key :: "'o \<Rightarrow> 'k"
    and view :: "'w \<Rightarrow> 'k \<Rightarrow> 'o option"
    and stored :: "'o \<Rightarrow> 'o \<Rightarrow> bool"
    and avail :: "'w \<Rightarrow> bool"
  assumes get_ok: "cget cl k w = (Inr x, w') \<Longrightarrow> view w k = Some x \<and> view w' = view w"
    and get_err: "cget cl k w = (Inl e, w') \<Longrightarrow> view w' = view w \<and> (e = NotFound \<longrightarrow> view w k = None)"
    and list_ok: "clist cl p w = (Inr xs, w') \<Longrightarrow>
          view w' = view w \<and> distinct (map key xs) \<and>
          (\<forall>x. x \<in> set xs \<longleftrightarrow> view w (key x) = Some x \<and> p x)"
    and list_err: "clist cl p w = (Inl e, w') \<Longrightarrow> view w' = view w"
    and create_ok: "ccreate cl x w = (Inr y, w') \<Longrightarrow>
          stored x y \<and> view w (key y) = None \<and> view w' = (view w)(key y \<mapsto> y)"
    and create_err: "ccreate cl x w = (Inl e, w') \<Longrightarrow> view w' = view w"
    and update_ok: "cupdate cl x w = (Inr y, w') \<Longrightarrow>
          stored x y \<and> key y = key x \<and> view w (key x) \<noteq> None \<and> view w' = (view w)(key x \<mapsto> y)"
    and update_err: "cupdate cl x w = (Inl e, w') \<Longrightarrow> view w' = view w"
    and delete_ok: "cdelete cl k w = (Inr u, w') \<Longrightarrow> view w k \<noteq> None \<and> view w' = (view w)(k := None)"
    and delete_err: "cdelete cl k w = (Inl e, w') \<Longrightarrow> view w' = view w \<and> (e = NotFound \<longrightarrow> view w k = None)"
    and avail_get: "avail w \<Longrightarrow> avail (snd (cget cl k w)) \<and>
          fst (cget cl k w) = (case view w k of None \<Rightarrow> Inl NotFound | Some x \<Rightarrow> Inr x)"
    and avail_list: "avail w \<Longrightarrow> avail (snd (clist cl p w)) \<and> (\<exists>xs. fst (clist cl p w) = Inr xs)"
    and avail_create: "avail w \<Longrightarrow> avail (snd (ccreate cl x w)) \<and>
          (view w (key x) = None \<longrightarrow> (\<exists>y. fst (ccreate cl x w) = Inr y))"
    and avail_update: "avail w \<Longrightarrow> avail (snd (cupdate cl x w)) \<and>
          (view w (key x) \<noteq> None \<longrightarrow> (\<exists>y. fst (cupdate cl x w) = Inr y))"
    and avail_delete: "avail w \<Longrightarrow> avail (snd (cdelete cl k w)) \<and>
          (view w k \<noteq> None \<longrightarrow> fst (cdelete cl k w) = Inr ()) \<and>
          (view w k = None \<longrightarrow> fst (cdelete cl k w) = Inl NotFound)"
    and view_key: "view w k = Some x \<Longrightarrow> key x = k"
begin

lemma get_view [simp]: "view (snd (cget cl k w)) = view w"
  by (cases "cget cl k w"; cases "fst (cget cl k w)") (auto dest: get_ok get_err)

lemma list_view [simp]: "view (snd (clist cl p w)) = view w"
  by (cases "clist cl p w"; cases "fst (clist cl p w)") (auto dest: list_ok list_err)

lemma delete_shrinks: "view (snd (cdelete cl k w)) k' = Some x \<Longrightarrow> view w k' = Some x"
  by (cases "cdelete cl k w"; cases "fst (cdelete cl k w)")
    (auto dest!: delete_ok delete_err split: if_splits)

lemma delete_gone:
  "fst (cdelete cl k w) = Inr u \<or> fst (cdelete cl k w) = Inl NotFound \<Longrightarrow>
   view (snd (cdelete cl k w)) = (view w)(k := None)"
  by (cases "cdelete cl k w"; cases "fst (cdelete cl k w)")
    (auto dest!: delete_ok delete_err simp: fun_eq_iff)

lemma create_grows: "view w k = Some x \<Longrightarrow> view (snd (ccreate cl y w)) k = Some x"
  by (cases "ccreate cl y w"; cases "fst (ccreate cl y w)")
    (auto dest!: create_ok create_err)

text \<open>What a server that answers does, in the form the proofs chain.\<close>

lemma avail_get_ok:
  "avail w \<Longrightarrow> view w k = Some x \<Longrightarrow> \<exists>w'. cget cl k w = (Inr x, w') \<and> avail w' \<and> view w' = view w"
  using avail_get [of w k] get_view [of k w] by (cases "cget cl k w") auto

lemma avail_get_missing:
  "avail w \<Longrightarrow> view w k = None \<Longrightarrow> \<exists>w'. cget cl k w = (Inl NotFound, w') \<and> avail w' \<and> view w' = view w"
  using avail_get [of w k] get_view [of k w] by (cases "cget cl k w") auto

lemma avail_list_ok:
  "avail w \<Longrightarrow> \<exists>xs w'. clist cl p w = (Inr xs, w') \<and> avail w' \<and> view w' = view w \<and>
     distinct (map key xs) \<and> (\<forall>x. x \<in> set xs \<longleftrightarrow> view w (key x) = Some x \<and> p x)"
  using avail_list [of w p] by (cases "clist cl p w") (auto dest: list_ok)

lemma avail_create_ok:
  "avail w \<Longrightarrow> view w (key x) = None \<Longrightarrow> \<exists>y w'. ccreate cl x w = (Inr y, w') \<and> avail w' \<and>
     stored x y \<and> view w (key y) = None \<and> view w' = (view w)(key y \<mapsto> y)"
  using avail_create [of w x] by (cases "ccreate cl x w") (auto dest: create_ok)

lemma avail_update_ok:
  "avail w \<Longrightarrow> view w (key x) \<noteq> None \<Longrightarrow> \<exists>y w'. cupdate cl x w = (Inr y, w') \<and> avail w' \<and>
     stored x y \<and> key y = key x \<and> view w' = (view w)(key x \<mapsto> y)"
  using avail_update [of w x] by (cases "cupdate cl x w") (auto dest: update_ok)

lemma avail_delete_ok:
  "avail w \<Longrightarrow> view w k \<noteq> None \<Longrightarrow> \<exists>w'. cdelete cl k w = (Inr (), w') \<and> avail w' \<and> view w' = (view w)(k := None)"
  using avail_delete [of w k] by (cases "cdelete cl k w") (auto dest: delete_ok)

lemma wp_get:
  assumes "\<And>w' x. view w' = view w \<Longrightarrow> (avail w \<Longrightarrow> avail w') \<Longrightarrow> view w k = Some x \<Longrightarrow> Q x w'"
    and "\<And>w' e. view w' = view w \<Longrightarrow> (avail w \<Longrightarrow> avail w' \<and> view w k = None \<and> e = NotFound) \<Longrightarrow>
      (e = NotFound \<Longrightarrow> view w k = None) \<Longrightarrow> E e w'"
  shows "wp (cget cl k) Q E w"
proof -
  have "E e w'" if "cget cl k w = (Inl e, w')" for e w'
    using get_err [OF that] avail_get [of w k] that by (intro assms(2)) (auto split: option.splits)
  moreover have "Q x w'" if "cget cl k w = (Inr x, w')" for x w'
    using get_ok [OF that] avail_get [of w k] that by (intro assms(1)) auto
  ultimately show ?thesis by (simp add: wp_iff)
qed

lemma wp_list:
  assumes "\<And>w' xs. view w' = view w \<Longrightarrow> (avail w \<Longrightarrow> avail w') \<Longrightarrow> distinct (map key xs) \<Longrightarrow>
      (\<And>x. x \<in> set xs \<longleftrightarrow> view w (key x) = Some x \<and> p x) \<Longrightarrow> Q xs w'"
    and "\<And>w' e. view w' = view w \<Longrightarrow> (avail w \<Longrightarrow> False) \<Longrightarrow> E e w'"
  shows "wp (clist cl p) Q E w"
proof -
  have "E e w'" if "clist cl p w = (Inl e, w')" for e w'
    using list_err [OF that] avail_list [of w p] that by (intro assms(2)) auto
  moreover have "Q xs w'" if "clist cl p w = (Inr xs, w')" for xs w'
    using list_ok [OF that] avail_list [of w p] that by (intro assms(1)) auto
  ultimately show ?thesis by (simp add: wp_iff)
qed

lemma wp_create:
  assumes "\<And>w' y. stored x y \<Longrightarrow> view w (key y) = None \<Longrightarrow> view w' = (view w)(key y \<mapsto> y) \<Longrightarrow>
      (avail w \<Longrightarrow> avail w') \<Longrightarrow> Q y w'"
    and "\<And>w' e. view w' = view w \<Longrightarrow> (avail w \<Longrightarrow> avail w' \<and> view w (key x) \<noteq> None) \<Longrightarrow> E e w'"
  shows "wp (ccreate cl x) Q E w"
proof -
  have "E e w'" if "ccreate cl x w = (Inl e, w')" for e w'
    using create_err [OF that] avail_create [of w x] that by (intro assms(2)) auto
  moreover have "Q y w'" if "ccreate cl x w = (Inr y, w')" for y w'
    using create_ok [OF that] avail_create [of w x] that by (intro assms(1)) auto
  ultimately show ?thesis by (simp add: wp_iff)
qed

lemma wp_update:
  assumes "\<And>w' y. stored x y \<Longrightarrow> key y = key x \<Longrightarrow> view w (key x) \<noteq> None \<Longrightarrow> view w' = (view w)(key x \<mapsto> y) \<Longrightarrow>
      (avail w \<Longrightarrow> avail w') \<Longrightarrow> Q y w'"
    and "\<And>w' e. view w' = view w \<Longrightarrow> (avail w \<Longrightarrow> avail w' \<and> view w (key x) = None) \<Longrightarrow> E e w'"
  shows "wp (cupdate cl x) Q E w"
proof -
  have "E e w'" if "cupdate cl x w = (Inl e, w')" for e w'
    using update_err [OF that] avail_update [of w x] that by (intro assms(2)) auto
  moreover have "Q y w'" if "cupdate cl x w = (Inr y, w')" for y w'
    using update_ok [OF that] avail_update [of w x] that by (intro assms(1)) auto
  ultimately show ?thesis by (simp add: wp_iff)
qed

lemma wp_delete:
  assumes "\<And>w'. view w k \<noteq> None \<Longrightarrow> view w' = (view w)(k := None) \<Longrightarrow> (avail w \<Longrightarrow> avail w') \<Longrightarrow> Q () w'"
    and "\<And>w' e. view w' = view w \<Longrightarrow> (avail w \<Longrightarrow> avail w' \<and> view w k = None \<and> e = NotFound) \<Longrightarrow>
      (e = NotFound \<Longrightarrow> view w k = None) \<Longrightarrow> E e w'"
  shows "wp (cdelete cl k) Q E w"
proof -
  have "E e w'" if "cdelete cl k w = (Inl e, w')" for e w'
    using delete_err [OF that] avail_delete [of w k] that by (intro assms(2)) (cases "view w k"; auto)+
  moreover have "Q () w'" if "cdelete cl k w = (Inr (), w')" for w'
    using delete_ok [OF that] avail_delete [of w k] that by (intro assms(1)) auto
  ultimately show ?thesis by (simp add: wp_iff)
qed

lemmas wp_calls = wp_get wp_list wp_create wp_update wp_delete

lemma read_view:
  "cget cl k w = (r, w') \<Longrightarrow> view w' = view w"
  "clist cl p w = (r', w') \<Longrightarrow> view w' = view w"
  using get_view [of k w] list_view [of p w] by simp_all

end

text \<open>
  An in-memory server with fault injection: a list of objects and a schedule of faults, of
  which each call consumes one entry (an empty schedule answers every call).  \<open>assign\<close> is
  what the server adds to an object on creation.
\<close>

record 'o mem =
  objs :: "'o list"
  faults :: "error option list"

definition mem_find :: "('o \<Rightarrow> 'k) \<Rightarrow> 'o mem \<Rightarrow> 'k \<Rightarrow> 'o option" where
  "mem_find key w k = find (\<lambda>x. key x = k) (objs w)"

definition mem_list :: "('o \<Rightarrow> 'k) \<Rightarrow> 'o mem \<Rightarrow> 'o list" where
  "mem_list key w = remdups (List.map_filter (mem_find key w) (map key (objs w)))"

definition faultA :: "('o mem, 'a) act \<Rightarrow> ('o mem, 'a) act" where
  "faultA m w =
     (case faults w of
        [] \<Rightarrow> m w
      | Some e # fs \<Rightarrow> (Inl (if e = NotFound then Forbidden else e), w\<lparr>faults := fs\<rparr>)
      | None # fs \<Rightarrow> m (w\<lparr>faults := fs\<rparr>))"

definition mem_client :: "('o \<Rightarrow> 'k) \<Rightarrow> ('o list \<Rightarrow> 'o \<Rightarrow> 'o) \<Rightarrow> ('o mem, 'k, 'o) client" where
  "mem_client key assign =
     \<lparr>cget = (\<lambda>k. faultA (\<lambda>w. (case mem_find key w k of None \<Rightarrow> Inl NotFound | Some x \<Rightarrow> Inr x, w))),
      clist = (\<lambda>p. faultA (\<lambda>w. (Inr (filter p (mem_list key w)), w))),
      ccreate = (\<lambda>x. faultA (\<lambda>w.
        let y = assign (objs w) x in
        if mem_find key w (key y) = None then (Inr y, w\<lparr>objs := y # objs w\<rparr>) else (Inl AlreadyExists, w))),
      cupdate = (\<lambda>x. faultA (\<lambda>w.
        if mem_find key w (key x) = None then (Inl NotFound, w) else (Inr x, w\<lparr>objs := x # objs w\<rparr>))),
      cdelete = (\<lambda>k. faultA (\<lambda>w.
        if mem_find key w k = None then (Inl NotFound, w)
        else (Inr (), w\<lparr>objs := filter (\<lambda>x. key x \<noteq> k) (objs w)\<rparr>)))\<rparr>"

definition mem_avail :: "'o mem \<Rightarrow> bool" where
  "mem_avail w \<longleftrightarrow> faults w = []"

text \<open>A generated name: longer than every name in use, so it is new.\<close>

definition fresh_name :: "string \<Rightarrow> string list \<Rightarrow> string" where
  "fresh_name p ns = p @ replicate (Suc (length (concat ns))) CHR ''x''"

lemma length_concat_ge: "n \<in> set ns \<Longrightarrow> length n \<le> length (concat ns)"
  by (induction ns) auto

lemma fresh_name_fresh: "fresh_name p ns \<notin> set ns"
  using length_concat_ge [of "fresh_name p ns" ns] by (auto simp: fresh_name_def)

lemma fresh_name_unused: "find (\<lambda>y. f y = fresh_name p (map f xs)) xs = None"
  using fresh_name_fresh [of p "map f xs"] by (force simp: find_None_iff)

text \<open>
  The laws hold for every fault schedule, provided creation assigns an unused key where it
  assigns one.
\<close>

locale mem_server =
  fixes key :: "'o \<Rightarrow> 'k"
    and assign :: "'o list \<Rightarrow> 'o \<Rightarrow> 'o"
    and stored :: "'o \<Rightarrow> 'o \<Rightarrow> bool"
  assumes stored_refl: "stored x x"
    and stored_assign: "stored x (assign xs x)"
    and assign_fresh: "find (\<lambda>y. key y = key x) xs = None \<Longrightarrow> find (\<lambda>y. key y = key (assign xs x)) xs = None"
begin

lemma find_key: "mem_find key w k = Some x \<Longrightarrow> key x = k"
  by (auto simp: mem_find_def find_Some_iff)

lemma find_filter_other:
  "find (\<lambda>x. key x = k') (filter (\<lambda>x. key x \<noteq> k) xs) = (if k' = k then None else find (\<lambda>x. key x = k') xs)"
  by (induction xs) auto

lemma find_objs [simp]: "mem_find key (w\<lparr>objs := xs\<rparr>) k = find (\<lambda>x. key x = k) xs"
  by (simp add: mem_find_def)

lemma find_faults [simp]: "mem_find key (w\<lparr>faults := fs\<rparr>) = mem_find key w"
  by (simp add: mem_find_def fun_eq_iff)

lemma faultA_cases:
  assumes "faultA m w = (r, w')"
  obtains (fault) e fs where "r = Inl e" "e \<noteq> NotFound" "w' = w\<lparr>faults := fs\<rparr>"
  | (call) fs where "m (w\<lparr>faults := fs\<rparr>) = (r, w')"
proof (cases "faults w")
  case Nil
  then have "w\<lparr>faults := []\<rparr> = w" by simp
  with assms Nil call [of "[]"] show ?thesis by (simp add: faultA_def)
next
  case (Cons f fs)
  with assms fault [of _ fs] call [of fs] show ?thesis
    by (auto simp: faultA_def split: option.splits if_splits)
qed

lemma faultA_avail: "mem_avail w \<Longrightarrow> faultA m w = m w"
  by (simp add: faultA_def mem_avail_def)

lemma set_mem_list: "x \<in> set (mem_list key w) \<longleftrightarrow> mem_find key w (key x) = Some x"
proof
  assume "x \<in> set (mem_list key w)"
  then obtain k where "mem_find key w k = Some x"
    by (auto simp: mem_list_def List.map_filter_def)
  then show "mem_find key w (key x) = Some x"
    using find_key by blast
next
  assume found: "mem_find key w (key x) = Some x"
  then have "x \<in> set (objs w)" by (auto simp: mem_find_def find_Some_iff)
  with found show "x \<in> set (mem_list key w)"
    by (force simp: mem_list_def List.map_filter_def)
qed

lemma distinct_mem_list: "distinct (map key (filter p (mem_list key w)))"
proof -
  have "distinct (filter p (mem_list key w))"
    by (simp add: mem_list_def)
  moreover have "inj_on key (set (filter p (mem_list key w)))"
    by (rule inj_onI) (simp, metis set_mem_list option.inject)
  ultimately show ?thesis by (simp add: distinct_map)
qed

lemma mem_list_faults [simp]: "mem_list key (w\<lparr>faults := fs\<rparr>) = mem_list key w"
  by (simp add: mem_list_def)

end

sublocale mem_server \<subseteq> mem: api_client "mem_client key assign" key "mem_find key" stored mem_avail
proof (unfold_locales, goal_cases)
  case (1 k w x w')
  then show ?case
    by (simp add: mem_client_def) (erule faultA_cases; auto split: option.splits)
next
  case (2 k w e w')
  then show ?case
    by (simp add: mem_client_def) (erule faultA_cases; auto split: option.splits)
next
  case (3 p w xs w')
  then show ?case
    by (simp add: mem_client_def) (erule faultA_cases; auto simp: set_mem_list distinct_mem_list)
next
  case (4 p w e w')
  then show ?case
    by (simp add: mem_client_def) (erule faultA_cases; auto)
next
  case (5 x w y w')
  then show ?case
    by (simp add: mem_client_def Let_def)
      (erule faultA_cases; auto simp: stored_assign fun_eq_iff mem_find_def split: if_splits)
next
  case (6 x w e w')
  then show ?case
    by (simp add: mem_client_def Let_def) (erule faultA_cases; auto split: if_splits)
next
  case (7 x w y w')
  then show ?case
    by (simp add: mem_client_def)
      (erule faultA_cases; auto simp: stored_refl fun_eq_iff mem_find_def split: if_splits)
next
  case (8 x w e w')
  then show ?case
    by (simp add: mem_client_def) (erule faultA_cases; auto split: if_splits)
next
  case (9 k w u w')
  then show ?case
    by (simp add: mem_client_def)
      (erule faultA_cases; auto simp: fun_eq_iff mem_find_def find_filter_other split: if_splits)
next
  case (10 k w e w')
  then show ?case
    by (simp add: mem_client_def) (erule faultA_cases; auto split: if_splits)
next
  case (11 w k)
  then show ?case by (auto simp: mem_client_def faultA_avail split: option.splits)
next
  case (12 w p)
  then show ?case by (simp add: mem_client_def faultA_avail)
next
  case (13 w x)
  then show ?case
    using assign_fresh [of x "objs w"]
    by (auto simp: mem_client_def faultA_avail mem_find_def Let_def mem_avail_def)
next
  case (14 w x)
  then show ?case by (auto simp: mem_client_def faultA_avail mem_avail_def)
next
  case (15 w k)
  then show ?case by (auto simp: mem_client_def faultA_avail mem_avail_def)
next
  case (16 w k x)
  then show ?case by (rule find_key)
qed

end
