(* ===== verification/Objects.thy ===== *)
theory Objects
  imports Prelude
begin

text \<open>
  The API objects that several components share: the fields the modelled code reads or
  writes, under the names of the Go structs
  (\<^verbatim>\<open>src/vendor/github.com/rancher/types/apis/management.cattle.io/v3\<close> and
  \<^verbatim>\<open>src/vendor/k8s.io/api/rbac/v1\<close>).  Status conditions are a map from the condition's
  type to its status.  An annotation that holds JSON text is a field of its own, whose
  value is the value the text encodes (\<open>Json\<close>) or a text that does not decode (\<open>BadJson\<close>);
  a time kept as text is the time, in nanoseconds, or \<open>None\<close> if it does not parse.
\<close>

datatype 'a json = Json 'a | BadJson

definition unmarshal :: "'a json \<Rightarrow> 'a result" where
  "unmarshal j = (case j of Json v \<Rightarrow> Inr v | BadJson \<Rightarrow> Inl (Err ''invalid character''))"

lemma unmarshal_simps [simp]:
  "unmarshal (Json v) = Inr v" "unmarshal BadJson = Inl (Err ''invalid character'')"
  by (simp_all add: unmarshal_def)

type_synonym conditions = "(string, string) gomap"

definition cond_true :: "string \<Rightarrow> conditions \<Rightarrow> bool" where
  "cond_true c cs \<longleftrightarrow> map_of cs c = Some ''True''"

definition cond_false :: "string \<Rightarrow> conditions \<Rightarrow> bool" where
  "cond_false c cs \<longleftrightarrow> map_of cs c = Some ''False''"

definition cond_set_true :: "string \<Rightarrow> conditions \<Rightarrow> conditions" where
  "cond_set_true c cs = map_put c ''True'' cs"

lemma cond_set_true_true [simp]: "cond_true c (cond_set_true c cs)"
  by (simp add: cond_true_def cond_set_true_def)

section \<open>RBAC objects\<close>

record PolicyRule =
  p_APIGroups :: "string list"
  p_Resources :: "string list"
  p_ResourceNames :: "string list"
  p_NonResourceURLs :: "string list"
  p_Verbs :: "string list"

record OwnerReference =
  ow_Kind :: string
  ow_Name :: string
  ow_UID :: string

record Subject =
  sj_Kind :: string
  sj_Name :: string
  sj_Namespace :: string
  sj_APIGroup :: string

record RoleRef =
  rr_APIGroup :: string
  rr_Kind :: string
  rr_Name :: string

record ClusterRole =
  cr_Name :: string
  cr_Labels :: "(string, string) gomap"
  cr_Annotations :: "(string, string) gomap"
  cr_Owners :: "OwnerReference list"
  cr_Rules :: "PolicyRule list"

record Role =
  ro_Namespace :: string
  ro_Name :: string
  ro_Labels :: "(string, string) gomap"
  ro_Owners :: "OwnerReference list"
  ro_Rules :: "PolicyRule list"

record ClusterRoleBinding =
  crb_Name :: string
  crb_Labels :: "(string, string) gomap"
  crb_Owners :: "OwnerReference list"
  crb_Subjects :: "Subject list"
  crb_RoleRef :: RoleRef

record RoleBinding =
  rb_Namespace :: string
  rb_Name :: string
  rb_Labels :: "(string, string) gomap"
  rb_Owners :: "OwnerReference list"
  rb_Subjects :: "Subject list"
  rb_RoleRef :: RoleRef

section \<open>Roles and bindings of the management API\<close>

record GlobalRole =
  gr_Name :: string
  gr_UID :: string
  gr_Labels :: "(string, string) gomap"
  gr_Annotations :: "(string, string) gomap"
  gr_DisplayName :: string
  gr_Rules :: "PolicyRule list"
  gr_NewUserDefault :: bool

record RoleTemplate =
  rt_Name :: string
  rt_Labels :: "(string, string) gomap"
  rt_Annotations :: "(string, string) gomap"
  rt_DisplayName :: string
  rt_Rules :: "PolicyRule list"
  rt_Builtin :: bool
  rt_External :: bool
  rt_Hidden :: bool
  rt_Locked :: bool
  rt_ClusterCreatorDefault :: bool
  rt_ProjectCreatorDefault :: bool
  rt_Context :: string
  rt_RoleTemplateNames :: "string list"
  rt_Administrative :: bool

record GlobalRoleBinding =
  grb_Name :: string
  grb_UID :: string
  grb_Labels :: "(string, string) gomap"
  grb_Annotations :: "(string, string) gomap"
  grb_UserName :: string
  grb_GlobalRoleName :: string

record ClusterRoleTemplateBinding =
  ctb_Namespace :: string
  ctb_Name :: string
  ctb_UID :: string
  ctb_UserName :: string
  ctb_UserPrincipalName :: string
  ctb_GroupName :: string
  ctb_GroupPrincipalName :: string
  ctb_ClusterName :: string
  ctb_RoleTemplateName :: string

record ProjectRoleTemplateBinding =
  ptb_Namespace :: string
  ptb_Name :: string
  ptb_UID :: string
  ptb_UserName :: string
  ptb_UserPrincipalName :: string
  ptb_GroupName :: string
  ptb_GroupPrincipalName :: string
  ptb_ProjectName :: string
  ptb_RoleTemplateName :: string
  ptb_ServiceAccount :: string

section \<open>Users, principals and tokens\<close>

record Principal =
  pr_Name :: string
  pr_DisplayName :: string
  pr_LoginName :: string
  pr_Provider :: string

type_synonym roleMap = "(string, string list) gomap"

record User =
  us_Name :: string
  us_UID :: string
  us_Labels :: "(string, string) gomap"
  us_RoleTemplatesRequired :: "roleMap json option"
  us_DisplayName :: string
  us_Username :: string
  us_Password :: string
  us_MustChangePassword :: bool
  us_PrincipalIDs :: "string list"
  us_Enabled :: "bool option"
  us_Conditions :: conditions

record Token =
  tk_Name :: string
  tk_Created :: int
  tk_Labels :: "(string, string) gomap"
  tk_Token :: string
  tk_UserPrincipal :: Principal
  tk_GroupPrincipals :: "Principal list"
  tk_ProviderInfo :: "(string, string) gomap"
  tk_UserID :: string
  tk_AuthProvider :: string
  tk_TTLMillis :: int
  tk_IsDerived :: bool
  tk_Description :: string
  tk_Expired :: bool
  tk_ExpiresAt :: "int option"
  tk_Current :: bool
  tk_ClusterName :: string
  tk_Enabled :: "bool option"

record UserAttribute =
  ua_Name :: string
  ua_Owners :: "OwnerReference list"
  ua_GroupPrincipals :: "(string, Principal list) gomap"
  ua_LastRefresh :: "int option"
  ua_NeedsRefresh :: bool

record Secret =
  se_Namespace :: string
  se_Name :: string
  se_Data :: "(string, string) gomap"

record ConfigMap =
  cm_Namespace :: string
  cm_Name :: string

end
