(* ===== verification/Roles.thy ===== *)
theory Roles
  imports Objects "HOL-Library.Multiset"
begin

text \<open>
  The builder of the built-in roles and its reconciliation with the API server
  (\<^verbatim>\<open>src/app/rolebuilder.go\<close>).

  The doubly linked list of \<^verbatim>\<open>roleBuilder\<close> nodes is a list, first node first; a
  \<^verbatim>\<open>*roleBuilder\<close> is a position in it and a \<^verbatim>\<open>*ruleBuilder\<close> a position together
  with the position of the rule in that node.  The fluent methods take the list and return
  the new pointer with the new list.

  Nil and empty slices are not told apart: the fields compared by
  \<^verbatim>\<open>reflect.DeepEqual\<close> are all \<^verbatim>\<open>omitempty\<close>, so what the server returns for an
  empty one is nil, which is what the builder leaves in an unused field.
\<close>

section \<open>Builders\<close>

record ruleBuilder =
  u_verbs :: "string list"
  u_resources :: "string list"
  u_resourceNames :: "string list"
  u_apiGroups :: "string list"
  u_urls :: "string list"

record roleBuilder =
  b_name :: string
  b_displayName :: string
  b_context :: string
  b_builtin :: bool
  b_external :: bool
  b_hidden :: bool
  b_administrative :: bool
  b_roleTemplateNames :: "string list"
  b_rules :: "ruleBuilder list"

type_synonym chain = "roleBuilder list"
type_synonym rolePtr = nat
type_synonym rulePtr = "nat \<times> nat"

definition emptyRole :: roleBuilder where
  "emptyRole = \<lparr>b_name = [], b_displayName = [], b_context = [], b_builtin = False, b_external = False,
     b_hidden = False, b_administrative = False, b_roleTemplateNames = [], b_rules = []\<rparr>"

definition emptyRule :: ruleBuilder where
  "emptyRule = \<lparr>u_verbs = [], u_resources = [], u_resourceNames = [], u_apiGroups = [], u_urls = []\<rparr>"

definition newRoleBuilder :: "rolePtr \<times> chain" where
  "newRoleBuilder = (0, [emptyRole])"

text \<open>
  \<^verbatim>\<open>addRole\<close> on the node at the head of a suffix of the list: the first node without a
  name is named, and if there is none a node is linked at the end.  The result is the
  offset of the node together with the new suffix.
\<close>

fun addRole_from :: "string \<Rightarrow> string \<Rightarrow> chain \<Rightarrow> nat \<times> chain" where
  "addRole_from d n [] = (0, [emptyRole\<lparr>b_name := n, b_displayName := d\<rparr>])"
| "addRole_from d n (rb # rest) =
     (if b_name rb = [] then (0, rb\<lparr>b_name := n, b_displayName := d\<rparr> # rest)
      else case addRole_from d n rest of (k, rest') \<Rightarrow> (Suc k, rb # rest'))"

definition addRole :: "string \<Rightarrow> string \<Rightarrow> rolePtr \<Rightarrow> chain \<Rightarrow> rolePtr \<times> chain" where
  "addRole d n i c = (case addRole_from d n (drop i c) of (k, c') \<Rightarrow> (i + k, take i c @ c'))"

definition addRoleTemplate ::
    "string \<Rightarrow> string \<Rightarrow> string \<Rightarrow> bool \<Rightarrow> bool \<Rightarrow> bool \<Rightarrow> bool \<Rightarrow> rolePtr \<Rightarrow> chain \<Rightarrow> rolePtr \<times> chain" where
  "addRoleTemplate d n ctx builtin external hidden administrative i c =
     (case addRole d n i c of (r, c') \<Rightarrow>
        (r, c'[r := (c' ! r)\<lparr>b_context := ctx, b_builtin := builtin, b_external := external,
                            b_hidden := hidden, b_administrative := administrative\<rparr>]))"

definition addRule :: "rolePtr \<Rightarrow> chain \<Rightarrow> rulePtr \<times> chain" where
  "addRule i c =
     ((i, length (b_rules (c ! i))), c[i := (c ! i)\<lparr>b_rules := b_rules (c ! i) @ [emptyRule]\<rparr>])"

definition setRoleTemplateNames :: "string list \<Rightarrow> rolePtr \<Rightarrow> chain \<Rightarrow> rolePtr \<times> chain" where
  "setRoleTemplateNames names i c = (i, c[i := (c ! i)\<lparr>b_roleTemplateNames := names\<rparr>])"

fun first :: "rolePtr \<Rightarrow> rolePtr" where
  "first 0 = 0"
| "first (Suc i) = first i"

text \<open>The methods of \<^verbatim>\<open>ruleBuilder\<close>.\<close>

definition upd_rule :: "(ruleBuilder \<Rightarrow> ruleBuilder) \<Rightarrow> rulePtr \<Rightarrow> chain \<Rightarrow> rulePtr \<times> chain" where
  "upd_rule f p c =
     (case p of (i, j) \<Rightarrow> (p, c[i := (c ! i)\<lparr>b_rules := (b_rules (c ! i))[j := f (b_rules (c ! i) ! j)]\<rparr>]))"

definition verbs :: "string list \<Rightarrow> rulePtr \<Rightarrow> chain \<Rightarrow> rulePtr \<times> chain" where
  "verbs v = upd_rule (\<lambda>r. r\<lparr>u_verbs := u_verbs r @ v\<rparr>)"

definition resources :: "string list \<Rightarrow> rulePtr \<Rightarrow> chain \<Rightarrow> rulePtr \<times> chain" where
  "resources rc = upd_rule (\<lambda>r. r\<lparr>u_resources := u_resources r @ rc\<rparr>)"

definition resourceNames :: "string list \<Rightarrow> rulePtr \<Rightarrow> chain \<Rightarrow> rulePtr \<times> chain" where
  "resourceNames rn = upd_rule (\<lambda>r. r\<lparr>u_resourceNames := u_resourceNames r @ rn\<rparr>)"

definition apiGroups :: "string list \<Rightarrow> rulePtr \<Rightarrow> chain \<Rightarrow> rulePtr \<times> chain" where
  "apiGroups a = upd_rule (\<lambda>r. r\<lparr>u_apiGroups := u_apiGroups r @ a\<rparr>)"

definition nonResourceURLs :: "string list \<Rightarrow> rulePtr \<Rightarrow> chain \<Rightarrow> rulePtr \<times> chain" where
  "nonResourceURLs u = upd_rule (\<lambda>r. r\<lparr>u_urls := u_urls r @ u\<rparr>)"

definition rule_addRole :: "string \<Rightarrow> string \<Rightarrow> rulePtr \<Rightarrow> chain \<Rightarrow> rolePtr \<times> chain" where
  "rule_addRole d n p = addRole d n (fst p)"

definition rule_addRoleTemplate ::
    "string \<Rightarrow> string \<Rightarrow> string \<Rightarrow> bool \<Rightarrow> bool \<Rightarrow> bool \<Rightarrow> bool \<Rightarrow> rulePtr \<Rightarrow> chain \<Rightarrow> rolePtr \<times> chain" where
  "rule_addRoleTemplate d n ctx builtin external hidden administrative p =
     addRoleTemplate d n ctx builtin external hidden administrative (fst p)"

definition rule_addRule :: "rulePtr \<Rightarrow> chain \<Rightarrow> rulePtr \<times> chain" where
  "rule_addRule p = addRule (fst p)"

definition rule_setRoleTemplateNames :: "string list \<Rightarrow> rulePtr \<Rightarrow> chain \<Rightarrow> rolePtr \<times> chain" where
  "rule_setRoleTemplateNames names p = setRoleTemplateNames names (fst p)"

section \<open>The objects built\<close>

definition defaultGRLabel :: "(string, string) gomap" where
  "defaultGRLabel = [(''authz.management.cattle.io/bootstrapping'', ''default-globalrole'')]"

definition defaultRTLabel :: "(string, string) gomap" where
  "defaultRTLabel = [(''authz.management.cattle.io/bootstrapping'', ''default-roletemplate'')]"

definition toPolicyRule :: "ruleBuilder \<Rightarrow> PolicyRule" where
  "toPolicyRule r = \<lparr>p_APIGroups = u_apiGroups r, p_Resources = u_resources r,
     p_ResourceNames = u_resourceNames r, p_NonResourceURLs = u_urls r, p_Verbs = u_verbs r\<rparr>"

definition policyRules :: "roleBuilder \<Rightarrow> PolicyRule list" where
  "policyRules rb = map toPolicyRule (b_rules rb)"

text \<open>\<^verbatim>\<open>labels.Set(m)\<close> as a selector.\<close>

definition selects :: "(string, string) gomap \<Rightarrow> (string, string) gomap \<Rightarrow> bool" where
  "selects want have \<longleftrightarrow> list_all (\<lambda>(k, v). map_of have k = Some v) want"

section \<open>Reconciliation\<close>

text \<open>
  \<open>ord\<close> and \<open>ord'\<close> are the orders in which Go happens to range over the two maps.  The type
  assertions of the Go code are absent: the objects of one call all have one type here.
\<close>

fun build_all :: "(roleBuilder \<Rightarrow> string \<times> 'o) \<Rightarrow> chain \<Rightarrow> (string, 'o) gomap \<Rightarrow> (string, 'o) gomap" where
  "build_all build [] built = built"
| "build_all build (rb # rest) built =
     (case build rb of (n, role) \<Rightarrow> build_all build rest (map_put n role built))"

definition wrapA :: "string \<Rightarrow> ('w, 'a) act \<Rightarrow> ('w, 'a) act" where
  "wrapA msg m = caseA m (\<lambda>e. raise (Wrapped msg e)) ret"

definition delete_stale ::
    "('w, string, 'o) client \<Rightarrow> (string, 'o) gomap \<Rightarrow> string list \<Rightarrow> ('w, unit) act" where
  "delete_stale cl built names =
     forA (\<lambda>n. if map_has built n then ret () else wrapA ''couldn't delete'' (cdelete cl n)) names"

definition ensure_role ::
    "('w, string, 'o) client \<Rightarrow> ('o \<Rightarrow> 'o \<Rightarrow> (bool \<times> 'o) result) \<Rightarrow> (string, 'o) gomap \<Rightarrow> (string, 'o) gomap
       \<Rightarrow> string \<Rightarrow> ('w, unit) act" where
  "ensure_role cl compareAndModify built existing n =
     (case map_of built n of
        None \<Rightarrow> ret ()
      | Some gr \<Rightarrow>
          (case map_of existing n of
             Some have \<Rightarrow>
               bindA (liftR (compareAndModify have gr)) (\<lambda>(equal, modified).
                 if equal then ret ()
                 else bindA (wrapA ''couldn't update'' (cupdate cl modified)) (\<lambda>_. ret ()))
           | None \<Rightarrow> bindA (wrapA ''couldn't create'' (ccreate cl gr)) (\<lambda>_. ret ())))"

definition reconcile ::
    "(string list \<Rightarrow> string list) \<Rightarrow> (string list \<Rightarrow> string list) \<Rightarrow> (roleBuilder \<Rightarrow> string \<times> 'o) \<Rightarrow>
     ('w, (string, 'o) gomap) act \<Rightarrow> ('o \<Rightarrow> 'o \<Rightarrow> (bool \<times> 'o) result) \<Rightarrow> ('w, string, 'o) client \<Rightarrow>
     rolePtr \<Rightarrow> chain \<Rightarrow> ('w, unit) act" where
  "reconcile ord ord' build gatherExisting compareAndModify cl i c =
     (let built = build_all build (drop (first i) c) [] in
      bindA gatherExisting (\<lambda>existing.
      bindA (delete_stale cl built (ord (map fst existing))) (\<lambda>_.
      let existing' = filter (\<lambda>(n, _). map_has built n) existing in
      forA (ensure_role cl compareAndModify built existing') (ord' (map fst built)))))"

fun by_name :: "('o \<Rightarrow> string) \<Rightarrow> 'o list \<Rightarrow> (string, 'o) gomap \<Rightarrow> (string, 'o) gomap" where
  "by_name nm [] m = m"
| "by_name nm (x # xs) m = by_name nm xs (map_put (nm x) x m)"

definition gather :: "('o \<Rightarrow> string) \<Rightarrow> ('o \<Rightarrow> bool) \<Rightarrow> ('w, string, 'o) client \<Rightarrow> ('w, (string, 'o) gomap) act" where
  "gather nm sel cl = bindA (wrapA ''couldn't list'' (clist cl sel)) (\<lambda>xs. ret (by_name nm xs []))"

text \<open>Global roles.\<close>

definition gr_bootstrap :: "GlobalRole \<Rightarrow> bool" where
  "gr_bootstrap g \<longleftrightarrow> selects defaultGRLabel (gr_Labels g)"

definition build_gr :: "roleBuilder \<Rightarrow> string \<times> GlobalRole" where
  "build_gr rb = (b_name rb, \<lparr>gr_Name = b_name rb, gr_UID = [], gr_Labels = defaultGRLabel, gr_Annotations = [],
     gr_DisplayName = b_displayName rb, gr_Rules = policyRules rb, gr_NewUserDefault = False\<rparr>)"

definition compareAndMod_gr :: "GlobalRole \<Rightarrow> GlobalRole \<Rightarrow> (bool \<times> GlobalRole) result" where
  "compareAndMod_gr have want =
     Inr (gr_DisplayName have = gr_DisplayName want \<and> gr_Rules have = gr_Rules want,
          have\<lparr>gr_DisplayName := gr_DisplayName want, gr_Rules := gr_Rules want\<rparr>)"

definition reconcileGlobalRoles ::
    "(string list \<Rightarrow> string list) \<Rightarrow> (string list \<Rightarrow> string list) \<Rightarrow> ('w, string, GlobalRole) client \<Rightarrow>
     rolePtr \<Rightarrow> chain \<Rightarrow> ('w, unit) act" where
  "reconcileGlobalRoles ord ord' cl =
     reconcile ord ord' build_gr (gather gr_Name gr_bootstrap cl) compareAndMod_gr cl"

text \<open>Role templates: the comparison of \<^verbatim>\<open>Builtin\<close> is \<^verbatim>\<open>!=\<close> in the source.\<close>

definition rt_bootstrap :: "RoleTemplate \<Rightarrow> bool" where
  "rt_bootstrap r \<longleftrightarrow> selects defaultRTLabel (rt_Labels r)"

definition build_rt :: "roleBuilder \<Rightarrow> string \<times> RoleTemplate" where
  "build_rt rb = (b_name rb, \<lparr>rt_Name = b_name rb, rt_Labels = defaultRTLabel, rt_Annotations = [],
     rt_DisplayName = b_displayName rb, rt_Rules = policyRules rb, rt_Builtin = b_builtin rb,
     rt_External = b_external rb, rt_Hidden = b_hidden rb, rt_Locked = False,
     rt_ClusterCreatorDefault = False, rt_ProjectCreatorDefault = False, rt_Context = b_context rb,
     rt_RoleTemplateNames = b_roleTemplateNames rb, rt_Administrative = b_administrative rb\<rparr>)"

definition compareAndMod_rt :: "RoleTemplate \<Rightarrow> RoleTemplate \<Rightarrow> (bool \<times> RoleTemplate) result" where
  "compareAndMod_rt have want =
     Inr (rt_DisplayName have = rt_DisplayName want \<and> rt_Rules have = rt_Rules want \<and>
          rt_RoleTemplateNames have = rt_RoleTemplateNames want \<and> rt_Builtin have \<noteq> rt_Builtin want \<and>
          rt_External have = rt_External want \<and> rt_Hidden have = rt_Hidden want \<and>
          rt_Context have = rt_Context want \<and> rt_Administrative have = rt_Administrative want,
          have\<lparr>rt_DisplayName := rt_DisplayName want, rt_Rules := rt_Rules want,
               rt_RoleTemplateNames := rt_RoleTemplateNames want, rt_Builtin := rt_Builtin want,
               rt_External := rt_External want, rt_Hidden := rt_Hidden want,
               rt_Context := rt_Context want, rt_Administrative := rt_Administrative want\<rparr>)"

definition reconcileRoleTemplates ::
    "(string list \<Rightarrow> string list) \<Rightarrow> (string list \<Rightarrow> string list) \<Rightarrow> ('w, string, RoleTemplate) client \<Rightarrow>
     rolePtr \<Rightarrow> chain \<Rightarrow> ('w, unit) act" where
  "reconcileRoleTemplates ord ord' cl =
     reconcile ord ord' build_rt (gather rt_Name rt_bootstrap cl) compareAndMod_rt cl"


section \<open>Properties of the builder\<close>

lemma addRole_from_named:
  "\<forall>rb \<in> set c. b_name rb \<noteq> [] \<Longrightarrow>
   addRole_from d n c = (length c, c @ [emptyRole\<lparr>b_name := n, b_displayName := d\<rparr>])"
  by (induction c) auto

text \<open>On a list of named roles, adding a role from any of its nodes links it at the end.\<close>

lemma addRole_appends:
  assumes "\<forall>rb \<in> set c. b_name rb \<noteq> []" and "i \<le> length c"
  shows "addRole d n i c = (length c, c @ [emptyRole\<lparr>b_name := n, b_displayName := d\<rparr>])"
proof -
  have "\<forall>rb \<in> set (drop i c). b_name rb \<noteq> []"
    using assms(1) by (meson in_set_dropD)
  then have "addRole_from d n (drop i c) =
      (length (drop i c), drop i c @ [emptyRole\<lparr>b_name := n, b_displayName := d\<rparr>])"
    by (rule addRole_from_named)
  with assms(2) show ?thesis by (simp add: addRole_def)
qed

lemma first_eq [simp]: "first i = 0"
  by (induction i) simp_all

lemma build_all_lookup:
  "map_of (build_all build c m) n =
     (case map_of (rev (map build c)) n of None \<Rightarrow> map_of m n | Some x \<Rightarrow> Some x)"
  by (induction c arbitrary: m) (auto simp: map_add_def split: option.splits prod.splits)

lemma build_all_keys: "fst ` set (build_all build c m) = fst ` set (map build c) \<union> fst ` set m"
proof (induction c arbitrary: m)
  case (Cons rb c)
  obtain n x where "build rb = (n, x)" by fastforce
  with Cons show ?case by auto
qed simp

lemma build_all_distinct: "distinct (map fst m) \<Longrightarrow> distinct (map fst (build_all build c m))"
  by (induction c arbitrary: m) (auto simp: distinct_map_put split: prod.splits)

lemma by_name_lookup:
  "distinct (map nm xs) \<Longrightarrow>
   map_of (by_name nm xs m) n = (case find (\<lambda>x. nm x = n) xs of None \<Rightarrow> map_of m n | Some x \<Rightarrow> Some x)"
proof (induction xs arbitrary: m)
  case (Cons x xs)
  have "find (\<lambda>y. nm y = n) xs = None" if "nm x = n"
    using Cons.prems that by (auto simp: find_None_iff) (metis imageI)
  with Cons show ?case by (auto split: option.splits)
qed simp

lemma by_name_distinct: "distinct (map fst m) \<Longrightarrow> distinct (map fst (by_name nm xs m))"
  by (induction xs arbitrary: m) (auto simp: distinct_map_put)

lemma wrapA_Inr: "m w = (Inr x, w') \<Longrightarrow> wrapA msg m w = (Inr x, w')"
  by (simp add: wrapA_def caseA_def)

section \<open>Reconciliation converges\<close>

text \<open>
  The contract between the reconciliation loop and its three callbacks: what is built has
  the name it is filed under and carries the bootstrap label (\<open>sel\<close>); the comparison either
  reports that the existing object already agrees with the wanted one, or returns a
  modified object that does and \<open>keep\<close>s the rest of the existing one.
\<close>

locale reconciler = api_client cl key view "(=)" avail
  for cl :: "('w, string, 'o) client" and key view avail +
  fixes sel :: "'o \<Rightarrow> bool"
    and build :: "roleBuilder \<Rightarrow> string \<times> 'o"
    and cmp :: "'o \<Rightarrow> 'o \<Rightarrow> (bool \<times> 'o) result"
    and agree :: "'o \<Rightarrow> 'o \<Rightarrow> bool"
    and keep :: "'o \<Rightarrow> 'o \<Rightarrow> bool"
  assumes build_key: "build rb = (n, x) \<Longrightarrow> key x = n \<and> sel x"
    and cmp_total: "\<exists>q. cmp h x = Inr q"
    and cmp_equal: "cmp h x = Inr (True, m) \<Longrightarrow> agree h x"
    and cmp_diff: "cmp h x = Inr (False, m) \<Longrightarrow> agree m x \<and> key m = key h \<and> sel m = sel h \<and> keep h m"
    and agree_refl: "agree x x"
    and keep_refl: "keep x x"
begin

lemma gather_ok:
  assumes "avail w"
  obtains ex w' where "gather key sel cl w = (Inr ex, w')" "avail w'" "view w' = view w"
    "distinct (map fst ex)" "\<And>n x. map_of ex n = Some x \<longleftrightarrow> view w n = Some x \<and> sel x"
proof -
  obtain xs w' where l: "clist cl sel w = (Inr xs, w')" and av: "avail w'"
    using avail_list [OF assms, of sel] by (metis prod.collapse)
  note lst = list_ok [OF l]
  let ?ex = "by_name key xs []"
  have look: "map_of ?ex n = Some x \<longleftrightarrow> view w n = Some x \<and> sel x" for n x
  proof -
    have "map_of ?ex n = find (\<lambda>x. key x = n) xs"
      using lst by (simp add: by_name_lookup option.case_eq_if)
    moreover have "find (\<lambda>x. key x = n) xs = Some x \<longleftrightarrow> x \<in> set xs \<and> key x = n"
      using lst by (simp add: find_by_key_iff)
    moreover have "view w n = Some x \<Longrightarrow> key x = n" by (rule view_key)
    ultimately show ?thesis using lst by auto
  qed
  show ?thesis
    by (rule that [of ?ex w'])
      (use l av lst look in \<open>auto simp: gather_def bindA_def wrapA_Inr by_name_distinct\<close>)
qed

lemma delete_stale_ok:
  assumes "avail w" "distinct ns" "\<And>n. n \<in> set ns \<Longrightarrow> view w n \<noteq> None"
  shows "\<exists>w'. delete_stale cl built ns w = (Inr (), w') \<and> avail w' \<and>
    view w' = (\<lambda>n. if n \<in> set ns \<and> \<not> map_has built n then None else view w n)"
  using assms
proof (induction ns arbitrary: w)
  case Nil
  then show ?case by (simp add: delete_stale_def)
next
  case (Cons n ns)
  show ?case
  proof (cases "map_has built n")
    case True
    with Cons show ?thesis by (fastforce simp: delete_stale_def fun_eq_iff)
  next
    case False
    from Cons.prems obtain w1 where d: "cdelete cl n w = (Inr (), w1)" and av: "avail w1"
      using avail_delete [of w n] by (metis list.set_intros(1) prod.collapse)
    have v1: "view w1 = (view w)(n := None)" using delete_ok [OF d] by simp
    have "view w1 n' \<noteq> None" if "n' \<in> set ns" for n'
      using Cons.prems(2,3) that v1 by (metis distinct.simps(2) fun_upd_other list.set_intros(2))
    then obtain w' where "delete_stale cl built ns w1 = (Inr (), w')" "avail w'"
      "view w' = (\<lambda>n. if n \<in> set ns \<and> \<not> map_has built n then None else view w1 n)"
      using Cons.IH [OF av] Cons.prems(2) by (metis distinct.simps(2))
    with False d v1 show ?thesis
      by (fastforce simp: delete_stale_def wrapA_Inr fun_eq_iff)
  qed
qed

lemma ensure_role_ok:
  assumes "avail w" "map_of built n = Some x" "key x = n" "sel x"
    and "map_of ex n = view w n" "\<And>h. view w n = Some h \<Longrightarrow> sel h"
  shows "\<exists>w' h. ensure_role cl cmp built ex n w = (Inr (), w') \<and> avail w' \<and>
    view w' = (view w)(n \<mapsto> h) \<and> agree h x \<and> sel h \<and> (\<forall>h0. view w n = Some h0 \<longrightarrow> keep h0 h)"
proof (cases "view w n")
  case None
  then obtain y w' where c: "ccreate cl x w = (Inr y, w')" and av: "avail w'"
    using avail_create [OF assms(1), of x] assms(3) by (metis prod.collapse)
  with create_ok [OF c] None assms show ?thesis
    by (auto simp: ensure_role_def bindA_def wrapA_Inr agree_refl)
next
  case (Some h)
  obtain eq m where q: "cmp h x = Inr (eq, m)" using cmp_total [of h x] by auto
  show ?thesis
  proof (cases eq)
    case True
    with q Some assms show ?thesis
      using cmp_equal [of h x m] by (auto simp: ensure_role_def bindA_def keep_refl intro!: exI [of _ h])
  next
    case False
    with q have m: "agree m x" "key m = n" "sel m" "keep h m"
      using cmp_diff [of h x m] view_key [OF Some] assms(6) [OF Some] by auto
    then obtain y w' where u: "cupdate cl m w = (Inr y, w')" and av: "avail w'"
      using avail_update [OF assms(1), of m] Some by (metis option.distinct(1) prod.collapse)
    with update_ok [OF u] False q Some m assms show ?thesis
      by (auto simp: ensure_role_def bindA_def wrapA_Inr intro!: exI [of _ m])
  qed
qed

definition done_role :: "'w \<Rightarrow> 'w \<Rightarrow> string \<Rightarrow> 'o \<Rightarrow> bool" where
  "done_role w w' n x \<longleftrightarrow>
     (\<exists>h. view w' n = Some h \<and> agree h x \<and> sel h \<and> (\<forall>h0. view w n = Some h0 \<longrightarrow> keep h0 h))"

lemma ensure_roles_ok:
  assumes "avail w" "distinct ns"
    and "\<And>n. n \<in> set ns \<Longrightarrow> \<exists>x. map_of built n = Some x \<and> key x = n \<and> sel x"
    and "\<And>n. n \<in> set ns \<Longrightarrow> map_of ex n = view w n \<and> (\<forall>h. view w n = Some h \<longrightarrow> sel h)"
  shows "\<exists>w'. forA (ensure_role cl cmp built ex) ns w = (Inr (), w') \<and> avail w' \<and>
    (\<forall>n. n \<notin> set ns \<longrightarrow> view w' n = view w n) \<and>
    (\<forall>n x. n \<in> set ns \<and> map_of built n = Some x \<longrightarrow> done_role w w' n x)"
  using assms
proof (induction ns arbitrary: w)
  case Nil
  then show ?case by simp
next
  case (Cons n ns)
  obtain x where x: "map_of built n = Some x" "key x = n" "sel x" using Cons.prems(3) by auto
  obtain w1 h where e: "ensure_role cl cmp built ex n w = (Inr (), w1)" "avail w1"
      "view w1 = (view w)(n \<mapsto> h)" "agree h x" "sel h" "\<forall>h0. view w n = Some h0 \<longrightarrow> keep h0 h"
    using ensure_role_ok [OF Cons.prems(1) x] Cons.prems(4) by (metis list.set_intros(1))
  have "\<exists>w'. forA (ensure_role cl cmp built ex) ns w1 = (Inr (), w') \<and> avail w' \<and>
    (\<forall>n. n \<notin> set ns \<longrightarrow> view w' n = view w1 n) \<and>
    (\<forall>n x. n \<in> set ns \<and> map_of built n = Some x \<longrightarrow> done_role w1 w' n x)"
    using Cons.prems e by (intro Cons.IH) auto
  then obtain w' where w': "forA (ensure_role cl cmp built ex) ns w1 = (Inr (), w')" "avail w'"
      "\<And>n. n \<notin> set ns \<Longrightarrow> view w' n = view w1 n"
      "\<And>n x. n \<in> set ns \<Longrightarrow> map_of built n = Some x \<Longrightarrow> done_role w1 w' n x"
    by blast
  have "done_role w w' n x"
    using w'(3) [of n] Cons.prems(2) e by (auto simp: done_role_def)
  moreover have "done_role w w' m y" if "m \<in> set ns" "map_of built m = Some y" for m y
  proof -
    have "m \<noteq> n" using that(1) Cons.prems(2) by auto
    then show ?thesis using w'(4) [OF that] e(3) by (simp add: done_role_def)
  qed
  ultimately show ?case using e w' x Cons.prems(2) by (auto intro!: exI [of _ w'])
qed

text \<open>
  On a server that answers, reconciliation succeeds; afterwards each built role is stored
  in agreement with its definition, no other object carries the bootstrap label, and
  objects outside the bootstrap set are untouched.
\<close>

lemma converges:
  assumes av: "avail w"
    and perm: "\<And>ks. mset (ord ks) = mset ks" "\<And>ks. mset (ord' ks) = mset ks"
    and owned: "\<And>n h. n \<in> fst ` set (map build c) \<Longrightarrow> view w n = Some h \<Longrightarrow> sel h"
  shows "\<exists>w'. reconcile ord ord' build (gather key sel cl) cmp cl i c w = (Inr (), w') \<and> avail w' \<and>
    (\<forall>n x. map_of (rev (map build c)) n = Some x \<longrightarrow> done_role w w' n x) \<and>
    (\<forall>n. n \<notin> fst ` set (map build c) \<longrightarrow>
       view w' n = (case view w n of None \<Rightarrow> None | Some h \<Rightarrow> if sel h then None else Some h))"
proof -
  let ?B = "build_all build c []"
  have look: "map_of ?B n = map_of (rev (map build c)) n" for n
    by (simp add: build_all_lookup option.case_eq_if)
  have keys: "fst ` set ?B = fst ` set (map build c)" by (simp add: build_all_keys)
  have has: "map_has ?B n \<longleftrightarrow> n \<in> fst ` set (map build c)" for n
    using keys by (metis domIff dom_map_of_conv_image_fst map_has_def)
  have built: "key x = n \<and> sel x" if "map_of ?B n = Some x" for n x
    using that unfolding look by (auto dest!: map_of_SomeD) (metis build_key)+
  obtain ex w1 where g: "gather key sel cl w = (Inr ex, w1)" "avail w1" "view w1 = view w"
      "distinct (map fst ex)" "\<And>n x. map_of ex n = Some x \<longleftrightarrow> view w n = Some x \<and> sel x"
    using gather_ok [OF av] by blast
  have exkeys: "n \<in> fst ` set ex \<longleftrightarrow> (\<exists>h. view w n = Some h \<and> sel h)" for n
    using g(5) by (metis domIff dom_map_of_conv_image_fst not_None_eq)
  have s1: "set (ord (map fst ex)) = fst ` set ex" "distinct (ord (map fst ex))"
    using perm(1) g(4) by (metis list.set_map mset_eq_setD) (metis perm(1) g(4) mset_eq_imp_distinct_iff)
  obtain w2 where d: "delete_stale cl ?B (ord (map fst ex)) w1 = (Inr (), w2)" "avail w2"
      "view w2 = (\<lambda>n. if n \<in> set (ord (map fst ex)) \<and> \<not> map_has ?B n then None else view w1 n)"
    using delete_stale_ok [of w1 "ord (map fst ex)" ?B] g s1 exkeys by auto
  let ?ex = "filter (\<lambda>(n, _). map_has ?B n) ex"
  have flt: "map_of ?ex n = (if map_has ?B n then map_of ex n else None)" for n
    by (induction ex) auto
  have s2: "set (ord' (map fst ?B)) = fst ` set (map build c)" "distinct (ord' (map fst ?B))"
    using perm(2) keys build_all_distinct [of "[]" build c]
    by (metis list.set_map mset_eq_setD) (metis perm(2) build_all_distinct [of "[]" build c] distinct.simps(1) list.simps(8) mset_eq_imp_distinct_iff)
  have "\<exists>w'. forA (ensure_role cl cmp ?B ?ex) (ord' (map fst ?B)) w2 = (Inr (), w') \<and> avail w' \<and>
    (\<forall>n. n \<notin> set (ord' (map fst ?B)) \<longrightarrow> view w' n = view w2 n) \<and>
    (\<forall>n x. n \<in> set (ord' (map fst ?B)) \<and> map_of ?B n = Some x \<longrightarrow> done_role w2 w' n x)"
  proof (rule ensure_roles_ok [OF d(2) s2(2)])
    fix n assume n: "n \<in> set (ord' (map fst ?B))"
    then have "map_has ?B n" using has s2 by simp
    then show "\<exists>x. map_of ?B n = Some x \<and> key x = n \<and> sel x" using built by (auto simp: map_has_def)
    have "view w2 n = view w n" using d(3) g(3) \<open>map_has ?B n\<close> by simp
    moreover have "\<And>h. view w n = Some h \<Longrightarrow> sel h" using owned n s2(1) by auto
    ultimately show "map_of ?ex n = view w2 n \<and> (\<forall>h. view w2 n = Some h \<longrightarrow> sel h)"
      using g(5) \<open>map_has ?B n\<close> flt by (metis not_None_eq)
  qed
  then obtain w' where w': "forA (ensure_role cl cmp ?B ?ex) (ord' (map fst ?B)) w2 = (Inr (), w')" "avail w'"
    "\<And>n. n \<notin> fst ` set (map build c) \<Longrightarrow> view w' n = view w2 n"
    "\<And>n x. n \<in> fst ` set (map build c) \<Longrightarrow> map_of ?B n = Some x \<Longrightarrow> done_role w2 w' n x"
    unfolding s2(1) by blast
  have "reconcile ord ord' build (gather key sel cl) cmp cl i c w = (Inr (), w')"
    using g(1) d(1) w'(1) by (simp add: reconcile_def bindA_def Let_def)
  moreover have "done_role w w' n x" if "map_of (rev (map build c)) n = Some x" for n x
  proof -
    have n: "n \<in> fst ` set (map build c)" using that by (metis has look map_has_def option.distinct(1))
    then have "view w2 n = view w n" using d(3) g(3) has by simp
    with w'(4) [OF n, of x] that look show ?thesis by (simp add: done_role_def)
  qed
  moreover have "view w' n = (case view w n of None \<Rightarrow> None | Some h \<Rightarrow> if sel h then None else Some h)"
    if "n \<notin> fst ` set (map build c)" for n
    using w'(3) [OF that] that has exkeys s1 d(3) g(3) by (auto split: option.splits)
  ultimately show ?thesis using w'(2) by blast
qed

end


section \<open>Global roles and role templates\<close>

definition gr_agree :: "GlobalRole \<Rightarrow> GlobalRole \<Rightarrow> bool" where
  "gr_agree h want \<longleftrightarrow> gr_DisplayName h = gr_DisplayName want \<and> gr_Rules h = gr_Rules want"

definition rt_agree :: "RoleTemplate \<Rightarrow> RoleTemplate \<Rightarrow> bool" where
  "rt_agree h want \<longleftrightarrow>
     rt_DisplayName h = rt_DisplayName want \<and> rt_Rules h = rt_Rules want \<and>
     rt_RoleTemplateNames h = rt_RoleTemplateNames want \<and> rt_External h = rt_External want \<and>
     rt_Hidden h = rt_Hidden want \<and> rt_Context h = rt_Context want \<and>
     rt_Administrative h = rt_Administrative want"

definition gr_keep :: "GlobalRole \<Rightarrow> GlobalRole \<Rightarrow> bool" where
  "gr_keep h h' \<longleftrightarrow> gr_Annotations h' = gr_Annotations h \<and> gr_NewUserDefault h' = gr_NewUserDefault h"

definition rt_keep :: "RoleTemplate \<Rightarrow> RoleTemplate \<Rightarrow> bool" where
  "rt_keep h h' \<longleftrightarrow>
     rt_Annotations h' = rt_Annotations h \<and> rt_Locked h' = rt_Locked h \<and>
     rt_ClusterCreatorDefault h' = rt_ClusterCreatorDefault h \<and>
     rt_ProjectCreatorDefault h' = rt_ProjectCreatorDefault h"

lemma gr_reconciler:
  assumes "api_client cl gr_Name view (=) avail"
  shows "reconciler cl gr_Name view avail gr_bootstrap build_gr compareAndMod_gr gr_agree gr_keep"
  by (intro reconciler.intro assms reconciler_axioms.intro)
    (auto simp: build_gr_def gr_bootstrap_def selects_def defaultGRLabel_def compareAndMod_gr_def gr_agree_def gr_keep_def)

lemma rt_reconciler:
  assumes "api_client cl rt_Name view (=) avail"
  shows "reconciler cl rt_Name view avail rt_bootstrap build_rt compareAndMod_rt rt_agree rt_keep"
  by (intro reconciler.intro assms reconciler_axioms.intro)
    (auto simp: build_rt_def rt_bootstrap_def selects_def defaultRTLabel_def compareAndMod_rt_def rt_agree_def rt_keep_def)

interpretation gr_mem: mem_server gr_Name "\<lambda>_ x. x" "(=)"
  by unfold_locales auto

interpretation rt_mem: mem_server rt_Name "\<lambda>_ x. x" "(=)"
  by unfold_locales auto

interpretation gr_rec: reconciler "mem_client gr_Name (\<lambda>_ x. x)" gr_Name "mem_find gr_Name" mem_avail
    gr_bootstrap build_gr compareAndMod_gr gr_agree gr_keep
  by (rule gr_reconciler) (rule gr_mem.mem.api_client_axioms)

interpretation rt_rec: reconciler "mem_client rt_Name (\<lambda>_ x. x)" rt_Name "mem_find rt_Name" mem_avail
    rt_bootstrap build_rt compareAndMod_rt rt_agree rt_keep
  by (rule rt_reconciler) (rule rt_mem.mem.api_client_axioms)


section \<open>Properties\<close>

text \<open>
  C6.  On a server that answers, with every stored role of a built-in name carrying the
  bootstrap label, reconciling the global roles succeeds for whatever order Go ranges over
  its maps in.  Afterwards every role of the builder is stored with the builder's display
  name and rules; of the other roles, exactly those with the bootstrap label are gone and
  the rest are unchanged; and a role that existed before keeps its annotations and its
  choice of \<^verbatim>\<open>NewUserDefault\<close>, so an administrator's choice survives a restart.
\<close>

theorem reconcileGlobalRoles_converges:
  assumes "api_client cl gr_Name view (=) avail" and "avail w"
    and "\<forall>ks. mset (ord ks) = mset ks" and "\<forall>ks. mset (ord' ks) = mset ks"
    and "\<forall>n h. n \<in> set (map b_name c) \<and> view w n = Some h \<longrightarrow> gr_bootstrap h"
  shows "\<exists>w'. reconcileGlobalRoles ord ord' cl i c w = (Inr (), w') \<and> avail w' \<and>
    (\<forall>n x. map_of (rev (map build_gr c)) n = Some x \<longrightarrow>
       (\<exists>h. view w' n = Some h \<and> gr_agree h x \<and> gr_bootstrap h \<and>
          (\<forall>h0. view w n = Some h0 \<longrightarrow> gr_keep h0 h))) \<and>
    (\<forall>n. n \<notin> set (map b_name c) \<longrightarrow>
       view w' n = (case view w n of None \<Rightarrow> None | Some h \<Rightarrow> if gr_bootstrap h then None else Some h))"
proof -
  have names: "fst ` set (map build_gr c) = set (map b_name c)"
    by (force simp: build_gr_def)
  note rec = gr_reconciler [OF assms(1)]
  show ?thesis
    unfolding reconcileGlobalRoles_def names [symmetric] reconciler.done_role_def [OF rec, symmetric]
    by (rule reconciler.converges [OF rec]) (use assms names in auto)
qed

definition sample_builder :: chain where
  "sample_builder = [emptyRole\<lparr>b_name := ''admin'', b_displayName := ''Admin''\<rparr>,
                     emptyRole\<lparr>b_name := ''user'', b_displayName := ''User''\<rparr>]"

definition sample_role :: "string \<Rightarrow> GlobalRole" where
  "sample_role n = \<lparr>gr_Name = n, gr_UID = [], gr_Labels = defaultGRLabel, gr_Annotations = [],
     gr_DisplayName = ''Old'', gr_Rules = [], gr_NewUserDefault = True\<rparr>"

definition sample_roles :: "GlobalRole mem" where
  "sample_roles = \<lparr>objs = [sample_role ''user'', sample_role ''stale''], faults = []\<rparr>"

theorem reconcileGlobalRoles_converges_witness:
  "\<exists>w'. reconcileGlobalRoles rev rev (mem_client gr_Name (\<lambda>_ x. x)) 0 sample_builder sample_roles = (Inr (), w') \<and>
     mem_find gr_Name w' ''stale'' = None \<and>
     (\<exists>h. mem_find gr_Name w' ''user'' = Some h \<and> gr_DisplayName h = ''User'' \<and> gr_NewUserDefault h)"
proof -
  have perm: "\<forall>ks. mset (rev ks) = mset (ks :: string list)" by simp
  have av: "mem_avail sample_roles" by (simp add: mem_avail_def sample_roles_def)
  have owned: "\<forall>n h. n \<in> set (map b_name sample_builder) \<and> mem_find gr_Name sample_roles n = Some h \<longrightarrow> gr_bootstrap h"
    by (auto simp: mem_find_def sample_roles_def sample_role_def gr_bootstrap_def selects_def
        defaultGRLabel_def split: if_splits)
  obtain w' where w': "reconcileGlobalRoles rev rev (mem_client gr_Name (\<lambda>_ x. x)) 0 sample_builder sample_roles = (Inr (), w')"
    "\<And>n x. map_of (rev (map build_gr sample_builder)) n = Some x \<Longrightarrow>
       \<exists>h. mem_find gr_Name w' n = Some h \<and> gr_agree h x \<and> (\<forall>h0. mem_find gr_Name sample_roles n = Some h0 \<longrightarrow> gr_keep h0 h)"
    "\<And>n. n \<notin> set (map b_name sample_builder) \<Longrightarrow> mem_find gr_Name w' n =
       (case mem_find gr_Name sample_roles n of None \<Rightarrow> None | Some h \<Rightarrow> if gr_bootstrap h then None else Some h)"
    using reconcileGlobalRoles_converges [OF gr_mem.mem.api_client_axioms av perm perm owned, where i = 0] by blast
  have user: "mem_find gr_Name sample_roles ''user'' = Some (sample_role ''user'')"
    and stale: "mem_find gr_Name sample_roles ''stale'' = Some (sample_role ''stale'')"
    by (simp_all add: mem_find_def sample_roles_def sample_role_def)
  have "mem_find gr_Name w' ''stale'' = None"
    using w'(3) [of "''stale''"] stale
    by (simp add: sample_builder_def sample_role_def gr_bootstrap_def selects_def defaultGRLabel_def)
  moreover have "\<exists>h. mem_find gr_Name w' ''user'' = Some h \<and> gr_DisplayName h = ''User'' \<and> gr_NewUserDefault h"
    using w'(2) [of "''user''"] user
    by (auto simp: sample_builder_def build_gr_def gr_agree_def gr_keep_def sample_role_def)
  ultimately show ?thesis using w'(1) by blast
qed



lemma compareAndMod_rt_agree:
  assumes "rt_agree old want"
  shows "compareAndMod_rt old want =
    Inr (if rt_Builtin old = rt_Builtin want then (False, old)
         else (True, old\<lparr>rt_Builtin := rt_Builtin want\<rparr>))"
  using assms by (cases old; cases want) (simp add: compareAndMod_rt_def rt_agree_def)

text \<open>
  C36.  What the inverted comparison of \<^verbatim>\<open>Builtin\<close> does.  A template that differs from
  the wanted one in \<^verbatim>\<open>Builtin\<close> alone is reported equal and left as it is, without any call
  to the server; a template that is fully in sync is written back unchanged on every start.
\<close>

theorem ensure_role_ignores_builtin_drift:
  assumes "map_of built n = Some want" and "map_of existing n = Some old" and "rt_agree old want"
  shows "ensure_role cl compareAndMod_rt built existing n w =
    (if rt_Builtin old \<noteq> rt_Builtin want then (Inr (), w)
     else case cupdate cl old w of
            (Inl e, w') \<Rightarrow> (Inl (Wrapped ''couldn't update'' e), w')
          | (Inr _, w') \<Rightarrow> (Inr (), w'))"
  using assms(1,2)
  by (auto simp: ensure_role_def compareAndMod_rt_agree [OF assms(3)] bindA_def wrapA_def caseA_def
      split: prod.splits sum.splits)

definition sample_template :: "bool \<Rightarrow> RoleTemplate" where
  "sample_template b = (snd (build_rt (emptyRole\<lparr>b_name := ''view''\<rparr>)))\<lparr>rt_Builtin := b\<rparr>"

theorem ensure_role_ignores_builtin_drift_witness:
  "ensure_role (mem_client rt_Name (\<lambda>_ x. x)) compareAndMod_rt [(''view'', sample_template True)]
     [(''view'', sample_template False)] ''view'' \<lparr>objs = [sample_template False], faults = []\<rparr>
   = (Inr (), \<lparr>objs = [sample_template False], faults = []\<rparr>)"
  using ensure_role_ignores_builtin_drift
    [of "[(''view'', sample_template True)]" "''view''" "sample_template True"
        "[(''view'', sample_template False)]" "sample_template False"]
  by (simp add: sample_template_def rt_agree_def)

end
