(* ===== verification/RoleData.thy ===== *)
theory RoleData
  imports Roles
begin

text \<open>
  The built-in global roles and role templates, and the bootstrap of the administrator and
  of the default roles (\<^verbatim>\<open>src/app/role_data.go\<close>).

  Each statement of \<^verbatim>\<open>addRoles\<close> is one chain of method calls on the builder; it is kept
  as data (\<open>stmt\<close>) and executed by \<open>exec_stmt\<close> through the builder's own methods.
\<close>

section \<open>Method chains\<close>

datatype call =
    AddRule
  | ApiGroups "string list"
  | Resources "string list"
  | ResourceNames "string list"
  | NonResourceURLs "string list"
  | Verbs "string list"
  | SetRoleTemplateNames "string list"

datatype stmt =
    StRole string string "call list"
  | StTemplate string string string bool bool bool bool "call list"

text \<open>
  The receiver of a call is the role or the rule returned by the call before it; the
  methods of \<^verbatim>\<open>ruleBuilder\<close> exist on rules only, so on a role they do nothing here.
\<close>

fun exec_call :: "call \<Rightarrow> (rolePtr + rulePtr) \<times> chain \<Rightarrow> (rolePtr + rulePtr) \<times> chain" where
  "exec_call AddRule (Inl i, c) = map_prod Inr id (addRule i c)"
| "exec_call AddRule (Inr p, c) = map_prod Inr id (rule_addRule p c)"
| "exec_call (ApiGroups a) (Inr p, c) = map_prod Inr id (apiGroups a p c)"
| "exec_call (Resources a) (Inr p, c) = map_prod Inr id (resources a p c)"
| "exec_call (ResourceNames a) (Inr p, c) = map_prod Inr id (resourceNames a p c)"
| "exec_call (NonResourceURLs a) (Inr p, c) = map_prod Inr id (nonResourceURLs a p c)"
| "exec_call (Verbs a) (Inr p, c) = map_prod Inr id (verbs a p c)"
| "exec_call (SetRoleTemplateNames a) (Inl i, c) = map_prod Inl id (setRoleTemplateNames a i c)"
| "exec_call (SetRoleTemplateNames a) (Inr p, c) = map_prod Inl id (rule_setRoleTemplateNames a p c)"
| "exec_call _ (Inl i, c) = (Inl i, c)"

fun exec_stmt :: "stmt \<Rightarrow> chain \<Rightarrow> chain" where
  "exec_stmt (StRole d n calls) c = snd (fold exec_call calls (map_prod Inl id (addRole d n 0 c)))"
| "exec_stmt (StTemplate d n ctx b e h a calls) c =
     snd (fold exec_call calls (map_prod Inl id (addRoleTemplate d n ctx b e h a 0 c)))"

section \<open>The roles\<close>

definition globalRoles :: "stmt list" where
  "globalRoles =
    [StRole ''Create Clusters'' ''clusters-create''
      [AddRule, ApiGroups [''management.cattle.io''], Resources [''clusters''], Verbs [''create''],
       AddRule, ApiGroups [''management.cattle.io''], Resources [''templates'', ''templateversions''],
         Verbs [''get'', ''list'', ''watch''],
       AddRule, ApiGroups [''management.cattle.io''], Resources [''nodedrivers''], Verbs [''get'', ''list'',
         ''watch''],
       AddRule, ApiGroups [''management.cattle.io''], Resources [''kontainerdrivers''], Verbs [''get'',
         ''list'', ''watch''],
       AddRule, ApiGroups [''management.cattle.io''], Resources [''podsecuritypolicytemplates''],
         Verbs [''get'', ''list'', ''watch''],
       AddRule, ApiGroups [''management.cattle.io''], Resources [''nodetemplates''], Verbs [''*''],
       AddRule, ApiGroups [''*''], Resources [''secrets''], Verbs [''create''],
       AddRule, ApiGroups [''management.cattle.io''], Resources [''etcdbackups''], Verbs [''get'', ''list'',
         ''watch''],
       AddRule, ApiGroups [''management.cattle.io''], Resources [''clusterscans''], Verbs [''get'', ''list'',
         ''watch'']],
     StRole ''Manage Node Drivers'' ''nodedrivers-manage''
      [AddRule, ApiGroups [''management.cattle.io''], Resources [''nodedrivers''], Verbs [''*'']],
     StRole ''Manage Cluster Drivers'' ''kontainerdrivers-manage''
      [AddRule, ApiGroups [''management.cattle.io''], Resources [''kontainerdrivers''], Verbs [''*'']],
     StRole ''Manage Catalogs'' ''catalogs-manage''
      [AddRule, ApiGroups [''management.cattle.io''], Resources [''catalogs'', ''templates'',
        ''templateversions''], Verbs [''*'']],
     StRole ''Use Catalog Templates'' ''catalogs-use''
      [AddRule, ApiGroups [''management.cattle.io''], Resources [''templates'', ''templateversions''],
        Verbs [''get'', ''list'', ''watch'']],
     StRole ''Manage Users'' ''users-manage''
      [AddRule, ApiGroups [''management.cattle.io''], Resources [''users'', ''globalrolebindings''],
        Verbs [''*''],
       AddRule, ApiGroups [''management.cattle.io''], Resources [''globalroles''], Verbs [''get'', ''list'',
         ''watch'']],
     StRole ''Manage Roles'' ''roles-manage''
      [AddRule, ApiGroups [''management.cattle.io''], Resources [''roletemplates''], Verbs [''*'']],
     StRole ''Manage Authentication'' ''authn-manage''
      [AddRule, ApiGroups [''management.cattle.io''], Resources [''authconfigs''], Verbs [''get'', ''list'',
        ''watch'', ''update'']],
     StRole ''Manage Settings'' ''settings-manage''
      [AddRule, ApiGroups [''management.cattle.io''], Resources [''settings''], Verbs [''*'']],
     StRole ''Manage Features'' ''features-manage''
      [AddRule, ApiGroups [''management.cattle.io''], Resources [''features''], Verbs [''get'', ''list'',
        ''watch'', ''update'']],
     StRole ''Manage PodSecurityPolicy Templates'' ''podsecuritypolicytemplates-manage''
      [AddRule, ApiGroups [''management.cattle.io''], Resources [''podsecuritypolicytemplates''],
        Verbs [''*'']],
     StRole ''Manage Cluster Scans'' ''clusterscans-manage''
      [AddRule, ApiGroups [''management.cattle.io''], Resources [''clusterscans''], Verbs [''*'']],
     StRole ''Create Cluster Templates'' ''clustertemplates-create''
      [AddRule, ApiGroups [''management.cattle.io''], Resources [''clustertemplates'',
        ''clustertemplaterevisions''], Verbs [''create'']],
     StRole ''Admin'' ''admin''
      [AddRule, ApiGroups [''*''], Resources [''*''], Verbs [''*''],
       AddRule, ApiGroups [], NonResourceURLs [''*''], Verbs [''*'']],
     StRole ''User'' ''user''
      [AddRule, ApiGroups [''management.cattle.io''], Resources [''principals'', ''roletemplates''],
        Verbs [''get'', ''list'', ''watch''],
       AddRule, ApiGroups [''management.cattle.io''], Resources [''preferences''], Verbs [''*''],
       AddRule, ApiGroups [''management.cattle.io''], Resources [''settings''], Verbs [''get'', ''list'',
         ''watch''],
       AddRule, ApiGroups [''management.cattle.io''], Resources [''features''], Verbs [''get'', ''list'',
         ''watch''],
       AddRule, ApiGroups [''management.cattle.io''], Resources [''templates'', ''templateversions'',
         ''catalogs''], Verbs [''get'', ''list'', ''watch''],
       AddRule, ApiGroups [''management.cattle.io''], Resources [''clusters''], Verbs [''create''],
       AddRule, ApiGroups [''management.cattle.io''], Resources [''nodedrivers''], Verbs [''get'', ''list'',
         ''watch''],
       AddRule, ApiGroups [''management.cattle.io''], Resources [''kontainerdrivers''], Verbs [''get'',
         ''list'', ''watch''],
       AddRule, ApiGroups [''management.cattle.io''], Resources [''podsecuritypolicytemplates''],
         Verbs [''get'', ''list'', ''watch''],
       AddRule, ApiGroups [''management.cattle.io''], Resources [''nodetemplates''], Verbs [''*''],
       AddRule, ApiGroups [''*''], Resources [''secrets''], Verbs [''create''],
       AddRule, ApiGroups [''management.cattle.io''], Resources [''multiclusterapps'', ''globaldnses'',
         ''globaldnsproviders''], Verbs [''create''],
       AddRule, ApiGroups [''project.cattle.io''], Resources [''sourcecodecredentials''], Verbs [''*''],
       AddRule, ApiGroups [''project.cattle.io''], Resources [''sourcecoderepositories''], Verbs [''*''],
       AddRule, ApiGroups [''management.cattle.io''], Resources [''etcdbackups''], Verbs [''get'', ''list'',
         ''watch''],
       AddRule, ApiGroups [''management.cattle.io''], Resources [''rkek8ssystemimages''], Verbs [''get'',
         ''list'', ''watch''],
       AddRule, ApiGroups [''management.cattle.io''], Resources [''rkek8sserviceoptions''], Verbs [''get'',
         ''list'', ''watch''],
       AddRule, ApiGroups [''management.cattle.io''], Resources [''rkeaddons''], Verbs [''get'', ''list'',
         ''watch'']],
     StRole ''User Base'' ''user-base''
      [AddRule, ApiGroups [''management.cattle.io''], Resources [''preferences''], Verbs [''*''],
       AddRule, ApiGroups [''management.cattle.io''], Resources [''settings''], Verbs [''get'', ''list'',
         ''watch''],
       AddRule, ApiGroups [''management.cattle.io''], Resources [''features''], Verbs [''get'', ''list'',
         ''watch''],
       AddRule, ApiGroups [''project.cattle.io''], Resources [''sourcecodecredentials''], Verbs [''*''],
       AddRule, ApiGroups [''project.cattle.io''], Resources [''sourcecoderepositories''], Verbs [''*'']]]"


definition clusterRoleTemplates :: "stmt list" where
  "clusterRoleTemplates =
    [StTemplate ''Kubernetes cluster-admin'' ''cluster-admin'' ''cluster'' True True True True
      [],
     StTemplate ''Kubernetes admin'' ''admin'' ''project'' True True True False
      [],
     StTemplate ''Kubernetes edit'' ''edit'' ''project'' True True True False
      [],
     StTemplate ''Kubernetes view'' ''view'' ''project'' True True True False
      [],
     StTemplate ''Cluster Owner'' ''cluster-owner'' ''cluster'' True False False True
      [AddRule, ApiGroups [''*''], Resources [''*''], Verbs [''*''],
       AddRule, ApiGroups [], NonResourceURLs [''*''], Verbs [''*'']],
     StTemplate ''Cluster Member'' ''cluster-member'' ''cluster'' True False False False
      [AddRule, ApiGroups [''management.cattle.io''], Resources [''clusterroletemplatebindings''],
        Verbs [''get'', ''list'', ''watch''],
       AddRule, ApiGroups [''management.cattle.io''], Resources [''projects''], Verbs [''create''],
       AddRule, ApiGroups [''management.cattle.io''], Resources [''nodes'', ''nodepools''], Verbs [''get'',
         ''list'', ''watch''],
       AddRule, ApiGroups [''*''], Resources [''nodes''], Verbs [''get'', ''list'', ''watch''],
       AddRule, ApiGroups [''*''], Resources [''persistentvolumes''], Verbs [''get'', ''list'', ''watch''],
       AddRule, ApiGroups [''*''], Resources [''storageclasses''], Verbs [''get'', ''list'', ''watch''],
       AddRule, ApiGroups [''management.cattle.io''], Resources [''clusterevents''], Verbs [''get'', ''list'',
         ''watch''],
       AddRule, ApiGroups [''management.cattle.io''], Resources [''clusterloggings''], Verbs [''get'',
         ''list'', ''watch''],
       AddRule, ApiGroups [''management.cattle.io''], Resources [''clusteralertrules''], Verbs [''get'',
         ''list'', ''watch''],
       AddRule, ApiGroups [''management.cattle.io''], Resources [''clusteralertgroups''], Verbs [''get'',
         ''list'', ''watch''],
       AddRule, ApiGroups [''management.cattle.io''], Resources [''notifiers''], Verbs [''get'', ''list'',
         ''watch''],
       AddRule, ApiGroups [''management.cattle.io''], Resources [''clustercatalogs''], Verbs [''get'',
         ''list'', ''watch''],
       AddRule, ApiGroups [''management.cattle.io''], Resources [''clustermonitorgraphs''], Verbs [''get'',
         ''list'', ''watch''],
       AddRule, ApiGroups [''management.cattle.io''], Resources [''etcdbackups''], Verbs [''get'', ''list'',
         ''watch''],
       AddRule, ApiGroups [''management.cattle.io''], Resources [''catalogtemplates''], Verbs [''get'',
         ''list'', ''watch''],
       AddRule, ApiGroups [''management.cattle.io''], Resources [''catalogtemplateversions''], Verbs [''get'',
         ''list'', ''watch'']],
     StTemplate ''Create Projects'' ''projects-create'' ''cluster'' True False False False
      [AddRule, ApiGroups [''management.cattle.io''], Resources [''projects''], Verbs [''create'']],
     StTemplate ''View All Projects'' ''projects-view'' ''cluster'' True False False False
      [AddRule, ApiGroups [''management.cattle.io''], Resources [''projects''], Verbs [''get'', ''list'',
        ''watch''],
       AddRule, ApiGroups [''management.cattle.io''], Resources [''projectroletemplatebindings''],
         Verbs [''get'', ''list'', ''watch''],
       AddRule, ApiGroups [''project.cattle.io''], Resources [''apps''], Verbs [''get'', ''list'', ''watch''],
       AddRule, ApiGroups [[]], Resources [''namespaces''], Verbs [''get'', ''list'', ''watch''],
       AddRule, ApiGroups [''*''], Resources [''persistentvolumes''], Verbs [''get'', ''list'', ''watch''],
       AddRule, ApiGroups [''*''], Resources [''storageclasses''], Verbs [''get'', ''list'', ''watch''],
       AddRule, ApiGroups [''*''], Resources [''persistentvolumeclaims''], Verbs [''get'', ''list'',
         ''watch''],
       AddRule, ApiGroups [''management.cattle.io''], Resources [''clusterevents''], Verbs [''get'', ''list'',
         ''watch''],
       SetRoleTemplateNames [''view'']],
     StTemplate ''Manage Nodes'' ''nodes-manage'' ''cluster'' True False False False
      [AddRule, ApiGroups [''management.cattle.io''], Resources [''nodes'', ''nodepools''], Verbs [''*''],
       AddRule, ApiGroups [''*''], Resources [''nodes''], Verbs [''*''],
       AddRule, ApiGroups [''management.cattle.io''], Resources [''clustermonitorgraphs''], Verbs [''get'',
         ''list'', ''watch'']],
     StTemplate ''View Nodes'' ''nodes-view'' ''cluster'' True False False False
      [AddRule, ApiGroups [''management.cattle.io''], Resources [''nodes'', ''nodepools''], Verbs [''get'',
        ''list'', ''watch''],
       AddRule, ApiGroups [''*''], Resources [''nodes''], Verbs [''get'', ''list'', ''watch''],
       AddRule, ApiGroups [''management.cattle.io''], Resources [''clustermonitorgraphs''], Verbs [''get'',
         ''list'', ''watch'']],
     StTemplate ''Manage Storage'' ''storage-manage'' ''cluster'' True False False False
      [AddRule, ApiGroups [''*''], Resources [''persistentvolumes''], Verbs [''*''],
       AddRule, ApiGroups [''*''], Resources [''storageclasses''], Verbs [''*''],
       AddRule, ApiGroups [''*''], Resources [''persistentvolumeclaims''], Verbs [''*'']],
     StTemplate ''Manage Cluster Members'' ''clusterroletemplatebindings-manage'' ''cluster'' True False False False
      [AddRule, ApiGroups [''management.cattle.io''], Resources [''clusterroletemplatebindings''],
        Verbs [''*'']],
     StTemplate ''View Cluster Members'' ''clusterroletemplatebindings-view'' ''cluster'' True False False False
      [AddRule, ApiGroups [''management.cattle.io''], Resources [''clusterroletemplatebindings''],
        Verbs [''get'', ''list'', ''watch'']],
     StTemplate ''Manage Cluster Catalogs'' ''clustercatalogs-manage'' ''cluster'' True False False True
      [AddRule, ApiGroups [''management.cattle.io''], Resources [''clustercatalogs''], Verbs [''*'']],
     StTemplate ''View Cluster Catalogs'' ''clustercatalogs-view'' ''cluster'' True False False False
      [AddRule, ApiGroups [''management.cattle.io''], Resources [''clustercatalogs''], Verbs [''get'',
        ''list'', ''watch'']],
     StTemplate ''Manage Cluster Backups'' ''backups-manage'' ''cluster'' True False False False
      [AddRule, ApiGroups [''management.cattle.io''], Resources [''etcdbackups''], Verbs [''*'']],
     StTemplate ''Manage Cluster Scans'' ''clusterscans-manage'' ''cluster'' True False False False
      [AddRule, ApiGroups [''management.cattle.io''], Resources [''clusterscans''], Verbs [''*'']]]"


definition projectRoleTemplates :: "stmt list" where
  "projectRoleTemplates =
    [StTemplate ''Project Owner'' ''project-owner'' ''project'' True False False False
      [AddRule, ApiGroups [''management.cattle.io''], Resources [''projectroletemplatebindings''],
        Verbs [''*''],
       AddRule, ApiGroups [''project.cattle.io''], Resources [''apps''], Verbs [''*''],
       AddRule, ApiGroups [''project.cattle.io''], Resources [''pipelines''], Verbs [''*''],
       AddRule, ApiGroups [''project.cattle.io''], Resources [''pipelineexecutions''], Verbs [''*''],
       AddRule, ApiGroups [''project.cattle.io''], Resources [''pipelinesettings''], Verbs [''*''],
       AddRule, ApiGroups [''project.cattle.io''], Resources [''sourcecodeproviderconfigs''], Verbs [''*''],
       AddRule, ApiGroups [[]], Resources [''namespaces''], Verbs [''create''],
       AddRule, ApiGroups [''*''], Resources [''persistentvolumes''], Verbs [''get'', ''list'', ''watch''],
       AddRule, ApiGroups [''*''], Resources [''storageclasses''], Verbs [''get'', ''list'', ''watch''],
       AddRule, ApiGroups [''*''], Resources [''persistentvolumeclaims''], Verbs [''*''],
       AddRule, ApiGroups [''metrics.k8s.io''], Resources [''pods''], Verbs [''*''],
       AddRule, ApiGroups [''management.cattle.io''], Resources [''clusterevents''], Verbs [''get'', ''list'',
         ''watch''],
       AddRule, ApiGroups [''management.cattle.io''], Resources [''notifiers''], Verbs [''get'', ''list'',
         ''watch''],
       AddRule, ApiGroups [''management.cattle.io''], Resources [''projectalertrules''], Verbs [''*''],
       AddRule, ApiGroups [''management.cattle.io''], Resources [''projectalertgroups''], Verbs [''*''],
       AddRule, ApiGroups [''management.cattle.io''], Resources [''projectloggings''], Verbs [''*''],
       AddRule, ApiGroups [''management.cattle.io''], Resources [''clustercatalogs''], Verbs [''get'',
         ''list'', ''watch''],
       AddRule, ApiGroups [''management.cattle.io''], Resources [''projectcatalogs''], Verbs [''*''],
       AddRule, ApiGroups [''management.cattle.io''], Resources [''projectmonitorgraphs''], Verbs [''*''],
       AddRule, ApiGroups [''management.cattle.io''], Resources [''catalogtemplates''], Verbs [''*''],
       AddRule, ApiGroups [''management.cattle.io''], Resources [''catalogtemplateversions''], Verbs [''*''],
       AddRule, ApiGroups [''monitoring.cattle.io''], Resources [''prometheus''], Verbs [''view''],
       AddRule, ApiGroups [''monitoring.coreos.com''], Resources [''prometheuses'', ''prometheusRules'',
         ''serviceMonitors''], Verbs [''*''],
       AddRule, ApiGroups [''networking.istio.io''], Resources [''destinationrules'', ''envoyfilters'',
         ''gateways'', ''serviceentries'', ''sidecars'', ''virtualservices''], Verbs [''*''],
       AddRule, ApiGroups [''config.istio.io''], Resources [''apikeys'', ''authorizations'',
         ''checknothings'', ''circonuses'', ''deniers'', ''fluentds'', ''handlers'', ''kubernetesenvs'',
         ''kuberneteses'', ''listcheckers'', ''listentries'', ''logentries'', ''memquotas'', ''metrics'',
         ''opas'', ''prometheuses'', ''quotas'', ''quotaspecbindings'', ''quotaspecs'', ''rbacs'',
         ''reportnothings'', ''rules'', ''solarwindses'', ''stackdrivers'', ''statsds'', ''stdios''],
         Verbs [''*''],
       AddRule, ApiGroups [''authentication.istio.io''], Resources [''policies''], Verbs [''*''],
       AddRule, ApiGroups [''rbac.istio.io''], Resources [''rbacconfigs'', ''serviceroles'',
         ''servicerolebindings''], Verbs [''*''],
       SetRoleTemplateNames [''admin'']],
     StTemplate ''Project Member'' ''project-member'' ''project'' True False False False
      [AddRule, ApiGroups [''management.cattle.io''], Resources [''projectroletemplatebindings''],
        Verbs [''get'', ''list'', ''watch''],
       AddRule, ApiGroups [''project.cattle.io''], Resources [''apps''], Verbs [''*''],
       AddRule, ApiGroups [''project.cattle.io''], Resources [''pipelines''], Verbs [''*''],
       AddRule, ApiGroups [''project.cattle.io''], Resources [''pipelineexecutions''], Verbs [''*''],
       AddRule, ApiGroups [[]], Resources [''namespaces''], Verbs [''create''],
       AddRule, ApiGroups [''*''], Resources [''persistentvolumes''], Verbs [''get'', ''list'', ''watch''],
       AddRule, ApiGroups [''*''], Resources [''storageclasses''], Verbs [''get'', ''list'', ''watch''],
       AddRule, ApiGroups [''*''], Resources [''persistentvolumeclaims''], Verbs [''*''],
       AddRule, ApiGroups [''metrics.k8s.io''], Resources [''pods''], Verbs [''*''],
       AddRule, ApiGroups [''management.cattle.io''], Resources [''clusterevents''], Verbs [''get'', ''list'',
         ''watch''],
       AddRule, ApiGroups [''management.cattle.io''], Resources [''notifiers''], Verbs [''get'', ''list'',
         ''watch''],
       AddRule, ApiGroups [''management.cattle.io''], Resources [''projectalertrules''], Verbs [''*''],
       AddRule, ApiGroups [''management.cattle.io''], Resources [''projectalertgroups''], Verbs [''*''],
       AddRule, ApiGroups [''management.cattle.io''], Resources [''projectloggings''], Verbs [''get'',
         ''list'', ''watch''],
       AddRule, ApiGroups [''management.cattle.io''], Resources [''clustercatalogs''], Verbs [''get'',
         ''list'', ''watch''],
       AddRule, ApiGroups [''management.cattle.io''], Resources [''projectcatalogs''], Verbs [''get'',
         ''list'', ''watch''],
       AddRule, ApiGroups [''management.cattle.io''], Resources [''projectmonitorgraphs''], Verbs [''get'',
         ''list'', ''watch''],
       AddRule, ApiGroups [''management.cattle.io''], Resources [''catalogtemplates''], Verbs [''get'',
         ''list'', ''watch''],
       AddRule, ApiGroups [''management.cattle.io''], Resources [''catalogtemplateversions''], Verbs [''get'',
         ''list'', ''watch''],
       AddRule, ApiGroups [''monitoring.cattle.io''], Resources [''prometheus''], Verbs [''view''],
       AddRule, ApiGroups [''monitoring.coreos.com''], Resources [''prometheuses'', ''prometheusRules'',
         ''serviceMonitors''], Verbs [''*''],
       AddRule, ApiGroups [''networking.istio.io''], Resources [''destinationrules'', ''envoyfilters'',
         ''gateways'', ''serviceentries'', ''sidecars'', ''virtualservices''], Verbs [''*''],
       AddRule, ApiGroups [''config.istio.io''], Resources [''apikeys'', ''authorizations'',
         ''checknothings'', ''circonuses'', ''deniers'', ''fluentds'', ''handlers'', ''kubernetesenvs'',
         ''kuberneteses'', ''listcheckers'', ''listentries'', ''logentries'', ''memquotas'', ''metrics'',
         ''opas'', ''prometheuses'', ''quotas'', ''quotaspecbindings'', ''quotaspecs'', ''rbacs'',
         ''reportnothings'', ''rules'', ''solarwindses'', ''stackdrivers'', ''statsds'', ''stdios''],
         Verbs [''*''],
       AddRule, ApiGroups [''authentication.istio.io''], Resources [''policies''], Verbs [''*''],
       AddRule, ApiGroups [''rbac.istio.io''], Resources [''rbacconfigs'', ''serviceroles'',
         ''servicerolebindings''], Verbs [''*''],
       SetRoleTemplateNames [''edit'']],
     StTemplate ''Read-only'' ''read-only'' ''project'' True False False False
      [AddRule, ApiGroups [''management.cattle.io''], Resources [''projectroletemplatebindings''],
        Verbs [''get'', ''list'', ''watch''],
       AddRule, ApiGroups [''project.cattle.io''], Resources [''apps''], Verbs [''get'', ''list'', ''watch''],
       AddRule, ApiGroups [''project.cattle.io''], Resources [''pipelines''], Verbs [''get'', ''list'',
         ''watch''],
       AddRule, ApiGroups [''project.cattle.io''], Resources [''pipelineexecutions''], Verbs [''get'',
         ''list'', ''watch''],
       AddRule, ApiGroups [''*''], Resources [''persistentvolumes''], Verbs [''get'', ''list'', ''watch''],
       AddRule, ApiGroups [''*''], Resources [''storageclasses''], Verbs [''get'', ''list'', ''watch''],
       AddRule, ApiGroups [''*''], Resources [''persistentvolumeclaims''], Verbs [''get'', ''list'',
         ''watch''],
       AddRule, ApiGroups [''metrics.k8s.io''], Resources [''pods''], Verbs [''get'', ''list'', ''watch''],
       AddRule, ApiGroups [''management.cattle.io''], Resources [''clusterevents''], Verbs [''get'', ''list'',
         ''watch''],
       AddRule, ApiGroups [''management.cattle.io''], Resources [''notifiers''], Verbs [''get'', ''list'',
         ''watch''],
       AddRule, ApiGroups [''management.cattle.io''], Resources [''projectalertrules''], Verbs [''get'',
         ''list'', ''watch''],
       AddRule, ApiGroups [''management.cattle.io''], Resources [''projectalertgroups''], Verbs [''get'',
         ''list'', ''watch''],
       AddRule, ApiGroups [''management.cattle.io''], Resources [''projectloggings''], Verbs [''get'',
         ''list'', ''watch''],
       AddRule, ApiGroups [''management.cattle.io''], Resources [''clustercatalogs''], Verbs [''get'',
         ''list'', ''watch''],
       AddRule, ApiGroups [''management.cattle.io''], Resources [''projectcatalogs''], Verbs [''get'',
         ''list'', ''watch''],
       AddRule, ApiGroups [''management.cattle.io''], Resources [''projectmonitorgraphs''], Verbs [''get'',
         ''list'', ''watch''],
       AddRule, ApiGroups [''monitoring.coreos.com''], Resources [''prometheuses'', ''prometheusRules'',
         ''serviceMonitors''], Verbs [''get'', ''list'', ''watch''],
       AddRule, ApiGroups [''networking.istio.io''], Resources [''destinationrules'', ''envoyfilters'',
         ''gateways'', ''serviceentries'', ''sidecars'', ''virtualservices''], Verbs [''get'', ''list'',
         ''watch''],
       AddRule, ApiGroups [''config.istio.io''], Resources [''apikeys'', ''authorizations'',
         ''checknothings'', ''circonuses'', ''deniers'', ''fluentds'', ''handlers'', ''kubernetesenvs'',
         ''kuberneteses'', ''listcheckers'', ''listentries'', ''logentries'', ''memquotas'', ''metrics'',
         ''opas'', ''prometheuses'', ''quotas'', ''quotaspecbindings'', ''quotaspecs'', ''rbacs'',
         ''reportnothings'', ''rules'', ''solarwindses'', ''stackdrivers'', ''statsds'', ''stdios''],
         Verbs [''get'', ''list'', ''watch''],
       AddRule, ApiGroups [''authentication.istio.io''], Resources [''policies''], Verbs [''get'', ''list'',
         ''watch''],
       AddRule, ApiGroups [''rbac.istio.io''], Resources [''rbacconfigs'', ''serviceroles'',
         ''servicerolebindings''], Verbs [''get'', ''list'', ''watch''],
       SetRoleTemplateNames [''view'']],
     StTemplate ''Create Namespaces'' ''create-ns'' ''project'' True False False False
      [AddRule, ApiGroups [[]], Resources [''namespaces''], Verbs [''create'']],
     StTemplate ''Manage Workloads'' ''workloads-manage'' ''project'' True False False False
      [AddRule, ApiGroups [''*''], Resources [''pods'', ''pods/attach'', ''pods/exec'', ''pods/portforward'',
        ''pods/proxy'', ''replicationcontrollers'', ''replicationcontrollers/scale'', ''daemonsets'',
        ''deployments'', ''deployments/rollback'', ''deployments/scale'', ''replicasets'',
        ''replicasets/scale'', ''statefulsets'', ''cronjobs'', ''jobs'', ''daemonsets'', ''deployments'',
        ''deployments/rollback'', ''deployments/scale'', ''replicasets'', ''replicasets/scale'',
        ''replicationcontrollers/scale'', ''horizontalpodautoscalers''], Verbs [''*''],
       AddRule, ApiGroups [''*''], Resources [''limitranges'', ''pods/log'', ''pods/status'',
         ''replicationcontrollers/status'', ''resourcequotas'', ''resourcequotas/status'', ''bindings''],
         Verbs [''get'', ''list'', ''watch''],
       AddRule, ApiGroups [''project.cattle.io''], Resources [''apps''], Verbs [''*''],
       AddRule, ApiGroups [''management.cattle.io''], Resources [''projectmonitorgraphs''], Verbs [''get'',
         ''list'', ''watch'']],
     StTemplate ''View Workloads'' ''workloads-view'' ''project'' True False False False
      [AddRule, ApiGroups [''*''], Resources [''pods'', ''pods/attach'', ''pods/exec'', ''pods/portforward'',
        ''pods/proxy'', ''replicationcontrollers'', ''replicationcontrollers/scale'', ''daemonsets'',
        ''deployments'', ''deployments/rollback'', ''deployments/scale'', ''replicasets'',
        ''replicasets/scale'', ''statefulsets'', ''cronjobs'', ''jobs'', ''daemonsets'', ''deployments'',
        ''deployments/rollback'', ''deployments/scale'', ''replicasets'', ''replicasets/scale'',
        ''replicationcontrollers/scale'', ''horizontalpodautoscalers''], Verbs [''get'', ''list'', ''watch''],
       AddRule, ApiGroups [''*''], Resources [''limitranges'', ''pods/log'', ''pods/status'',
         ''replicationcontrollers/status'', ''resourcequotas'', ''resourcequotas/status'', ''bindings''],
         Verbs [''get'', ''list'', ''watch''],
       AddRule, ApiGroups [''project.cattle.io''], Resources [''apps''], Verbs [''get'', ''list'', ''watch''],
       AddRule, ApiGroups [''management.cattle.io''], Resources [''projectmonitorgraphs''], Verbs [''get'',
         ''list'', ''watch'']],
     StTemplate ''Manage Ingress'' ''ingress-manage'' ''project'' True False False False
      [AddRule, ApiGroups [''*''], Resources [''ingresses''], Verbs [''*'']],
     StTemplate ''View Ingress'' ''ingress-view'' ''project'' True False False False
      [AddRule, ApiGroups [''*''], Resources [''ingresses''], Verbs [''get'', ''list'', ''watch'']],
     StTemplate ''Manage Services'' ''services-manage'' ''project'' True False False False
      [AddRule, ApiGroups [''*''], Resources [''services'', ''services/proxy'', ''endpoints''],
        Verbs [''*'']],
     StTemplate ''View Services'' ''services-view'' ''project'' True False False False
      [AddRule, ApiGroups [''*''], Resources [''services'', ''endpoints''], Verbs [''get'', ''list'',
        ''watch'']],
     StTemplate ''Manage Secrets'' ''secrets-manage'' ''project'' True False False False
      [AddRule, ApiGroups [''*''], Resources [''secrets''], Verbs [''*'']],
     StTemplate ''View Secrets'' ''secrets-view'' ''project'' True False False False
      [AddRule, ApiGroups [''*''], Resources [''secrets''], Verbs [''get'', ''list'', ''watch'']],
     StTemplate ''Manage Config Maps'' ''configmaps-manage'' ''project'' True False False False
      [AddRule, ApiGroups [''*''], Resources [''configmaps''], Verbs [''*'']],
     StTemplate ''View Config Maps'' ''configmaps-view'' ''project'' True False False False
      [AddRule, ApiGroups [''*''], Resources [''configmaps''], Verbs [''get'', ''list'', ''watch'']],
     StTemplate ''Manage Volumes'' ''persistentvolumeclaims-manage'' ''project'' True False False False
      [AddRule, ApiGroups [''*''], Resources [''persistentvolumes''], Verbs [''get'', ''list'', ''watch''],
       AddRule, ApiGroups [''*''], Resources [''storageclasses''], Verbs [''get'', ''list'', ''watch''],
       AddRule, ApiGroups [''*''], Resources [''persistentvolumeclaims''], Verbs [''*'']],
     StTemplate ''View Volumes'' ''persistentvolumeclaims-view'' ''project'' True False False False
      [AddRule, ApiGroups [''*''], Resources [''persistentvolumes''], Verbs [''get'', ''list'', ''watch''],
       AddRule, ApiGroups [''*''], Resources [''storageclasses''], Verbs [''get'', ''list'', ''watch''],
       AddRule, ApiGroups [''*''], Resources [''persistentvolumeclaims''], Verbs [''get'', ''list'',
         ''watch'']],
     StTemplate ''Manage Service Accounts'' ''serviceaccounts-manage'' ''project'' True False False False
      [AddRule, ApiGroups [''*''], Resources [''serviceaccounts''], Verbs [''*'']],
     StTemplate ''View Service Accounts'' ''serviceaccounts-view'' ''project'' True False False False
      [AddRule, ApiGroups [''*''], Resources [''serviceaccounts''], Verbs [''get'', ''list'', ''watch'']],
     StTemplate ''Manage Project Members'' ''projectroletemplatebindings-manage'' ''project'' True False False False
      [AddRule, ApiGroups [''management.cattle.io''], Resources [''projectroletemplatebindings''],
        Verbs [''*'']],
     StTemplate ''View Project Members'' ''projectroletemplatebindings-view'' ''project'' True False False False
      [AddRule, ApiGroups [''management.cattle.io''], Resources [''projectroletemplatebindings''],
        Verbs [''get'', ''list'', ''watch'']],
     StTemplate ''Manage Project Catalogs'' ''projectcatalogs-manage'' ''project'' True False False False
      [AddRule, ApiGroups [''management.cattle.io''], Resources [''projectcatalogs''], Verbs [''*'']],
     StTemplate ''View Project Catalogs'' ''projectcatalogs-view'' ''project'' True False False False
      [AddRule, ApiGroups [''management.cattle.io''], Resources [''projectcatalogs''], Verbs [''get'',
        ''list'', ''watch'']],
     StTemplate ''Project Monitoring View Role'' ''project-monitoring-readonly'' ''project'' True False True False
      [AddRule, ApiGroups [''monitoring.cattle.io''], Resources [''prometheus''], Verbs [''view''],
       SetRoleTemplateNames [''view'']]]"


definition globalRoleChain :: chain where
  "globalRoleChain = fold exec_stmt globalRoles (snd newRoleBuilder)"

definition roleTemplateChain :: chain where
  "roleTemplateChain = fold exec_stmt (clusterRoleTemplates @ projectRoleTemplates) (snd newRoleBuilder)"


section \<open>Bootstrap\<close>

text \<open>
  \<open>boot\<close> is the server's state, one part per kind of object the bootstrap touches.  The
  bcrypt hash of the initial password is salted at random and comes in as an argument.
\<close>

record ('g, 't, 'u, 'b, 'c) boot =
  bt_globalRoles :: 'g
  bt_roleTemplates :: 't
  bt_users :: 'u
  bt_bindings :: 'b
  bt_configMaps :: 'c

definition bootstrappedRole :: string where
  "bootstrappedRole = ''authz.management.cattle.io/bootstrapped-role''"

definition bootstrapAdminConfig :: string where
  "bootstrapAdminConfig = ''admincreated''"

definition cattleNamespace :: string where
  "cattleNamespace = ''cattle-system''"

definition defaultAdminLabel :: "(string, string) gomap" where
  "defaultAdminLabel = [(''authz.management.cattle.io/bootstrapping'', ''admin-user'')]"

definition admin_user :: "string \<Rightarrow> User" where
  "admin_user hash = \<lparr>us_Name = [], us_UID = [], us_Labels = defaultAdminLabel, us_RoleTemplatesRequired = None,
     us_DisplayName = ''Default Admin'', us_Username = ''admin'', us_Password = hash,
     us_MustChangePassword = True, us_PrincipalIDs = [], us_Enabled = None, us_Conditions = []\<rparr>"

definition admin_binding :: "string \<Rightarrow> GlobalRoleBinding" where
  "admin_binding adminName = \<lparr>grb_Name = [], grb_UID = [], grb_Labels = defaultAdminLabel, grb_Annotations = [],
     grb_UserName = adminName, grb_GlobalRoleName = ''admin''\<rparr>"

text \<open>
  The part of \<^verbatim>\<open>bootstrapAdmin\<close> under \<^verbatim>\<open>len(users.Items) == 0\<close>.  A create that fails with
  AlreadyExists leaves the empty object the client returns, whose name is empty; a failed
  binding is only logged.
\<close>

definition create_admin ::
    "('u, string, User) client \<Rightarrow> ('b, string, GlobalRoleBinding) client \<Rightarrow> string \<Rightarrow>
     (('g, 't, 'u, 'b, 'c) boot, string) act" where
  "create_admin ucl bcl hash =
     bindA (caseA (zoomA bt_users bt_users_update (ccreate ucl (admin_user hash)))
        (\<lambda>e. if IsAlreadyExists e then ret [] else raise (Wrapped ''can not ensure admin user exists'' e))
        (\<lambda>u. ret (us_Name u))) (\<lambda>adminName.
     bindA (zoomA bt_bindings bt_bindings_update (clist bcl (\<lambda>b. selects defaultAdminLabel (grb_Labels b)))) (\<lambda>bindings.
     if bindings = [] then
       caseA (zoomA bt_bindings bt_bindings_update (ccreate bcl (admin_binding adminName)))
         (\<lambda>e. ret adminName) (\<lambda>_. ret adminName)
     else ret adminName))"

definition bootstrapAdmin ::
    "('u, string, User) client \<Rightarrow> ('b, string, GlobalRoleBinding) client \<Rightarrow>
     ('c, string \<times> string, ConfigMap) client \<Rightarrow> string \<Rightarrow> (('g, 't, 'u, 'b, 'c) boot, string) act" where
  "bootstrapAdmin ucl bcl ccl hash =
     bindA (zoomA bt_users bt_users_update (clist ucl (\<lambda>u. selects defaultAdminLabel (us_Labels u)))) (\<lambda>admins.
     let adminName = (case admins of [] \<Rightarrow> [] | a # _ \<Rightarrow> us_Name a) in
     caseA (zoomA bt_configMaps bt_configMaps_update (cget ccl (cattleNamespace, bootstrapAdminConfig)))
       (\<lambda>e. if \<not> IsNotFound e then ret []
            else
              bindA (zoomA bt_users bt_users_update (clist ucl (\<lambda>_. True))) (\<lambda>users.
              bindA (if users = [] then create_admin ucl bcl hash else ret adminName) (\<lambda>adminName.
              caseA (zoomA bt_configMaps bt_configMaps_update
                  (ccreate ccl \<lparr>cm_Namespace = cattleNamespace, cm_Name = bootstrapAdminConfig\<rparr>))
                (\<lambda>e. ret adminName) (\<lambda>_. ret adminName))))
       (\<lambda>_. ret adminName))"

definition mark_gr :: "GlobalRole \<Rightarrow> GlobalRole" where
  "mark_gr g = g\<lparr>gr_NewUserDefault := True, gr_Annotations := map_put bootstrappedRole ''true'' (gr_Annotations g)\<rparr>"

definition mark_cluster :: "RoleTemplate \<Rightarrow> RoleTemplate" where
  "mark_cluster r = r\<lparr>rt_ClusterCreatorDefault := True, rt_Annotations := map_put bootstrappedRole ''true'' (rt_Annotations r)\<rparr>"

definition mark_project :: "RoleTemplate \<Rightarrow> RoleTemplate" where
  "mark_project r = r\<lparr>rt_ProjectCreatorDefault := True, rt_Annotations := map_put bootstrappedRole ''true'' (rt_Annotations r)\<rparr>"

text \<open>
  A role that is already annotated is left alone.  Failing to read a template ends the
  function without an error, as the source does.
\<close>

definition mark_unless_annotated ::
    "('w, string, 'o) client \<Rightarrow> ('o \<Rightarrow> (string, string) gomap) \<Rightarrow> ('o \<Rightarrow> 'o) \<Rightarrow> 'o \<Rightarrow> ('w, unit) act" where
  "mark_unless_annotated cl ann mark x =
     (if map_has (ann x) bootstrappedRole then ret () else bindA (cupdate cl (mark x)) (\<lambda>_. ret ()))"

definition bootstrapDefaultRoles ::
    "('g, string, GlobalRole) client \<Rightarrow> ('t, string, RoleTemplate) client \<Rightarrow>
     (('g, 't, 'u, 'b, 'c) boot, unit) act" where
  "bootstrapDefaultRoles gcl tcl =
     bindA (zoomA bt_globalRoles bt_globalRoles_update (cget gcl ''user'')) (\<lambda>user.
     bindA (zoomA bt_globalRoles bt_globalRoles_update (mark_unless_annotated gcl gr_Annotations mark_gr user)) (\<lambda>_.
     caseA (zoomA bt_roleTemplates bt_roleTemplates_update (cget tcl ''cluster-owner'')) (\<lambda>_. ret ()) (\<lambda>clusterRole.
     bindA (zoomA bt_roleTemplates bt_roleTemplates_update
       (mark_unless_annotated tcl rt_Annotations mark_cluster clusterRole)) (\<lambda>_.
     caseA (zoomA bt_roleTemplates bt_roleTemplates_update (cget tcl ''project-owner'')) (\<lambda>_. ret ()) (\<lambda>projectRole.
     zoomA bt_roleTemplates bt_roleTemplates_update
       (mark_unless_annotated tcl rt_Annotations mark_project projectRole))))))"

definition addRoles ::
    "(string list \<Rightarrow> string list) \<Rightarrow> (string list \<Rightarrow> string list) \<Rightarrow>
     ('g, string, GlobalRole) client \<Rightarrow> ('t, string, RoleTemplate) client \<Rightarrow> ('u, string, User) client \<Rightarrow>
     ('b, string, GlobalRoleBinding) client \<Rightarrow> ('c, string \<times> string, ConfigMap) client \<Rightarrow> string \<Rightarrow>
     (('g, 't, 'u, 'b, 'c) boot, string) act" where
  "addRoles ord ord' gcl tcl ucl bcl ccl hash =
     bindA (wrapA ''problem reconciling global roles''
       (zoomA bt_globalRoles bt_globalRoles_update (reconcileGlobalRoles ord ord' gcl 0 globalRoleChain))) (\<lambda>_.
     bindA (wrapA ''problem reconciling role templates''
       (zoomA bt_roleTemplates bt_roleTemplates_update (reconcileRoleTemplates ord ord' tcl 0 roleTemplateChain))) (\<lambda>_.
     bindA (bootstrapAdmin ucl bcl ccl hash) (\<lambda>adminName.
     bindA (bootstrapDefaultRoles gcl tcl) (\<lambda>_.
     ret adminName))))"

section \<open>What a method chain builds\<close>

text \<open>
  The reference: a statement describes one role, on which its calls act one after another.
  The flag says whether the receiver of the next call is the role's last rule.
\<close>

definition upd_last :: "(ruleBuilder \<Rightarrow> ruleBuilder) \<Rightarrow> roleBuilder \<Rightarrow> roleBuilder" where
  "upd_last f rb = rb\<lparr>b_rules := butlast (b_rules rb) @ [f (last (b_rules rb))]\<rparr>"

fun role_call :: "call \<Rightarrow> bool \<times> roleBuilder \<Rightarrow> bool \<times> roleBuilder" where
  "role_call AddRule (s, rb) = (True, rb\<lparr>b_rules := b_rules rb @ [emptyRule]\<rparr>)"
| "role_call (SetRoleTemplateNames a) (s, rb) = (False, rb\<lparr>b_roleTemplateNames := a\<rparr>)"
| "role_call (ApiGroups a) (True, rb) = (True, upd_last (\<lambda>r. r\<lparr>u_apiGroups := u_apiGroups r @ a\<rparr>) rb)"
| "role_call (Resources a) (True, rb) = (True, upd_last (\<lambda>r. r\<lparr>u_resources := u_resources r @ a\<rparr>) rb)"
| "role_call (ResourceNames a) (True, rb) = (True, upd_last (\<lambda>r. r\<lparr>u_resourceNames := u_resourceNames r @ a\<rparr>) rb)"
| "role_call (NonResourceURLs a) (True, rb) = (True, upd_last (\<lambda>r. r\<lparr>u_urls := u_urls r @ a\<rparr>) rb)"
| "role_call (Verbs a) (True, rb) = (True, upd_last (\<lambda>r. r\<lparr>u_verbs := u_verbs r @ a\<rparr>) rb)"
| "role_call _ (False, rb) = (False, rb)"

fun stmt_name :: "stmt \<Rightarrow> string" where
  "stmt_name (StRole d n calls) = n"
| "stmt_name (StTemplate d n ctx b e h a calls) = n"

fun stmt_role :: "stmt \<Rightarrow> roleBuilder" where
  "stmt_role (StRole d n calls) =
     snd (fold role_call calls (False, emptyRole\<lparr>b_name := n, b_displayName := d\<rparr>))"
| "stmt_role (StTemplate d n ctx b e h a calls) =
     snd (fold role_call calls (False, emptyRole\<lparr>b_name := n, b_displayName := d, b_context := ctx,
       b_builtin := b, b_external := e, b_hidden := h, b_administrative := a\<rparr>))"

definition points_at :: "rolePtr + rulePtr \<Rightarrow> chain \<Rightarrow> bool \<Rightarrow> roleBuilder \<Rightarrow> bool" where
  "points_at p c s rb \<longleftrightarrow>
     (if s then b_rules rb \<noteq> [] \<and> p = Inr (length c, length (b_rules rb) - 1) else p = Inl (length c))"

lemma update_last: "xs \<noteq> [] \<Longrightarrow> xs[length xs - Suc 0 := y] = butlast xs @ [y]"
  by (induction xs rule: rev_induct) auto

lemma nth_last: "xs \<noteq> [] \<Longrightarrow> xs ! (length xs - Suc 0) = last xs"
  by (simp add: last_conv_nth)

lemmas call_defs = addRule_def rule_addRule_def setRoleTemplateNames_def rule_setRoleTemplateNames_def
  verbs_def resources_def resourceNames_def apiGroups_def nonResourceURLs_def upd_rule_def upd_last_def

lemma exec_call_role_call:
  assumes "points_at p c s rb"
  shows "\<exists>p'. exec_call k (p, c @ [rb]) = (p', c @ [snd (role_call k (s, rb))]) \<and>
    points_at p' c (fst (role_call k (s, rb))) (snd (role_call k (s, rb)))"
  using assms
  by (cases k; cases s) (auto simp: points_at_def call_defs update_last nth_last)

lemma fold_exec_call:
  assumes "points_at p c s rb"
  shows "\<exists>p'. fold exec_call calls (p, c @ [rb]) = (p', c @ [snd (fold role_call calls (s, rb))])"
  using assms
proof (induction calls arbitrary: p s rb)
  case Nil
  then show ?case by simp
next
  case (Cons k calls)
  obtain p' where "exec_call k (p, c @ [rb]) = (p', c @ [snd (role_call k (s, rb))])"
    "points_at p' c (fst (role_call k (s, rb))) (snd (role_call k (s, rb)))"
    using exec_call_role_call [OF Cons.prems] by blast
  with Cons.IH [OF this(2)] show ?case by simp
qed

lemma role_call_name: "b_name (snd (role_call k (s, rb))) = b_name rb"
  by (cases k; cases s) (simp_all add: upd_last_def)

lemma fold_role_call_name: "b_name (snd (fold role_call calls q)) = b_name (snd q)"
  by (induction calls arbitrary: q) (simp_all, metis prod.collapse role_call_name)

lemma stmt_role_name [simp]: "b_name (stmt_role st) = stmt_name st"
  by (cases st) (simp_all add: fold_role_call_name)

lemma exec_stmt_appends:
  assumes "\<forall>rb \<in> set c. b_name rb \<noteq> []"
  shows "exec_stmt st c = c @ [stmt_role st]"
proof (cases st)
  case (StRole d n calls)
  let ?rb = "emptyRole\<lparr>b_name := n, b_displayName := d\<rparr>"
  have "addRole d n 0 c = (length c, c @ [?rb])"
    using addRole_appends [OF assms, of 0] by simp
  moreover have "points_at (Inl (length c)) c False ?rb" by (simp add: points_at_def)
  ultimately show ?thesis using fold_exec_call [of "Inl (length c)" c False ?rb calls] StRole by auto
next
  case (StTemplate d n ctx b e h a calls)
  let ?rb = "emptyRole\<lparr>b_name := n, b_displayName := d, b_context := ctx, b_builtin := b,
    b_external := e, b_hidden := h, b_administrative := a\<rparr>"
  have "addRoleTemplate d n ctx b e h a 0 c = (length c, c @ [?rb])"
    using addRole_appends [OF assms, of 0] by (simp add: addRoleTemplate_def)
  moreover have "points_at (Inl (length c)) c False ?rb" by (simp add: points_at_def)
  ultimately show ?thesis using fold_exec_call [of "Inl (length c)" c False ?rb calls] StTemplate by auto
qed

lemma exec_stmt_first: "exec_stmt st [emptyRole] = [stmt_role st]"
proof (cases st)
  case (StRole d n calls)
  let ?rb = "emptyRole\<lparr>b_name := n, b_displayName := d\<rparr>"
  have "addRole d n 0 [emptyRole] = (0, [?rb])" by (simp add: addRole_def emptyRole_def)
  moreover have "points_at (Inl 0) [] False ?rb" by (simp add: points_at_def)
  ultimately show ?thesis using fold_exec_call [of "Inl 0" "[]" False ?rb calls] StRole by auto
next
  case (StTemplate d n ctx b e h a calls)
  let ?rb = "emptyRole\<lparr>b_name := n, b_displayName := d, b_context := ctx, b_builtin := b,
    b_external := e, b_hidden := h, b_administrative := a\<rparr>"
  have "addRoleTemplate d n ctx b e h a 0 [emptyRole] = (0, [?rb])"
    by (simp add: addRoleTemplate_def addRole_def emptyRole_def)
  moreover have "points_at (Inl 0) [] False ?rb" by (simp add: points_at_def)
  ultimately show ?thesis using fold_exec_call [of "Inl 0" "[]" False ?rb calls] StTemplate by auto
qed

lemma exec_stmts_named:
  "\<forall>rb \<in> set c. b_name rb \<noteq> [] \<Longrightarrow> \<forall>st \<in> set ss. stmt_name st \<noteq> [] \<Longrightarrow>
   fold exec_stmt ss c = c @ map stmt_role ss"
proof (induction ss arbitrary: c)
  case (Cons st ss)
  from Cons.prems(1) have "exec_stmt st c = c @ [stmt_role st]" by (rule exec_stmt_appends)
  with Cons.prems Cons.IH [of "c @ [stmt_role st]"] show ?case by auto
qed simp

text \<open>
  Executing statements on a fresh builder gives exactly the roles they describe, in order:
  no statement ends up on another statement's role.
\<close>

lemma exec_stmts:
  assumes "ss \<noteq> []" "\<forall>st \<in> set ss. stmt_name st \<noteq> []"
  shows "fold exec_stmt ss (snd newRoleBuilder) = map stmt_role ss"
proof (cases ss)
  case (Cons st rest)
  with assms have "fold exec_stmt rest [stmt_role st] = [stmt_role st] @ map stmt_role rest"
    by (intro exec_stmts_named) auto
  with Cons show ?thesis by (simp add: newRoleBuilder_def exec_stmt_first)
qed (use assms in simp)


lemma globalRole_names:
  "map stmt_name globalRoles =
    [''clusters-create'', ''nodedrivers-manage'', ''kontainerdrivers-manage'', ''catalogs-manage'',
     ''catalogs-use'', ''users-manage'', ''roles-manage'', ''authn-manage'', ''settings-manage'',
     ''features-manage'', ''podsecuritypolicytemplates-manage'', ''clusterscans-manage'',
     ''clustertemplates-create'', ''admin'', ''user'', ''user-base'']"
  by (simp only: globalRoles_def list.map stmt_name.simps)

lemma roleTemplate_names:
  "map stmt_name (clusterRoleTemplates @ projectRoleTemplates) =
    [''cluster-admin'', ''admin'', ''edit'', ''view'', ''cluster-owner'', ''cluster-member'',
     ''projects-create'', ''projects-view'', ''nodes-manage'', ''nodes-view'', ''storage-manage'',
     ''clusterroletemplatebindings-manage'', ''clusterroletemplatebindings-view'',
     ''clustercatalogs-manage'', ''clustercatalogs-view'', ''backups-manage'', ''clusterscans-manage'',
     ''project-owner'', ''project-member'', ''read-only'', ''create-ns'', ''workloads-manage'',
     ''workloads-view'', ''ingress-manage'', ''ingress-view'', ''services-manage'', ''services-view'',
     ''secrets-manage'', ''secrets-view'', ''configmaps-manage'', ''configmaps-view'',
     ''persistentvolumeclaims-manage'', ''persistentvolumeclaims-view'', ''serviceaccounts-manage'',
     ''serviceaccounts-view'', ''projectroletemplatebindings-manage'',
     ''projectroletemplatebindings-view'', ''projectcatalogs-manage'', ''projectcatalogs-view'',
     ''project-monitoring-readonly'']"
  by (simp only: clusterRoleTemplates_def projectRoleTemplates_def list.map stmt_name.simps append.simps)

lemma names_nonempty: "[] \<notin> set (map stmt_name ss) \<Longrightarrow> \<forall>st \<in> set ss. stmt_name st \<noteq> []"
  by (induction ss) auto

lemma globalRoleChain_eq: "globalRoleChain = map stmt_role globalRoles"
proof -
  have "[] \<notin> set (map stmt_name globalRoles)" and "map stmt_name globalRoles \<noteq> []"
    by (simp_all only: globalRole_names) simp_all
  then show ?thesis
    unfolding globalRoleChain_def by (intro exec_stmts names_nonempty) simp_all
qed

lemma roleTemplateChain_eq: "roleTemplateChain = map stmt_role (clusterRoleTemplates @ projectRoleTemplates)"
proof -
  have "[] \<notin> set (map stmt_name (clusterRoleTemplates @ projectRoleTemplates))"
    and "map stmt_name (clusterRoleTemplates @ projectRoleTemplates) \<noteq> []"
    by (simp_all only: roleTemplate_names) simp_all
  then show ?thesis
    unfolding roleTemplateChain_def by (intro exec_stmts names_nonempty) (simp_all del: map_append)
qed


section \<open>Checks on the role data\<close>

text \<open>
  What a role grants comes from the calls of its statement: facts about the built rules
  reduce to facts about the calls, which are checked on the statements themselves.
\<close>

fun stmt_calls :: "stmt \<Rightarrow> call list" where
  "stmt_calls (StRole d n calls) = calls"
| "stmt_calls (StTemplate d n ctx b e h a calls) = calls"

definition rule_from :: "call set \<Rightarrow> ruleBuilder \<Rightarrow> bool" where
  "rule_from K r \<longleftrightarrow>
     (\<forall>v \<in> set (u_verbs r). \<exists>vs. Verbs vs \<in> K \<and> v \<in> set vs) \<and>
     (\<forall>v \<in> set (u_resources r). \<exists>vs. Resources vs \<in> K \<and> v \<in> set vs)"

definition role_from :: "call set \<Rightarrow> roleBuilder \<Rightarrow> bool" where
  "role_from K rb \<longleftrightarrow>
     (\<forall>r \<in> set (b_rules rb). rule_from K r) \<and>
     (\<forall>n \<in> set (b_roleTemplateNames rb). \<exists>ns. SetRoleTemplateNames ns \<in> K \<and> n \<in> set ns)"

lemma role_call_from:
  assumes "role_from K rb" "k \<in> K" "s \<Longrightarrow> b_rules rb \<noteq> []"
  shows "role_from K (snd (role_call k (s, rb))) \<and>
    (fst (role_call k (s, rb)) \<longrightarrow> b_rules (snd (role_call k (s, rb))) \<noteq> [])"
proof -
  have "b_rules rb \<noteq> [] \<Longrightarrow> rule_from K (last (b_rules rb))"
    using assms(1) by (simp add: role_from_def)
  with assms show ?thesis
    by (cases k; cases s)
      (auto simp: role_from_def rule_from_def upd_last_def emptyRule_def dest!: in_set_butlastD)
qed

lemma fold_role_call_from:
  assumes "role_from K rb" "set calls \<subseteq> K" "s \<Longrightarrow> b_rules rb \<noteq> []"
  shows "role_from K (snd (fold role_call calls (s, rb)))"
  using assms
proof (induction calls arbitrary: s rb)
  case (Cons k calls)
  let ?q = "role_call k (s, rb)"
  have "role_from K (snd (fold role_call calls (fst ?q, snd ?q)))"
    using Cons.prems role_call_from [of K rb k s] by (intro Cons.IH) auto
  then show ?case by simp
qed simp

lemma stmt_role_from: "role_from (set (stmt_calls st)) (stmt_role st)"
proof -
  have fresh: "role_from K rb" if "b_rules rb = []" "b_roleTemplateNames rb = []" for K rb
    using that by (simp add: role_from_def)
  show ?thesis
    by (cases st) (simp_all add: fold_role_call_from fresh emptyRole_def)
qed

definition is_view_name :: "string \<Rightarrow> bool" where
  "is_view_name n \<longleftrightarrow> has_suffix n ''-view'' \<or> n = ''read-only''"

fun call_ok :: "bool \<Rightarrow> bool \<Rightarrow> call \<Rightarrow> bool" where
  "call_ok view owner (Verbs vs) = (view \<longrightarrow> (\<forall>v \<in> set vs. v \<in> {''get'', ''list'', ''watch''}))"
| "call_ok view owner (Resources rs) = (owner \<or> ''*'' \<notin> set rs)"
| "call_ok view owner (SetRoleTemplateNames ns) =
     (\<forall>n \<in> set ns. if view then n = ''view'' else n \<in> {''admin'', ''edit'', ''view''})"
| "call_ok view owner _ = True"

definition stmt_ok :: "stmt \<Rightarrow> bool" where
  "stmt_ok st \<longleftrightarrow>
     list_all (call_ok (is_view_name (stmt_name st)) (stmt_name st = ''cluster-owner'')) (stmt_calls st)"

lemma cluster_templates_ok: "list_all stmt_ok clusterRoleTemplates"
  by (simp add: clusterRoleTemplates_def stmt_ok_def is_view_name_def has_suffix_def has_prefix_def)

lemma project_templates_ok: "list_all stmt_ok projectRoleTemplates"
  by (simp add: projectRoleTemplates_def stmt_ok_def is_view_name_def has_suffix_def has_prefix_def)

lemma stmts_ok: "st \<in> set (clusterRoleTemplates @ projectRoleTemplates) \<Longrightarrow> stmt_ok st"
  using cluster_templates_ok project_templates_ok by (auto simp: list_all_iff)

lemma stmt_ok_call: "stmt_ok st \<Longrightarrow> k \<in> set (stmt_calls st) \<Longrightarrow>
   call_ok (is_view_name (stmt_name st)) (stmt_name st = ''cluster-owner'') k"
  by (simp add: stmt_ok_def list_all_iff)

lemma stmt_ok_role:
  assumes "stmt_ok st"
  shows "is_view_name (stmt_name st) \<Longrightarrow> r \<in> set (b_rules (stmt_role st)) \<Longrightarrow> set (u_verbs r) \<subseteq> {''get'', ''list'', ''watch''}"
    and "r \<in> set (b_rules (stmt_role st)) \<Longrightarrow> ''*'' \<in> set (u_resources r) \<Longrightarrow> stmt_name st = ''cluster-owner''"
    and "n \<in> set (b_roleTemplateNames (stmt_role st)) \<Longrightarrow> n \<in> {''admin'', ''edit'', ''view''}"
    and "is_view_name (stmt_name st) \<Longrightarrow> set (b_roleTemplateNames (stmt_role st)) \<subseteq> {''view''}"
  using stmt_role_from [of st] stmt_ok_call [OF assms]
  by (fastforce simp: role_from_def rule_from_def split: if_splits)+

lemma roleTemplateChain_names: "map b_name roleTemplateChain = map stmt_name (clusterRoleTemplates @ projectRoleTemplates)"
  unfolding roleTemplateChain_eq by (simp add: comp_def)

lemma globalRoleChain_names: "map b_name globalRoleChain = map stmt_name globalRoles"
  unfolding globalRoleChain_eq by (simp add: comp_def)

lemma chain_stmt:
  assumes "rb \<in> set roleTemplateChain"
  obtains st where "rb = stmt_role st" "stmt_ok st"
  using assms stmts_ok unfolding roleTemplateChain_eq by auto

section \<open>Properties\<close>

text \<open>
  C23.  The statements of \<^verbatim>\<open>addRoles\<close> build one role each, in order: the chains of the
  builder are exactly the roles the statements describe, their names are pairwise
  distinct (so none overwrites another in \<^verbatim>\<open>builtRoles\<close>), and every template a role
  template inherits from is itself one of the built-in templates.
\<close>

theorem builtin_roles_wellformed:
  "globalRoleChain = map stmt_role globalRoles \<and>
   roleTemplateChain = map stmt_role (clusterRoleTemplates @ projectRoleTemplates) \<and>
   distinct (map b_name globalRoleChain) \<and> distinct (map b_name roleTemplateChain) \<and>
   \<Union> ((\<lambda>rb. set (b_roleTemplateNames rb)) ` set roleTemplateChain) \<subseteq> set (map b_name roleTemplateChain)"
proof -
  have "distinct (map b_name globalRoleChain)"
    unfolding globalRoleChain_names globalRole_names by simp
  moreover have "distinct (map b_name roleTemplateChain)"
    unfolding roleTemplateChain_names roleTemplate_names by simp
  moreover have "{''admin'', ''edit'', ''view''} \<subseteq> set (map b_name roleTemplateChain)"
    unfolding roleTemplateChain_names roleTemplate_names by simp
  moreover have "set (b_roleTemplateNames rb) \<subseteq> {''admin'', ''edit'', ''view''}" if "rb \<in> set roleTemplateChain" for rb
    using that by (rule chain_stmt) (use stmt_ok_role(3) in blast)
  ultimately show ?thesis using globalRoleChain_eq roleTemplateChain_eq by blast
qed




section \<open>Properties of the bootstrap\<close>

definition user_stored :: "User \<Rightarrow> User \<Rightarrow> bool" where
  "user_stored u v \<longleftrightarrow> v = u\<lparr>us_Name := us_Name v, us_UID := us_UID v\<rparr>"

definition grb_stored :: "GlobalRoleBinding \<Rightarrow> GlobalRoleBinding \<Rightarrow> bool" where
  "grb_stored b c \<longleftrightarrow> c = b\<lparr>grb_Name := grb_Name c, grb_UID := grb_UID c\<rparr>"

definition cm_key :: "ConfigMap \<Rightarrow> string \<times> string" where
  "cm_key m = (cm_Namespace m, cm_Name m)"

definition marked :: "('o \<Rightarrow> (string, string) gomap) \<Rightarrow> ('o \<Rightarrow> 'o) \<Rightarrow> 'o \<Rightarrow> 'o" where
  "marked ann mark x = (if map_has (ann x) bootstrappedRole then x else mark x)"

lemma mark_step:
  assumes "api_client cl key view (=) avail" "avail w" "view w k = Some x" "key (mark x) = k"
  shows "\<exists>w'. mark_unless_annotated cl ann mark x w = (Inr (), w') \<and> avail w' \<and>
    view w' = (view w)(k \<mapsto> marked ann mark x)"
proof (cases "map_has (ann x) bootstrappedRole")
  case True
  moreover have "view w = (view w)(k \<mapsto> x)" using assms(3) by (metis fun_upd_triv)
  ultimately show ?thesis using assms(2) by (simp add: mark_unless_annotated_def marked_def)
next
  case False
  have "view w (key (mark x)) \<noteq> None" using assms by simp
  from api_client.avail_update_ok [OF assms(1,2) this]
  obtain w' where "cupdate cl (mark x) w = (Inr (mark x), w')" "avail w'" "view w' = (view w)(key (mark x) \<mapsto> mark x)"
    by blast
  with False assms(4) show ?thesis by (simp add: mark_unless_annotated_def marked_def bindA_def)
qed

lemma get_and_mark:
  assumes "api_client cl key view (=) avail" "avail w" "view w k = Some x" "key (mark x) = key x"
  shows "\<exists>w1 w2. cget cl k w = (Inr x, w1) \<and> mark_unless_annotated cl ann mark x w1 = (Inr (), w2) \<and>
    avail w2 \<and> view w2 = (view w)(k \<mapsto> marked ann mark x)"
proof -
  obtain w1 where w1: "cget cl k w = (Inr x, w1)" "avail w1" "view w1 = view w"
    using api_client.avail_get_ok [OF assms(1-3)] by blast
  have "view w1 k = Some x" "key (mark x) = k"
    using w1(3) assms(3,4) api_client.view_key [OF assms(1,3)] by simp_all
  from mark_step [where mark = mark and ann = ann, OF assms(1) w1(2) this] w1 show ?thesis by auto
qed

text \<open>
  The default roles are set once.  If a role already carries the bootstrap annotation
  nothing is written to it, and otherwise it is marked; no other object changes.  So the
  defaults an administrator has chosen since are respected.
\<close>

theorem bootstrapDefaultRoles_marks_once:
  assumes "api_client gcl gr_Name gview (=) gavail" and "api_client tcl rt_Name tview (=) tavail"
    and "gavail (bt_globalRoles w)" and "tavail (bt_roleTemplates w)"
    and "gview (bt_globalRoles w) ''user'' = Some user"
    and "tview (bt_roleTemplates w) ''cluster-owner'' = Some clusterRole"
    and "tview (bt_roleTemplates w) ''project-owner'' = Some projectRole"
  shows "\<exists>w'. bootstrapDefaultRoles gcl tcl w = (Inr (), w') \<and>
    gview (bt_globalRoles w') = (gview (bt_globalRoles w))(''user'' \<mapsto> marked gr_Annotations mark_gr user) \<and>
    tview (bt_roleTemplates w') = (tview (bt_roleTemplates w))
      (''cluster-owner'' \<mapsto> marked rt_Annotations mark_cluster clusterRole,
       ''project-owner'' \<mapsto> marked rt_Annotations mark_project projectRole) \<and>
    bt_users w' = bt_users w \<and> bt_bindings w' = bt_bindings w"
proof -
  have names: "gr_Name (mark_gr user) = gr_Name user" "rt_Name (mark_cluster clusterRole) = rt_Name clusterRole"
      "rt_Name (mark_project projectRole) = rt_Name projectRole"
    by (simp_all add: mark_gr_def mark_cluster_def mark_project_def)
  obtain g1 g2 where g: "cget gcl ''user'' (bt_globalRoles w) = (Inr user, g1)"
      "mark_unless_annotated gcl gr_Annotations mark_gr user g1 = (Inr (), g2)"
      "gview g2 = (gview (bt_globalRoles w))(''user'' \<mapsto> marked gr_Annotations mark_gr user)"
    using get_and_mark [where mark = mark_gr and ann = gr_Annotations, OF assms(1), OF assms(3,5) names(1)] that by blast
  obtain t1 t2 where t: "cget tcl ''cluster-owner'' (bt_roleTemplates w) = (Inr clusterRole, t1)"
      "mark_unless_annotated tcl rt_Annotations mark_cluster clusterRole t1 = (Inr (), t2)" "tavail t2"
      "tview t2 = (tview (bt_roleTemplates w))(''cluster-owner'' \<mapsto> marked rt_Annotations mark_cluster clusterRole)"
    using get_and_mark [where mark = mark_cluster and ann = rt_Annotations, OF assms(2), OF assms(4,6) names(2)] that by blast
  have po: "tview t2 ''project-owner'' = Some projectRole" using t(4) assms(7) by simp
  obtain t3 t4 where p: "cget tcl ''project-owner'' t2 = (Inr projectRole, t3)"
      "mark_unless_annotated tcl rt_Annotations mark_project projectRole t3 = (Inr (), t4)"
      "tview t4 = (tview t2)(''project-owner'' \<mapsto> marked rt_Annotations mark_project projectRole)"
    using get_and_mark [where mark = mark_project and ann = rt_Annotations, OF assms(2), OF t(3) po names(3)] that by blast
  have "bootstrapDefaultRoles gcl tcl w = (Inr (), w\<lparr>bt_globalRoles := g2, bt_roleTemplates := t4\<rparr>)"
    by (simp add: bootstrapDefaultRoles_def bindA_def caseA_def zoomA_def g(1,2) t(1,2) p(1,2))
  then show ?thesis using g(3) t(4) p(3) by simp
qed

definition sample_boot :: "(GlobalRole mem, RoleTemplate mem, User mem, GlobalRoleBinding mem, ConfigMap mem) boot" where
  "sample_boot =
    \<lparr>bt_globalRoles = \<lparr>objs = [snd (build_gr (emptyRole\<lparr>b_name := ''user''\<rparr>))], faults = []\<rparr>,
     bt_roleTemplates = \<lparr>objs = [snd (build_rt (emptyRole\<lparr>b_name := ''cluster-owner''\<rparr>)),
        (snd (build_rt (emptyRole\<lparr>b_name := ''project-owner''\<rparr>)))\<lparr>rt_Annotations := [(bootstrappedRole, ''true'')]\<rparr>], faults = []\<rparr>,
     bt_users = \<lparr>objs = [], faults = []\<rparr>, bt_bindings = \<lparr>objs = [], faults = []\<rparr>,
     bt_configMaps = \<lparr>objs = [], faults = []\<rparr>\<rparr>"

theorem bootstrapDefaultRoles_marks_once_witness:
  "\<exists>w'. bootstrapDefaultRoles (mem_client gr_Name (\<lambda>_ x. x)) (mem_client rt_Name (\<lambda>_ x. x)) sample_boot = (Inr (), w') \<and>
     (\<exists>g. mem_find gr_Name (bt_globalRoles w') ''user'' = Some g \<and> gr_NewUserDefault g) \<and>
     (\<exists>t. mem_find rt_Name (bt_roleTemplates w') ''cluster-owner'' = Some t \<and> rt_ClusterCreatorDefault t) \<and>
     mem_find rt_Name (bt_roleTemplates w') ''project-owner'' = mem_find rt_Name (bt_roleTemplates sample_boot) ''project-owner''"
proof -
  let ?g = "snd (build_gr (emptyRole\<lparr>b_name := ''user''\<rparr>))"
  let ?c = "snd (build_rt (emptyRole\<lparr>b_name := ''cluster-owner''\<rparr>))"
  let ?p = "(snd (build_rt (emptyRole\<lparr>b_name := ''project-owner''\<rparr>)))\<lparr>rt_Annotations := [(bootstrappedRole, ''true'')]\<rparr>"
  note found = mem_find_def sample_boot_def build_gr_def build_rt_def
  have "mem_avail (bt_globalRoles sample_boot)" "mem_avail (bt_roleTemplates sample_boot)"
    "mem_find gr_Name (bt_globalRoles sample_boot) ''user'' = Some ?g"
    "mem_find rt_Name (bt_roleTemplates sample_boot) ''cluster-owner'' = Some ?c"
    and p: "mem_find rt_Name (bt_roleTemplates sample_boot) ''project-owner'' = Some ?p"
    by (simp_all add: mem_avail_def found)
  from bootstrapDefaultRoles_marks_once [OF gr_mem.mem.api_client_axioms rt_mem.mem.api_client_axioms, OF this]
  show ?thesis
    using p by (auto simp: marked_def mark_gr_def mark_cluster_def build_gr_def build_rt_def map_has_def)
qed

text \<open>
  C25.  The default admin is created at most once, whatever the server answers: once the
  marker config map or any user exists, no run of \<^verbatim>\<open>bootstrapAdmin\<close> writes a user or a
  binding, and a run never removes the marker.
\<close>

theorem bootstrapAdmin_once:
  fixes w :: "('g, 't, 'u, 'b, 'c) boot"
  assumes "api_client ucl us_Name uview user_stored uavail" and "api_client bcl grb_Name bview grb_stored bavail"
    and "api_client ccl cm_key cview (=) cavail"
    and "cview (bt_configMaps w) (cattleNamespace, bootstrapAdminConfig) \<noteq> None \<or> uview (bt_users w) \<noteq> Map.empty"
  shows "uview (bt_users (snd (bootstrapAdmin ucl bcl ccl hash w))) = uview (bt_users w) \<and>
    bview (bt_bindings (snd (bootstrapAdmin ucl bcl ccl hash w))) = bview (bt_bindings w) \<and>
    cview (bt_configMaps w) \<subseteq>\<^sub>m cview (bt_configMaps (snd (bootstrapAdmin ucl bcl ccl hash w)))"
proof -
  note U = assms(1) and C = assms(3)
  define R where "R (s :: ('g, 't, 'u, 'b, 'c) boot) \<longleftrightarrow> uview (bt_users s) = uview (bt_users w) \<and> bview (bt_bindings s) = bview (bt_bindings w) \<and>
    cview (bt_configMaps w) \<subseteq>\<^sub>m cview (bt_configMaps s)" for s
  have nonempty: "\<exists>x. uview (bt_users w) (us_Name x) = Some x"
    if "cview (bt_configMaps w) (cattleNamespace, bootstrapAdminConfig) = None"
  proof -
    have "uview (bt_users w) \<noteq> Map.empty" using assms(4) that by blast
    then obtain n u where u: "uview (bt_users w) n = Some u" by (auto simp: fun_eq_iff)
    with api_client.view_key [OF U u] show ?thesis by auto
  qed
  have "wp (bootstrapAdmin ucl bcl ccl hash) (\<lambda>_. R) (\<lambda>_. R) w"
    unfolding bootstrapAdmin_def Let_def wp_simps
    by (intro ifI api_client.wp_list [OF U] api_client.wp_get [OF C] api_client.wp_create [OF C])
      (use nonempty in \<open>simp_all add: R_def map_le_def IsNotFound_def, auto\<close>)
  then show ?thesis by (simp only: wp_snd R_def)
qed


definition generate_user :: "User list \<Rightarrow> User \<Rightarrow> User" where
  "generate_user us u = (if us_Name u = [] then u\<lparr>us_Name := fresh_name ''user-'' (map us_Name us)\<rparr> else u)"

definition generate_binding :: "GlobalRoleBinding list \<Rightarrow> GlobalRoleBinding \<Rightarrow> GlobalRoleBinding" where
  "generate_binding bs b =
     (if grb_Name b = [] then b\<lparr>grb_Name := fresh_name ''globalrolebinding-'' (map grb_Name bs)\<rparr> else b)"

interpretation us_mem: mem_server us_Name generate_user user_stored
  by unfold_locales (auto simp: generate_user_def user_stored_def fresh_name_unused)

interpretation grb_mem: mem_server grb_Name generate_binding grb_stored
  by unfold_locales (auto simp: generate_binding_def grb_stored_def fresh_name_unused)

interpretation cm_mem: mem_server cm_key "\<lambda>_ m. m" "(=)"
  by unfold_locales auto

theorem bootstrapAdmin_once_witness:
  "let w = sample_boot\<lparr>bt_configMaps := \<lparr>objs = [\<lparr>cm_Namespace = cattleNamespace, cm_Name = bootstrapAdminConfig\<rparr>], faults = [Some Conflict]\<rparr>\<rparr>;
       w' = snd (bootstrapAdmin (mem_client us_Name generate_user) (mem_client grb_Name generate_binding)
              (mem_client cm_key (\<lambda>_ m. m)) ''hash'' w)
   in mem_find us_Name (bt_users w') = Map.empty \<and> mem_find grb_Name (bt_bindings w') = Map.empty"
proof -
  let ?w = "sample_boot\<lparr>bt_configMaps := \<lparr>objs = [\<lparr>cm_Namespace = cattleNamespace, cm_Name = bootstrapAdminConfig\<rparr>], faults = [Some Conflict]\<rparr>\<rparr>"
  have "mem_find cm_key (bt_configMaps ?w) (cattleNamespace, bootstrapAdminConfig) \<noteq> None"
    by (simp add: mem_find_def cm_key_def)
  moreover have "mem_find us_Name (bt_users ?w) = Map.empty" "mem_find grb_Name (bt_bindings ?w) = Map.empty"
    by (simp_all add: mem_find_def sample_boot_def fun_eq_iff)
  ultimately show ?thesis
    using bootstrapAdmin_once [OF us_mem.mem.api_client_axioms grb_mem.mem.api_client_axioms
        cm_mem.mem.api_client_axioms, of ?w "''hash''"]
    unfolding Let_def by simp
qed

end
