(* ===== verification/Http.thy ===== *)
theory Http
  imports Objects
begin

text \<open>
  What the request handlers use of Go's \<^verbatim>\<open>net/http\<close> and \<^verbatim>\<open>encoding/base64\<close>:
  requests with their headers and cookies, cookies to be set, responses, the URL-safe base64
  decoder, and the mapping of statuses to error codes (\<^verbatim>\<open>src/pkg/auth/util/common_util.go\<close>).
\<close>

section \<open>Requests and responses\<close>

text \<open>Header names are in canonical form; a header has a list of values.\<close>

type_synonym header = "(string, string list) gomap"

record Request =
  rq_Header :: header
  rq_Cookies :: "(string, string) gomap"
  rq_Scheme :: string
  rq_Path :: string

definition header_get :: "header \<Rightarrow> string \<Rightarrow> string" where
  "header_get h k = (case map_of h k of Some (v # _) \<Rightarrow> v | _ \<Rightarrow> [])"

definition header_set :: "string \<Rightarrow> string \<Rightarrow> header \<Rightarrow> header" where
  "header_set k v h = map_put k [v] h"

definition header_add :: "string \<Rightarrow> string \<Rightarrow> header \<Rightarrow> header" where
  "header_add k v h = map_put k (map_get h k [] @ [v]) h"

definition header_del :: "string \<Rightarrow> header \<Rightarrow> header" where
  "header_del k h = map_del k h"

record Cookie =
  ck_Name :: string
  ck_Value :: string
  ck_Secure :: bool
  ck_Path :: string
  ck_HttpOnly :: bool
  ck_MaxAge :: int

lemma header_get_set [simp]: "header_get (header_set k v h) k' = (if k' = k then v else header_get h k')"
  by (simp add: header_get_def header_set_def)

lemma map_of_header_add: "map_of (header_add k v h) k = Some (map_get h k [] @ [v])"
  by (simp add: header_add_def)

lemma map_of_header_add_other: "k' \<noteq> k \<Longrightarrow> map_of (header_add k v h) k' = map_of h k'"
  by (simp add: header_add_def)

lemma fold_header_add:
  "map_get (fold (header_add k) vs h) k [] = map_get h k [] @ vs"
  "k' \<noteq> k \<Longrightarrow> map_of (fold (header_add k) vs h) k' = map_of h k'"
  by (induction vs arbitrary: h) (simp_all add: header_add_def map_get_def)

section \<open>Error codes\<close>

definition GetHTTPErrorCode :: "int \<Rightarrow> string" where
  "GetHTTPErrorCode httpStatus =
     (if httpStatus = 401 then ''Unauthorized''
      else if httpStatus = 404 then ''NotFound''
      else if httpStatus = 403 then ''PermissionDenied''
      else if httpStatus = 500 then ''ServerError''
      else ''ServerError'')"

text \<open>\<^verbatim>\<open>httperror.NewAPIErrorLong(status, util.GetHTTPErrorCode(status), msg)\<close>.\<close>

definition api_error :: "int \<Rightarrow> error" where
  "api_error status = HttpErr status (GetHTTPErrorCode status)"

section \<open>Base64\<close>

text \<open>
  \<^verbatim>\<open>base64.URLEncoding.DecodeString\<close>: line breaks are skipped, quanta of four
  characters follow, the last of which may be padded; trailing bits of a padded quantum are
  not checked.
\<close>

definition b64_alphabet :: string where
  "b64_alphabet = ''ABCDEFGHIJKLMNOPQRSTUVWXYZabcdefghijklmnopqrstuvwxyz0123456789-_''"

definition b64_val :: "char \<Rightarrow> nat option" where
  "b64_val c = (let i = length (takeWhile (\<lambda>x. x \<noteq> c) b64_alphabet) in if i < 64 then Some i else None)"

definition byte :: "nat \<Rightarrow> char" where
  "byte n = char_of n"

fun b64_quanta :: "string \<Rightarrow> string option" where
  "b64_quanta [] = Some []"
| "b64_quanta (a # b # c # d # rest) =
     (case (b64_val a, b64_val b) of
        (Some x, Some y) \<Rightarrow>
          (if c = CHR ''='' \<and> d = CHR ''='' \<and> rest = [] then Some [byte (x * 4 + y div 16)]
           else
             (case b64_val c of
                None \<Rightarrow> None
              | Some z \<Rightarrow>
                  (if d = CHR ''='' \<and> rest = [] then Some [byte (x * 4 + y div 16), byte (y mod 16 * 16 + z div 4)]
                   else
                     (case (b64_val d, b64_quanta rest) of
                        (Some u, Some out) \<Rightarrow>
                          Some (byte (x * 4 + y div 16) # byte (y mod 16 * 16 + z div 4) # byte (z mod 4 * 64 + u) # out)
                      | _ \<Rightarrow> None))))
      | _ \<Rightarrow> None)"
| "b64_quanta _ = None"

definition b64_decode :: "string \<Rightarrow> string option" where
  "b64_decode s = b64_quanta (filter (\<lambda>c. c \<noteq> CHR 0x0A \<and> c \<noteq> CHR 0x0D) s)"

text \<open>The encoder a client uses, as the reference for the decoder.\<close>

definition b64_char :: "nat \<Rightarrow> char" where
  "b64_char n = b64_alphabet ! n"

abbreviation ord_of :: "char \<Rightarrow> nat" where
  "ord_of c \<equiv> of_char c"

fun b64_encode :: "string \<Rightarrow> string" where
  "b64_encode [] = []"
| "b64_encode [a] = [b64_char (ord_of a div 4), b64_char (ord_of a mod 4 * 16), CHR ''='', CHR ''='']"
| "b64_encode [a, b] =
     [b64_char (ord_of a div 4), b64_char (ord_of a mod 4 * 16 + ord_of b div 16), b64_char (ord_of b mod 16 * 4), CHR ''='']"
| "b64_encode (a # b # c # rest) =
     b64_char (ord_of a div 4) # b64_char (ord_of a mod 4 * 16 + ord_of b div 16) #
     b64_char (ord_of b mod 16 * 4 + ord_of c div 64) # b64_char (ord_of c mod 64) # b64_encode rest"

lemma b64_val_char_all: "list_all (\<lambda>n. b64_val (b64_char n) = Some n) [0..<64]"
  by code_simp

lemma b64_val_char [simp]: "n < 64 \<Longrightarrow> b64_val (b64_char n) = Some n"
  using b64_val_char_all by (simp add: list_all_iff)

lemma b64_val_special: "b64_val (CHR ''='') = None" "b64_val (CHR 0x0A) = None" "b64_val (CHR 0x0D) = None"
  "b64_val (CHR '' '') = None"
  by code_simp+

lemma b64_char_neq: "n < 64 \<Longrightarrow> b64_val c = None \<Longrightarrow> b64_char n \<noteq> c"
  using b64_val_char [of n] by auto

lemma ord_less [simp]: "ord_of c < 256"
  by (simp add: of_char_def) 

lemma ord_div: "ord_of c div 4 < 64" "ord_of c div 16 < 16" "ord_of c div 64 < 4"
  using ord_less [of c] by linarith+

lemma b64_bounds [simp]:
  "ord_of a mod 4 * 16 < 64" "ord_of a mod 4 * 16 + ord_of b div 16 < 64" "ord_of b mod 16 * 4 < 64"
  "ord_of b mod 16 * 4 + ord_of c div 64 < 64" "ord_of c mod 64 < 64"
  using ord_div(2) [of b] ord_div(3) [of c] mod_less_divisor [of 4 "ord_of a"] mod_less_divisor [of 16 "ord_of b"]
  by simp_all

lemma b64_bytes:
  "byte (ord_of a div 4 * 4 + (ord_of a mod 4 * 16 + y) div 16) = a" if "y < 16" for a :: char and y
proof -
  have "(ord_of a mod 4 * 16 + y) div 16 = ord_of a mod 4" using that by simp
  then show ?thesis by (simp add: byte_def)
qed

lemma b64_bytes2:
  "byte ((ord_of a mod 4 * 16 + ord_of b div 16) mod 16 * 16 + (ord_of b mod 16 * 4 + z) div 4) = b"
  if "z < 4" for a b :: char and z
proof -
  have "(ord_of b mod 16 * 4 + z) div 4 = ord_of b mod 16" using that by simp
  moreover have "(ord_of a mod 4 * 16 + ord_of b div 16) mod 16 = ord_of b div 16"
    using ord_div(2) [of b] by simp
  ultimately show ?thesis by (simp add: byte_def)
qed

lemma b64_bytes3:
  "byte ((ord_of b mod 16 * 4 + ord_of c div 64) mod 4 * 64 + ord_of c mod 64) = c" for b c :: char
proof -
  have "(ord_of b mod 16 * 4 + ord_of c div 64) mod 4 = ord_of c div 64"
    using ord_div(3) [of c] by simp
  then show ?thesis by (simp add: byte_def)
qed

lemma b64_quanta_encode: "b64_quanta (b64_encode s) = Some s"
proof (induction s rule: b64_encode.induct)
  case (2 a)
  then show ?case using b64_bytes [of 0 a] by (simp add: ord_div)
next
  case (3 a b)
  then show ?case
    using b64_bytes [of "ord_of b div 16" a] b64_bytes2 [of 0 a b]
    by (simp add: ord_div b64_char_neq b64_val_special)
next
  case (4 a b c rest)
  then show ?case
    using b64_bytes [of "ord_of b div 16" a] b64_bytes2 [of "ord_of c div 64" a b] b64_bytes3 [of b c]
    by (simp add: ord_div b64_char_neq b64_val_special)
qed simp

definition b64_plain :: "char \<Rightarrow> bool" where
  "b64_plain c \<longleftrightarrow> b64_val c \<noteq> None \<or> c = CHR ''=''"

lemma b64_encode_plain: "list_all b64_plain (b64_encode s)"
  by (induction s rule: b64_encode.induct) (simp_all add: b64_plain_def ord_div)

lemma b64_decode_encode [simp]: "b64_decode (b64_encode s) = Some s"
proof -
  have "filter (\<lambda>c. c \<noteq> CHR 0x0A \<and> c \<noteq> CHR 0x0D) (b64_encode s) = b64_encode s"
    using b64_encode_plain [of s] b64_val_special
    by (auto simp: filter_id_conv list_all_iff b64_plain_def)
  then show ?thesis by (simp add: b64_decode_def b64_quanta_encode)
qed

end
