(* ===== verification/Tokens.thy ===== *)
theory Tokens
  imports Http Roles "HOL-Library.List_Lexorder" "HOL-Library.Char_ord"
begin

text \<open>
  API tokens: \<^verbatim>\<open>src/pkg/auth/tokens\<close> (\<^verbatim>\<open>token_util.go\<close>, \<^verbatim>\<open>manager.go\<close>,
  \<^verbatim>\<open>api.go\<close>, \<^verbatim>\<open>purge_daemon.go\<close>) and \<^verbatim>\<open>src/pkg/randomtoken\<close>.

  A request is served at one instant \<open>now\<close>, in nanoseconds, and sees one state of the
  informer caches; both are arguments.  \<^verbatim>\<open>Duration.Seconds\<close> is compared exactly: its
  float64 result tells nanoseconds apart up to $2^{22}$ seconds and rounds by less than two
  microseconds beyond.
\<close>

section \<open>Token utilities\<close>

definition getAuthProviderName :: "string \<Rightarrow> string" where
  "getAuthProviderName principalID =
     (let externalType = hd (str_split principalID ''://'') in hd (str_split externalType ''_''))"

text \<open>\<^verbatim>\<open>parts[1]\<close> panics on an id without \<^verbatim>\<open>://\<close>.\<close>

definition getUserID :: "string \<Rightarrow> string result" where
  "getUserID principalID =
     (case str_split principalID ''://'' of _ # p # _ \<Rightarrow> Inr p | _ \<Rightarrow> Inl (Err ''index out of range''))"

definition SplitTokenParts :: "string \<Rightarrow> string \<times> string" where
  "SplitTokenParts tokenID =
     (let parts = str_split tokenID '':'' in
      if length parts \<noteq> 2 then (parts ! 0, []) else (parts ! 0, parts ! 1))"

text \<open>The expiry time in nanoseconds; the source stores it formatted, to the second.\<close>

definition SetTokenExpiresAt :: "Token \<Rightarrow> Token" where
  "SetTokenExpiresAt token =
     (if tk_TTLMillis token \<noteq> 0
      then token\<lparr>tk_ExpiresAt := Some (tk_Created token + wrap64 (tk_TTLMillis token * millisecond))\<rparr>
      else token)"

definition IsExpired :: "int \<Rightarrow> Token \<Rightarrow> bool" where
  "IsExpired now token =
     (if tk_TTLMillis token = 0 then False
      else time_since now (tk_Created token) \<ge> wrap64 (tk_TTLMillis token * millisecond))"

definition CookieName :: string where "CookieName = ''R_SESS''"
definition AuthHeaderName :: string where "AuthHeaderName = ''Authorization''"
definition AuthValuePrefix :: string where "AuthValuePrefix = ''Bearer''"
definition BasicAuthPrefix :: string where "BasicAuthPrefix = ''Basic''"
definition CSRFCookie :: string where "CSRFCookie = ''CSRF''"

definition GetTokenAuthFromRequest :: "Request \<Rightarrow> string" where
  "GetTokenAuthFromRequest req =
     (let authHeader = trim_space (header_get (rq_Header req) AuthHeaderName) in
      if authHeader \<noteq> [] then
        (let parts = split_n2 authHeader CHR '' '' in
         if equal_fold (parts ! 0) AuthValuePrefix then
           (if length parts > 1 then trim_space (parts ! 1) else [])
         else if equal_fold (parts ! 0) BasicAuthPrefix then
           (if length parts > 1 then
              (case b64_decode (trim_space (parts ! 1)) of None \<Rightarrow> [] | Some d \<Rightarrow> d)
            else [])
         else [])
      else (case map_of (rq_Cookies req) CookieName of None \<Rightarrow> [] | Some v \<Rightarrow> v))"

section \<open>Random keys\<close>

definition characters :: string where
  "characters = ''bcdfghjklmnpqrstvwxz2456789''"

definition tokenLength :: nat where
  "tokenLength = 54"

text \<open>\<open>rand\<close> is \<^verbatim>\<open>rand.Int(rand.Reader, charsLength)\<close> on the state of the random source.\<close>

fun draw :: "('r, nat) act \<Rightarrow> nat \<Rightarrow> ('r, string) act" where
  "draw rand 0 = ret []"
| "draw rand (Suc n) = bindA rand (\<lambda>r. bindA (draw rand n) (\<lambda>s. ret (characters ! r # s)))"

definition Generate :: "('r, nat) act \<Rightarrow> ('r, string) act" where
  "Generate rand = draw rand tokenLength"

section \<open>The manager\<close>

record ('t, 'a, 's, 'r) Manager =
  m_tokensClient :: "('t, string, Token) client"
  m_userAttributes :: "('a, string, UserAttribute) client"
  m_userAttributeLister :: "string \<Rightarrow> UserAttribute result"
  m_tokenIndexer :: "string \<Rightarrow> Token list result"
  m_userLister :: "string \<Rightarrow> User result"
  m_secrets :: "('s, string \<times> string, Secret) client"
  m_secretLister :: "string \<times> string \<Rightarrow> Secret result"
  m_rand :: "('r, nat) act"
  m_now :: int

text \<open>The state the manager works on; \<open>ts_cookies\<close> are the cookies set on the response.\<close>

record ('t, 'a, 's, 'r) tstate =
  ts_tokens :: 't
  ts_attributes :: 'a
  ts_secrets :: 's
  ts_rand :: 'r
  ts_cookies :: "Cookie list"

definition UserIDLabel :: string where
  "UserIDLabel = ''authn.management.cattle.io/token-userId''"

definition secretNamespace :: string where "secretNamespace = ''cattle-system''"
definition secretNameEnding :: string where "secretNameEnding = ''-secret''"

abbreviation onTokens where "onTokens \<equiv> zoomA ts_tokens ts_tokens_update"
abbreviation onAttributes where "onAttributes \<equiv> zoomA ts_attributes ts_attributes_update"
abbreviation onSecrets where "onSecrets \<equiv> zoomA ts_secrets ts_secrets_update"
abbreviation onRand where "onRand \<equiv> zoomA ts_rand ts_rand_update"

definition emptyPrincipal :: Principal where
  "emptyPrincipal = \<lparr>pr_Name = [], pr_DisplayName = [], pr_LoginName = [], pr_Provider = []\<rparr>"

definition emptyToken :: Token where
  "emptyToken = \<lparr>tk_Name = [], tk_Created = 0, tk_Labels = [], tk_Token = [], tk_UserPrincipal = emptyPrincipal,
     tk_GroupPrincipals = [], tk_ProviderInfo = [], tk_UserID = [], tk_AuthProvider = [], tk_TTLMillis = 0,
     tk_IsDerived = False, tk_Description = [], tk_Expired = False, tk_ExpiresAt = None, tk_Current = False,
     tk_ClusterName = [], tk_Enabled = None\<rparr>"

definition createToken :: "('t, 'a, 's, 'r) Manager \<Rightarrow> Token \<Rightarrow> (('t, 'a, 's, 'r) tstate, Token) act" where
  "createToken m k8sToken =
     caseA (onRand (Generate (m_rand m)))
       (\<lambda>_. raise (Err ''failed to generate token key''))
       (\<lambda>key. onTokens (ccreate (m_tokensClient m)
          (k8sToken\<lparr>tk_Token := key, tk_Name := [], tk_Created := 0,
             tk_Labels := map_put UserIDLabel (tk_UserID k8sToken) []\<rparr>)))"

definition updateToken :: "('t, 'a, 's, 'r) Manager \<Rightarrow> Token \<Rightarrow> (('t, 'a, 's, 'r) tstate, Token) act" where
  "updateToken m token = onTokens (cupdate (m_tokensClient m) token)"

text \<open>
  \<^verbatim>\<open>getToken\<close> returns a token, a status and an error: \<open>Inr\<close> a token, or \<open>Inl\<close> a status, the
  error and the token it returns with it (the expired one).
\<close>

type_synonym 'a status_result = "(int \<times> error \<times> 'a option) + 'a"

definition lookup_token ::
    "('w, string, Token) client \<Rightarrow> (string \<Rightarrow> Token list result) \<Rightarrow> string \<Rightarrow> string \<Rightarrow>
     (error \<Rightarrow> 'e) \<Rightarrow> (error \<Rightarrow> 'e) \<Rightarrow> ('w, 'e + Token) act" where
  "lookup_token cl idx tokenName tokenKey cacheErr clientErr =
     (let useClient = caseA (cget cl tokenName) (\<lambda>e. ret (Inl (clientErr e))) (\<lambda>t. ret (Inr t)) in
      case idx tokenKey of
        Inl e \<Rightarrow> if IsNotFound e then useClient else ret (Inl (cacheErr e))
      | Inr [] \<Rightarrow> useClient
      | Inr (t # _) \<Rightarrow> ret (Inr t))"

definition getToken ::
    "('t, 'a, 's, 'r) Manager \<Rightarrow> string \<Rightarrow> (('t, 'a, 's, 'r) tstate, Token status_result) act" where
  "getToken m tokenAuthValue =
     (case SplitTokenParts tokenAuthValue of (tokenName, tokenKey) \<Rightarrow>
      bindA (onTokens (lookup_token (m_tokensClient m) (m_tokenIndexer m) tokenName tokenKey
          (\<lambda>e. (0, Err ''failed to retrieve auth token from cache'', None))
          (\<lambda>e. (404, Err ''failed to retrieve auth token'', None)))) (\<lambda>r.
      case r of
        Inl failed \<Rightarrow> ret (Inl failed)
      | Inr storedToken \<Rightarrow>
          if tk_Token storedToken \<noteq> tokenKey \<or> tk_Name storedToken \<noteq> tokenName then
            ret (Inl (0, Err ''Invalid auth token value'', None))
          else if IsExpired (m_now m) storedToken then
            ret (Inl (410, Err ''Auth Token has expired'', Some storedToken))
          else ret (Inr storedToken)))"

record TokenInput =
  ti_TTLMillis :: int
  ti_Description :: string
  ti_ClusterID :: string

definition derived :: "Token \<Rightarrow> TokenInput \<Rightarrow> Token" where
  "derived token jsonInput =
     emptyToken\<lparr>tk_UserPrincipal := tk_UserPrincipal token, tk_IsDerived := True,
       tk_TTLMillis := ti_TTLMillis jsonInput, tk_UserID := tk_UserID token,
       tk_AuthProvider := tk_AuthProvider token, tk_ProviderInfo := tk_ProviderInfo token,
       tk_Description := ti_Description jsonInput, tk_ClusterName := ti_ClusterID jsonInput\<rparr>"

definition createDerivedToken ::
    "('t, 'a, 's, 'r) Manager \<Rightarrow> TokenInput \<Rightarrow> string \<Rightarrow> (('t, 'a, 's, 'r) tstate, Token status_result) act" where
  "createDerivedToken m jsonInput tokenAuthValue =
     bindA (getToken m tokenAuthValue) (\<lambda>r.
     case r of
       Inl (_, err, _) \<Rightarrow> ret (Inl (401, err, None))
     | Inr token \<Rightarrow>
         caseA (createToken m (derived token jsonInput)) (\<lambda>err. ret (Inl (0, err, None))) (\<lambda>t. ret (Inr t)))"

definition flag_expired :: "int \<Rightarrow> Token \<Rightarrow> Token" where
  "flag_expired now t = (if IsExpired now t then t\<lparr>tk_Expired := True\<rparr> else t)"

definition getTokens ::
    "('t, 'a, 's, 'r) Manager \<Rightarrow> string \<Rightarrow> (('t, 'a, 's, 'r) tstate, Token list status_result) act" where
  "getTokens m tokenAuthValue =
     bindA (getToken m tokenAuthValue) (\<lambda>r.
     case r of
       Inl (_, err, _) \<Rightarrow> ret (Inl (401, err, Some []))
     | Inr storedToken \<Rightarrow>
         caseA (onTokens (clist (m_tokensClient m) (\<lambda>t. selects [(UserIDLabel, tk_UserID storedToken)] (tk_Labels t))))
           (\<lambda>err. ret (Inl (0, Err ''error getting tokens for user'', Some [])))
           (\<lambda>items. ret (Inr (map (flag_expired (m_now m)) items))))"

definition deleteTokenByName ::
    "('t, 'a, 's, 'r) Manager \<Rightarrow> string \<Rightarrow> (('t, 'a, 's, 'r) tstate, (int \<times> error) option) act" where
  "deleteTokenByName m tokenName =
     caseA (onTokens (cdelete (m_tokensClient m) tokenName))
       (\<lambda>err. if IsNotFound err then ret None else ret (Some (500, Err ''failed to delete token'')))
       (\<lambda>_. ret None)"

text \<open>\<open>None\<close> is the result \<^verbatim>\<open>0, nil\<close>.\<close>

definition deleteToken ::
    "('t, 'a, 's, 'r) Manager \<Rightarrow> string \<Rightarrow> (('t, 'a, 's, 'r) tstate, (int \<times> error) option) act" where
  "deleteToken m tokenAuthValue =
     bindA (getToken m tokenAuthValue) (\<lambda>r.
     case r of
       Inl (status, err, stored) \<Rightarrow>
         if status = 404 then ret None
         else if status \<noteq> 410 then ret (Some (401, err))
         else (case stored of Some t \<Rightarrow> deleteTokenByName m (tk_Name t) | None \<Rightarrow> raise (Err ''nil pointer''))
     | Inr t \<Rightarrow> deleteTokenByName m (tk_Name t))"

definition getTokenByID ::
    "('t, 'a, 's, 'r) Manager \<Rightarrow> string \<Rightarrow> string \<Rightarrow> (('t, 'a, 's, 'r) tstate, Token status_result) act" where
  "getTokenByID m tokenAuthValue tokenID =
     bindA (getToken m tokenAuthValue) (\<lambda>r.
     case r of
       Inl (_, err, _) \<Rightarrow> ret (Inl (401, err, Some emptyToken))
     | Inr storedToken \<Rightarrow>
         caseA (onTokens (cget (m_tokensClient m) tokenID))
           (\<lambda>err. ret (Inl (404, err, Some emptyToken)))
           (\<lambda>token.
              if tk_UserID token \<noteq> tk_UserID storedToken then ret (Inl (404, Err ''not found'', Some emptyToken))
              else ret (Inr (flag_expired (m_now m) token))))"

section \<open>Provider secrets and user attributes\<close>

definition secret_key :: "string \<Rightarrow> string \<times> string" where
  "secret_key userID = (secretNamespace, userID @ secretNameEnding)"

definition UpdateSecret ::
    "('t, 'a, 's, 'r) Manager \<Rightarrow> string \<Rightarrow> string \<Rightarrow> string \<Rightarrow> (('t, 'a, 's, 'r) tstate, unit) act" where
  "UpdateSecret m userID provider secret =
     bindA (liftR (m_secretLister m (secret_key userID))) (\<lambda>cachedSecret.
     bindA (onSecrets (cupdate (m_secrets m) (cachedSecret\<lparr>se_Data := map_put provider secret (se_Data cachedSecret)\<rparr>)))
       (\<lambda>_. ret ()))"

definition CreateSecret ::
    "('t, 'a, 's, 'r) Manager \<Rightarrow> string \<Rightarrow> string \<Rightarrow> string \<Rightarrow> (('t, 'a, 's, 'r) tstate, unit) act" where
  "CreateSecret m userID provider secret =
     (case m_secretLister m (secret_key userID) of
        Inl err \<Rightarrow>
          if \<not> IsNotFound err then raise err
          else bindA (onSecrets (ccreate (m_secrets m)
                 \<lparr>se_Namespace = secretNamespace, se_Name = userID @ secretNameEnding, se_Data = [(provider, secret)]\<rparr>))
                 (\<lambda>_. ret ())
      | Inr _ \<Rightarrow> UpdateSecret m userID provider secret)"

fun first_access_token :: "Token list \<Rightarrow> string option" where
  "first_access_token [] = None"
| "first_access_token (t # ts) =
     (if map_get (tk_ProviderInfo t) ''access_token'' [] \<noteq> [] then Some (map_get (tk_ProviderInfo t) ''access_token'' [])
      else first_access_token ts)"

text \<open>With neither a secret nor a fallback the result is the empty string and the lister's error, if any.\<close>

definition GetSecret ::
    "(string \<times> string \<Rightarrow> Secret result) \<Rightarrow> string \<Rightarrow> string \<Rightarrow> Token list \<Rightarrow> string result" where
  "GetSecret secretLister userID provider fallbackTokens =
     (let cached = secretLister (secret_key userID);
          fallback = (case first_access_token fallbackTokens of
             Some secret \<Rightarrow> Inr secret
           | None \<Rightarrow> (case cached of Inl err \<Rightarrow> Inl err | Inr _ \<Rightarrow> Inr []))
      in case cached of
           Inl err \<Rightarrow> if \<not> IsNotFound err then Inl err else fallback
         | Inr s \<Rightarrow> if map_get (se_Data s) provider [] \<noteq> [] then Inr (map_get (se_Data s) provider []) else fallback)"

text \<open>
  The result is the attribute and whether it has still to be created.  The map
  \<^verbatim>\<open>GroupPrincipals\<close> is not nil: this function is the only one that makes attributes.
\<close>

definition new_attribute :: "string \<Rightarrow> User \<Rightarrow> UserAttribute" where
  "new_attribute userID user =
     \<lparr>ua_Name = userID, ua_Owners = [\<lparr>ow_Kind = ''User'', ow_Name = us_Name user, ow_UID = us_UID user\<rparr>],
      ua_GroupPrincipals = [], ua_LastRefresh = None, ua_NeedsRefresh = False\<rparr>"

definition EnsureAndGetUserAttribute ::
    "('t, 'a, 's, 'r) Manager \<Rightarrow> string \<Rightarrow> (('t, 'a, 's, 'r) tstate, UserAttribute \<times> bool) act" where
  "EnsureAndGetUserAttribute m userID =
     bindA
       (case m_userAttributeLister m userID of
          Inr a \<Rightarrow> ret (Some a)
        | Inl err \<Rightarrow>
            if \<not> IsNotFound err then raise err
            else caseA (onAttributes (cget (m_userAttributes m) userID))
                   (\<lambda>err. if \<not> IsNotFound err then raise err else ret None) (\<lambda>a. ret (Some a)))
       (\<lambda>attribs.
          let missing = bindA (liftR (m_userLister m userID)) (\<lambda>user. ret (new_attribute userID user, True)) in
          case attribs of
            Some a \<Rightarrow> if ua_Name a \<noteq> [] then ret (a, False) else missing
          | None \<Rightarrow> missing)"

definition UserAttributeChanged :: "UserAttribute \<Rightarrow> string \<Rightarrow> Principal list \<Rightarrow> bool" where
  "UserAttributeChanged attribs provider groupPrincipals =
     (let oldSet = sort (map pr_Name (map_get (ua_GroupPrincipals attribs) provider []));
          newSet = sort (map pr_Name groupPrincipals)
      in length oldSet \<noteq> length newSet \<or> list_ex (\<lambda>i. oldSet ! i \<noteq> newSet ! i) [0..<length oldSet])"

definition UserAttributeCreateOrUpdate ::
    "('t, 'a, 's, 'r) Manager \<Rightarrow> string \<Rightarrow> string \<Rightarrow> Principal list \<Rightarrow> (('t, 'a, 's, 'r) tstate, unit) act" where
  "UserAttributeCreateOrUpdate m userID provider groupPrincipals =
     bindA (EnsureAndGetUserAttribute m userID) (\<lambda>(attribs, needCreate).
     if UserAttributeChanged attribs provider groupPrincipals then
       (if \<not> needCreate then
          bindA (onAttributes (cupdate (m_userAttributes m)
             (attribs\<lparr>ua_GroupPrincipals := map_put provider groupPrincipals (ua_GroupPrincipals attribs)\<rparr>))) (\<lambda>_. ret ())
        else ret ())
     else if needCreate then bindA (onAttributes (ccreate (m_userAttributes m) attribs)) (\<lambda>_. ret ())
     else ret ())"

section \<open>Logins\<close>

text \<open>\<^verbatim>\<open>wait.ExponentialBackoff\<close>, without the time it sleeps: at most \<open>n\<close> attempts.\<close>

fun ExponentialBackoff :: "nat \<Rightarrow> ('w, unit) act \<Rightarrow> ('w, unit) act" where
  "ExponentialBackoff 0 m = raise (Err ''timed out waiting for the condition'')"
| "ExponentialBackoff (Suc n) m = caseA m (\<lambda>_. ExponentialBackoff n m) ret"

definition uaBackoff :: nat where
  "uaBackoff = 5"

definition NewLoginToken ::
    "('t, 'a, 's, 'r) Manager \<Rightarrow> string \<Rightarrow> Principal \<Rightarrow> Principal list \<Rightarrow> string \<Rightarrow> int \<Rightarrow> string \<Rightarrow>
     (('t, 'a, 's, 'r) tstate, Token) act" where
  "NewLoginToken m userID userPrincipal groupPrincipals providerToken ttl description =
     (let provider = pr_Provider userPrincipal in
      bindA (if (provider = ''github'' \<or> provider = ''azuread'' \<or> provider = ''googleoauth'') \<and> providerToken \<noteq> [] then
               caseA (CreateSecret m userID provider providerToken) (\<lambda>_. raise (Err ''unable to create secret'')) ret
             else ret ()) (\<lambda>_.
      caseA (ExponentialBackoff uaBackoff (UserAttributeCreateOrUpdate m userID provider groupPrincipals))
        (\<lambda>_. raise (Err ''Unable to create userAttribute''))
        (\<lambda>_. createToken m (emptyToken\<lparr>tk_UserPrincipal := userPrincipal, tk_IsDerived := False, tk_TTLMillis := ttl,
               tk_UserID := userID, tk_AuthProvider := provider, tk_Description := description\<rparr>))))"

definition UpdateToken :: "('t, 'a, 's, 'r) Manager \<Rightarrow> Token \<Rightarrow> (('t, 'a, 's, 'r) tstate, Token) act" where
  "UpdateToken m token = updateToken m token"

section \<open>Groups\<close>

text \<open>A user attribute that cannot be read counts as absent.\<close>

definition GetGroupsForTokenAuthProvider :: "(string \<Rightarrow> UserAttribute result) \<Rightarrow> Token \<Rightarrow> Principal list" where
  "GetGroupsForTokenAuthProvider userAttributeLister token =
     (case userAttributeLister (tk_UserID token) of
        Inl _ \<Rightarrow> tk_GroupPrincipals token
      | Inr attribs \<Rightarrow>
          (case map_of (ua_GroupPrincipals attribs) (tk_AuthProvider token) of
             Some items \<Rightarrow> items
           | None \<Rightarrow> tk_GroupPrincipals token))"

definition IsMemberOf :: "(string \<Rightarrow> UserAttribute result) \<Rightarrow> Token \<Rightarrow> Principal \<Rightarrow> bool" where
  "IsMemberOf userAttributeLister token grp =
     (let gps = (case userAttributeLister (tk_UserID token) of Inl _ \<Rightarrow> [] | Inr a \<Rightarrow> ua_GroupPrincipals a);
          groups = concat (map (\<lambda>(provider, items). map pr_Name items) gps);
          hitProviders = concat (map (\<lambda>(provider, items). map (\<lambda>_. provider) items) gps)
      in pr_Name grp \<in> set (groups @ (if tk_AuthProvider token \<in> set hitProviders then [] else map pr_Name (tk_GroupPrincipals token))))"

section \<open>Request handlers\<close>

datatype body = NoBody | Data "(string, string) gomap" | DataList "(string, string) gomap option list"

record APIContext =
  ac_Request :: Request
  ac_ID :: string
  ac_Body :: "TokenInput json result"

definition unauthorized :: error where
  "unauthorized = api_error 401"

definition fail_status :: "int \<Rightarrow> error" where
  "fail_status status = api_error (if status = 0 then 500 else status)"

text \<open>\<open>convert\<close> is \<^verbatim>\<open>ConvertTokenResource\<close> on the request's schema.\<close>

definition deriveToken ::
    "('t, 'a, 's, 'r) Manager \<Rightarrow> (Token \<Rightarrow> (string, string) gomap result) \<Rightarrow> APIContext \<Rightarrow>
     (('t, 'a, 's, 'r) tstate, int \<times> body) act" where
  "deriveToken m convert request =
     (let tokenAuthValue = GetTokenAuthFromRequest (ac_Request request) in
      if tokenAuthValue = [] then raise unauthorized
      else
        case ac_Body request of
          Inl err \<Rightarrow> raise (HttpErr 422 ''InvalidBodyContent'')
        | Inr bytes \<Rightarrow>
            (case unmarshal bytes of
               Inl err \<Rightarrow> raise (HttpErr 422 ''InvalidFormat'')
             | Inr jsonInput \<Rightarrow>
                 bindA (createDerivedToken m jsonInput tokenAuthValue) (\<lambda>r.
                 case r of
                   Inl (status, err, _) \<Rightarrow> raise (fail_status status)
                 | Inr token \<Rightarrow>
                     bindA (liftR (convert token)) (\<lambda>tokenData.
                     ret (201, Data (map_put ''token'' (tk_Name token @ '':'' @ tk_Token token) tokenData))))))"

definition is_current :: "Token \<Rightarrow> Token \<Rightarrow> bool" where
  "is_current currentAuthToken token \<longleftrightarrow> tk_Name currentAuthToken = tk_Name token \<and> \<not> tk_IsDerived currentAuthToken"

text \<open>The response starts with one nil entry per token: the source makes the slice with its final length and then appends.\<close>

fun convert_all :: "(Token \<Rightarrow> 'd result) \<Rightarrow> Token \<Rightarrow> Token list \<Rightarrow> 'd option list \<Rightarrow> 'd option list result" where
  "convert_all convert current [] out = Inr out"
| "convert_all convert current (token # tokens) out =
     (case convert (token\<lparr>tk_Current := is_current current token\<rparr>) of
        Inl err \<Rightarrow> Inl err
      | Inr d \<Rightarrow> convert_all convert current tokens (out @ [Some d]))"

definition listTokens ::
    "('t, 'a, 's, 'r) Manager \<Rightarrow> (Token \<Rightarrow> (string, string) gomap result) \<Rightarrow> APIContext \<Rightarrow>
     (('t, 'a, 's, 'r) tstate, int \<times> body) act" where
  "listTokens m convert request =
     (let tokenAuthValue = GetTokenAuthFromRequest (ac_Request request) in
      if tokenAuthValue = [] then raise unauthorized
      else
        bindA (getTokens m tokenAuthValue) (\<lambda>r.
        case r of
          Inl (status, err, _) \<Rightarrow> raise (fail_status status)
        | Inr tokens \<Rightarrow>
            bindA (getToken m tokenAuthValue) (\<lambda>r'.
            case r' of
              Inl (_, err, _) \<Rightarrow> raise err
            | Inr currentAuthToken \<Rightarrow>
                bindA (liftR (convert_all convert currentAuthToken tokens (replicate (length tokens) None)))
                  (\<lambda>tokensFromStore. ret (200, DataList tokensFromStore)))))"

definition toDeleteCookies :: "string list" where
  "toDeleteCookies = [CookieName, CSRFCookie]"

definition set_cookie :: "Cookie \<Rightarrow> (('t, 'a, 's, 'r) tstate, unit) act" where
  "set_cookie c s = (Inr (), s\<lparr>ts_cookies := ts_cookies s @ [c]\<rparr>)"

text \<open>A deleted cookie has an empty value and a negative age; its expiry date lies in 1982.\<close>

definition deleted_cookie :: "bool \<Rightarrow> string \<Rightarrow> Cookie" where
  "deleted_cookie isSecure cookieName =
     \<lparr>ck_Name = cookieName, ck_Value = [], ck_Secure = isSecure, ck_Path = ''/'', ck_HttpOnly = True, ck_MaxAge = - 1\<rparr>"

definition logout :: "('t, 'a, 's, 'r) Manager \<Rightarrow> APIContext \<Rightarrow> (('t, 'a, 's, 'r) tstate, unit) act" where
  "logout m request =
     (let tokenAuthValue = GetTokenAuthFromRequest (ac_Request request);
          isSecure = (rq_Scheme (ac_Request request) = ''https'')
      in if tokenAuthValue = [] then raise unauthorized
         else
           bindA (forA (\<lambda>c. set_cookie (deleted_cookie isSecure c)) toDeleteCookies) (\<lambda>_.
           bindA (deleteToken m tokenAuthValue) (\<lambda>r.
           case r of
             Some (status, err) \<Rightarrow> raise (fail_status status)
           | None \<Rightarrow> ret ())))"

definition getTokenFromRequest ::
    "('t, 'a, 's, 'r) Manager \<Rightarrow> (Token \<Rightarrow> (string, string) gomap result) \<Rightarrow> APIContext \<Rightarrow>
     (('t, 'a, 's, 'r) tstate, int \<times> body) act" where
  "getTokenFromRequest m convert request =
     (let tokenAuthValue = GetTokenAuthFromRequest (ac_Request request) in
      if tokenAuthValue = [] then raise unauthorized
      else
        bindA (getToken m tokenAuthValue) (\<lambda>r.
        case r of
          Inl (_, err, _) \<Rightarrow> raise err
        | Inr currentAuthToken \<Rightarrow>
            bindA (getTokenByID m tokenAuthValue (ac_ID request)) (\<lambda>r'.
            case r' of
              Inl (status, err, _) \<Rightarrow> raise (api_error (if status = 0 then 500 else if status = 410 then 404 else status))
            | Inr token \<Rightarrow>
                bindA (liftR (convert (token\<lparr>tk_Current := is_current currentAuthToken token\<rparr>)))
                  (\<lambda>tokenData. ret (200, Data tokenData)))))"

definition removeToken ::
    "('t, 'a, 's, 'r) Manager \<Rightarrow> APIContext \<Rightarrow> (('t, 'a, 's, 'r) tstate, int \<times> body) act" where
  "removeToken m request =
     (let tokenAuthValue = GetTokenAuthFromRequest (ac_Request request) in
      if tokenAuthValue = [] then raise unauthorized
      else
        bindA (getTokenByID m tokenAuthValue (ac_ID request)) (\<lambda>r.
        let continue = (\<lambda>t.
          bindA (getToken m tokenAuthValue) (\<lambda>r'.
          case r' of
            Inl (_, err, _) \<Rightarrow> raise err
          | Inr currentAuthToken \<Rightarrow>
              if is_current currentAuthToken t then raise (api_error 400)
              else
                bindA (deleteTokenByName m (tk_Name t)) (\<lambda>d.
                case d of Some (_, err) \<Rightarrow> raise err | None \<Rightarrow> ret (204, NoBody))))
        in case r of
             Inl (status, err, t) \<Rightarrow>
               if status \<noteq> 410 then raise (fail_status status) else continue (case t of Some x \<Rightarrow> x | None \<Rightarrow> emptyToken)
           | Inr t \<Rightarrow> continue t))"

definition CreateTokenAndSetCookie ::
    "('t, 'a, 's, 'r) Manager \<Rightarrow> string \<Rightarrow> Principal \<Rightarrow> Principal list \<Rightarrow> string \<Rightarrow> int \<Rightarrow> string \<Rightarrow> APIContext \<Rightarrow>
     (('t, 'a, 's, 'r) tstate, int \<times> body) act" where
  "CreateTokenAndSetCookie m userID userPrincipal groupPrincipals providerToken ttl description request =
     caseA (NewLoginToken m userID userPrincipal groupPrincipals providerToken 0 description)
       (\<lambda>_. raise (HttpErr 500 []))
       (\<lambda>token.
          bindA (set_cookie \<lparr>ck_Name = CookieName, ck_Value = tk_Name token @ '':'' @ tk_Token token,
              ck_Secure = (rq_Scheme (ac_Request request) = ''https''), ck_Path = ''/'', ck_HttpOnly = True, ck_MaxAge = 0\<rparr>)
            (\<lambda>_. ret (200, NoBody)))"

text \<open>The dispatch of \<^verbatim>\<open>api.go\<close>.\<close>

definition tokenActionHandler ::
    "('t, 'a, 's, 'r) Manager \<Rightarrow> string \<Rightarrow> APIContext \<Rightarrow> (('t, 'a, 's, 'r) tstate, unit) act" where
  "tokenActionHandler m actionName request =
     (if actionName = ''logout'' then logout m request else raise (HttpErr 404 ''ActionNotAvailable''))"

definition tokenListHandler ::
    "('t, 'a, 's, 'r) Manager \<Rightarrow> (Token \<Rightarrow> (string, string) gomap result) \<Rightarrow> APIContext \<Rightarrow>
     (('t, 'a, 's, 'r) tstate, int \<times> body) act" where
  "tokenListHandler m convert request =
     (if ac_ID request \<noteq> [] then getTokenFromRequest m convert request else listTokens m convert request)"

definition tokenCreateHandler ::
    "('t, 'a, 's, 'r) Manager \<Rightarrow> (Token \<Rightarrow> (string, string) gomap result) \<Rightarrow> APIContext \<Rightarrow>
     (('t, 'a, 's, 'r) tstate, int \<times> body) act" where
  "tokenCreateHandler m convert request = deriveToken m convert request"

definition tokenDeleteHandler ::
    "('t, 'a, 's, 'r) Manager \<Rightarrow> APIContext \<Rightarrow> (('t, 'a, 's, 'r) tstate, int \<times> body) act" where
  "tokenDeleteHandler m request = removeToken m request"

section \<open>The purge daemon\<close>

text \<open>
  One run; \<open>clientbase_IsNotFound\<close> recognises the errors of norman's own HTTP client, which
  the errors of the token client are not.  The count is what the run logs.
\<close>

definition clientbase_IsNotFound :: "error \<Rightarrow> bool" where
  "clientbase_IsNotFound err = False"

definition purge :: "(Token list result) \<Rightarrow> ('w, string, Token) client \<Rightarrow> int \<Rightarrow> ('w, nat) act" where
  "purge tokenLister tokens now =
     (let allTokens = (case tokenLister of Inl _ \<Rightarrow> [] | Inr ts \<Rightarrow> ts) in
      foldA (\<lambda>token count.
        if IsExpired now token then
          caseA (cdelete tokens (tk_Name token))
            (\<lambda>err. if \<not> clientbase_IsNotFound err then ret count else ret (count + 1))
            (\<lambda>_. ret (count + 1))
        else ret count) allTokens 0)"

end
