(* ===== verification/TokenFacts.thy ===== *)
theory TokenFacts
  imports Tokens
begin

text \<open>Properties of the API tokens.\<close>

section \<open>Expiry\<close>





section \<open>Tokens presented by a client\<close>

text \<open>A random source that draws below the number of characters.\<close>

definition rand_ok :: "('r, nat) act \<Rightarrow> bool" where
  "rand_ok rand \<longleftrightarrow> (\<forall>r n r'. rand r = (Inr n, r') \<longrightarrow> n < length characters)"

lemma draw_ok:
  assumes "rand_ok rand" and "draw rand n r = (Inr s, r')"
  shows "length s = n \<and> set s \<subseteq> set characters"
  using assms(2)
proof (induction n arbitrary: s r)
  case (Suc n)
  then obtain k r1 s1 where k: "rand r = (Inr k, r1)" "draw rand n r1 = (Inr s1, r')" "s = characters ! k # s1"
    by (auto simp: bindA_eq_Inr)
  with assms(1) have "k < length characters" by (auto simp: rand_ok_def)
  with Suc.IH [OF k(2)] k(3) show ?case by auto
qed simp

lemma colon_not_character: "CHR '':'' \<notin> set characters"
  by (simp add: characters_def)

lemma Generate_ok:
  assumes "rand_ok rand" and "Generate rand r = (Inr s, r')"
  shows "length s = tokenLength" "set s \<subseteq> set characters" "CHR '':'' \<notin> set s"
  using draw_ok [OF assms(1) assms(2) [unfolded Generate_def]] colon_not_character by auto

lemma SplitTokenParts_value [simp]:
  "CHR '':'' \<notin> set n \<Longrightarrow> CHR '':'' \<notin> set k \<Longrightarrow> SplitTokenParts (n @ CHR '':'' # k) = (n, k)"
  by (simp add: SplitTokenParts_def split_two)

text \<open>What is accepted as an authentication value is the name and the key of the token.\<close>

lemma SplitTokenParts_key:
  assumes "SplitTokenParts v = (n, k)" and "k \<noteq> []"
  shows "v = n @ CHR '':'' # k"
proof -
  have "length (str_split v '':'') = 2" "str_split v '':'' ! 0 = n" "str_split v '':'' ! 1 = k"
    using assms by (auto simp: SplitTokenParts_def Let_def split: if_splits)
  then have "str_split v '':'' = [n, k]"
    by (cases "str_split v '':''"; cases "tl (str_split v '':'')") auto
  then show ?thesis by (rule split_single_inj)
qed

text \<open>The token a lookup finds: the first one the cache has for the key, else the server's.\<close>

definition token_found ::
    "('t, 'a, 's, 'r) Manager \<Rightarrow> (string \<Rightarrow> Token option) \<Rightarrow> string \<Rightarrow> string \<Rightarrow> Token option" where
  "token_found m tokens n k =
     (case m_tokenIndexer m k of
        Inr [] \<Rightarrow> tokens n
      | Inr (t # _) \<Rightarrow> Some t
      | Inl e \<Rightarrow> if IsNotFound e then tokens n else None)"

definition token_known :: "('t, 'a, 's, 'r) Manager \<Rightarrow> (string \<Rightarrow> Token option) \<Rightarrow> Token \<Rightarrow> bool" where
  "token_known m tokens t \<longleftrightarrow> token_found m tokens (tk_Name t) (tk_Token t) = Some t"

lemma token_knownD:
  "token_known m tokens t \<Longrightarrow>
     (\<exists>ts. m_tokenIndexer m (tk_Token t) = Inr ts \<and> t \<in> set ts) \<or> tokens (tk_Name t) = Some t"
  by (auto simp: token_known_def token_found_def split: sum.splits list.splits if_splits)

definition token_valid :: "('t, 'a, 's, 'r) Manager \<Rightarrow> (string \<Rightarrow> Token option) \<Rightarrow> string \<Rightarrow> Token \<Rightarrow> bool" where
  "token_valid m tokens v t \<longleftrightarrow> SplitTokenParts v = (tk_Name t, tk_Token t) \<and> token_known m tokens t"

definition getToken_post ::
    "('t, 'a, 's, 'r) Manager \<Rightarrow> (string \<Rightarrow> Token option) \<Rightarrow> bool \<Rightarrow> string \<Rightarrow> Token status_result \<Rightarrow> bool" where
  "getToken_post m tokens av v r \<longleftrightarrow>
     (case r of
        Inr t \<Rightarrow> token_valid m tokens v t \<and> \<not> IsExpired (m_now m) t
      | Inl (status, err, stored) \<Rightarrow>
          (status = 404 \<longrightarrow> av \<longrightarrow> tokens (fst (SplitTokenParts v)) = None) \<and>
          (status = 410 \<longrightarrow> (\<exists>t. stored = Some t \<and> token_valid m tokens v t \<and> IsExpired (m_now m) t)))"

lemma token_valid_unique: "token_valid m tokens v t \<Longrightarrow> token_valid m tokens v u \<Longrightarrow> t = u"
  by (simp add: token_valid_def token_known_def)

lemma wp_getToken:
  assumes "api_client (m_tokensClient m) tk_Name view stored avail"
    and post: "\<And>r t'. getToken_post m (view (ts_tokens s)) (avail (ts_tokens s)) v r \<Longrightarrow> view t' = view (ts_tokens s) \<Longrightarrow>
      (avail (ts_tokens s) \<Longrightarrow> avail t') \<Longrightarrow> Q r (s\<lparr>ts_tokens := t'\<rparr>)"
  shows "wp (getToken m v) Q E s"
proof -
  have same: "Q r s" if "getToken_post m (view (ts_tokens s)) (avail (ts_tokens s)) v r" for r
    using post [OF that, of "ts_tokens s"] by simp
  show ?thesis
    unfolding getToken_def lookup_token_def Let_def wp_simps
    by (intro branchI api_client.wp_get [OF assms(1)])
      (auto intro!: post same simp: getToken_post_def token_valid_def token_known_def token_found_def)
qed

text \<open>
  C13.  A token is accepted only on its own name and key.  Whatever the server and the caches
  answer, \<^verbatim>\<open>getToken\<close> changes nothing, and when it accepts a value that value consists of
  the name and the key of a token found in the cache or on the server that has not expired.
\<close>

theorem getToken_sound:
  assumes "api_client (m_tokensClient m) tk_Name view stored avail"
  shows "case getToken m v s of (r, s') \<Rightarrow>
    view (ts_tokens s') = view (ts_tokens s) \<and> s' = s\<lparr>ts_tokens := ts_tokens s'\<rparr> \<and>
    (\<forall>t. r = Inr (Inr t) \<longrightarrow> SplitTokenParts v = (tk_Name t, tk_Token t) \<and> \<not> IsExpired (m_now m) t \<and>
       ((\<exists>ts. m_tokenIndexer m (tk_Token t) = Inr ts \<and> t \<in> set ts) \<or> view (ts_tokens s) (tk_Name t) = Some t))"
proof -
  let ?Q = "\<lambda>r s'. view (ts_tokens s') = view (ts_tokens s) \<and> s' = s\<lparr>ts_tokens := ts_tokens s'\<rparr> \<and>
    (\<forall>t. r = Inr t \<longrightarrow> token_valid m (view (ts_tokens s)) v t \<and> \<not> IsExpired (m_now m) t)"
  have "wp (getToken m v) ?Q (\<lambda>_ _. False) s"
    by (rule wp_getToken [OF assms]) (auto simp: getToken_post_def)
  then show ?thesis
    by (auto simp: wp_total token_valid_def dest!: token_knownD)
qed

definition generate_token :: "int \<Rightarrow> Token list \<Rightarrow> Token \<Rightarrow> Token" where
  "generate_token now ts t =
     (if tk_Name t = [] then t\<lparr>tk_Name := fresh_name ''token-'' (map tk_Name ts), tk_Created := now\<rparr> else t)"

definition token_stored :: "Token \<Rightarrow> Token \<Rightarrow> bool" where
  "token_stored t u \<longleftrightarrow> u\<lparr>tk_Name := [], tk_Created := 0\<rparr> = t\<lparr>tk_Name := [], tk_Created := 0\<rparr>"

lemma token_stored_field:
  "token_stored t u \<Longrightarrow> (\<And>x a b. f (x\<lparr>tk_Name := a, tk_Created := b\<rparr>) = f x) \<Longrightarrow> f u = f t"
  unfolding token_stored_def by metis

lemma token_stored_fields:
  assumes "token_stored t u"
  shows "tk_Token u = tk_Token t" "tk_UserID u = tk_UserID t" "tk_Labels u = tk_Labels t" "tk_IsDerived u = tk_IsDerived t"
    "tk_TTLMillis u = tk_TTLMillis t" "tk_ClusterName u = tk_ClusterName t" "tk_AuthProvider u = tk_AuthProvider t"
    "tk_Enabled u = tk_Enabled t" "tk_UserPrincipal u = tk_UserPrincipal t" "tk_GroupPrincipals u = tk_GroupPrincipals t"
  by (rule token_stored_field [OF assms]; simp)+

interpretation tk_mem: mem_server tk_Name "generate_token 0" token_stored
  by unfold_locales (auto simp: generate_token_def token_stored_def fresh_name_unused)

interpretation ua_mem: mem_server ua_Name "\<lambda>_ a. a" "(=)"
  by unfold_locales auto

definition secret_id :: "Secret \<Rightarrow> string \<times> string" where
  "secret_id s = (se_Namespace s, se_Name s)"

interpretation se_mem: mem_server secret_id "\<lambda>_ a. a" "(=)"
  by unfold_locales auto

text \<open>A small instance: one user, one session, a counter as the random source.\<close>

definition sample_rand :: "(nat, nat) act" where
  "sample_rand r = (Inr (r mod 27), Suc r)"

definition sample_user :: "string \<Rightarrow> User" where
  "sample_user n = \<lparr>us_Name = n, us_UID = n, us_Labels = [], us_RoleTemplatesRequired = None, us_DisplayName = n,
     us_Username = n, us_Password = [], us_MustChangePassword = False, us_PrincipalIDs = [''local://'' @ n],
     us_Enabled = None, us_Conditions = []\<rparr>"

definition sample_token :: "string \<Rightarrow> string \<Rightarrow> string \<Rightarrow> Token" where
  "sample_token n key user = emptyToken\<lparr>tk_Name := n, tk_Token := key, tk_UserID := user,
     tk_Labels := [(UserIDLabel, user)]\<rparr>"

definition sample_state :: "(Token mem, UserAttribute mem, Secret mem, nat) tstate" where
  "sample_state =
     \<lparr>ts_tokens = \<lparr>objs = [sample_token ''token-a'' ''ka'' ''u-1'', sample_token ''token-b'' ''kb'' ''u-2''], faults = []\<rparr>,
      ts_attributes = \<lparr>objs = [], faults = []\<rparr>, ts_secrets = \<lparr>objs = [], faults = []\<rparr>,
      ts_rand = 0, ts_cookies = []\<rparr>"

definition sample_manager :: "(Token mem, UserAttribute mem, Secret mem, nat) Manager" where
  "sample_manager =
     \<lparr>m_tokensClient = mem_client tk_Name (generate_token 0), m_userAttributes = mem_client ua_Name (\<lambda>_ a. a),
      m_userAttributeLister = (\<lambda>_. Inl NotFound), m_tokenIndexer = (\<lambda>_. Inr []),
      m_userLister = (\<lambda>u. if u = ''u-1'' then Inr (sample_user u) else Inl NotFound),
      m_secrets = mem_client secret_id (\<lambda>_ a. a), m_secretLister = (\<lambda>_. Inl NotFound),
      m_rand = sample_rand, m_now = 1000\<rparr>"

lemma sample_client: "api_client (m_tokensClient sample_manager) tk_Name (mem_find tk_Name) token_stored mem_avail"
  using tk_mem.mem.api_client_axioms by (simp add: sample_manager_def)

lemma sample_getToken: "fst (getToken sample_manager ''token-a:ka'' sample_state) = Inr (Inr (sample_token ''token-a'' ''ka'' ''u-1''))"
  by code_simp

theorem getToken_sound_witness:
  "\<exists>t s'. getToken sample_manager ''token-a:ka'' sample_state = (Inr (Inr t), s') \<and>
     SplitTokenParts ''token-a:ka'' = (tk_Name t, tk_Token t) \<and> mem_find tk_Name (ts_tokens s') = mem_find tk_Name (ts_tokens sample_state)"
  using getToken_sound [OF sample_client, of sample_state "''token-a:ka''"] sample_getToken
  by (cases "getToken sample_manager ''token-a:ka'' sample_state") auto

section \<open>Created tokens\<close>

lemma wp_createToken:
  assumes "api_client (m_tokensClient m) tk_Name view token_stored avail" and "rand_ok (m_rand m)"
    and ok: "\<And>t tk r. token_stored (k\<lparr>tk_Token := tk_Token t, tk_Labels := [(UserIDLabel, tk_UserID k)]\<rparr>) t \<Longrightarrow>
      length (tk_Token t) = tokenLength \<Longrightarrow> set (tk_Token t) \<subseteq> set characters \<Longrightarrow> CHR '':'' \<notin> set (tk_Token t) \<Longrightarrow>
      view (ts_tokens s) (tk_Name t) = None \<Longrightarrow> view tk = (view (ts_tokens s))(tk_Name t \<mapsto> t) \<Longrightarrow>
      (avail (ts_tokens s) \<Longrightarrow> avail tk) \<Longrightarrow> Q t (s\<lparr>ts_rand := r, ts_tokens := tk\<rparr>)"
    and err: "\<And>e tk r. view tk = view (ts_tokens s) \<Longrightarrow> E e (s\<lparr>ts_rand := r, ts_tokens := tk\<rparr>)"
  shows "wp (createToken m k) Q E s"
proof -
  have rnd: "wp (Generate (m_rand m)) (\<lambda>key r. length key = tokenLength \<and> set key \<subseteq> set characters \<and> CHR '':'' \<notin> set key)
      (\<lambda>_ _. True) (ts_rand s)"
    using Generate_ok [OF assms(2)] by (auto simp: wp_iff)
  have e1: "E e (s\<lparr>ts_rand := r\<rparr>)" for e r using err [of "ts_tokens s" e r] by simp
  have create: "wp (ccreate (m_tokensClient m)
        (k\<lparr>tk_Token := key, tk_Name := [], tk_Created := 0, tk_Labels := map_put UserIDLabel (tk_UserID k) []\<rparr>))
      (\<lambda>t tk. Q t (s\<lparr>ts_rand := r, ts_tokens := tk\<rparr>)) (\<lambda>e tk. E e (s\<lparr>ts_rand := r, ts_tokens := tk\<rparr>)) (ts_tokens s)"
    if key: "length key = tokenLength" "set key \<subseteq> set characters" "CHR '':'' \<notin> set key" for key r
  proof (rule api_client.wp_create [OF assms(1)])
    fix w' y
    assume st: "token_stored (k\<lparr>tk_Token := key, tk_Name := [], tk_Created := 0, tk_Labels := map_put UserIDLabel (tk_UserID k) []\<rparr>) y"
      and v: "view (ts_tokens s) (tk_Name y) = None" "view w' = (view (ts_tokens s))(tk_Name y \<mapsto> y)"
      and av: "avail (ts_tokens s) \<Longrightarrow> avail w'"
    have "tk_Token y = key" using token_stored_fields(1) [OF st] by simp
    moreover have "token_stored (k\<lparr>tk_Token := key, tk_Labels := [(UserIDLabel, tk_UserID k)]\<rparr>) y"
      using st by (simp add: token_stored_def map_put_def)
    ultimately show "Q y (s\<lparr>ts_rand := r, ts_tokens := w'\<rparr>)" using key v av by (intro ok) simp_all
  qed (simp add: err)
  show ?thesis
    unfolding createToken_def wp_simps
    by (rule wp_mono [OF rnd]) (use create e1 in \<open>simp_all add: wp_simps\<close>)
qed

lemma token_stored_all:
  "token_stored t u \<Longrightarrow> tk_Token u = tk_Token t \<and> tk_UserID u = tk_UserID t \<and> tk_Labels u = tk_Labels t \<and>
    tk_IsDerived u = tk_IsDerived t \<and> tk_TTLMillis u = tk_TTLMillis t \<and> tk_ClusterName u = tk_ClusterName t \<and>
    tk_AuthProvider u = tk_AuthProvider t \<and> tk_Enabled u = tk_Enabled t \<and> tk_UserPrincipal u = tk_UserPrincipal t"
  by (simp add: token_stored_fields [of t u])

lemma getToken_accepts:
  assumes "api_client (m_tokensClient m) tk_Name view stored avail" and "avail (ts_tokens s)"
    and "view (ts_tokens s) (tk_Name t) = Some t"
    and "m_tokenIndexer m (tk_Token t) = Inr [] \<or> (\<exists>ts. m_tokenIndexer m (tk_Token t) = Inr (t # ts))"
    and "CHR '':'' \<notin> set (tk_Name t)" and "CHR '':'' \<notin> set (tk_Token t)" and "\<not> IsExpired (m_now m) t"
  shows "\<exists>tk. getToken m (tk_Name t @ CHR '':'' # tk_Token t) s = (Inr (Inr t), s\<lparr>ts_tokens := tk\<rparr>) \<and> view tk = view (ts_tokens s) \<and> avail tk"
proof -
  obtain tk where tk: "cget (m_tokensClient m) (tk_Name t) (ts_tokens s) = (Inr t, tk)" "avail tk" "view tk = view (ts_tokens s)"
    using api_client.avail_get_ok [OF assms(1), OF assms(2,3)] by blast
  have s: "s = s\<lparr>ts_tokens := ts_tokens s\<rparr>" by simp
  from assms(4) show ?thesis
  proof
    assume "m_tokenIndexer m (tk_Token t) = Inr []"
    then show ?thesis
      using tk assms(5-7) by (auto simp: getToken_def lookup_token_def bindA_def zoomA_def caseA_def intro: exI [of _ tk])
  next
    assume "\<exists>ts. m_tokenIndexer m (tk_Token t) = Inr (t # ts)"
    then show ?thesis
      using assms(2,5-7) by (auto simp: getToken_def lookup_token_def bindA_def zoomA_def intro: exI [of _ "ts_tokens s"])
  qed
qed

text \<open>
  A created token works: it carries the user's id, label and a random key of 54
  characters, it is stored under a name that was free, and the value \<^verbatim>\<open>name:key\<close> that the
  client is given is accepted from then on, whether or not the cache has the token yet.
\<close>

theorem createToken_roundtrip:
  assumes "api_client (m_tokensClient m) tk_Name view token_stored avail" and "rand_ok (m_rand m)"
    and "avail (ts_tokens s)" and "createToken m k s = (Inr t, s')"
    and "CHR '':'' \<notin> set (tk_Name t)" and "\<not> IsExpired (m_now m) t"
    and "m_tokenIndexer m (tk_Token t) = Inr [] \<or> m_tokenIndexer m (tk_Token t) = Inr [t]"
  shows "tk_UserID t = tk_UserID k \<and> tk_Labels t = [(UserIDLabel, tk_UserID k)] \<and> length (tk_Token t) = 54 \<and>
    view (ts_tokens s) (tk_Name t) = None \<and>
    (\<exists>s''. getToken m (tk_Name t @ CHR '':'' # tk_Token t) s' = (Inr (Inr t), s''))"
proof -
  have "wp (createToken m k) (\<lambda>t s'. tk_UserID t = tk_UserID k \<and> tk_Labels t = [(UserIDLabel, tk_UserID k)] \<and>
      length (tk_Token t) = 54 \<and> CHR '':'' \<notin> set (tk_Token t) \<and> view (ts_tokens s) (tk_Name t) = None \<and>
      view (ts_tokens s') (tk_Name t) = Some t \<and> avail (ts_tokens s')) (\<lambda>_ _. True) s"
    by (rule wp_createToken [OF assms(1,2)])
      (use assms(3) in \<open>auto simp: tokenLength_def dest!: token_stored_all\<close>)
  then have c: "tk_UserID t = tk_UserID k" "tk_Labels t = [(UserIDLabel, tk_UserID k)]" "length (tk_Token t) = 54"
      "CHR '':'' \<notin> set (tk_Token t)" "view (ts_tokens s) (tk_Name t) = None"
      "view (ts_tokens s') (tk_Name t) = Some t" "avail (ts_tokens s')"
    using assms(4) by (auto simp: wp_iff)
  with getToken_accepts [OF assms(1) c(7,6) _ assms(5) c(4) assms(6)] assms(7) show ?thesis by auto
qed

lemma sample_rand_ok: "rand_ok sample_rand"
  by (auto simp: rand_ok_def sample_rand_def characters_def)

theorem createToken_roundtrip_witness:
  "\<exists>t s' s''. createToken sample_manager (emptyToken\<lparr>tk_UserID := ''u-1''\<rparr>) sample_state = (Inr t, s') \<and> tk_UserID t = ''u-1'' \<and>
     getToken sample_manager (tk_Name t @ CHR '':'' # tk_Token t) s' = (Inr (Inr t), s'')"
proof -
  let ?c = "createToken sample_manager (emptyToken\<lparr>tk_UserID := ''u-1''\<rparr>) sample_state"
  have "case fst ?c of Inr t \<Rightarrow> CHR '':'' \<notin> set (tk_Name t) \<and> \<not> IsExpired 1000 t | Inl _ \<Rightarrow> False"
    by code_simp
  then obtain t s' where t: "?c = (Inr t, s')" "CHR '':'' \<notin> set (tk_Name t)" "\<not> IsExpired 1000 t"
    by (cases ?c; cases "fst ?c") auto
  have "mem_avail (ts_tokens sample_state)" "rand_ok (m_rand sample_manager)"
    by (simp_all add: sample_state_def mem_avail_def sample_manager_def sample_rand_ok)
  with createToken_roundtrip [OF sample_client _ _ t(1,2)] t show ?thesis by (auto simp: sample_manager_def)
qed




section \<open>Deleting tokens\<close>

lemma wp_deleteTokenByName:
  assumes "api_client (m_tokensClient m) tk_Name view stored avail"
    and "\<And>t'. view t' = (view (ts_tokens s))(n := None) \<Longrightarrow> (avail (ts_tokens s) \<Longrightarrow> avail t') \<Longrightarrow> Q None (s\<lparr>ts_tokens := t'\<rparr>)"
    and "\<And>t' r. view t' = view (ts_tokens s) \<Longrightarrow> \<not> avail (ts_tokens s) \<Longrightarrow> Q (Some r) (s\<lparr>ts_tokens := t'\<rparr>)"
  shows "wp (deleteTokenByName m n) Q E s"
  unfolding deleteTokenByName_def wp_simps
  by (intro branchI api_client.wp_delete [OF assms(1)])
    (auto intro!: assms(2,3) simp: IsNotFound_def fun_eq_iff)



definition sample_request :: "string \<Rightarrow> string \<Rightarrow> APIContext" where
  "sample_request auth i =
     \<lparr>ac_Request = \<lparr>rq_Header = [(''Authorization'', [''Bearer '' @ auth])], rq_Cookies = [], rq_Scheme = ''https'', rq_Path = ''/v3/token''\<rparr>,
      ac_ID = i, ac_Body = Inl (Err ''no body'')\<rparr>"


text \<open>
  C27.  Logging out ends the session: on a server that answers, when \<^verbatim>\<open>logout\<close> reports
  success the token named by the request is no longer stored, and the session and CSRF
  cookies have been cleared.
\<close>

theorem logout_ends_session:
  assumes "api_client (m_tokensClient m) tk_Name view stored avail" and "avail (ts_tokens s)"
    and "logout m request s = (Inr (), s')"
  shows "view (ts_tokens s') (fst (SplitTokenParts (GetTokenAuthFromRequest (ac_Request request)))) = None \<and>
    (\<exists>secure. ts_cookies s' = ts_cookies s @ [deleted_cookie secure CookieName, deleted_cookie secure CSRFCookie])"
proof -
  let ?n = "fst (SplitTokenParts (GetTokenAuthFromRequest (ac_Request request)))"
  let ?Q = "\<lambda>s'. view (ts_tokens s') ?n = None \<and>
    (\<exists>secure. ts_cookies s' = ts_cookies s @ [deleted_cookie secure CookieName, deleted_cookie secure CSRFCookie])"
  have cookies: "wp (forA (\<lambda>c. set_cookie (deleted_cookie b c)) toDeleteCookies) Q E s \<longleftrightarrow>
      Q () (s\<lparr>ts_cookies := ts_cookies s @ [deleted_cookie b CookieName, deleted_cookie b CSRFCookie]\<rparr>)" for Q E b
    by (simp add: wp_def toDeleteCookies_def set_cookie_def)
  have "wp (logout m request) (\<lambda>_. ?Q) (\<lambda>_ _. True) s"
    unfolding logout_def deleteToken_def Let_def wp_simps cookies
    by (intro branchI wp_getToken [OF assms(1)] wp_deleteTokenByName [OF assms(1)])
      (use assms(2) in \<open>auto simp: getToken_post_def token_valid_def\<close>)
  with assms(3) show ?thesis by (auto simp: wp_iff)
qed


theorem logout_ends_session_witness:
  "\<exists>s'. logout sample_manager (sample_request ''token-a:ka'' []) sample_state = (Inr (), s') \<and>
     mem_find tk_Name (ts_tokens s') (fst (SplitTokenParts (GetTokenAuthFromRequest (ac_Request (sample_request ''token-a:ka'' []))))) = None"
proof -
  let ?l = "logout sample_manager (sample_request ''token-a:ka'' []) sample_state"
  have "fst ?l = Inr ()" by code_simp
  then obtain s' where s': "?l = (Inr (), s')" by (cases ?l) auto
  have "mem_avail (ts_tokens sample_state)" by (simp add: sample_state_def mem_avail_def)
  from logout_ends_session [OF sample_client this s'] s' show ?thesis by blast
qed

text \<open>
  The success of \<^verbatim>\<open>logout\<close> does not survive a failing server: \<^verbatim>\<open>getToken\<close> reports
  status 404 for every error of the token client, and \<^verbatim>\<open>deleteToken\<close> takes 404 for a token
  that is already gone.  When the cache does not have the token and reading it fails for any
  reason, the session is left in place and the client is told that it ended.
\<close>

theorem logout_hides_lookup_failure:
  assumes "GetTokenAuthFromRequest (ac_Request request) \<noteq> []"
    and "SplitTokenParts (GetTokenAuthFromRequest (ac_Request request)) = (n, k)" and "m_tokenIndexer m k = Inr []"
    and "cget (m_tokensClient m) n (ts_tokens s) = (Inl e, t')"
  shows "\<exists>s'. logout m request s = (Inr (), s') \<and> ts_tokens s' = t'"
  using assms
  by (simp add: logout_def deleteToken_def getToken_def lookup_token_def Let_def bindA_def zoomA_def caseA_def
      toDeleteCookies_def set_cookie_def)

theorem logout_hides_lookup_failure_witness:
  "let s = sample_state\<lparr>ts_tokens := (ts_tokens sample_state)\<lparr>faults := [Some Forbidden]\<rparr>\<rparr>;
       r = sample_request ''token-a:ka'' []
   in \<exists>s'. logout sample_manager r s = (Inr (), s') \<and> mem_find tk_Name (ts_tokens s') ''token-a'' \<noteq> None"
proof -
  let ?t = "(ts_tokens sample_state)\<lparr>faults := [Some Forbidden]\<rparr>"
  let ?s = "sample_state\<lparr>ts_tokens := ?t\<rparr>"
  let ?r = "sample_request ''token-a:ka'' []"
  have "GetTokenAuthFromRequest (ac_Request ?r) \<noteq> []" by code_simp
  moreover have "SplitTokenParts (GetTokenAuthFromRequest (ac_Request ?r)) = (''token-a'', ''ka'')" by code_simp
  moreover have "m_tokenIndexer sample_manager ''ka'' = Inr []" by (simp add: sample_manager_def)
  moreover have "cget (m_tokensClient sample_manager) ''token-a'' (ts_tokens ?s) = (Inl Forbidden, ?t\<lparr>faults := []\<rparr>)"
    by (simp add: sample_manager_def mem_client_def faultA_def)
  ultimately obtain s' where s': "logout sample_manager ?r ?s = (Inr (), s')" "ts_tokens s' = ?t\<lparr>faults := []\<rparr>"
    using logout_hides_lookup_failure [of ?r "''token-a''" "''ka''" sample_manager ?s] by blast
  have "mem_find tk_Name (ts_tokens s') ''token-a'' \<noteq> None"
    by (simp add: s'(2) mem_find_def sample_state_def sample_token_def)
  with s'(1) show ?thesis unfolding Let_def by blast
qed

section \<open>The purge daemon\<close>

text \<open>
  C29.  A purge run removes exactly the expired tokens: whatever the server answers, no token
  outside the expired ones of the cache disappears, and on a server that answers all of them
  are gone afterwards and the count is their number.
\<close>

theorem purge_exact:
  assumes "api_client tokens tk_Name view stored avail" and "purge (Inr ts) tokens now w = (Inr n, w')"
    and "\<forall>t \<in> set ts. view w (tk_Name t) \<noteq> None" and "distinct (map tk_Name ts)"
  shows "(\<forall>k. (\<forall>t \<in> set ts. IsExpired now t \<longrightarrow> tk_Name t \<noteq> k) \<longrightarrow> view w' k = view w k) \<and>
    (avail w \<longrightarrow> (\<forall>t \<in> set ts. IsExpired now t \<longrightarrow> view w' (tk_Name t) = None) \<and> n = length (filter (IsExpired now) ts))"
proof -
  let ?body = "\<lambda>token count. if IsExpired now token then
      caseA (cdelete tokens (tk_Name token)) (\<lambda>err. if \<not> clientbase_IsNotFound err then ret count else ret (count + 1))
        (\<lambda>_. ret (count + 1)) else ret count"
  have "(\<forall>k. (\<forall>t \<in> set ts. IsExpired now t \<longrightarrow> tk_Name t \<noteq> k) \<longrightarrow> view w' k = view w k) \<and>
    (avail w \<longrightarrow> avail w' \<and> (\<forall>t \<in> set ts. IsExpired now t \<longrightarrow> view w' (tk_Name t) = None) \<and>
       n = c0 + length (filter (IsExpired now) ts))"
    if "foldA ?body ts c0 w = (Inr n, w')" for c0 :: nat
    using that assms(3,4)
  proof (induction ts arbitrary: c0 w)
    case (Cons t ts)
    obtain c1 w1 where step: "?body t c0 w = (Inr c1, w1)" and rest: "foldA ?body ts c1 w1 = (Inr n, w')"
      using Cons.prems(1) by (auto split: prod.splits sum.splits)
    have "wp (?body t c0) (\<lambda>c1 w1. (\<forall>k. \<not> (IsExpired now t \<and> k = tk_Name t) \<longrightarrow> view w1 k = view w k) \<and>
        (avail w \<longrightarrow> avail w1 \<and> (IsExpired now t \<longrightarrow> view w1 (tk_Name t) = None) \<and> c1 = c0 + (if IsExpired now t then 1 else 0)))
        (\<lambda>_ _. True) w"
      unfolding wp_simps
      by (intro branchI api_client.wp_delete [OF assms(1)])
        (use Cons.prems(2) in \<open>auto simp: clientbase_IsNotFound_def\<close>)
    then have one: "\<And>k. \<not> (IsExpired now t \<and> k = tk_Name t) \<Longrightarrow> view w1 k = view w k"
      and av: "avail w \<Longrightarrow> avail w1 \<and> (IsExpired now t \<longrightarrow> view w1 (tk_Name t) = None) \<and> c1 = c0 + (if IsExpired now t then 1 else 0)"
      using step by (auto simp: wp_iff)
    have "\<forall>u \<in> set ts. view w1 (tk_Name u) \<noteq> None"
      using Cons.prems(2,3) one by (auto simp: image_iff)
    then have ih: "\<And>k. (\<forall>u \<in> set ts. IsExpired now u \<longrightarrow> tk_Name u \<noteq> k) \<Longrightarrow> view w' k = view w1 k"
      "avail w1 \<Longrightarrow> avail w' \<and> (\<forall>u \<in> set ts. IsExpired now u \<longrightarrow> view w' (tk_Name u) = None) \<and>
         n = c1 + length (filter (IsExpired now) ts)"
      using Cons.IH [OF rest] Cons.prems(3) by auto
    have keep: "view w' k = view w k" if "\<forall>u \<in> set (t # ts). IsExpired now u \<longrightarrow> tk_Name u \<noteq> k" for k
      using ih(1) [of k] one [of k] that by auto
    have "\<forall>u \<in> set ts. IsExpired now u \<longrightarrow> tk_Name u \<noteq> tk_Name t" using Cons.prems(3) by (auto simp: image_iff)
    then have "view w' (tk_Name t) = view w1 (tk_Name t)" by (rule ih(1))
    then show ?case using keep ih(2) av by auto
  qed simp
  from this [of 0] assms(2) show ?thesis by (simp add: purge_def)
qed


theorem purge_exact_witness:
  "let live = sample_token ''token-a'' ''ka'' ''u-1'';
       dead = (sample_token ''token-b'' ''kb'' ''u-1'')\<lparr>tk_TTLMillis := 1\<rparr>
   in \<exists>n w'. purge (Inr [live, dead]) (mem_client tk_Name (generate_token 0)) 2000000 \<lparr>objs = [live, dead], faults = []\<rparr> = (Inr n, w') \<and>
        n = 1 \<and> mem_find tk_Name w' ''token-a'' = Some live \<and> mem_find tk_Name w' ''token-b'' = None"
proof -
  let ?live = "sample_token ''token-a'' ''ka'' ''u-1''"
  let ?dead = "(sample_token ''token-b'' ''kb'' ''u-1'')\<lparr>tk_TTLMillis := 1\<rparr>"
  let ?w = "\<lparr>objs = [?live, ?dead], faults = []\<rparr> :: Token mem"
  have live: "\<not> IsExpired 2000000 ?live" and dead: "IsExpired 2000000 ?dead"
    and names: "tk_Name ?live = ''token-a''" "tk_Name ?dead = ''token-b''"
    by code_simp+
  have "\<exists>n w'. purge (Inr [?live, ?dead]) (mem_client tk_Name (generate_token 0)) 2000000 ?w = (Inr n, w')"
    by (simp add: purge_def live dead caseA_def mem_client_def faultA_def mem_find_def split: prod.splits)
  then obtain n w' where n: "purge (Inr [?live, ?dead]) (mem_client tk_Name (generate_token 0)) 2000000 ?w = (Inr n, w')"
    by blast
  have "\<forall>t \<in> set [?live, ?dead]. mem_find tk_Name ?w (tk_Name t) \<noteq> None" "distinct (map tk_Name [?live, ?dead])" "mem_avail ?w"
    by (simp_all add: mem_find_def sample_token_def mem_avail_def)
  from purge_exact [OF tk_mem.mem.api_client_axioms, OF n this(1,2)] this(3)
  have "mem_find tk_Name w' ''token-a'' = mem_find tk_Name ?w ''token-a''" "mem_find tk_Name w' ''token-b'' = None" "n = 1"
    using live dead names by simp_all
  moreover have "mem_find tk_Name ?w ''token-a'' = Some ?live" using names by (simp add: mem_find_def)
  ultimately show ?thesis using n unfolding Let_def by simp
qed

section \<open>Group membership\<close>

lemma elementwise_neq: "length xs \<noteq> length ys \<or> list_ex (\<lambda>i. xs ! i \<noteq> ys ! i) [0..<length xs] \<longleftrightarrow> xs \<noteq> ys"
  by (auto simp: list_ex_iff intro: nth_equalityI)

lemma sort_eq_iff_mset: "sort xs = sort ys \<longleftrightarrow> mset xs = mset ys"
proof
  assume "sort xs = sort ys"
  then have "mset (sort xs) = mset (sort ys)" by simp
  then show "mset xs = mset ys" by simp
next
  assume "mset xs = mset ys"
  then show "sort xs = sort ys" by (intro properties_for_sort [symmetric]) simp_all
qed

text \<open>
  \<^verbatim>\<open>UserAttributeChanged\<close> compares the groups of a provider as multisets of names: it
  reports a change exactly when the two lists are not permutations of each other.
\<close>

theorem UserAttributeChanged_iff:
  "UserAttributeChanged a provider gps \<longleftrightarrow>
     mset (map pr_Name (map_get (ua_GroupPrincipals a) provider [])) \<noteq> mset (map pr_Name gps)"
proof -
  let ?old = "map pr_Name (map_get (ua_GroupPrincipals a) provider [])" and ?new = "map pr_Name gps"
  have "UserAttributeChanged a provider gps \<longleftrightarrow> sort ?old \<noteq> sort ?new"
    unfolding UserAttributeChanged_def Let_def by (rule elementwise_neq)
  also have "\<dots> \<longleftrightarrow> mset ?old \<noteq> mset ?new"
    by (simp only: sort_eq_iff_mset)
  finally show ?thesis .
qed

text \<open>
  C39.  The groups of a first login are dropped: for a user without a stored attribute who
  belongs to at least one group, \<^verbatim>\<open>UserAttributeCreateOrUpdate\<close> reports success and leaves
  the store without the attribute.
\<close>

theorem first_login_groups_dropped:
  assumes "api_client (m_userAttributes m) ua_Name view stored avail" and "avail (ts_attributes s)"
    and "m_userAttributeLister m userID = Inl NotFound" and "view (ts_attributes s) userID = None"
    and "m_userLister m userID = Inr user" and "groups \<noteq> []"
  shows "\<exists>s'. UserAttributeCreateOrUpdate m userID provider groups s = (Inr (), s') \<and> view (ts_attributes s') userID = None"
proof -
  obtain w where w: "cget (m_userAttributes m) userID (ts_attributes s) = (Inl NotFound, w)" "view w = view (ts_attributes s)"
    using api_client.avail_get_missing [OF assms(1), OF assms(2,4)] by blast
  have "UserAttributeChanged (new_attribute userID user) provider groups"
    using assms(6) by (simp add: UserAttributeChanged_def new_attribute_def map_get_def)
  then show ?thesis
    using assms(3-5) w by (simp add: UserAttributeCreateOrUpdate_def EnsureAndGetUserAttribute_def bindA_def caseA_def zoomA_def)
qed

theorem first_login_groups_dropped_witness:
  "\<exists>s'. UserAttributeCreateOrUpdate sample_manager ''u-1'' ''github'' [emptyPrincipal\<lparr>pr_Name := ''github_team://7''\<rparr>] sample_state = (Inr (), s') \<and>
     mem_find ua_Name (ts_attributes s') ''u-1'' = None"
proof -
  have cl: "api_client (m_userAttributes sample_manager) ua_Name (mem_find ua_Name) (=) mem_avail"
    using ua_mem.mem.api_client_axioms by (simp add: sample_manager_def)
  have a: "mem_avail (ts_attributes sample_state)" and b: "mem_find ua_Name (ts_attributes sample_state) ''u-1'' = None"
    by (simp_all add: sample_state_def mem_avail_def mem_find_def)
  have c: "m_userAttributeLister sample_manager ''u-1'' = Inl NotFound"
    and d: "m_userLister sample_manager ''u-1'' = Inr (sample_user ''u-1'')"
    by (simp_all add: sample_manager_def)
  show ?thesis by (rule first_login_groups_dropped [OF cl, OF a c b d]) simp
qed


section \<open>Reading the token off a request\<close>

definition plain_char :: "char \<Rightarrow> bool" where
  "plain_char c \<longleftrightarrow> 32 < ord_of c \<and> ord_of c < 128"

lemma strip_id:
  assumes "\<forall>p \<in> set ps. s = [] \<or> hd s \<noteq> hd p"
  shows "strip ps s = s"
proof -
  have "find (\<lambda>p. p \<noteq> [] \<and> has_prefix s p) ps = None"
    using assms by (auto simp: find_None_iff has_prefix_def) (metis hd_take length_greater_0_conv take_eq_Nil)
  then show ?thesis by (simp add: strip.simps)
qed

lemma spaces_not_plain: "list_all (\<lambda>p. \<not> plain_char (hd p) \<and> \<not> plain_char (last p)) spaces"
  by code_simp

lemma spaces_nonempty: "list_all (\<lambda>p. p \<noteq> []) spaces"
  by code_simp

lemma trim_space_plain:
  assumes "s = [] \<or> plain_char (hd s) \<and> plain_char (last s)"
  shows "trim_space s = s"
proof -
  have "strip spaces s = s"
    using assms spaces_not_plain by (intro strip_id) (auto simp: list_all_iff)
  moreover have "strip (map rev spaces) (rev s) = rev s"
    using assms spaces_not_plain spaces_nonempty by (intro strip_id) (auto simp: list_all_iff hd_rev)
  ultimately show ?thesis by (simp add: trim_space_def)
qed

lemma b64_alphabet_plain: "list_all plain_char (CHR ''='' # b64_alphabet)"
  by code_simp

lemma b64_plain_plain: "b64_plain c \<Longrightarrow> plain_char c"
proof -
  assume "b64_plain c"
  then consider "c = CHR ''=''" | "length (takeWhile (\<lambda>x. x \<noteq> c) b64_alphabet) < 64"
    by (auto simp: b64_plain_def b64_val_def Let_def split: if_splits)
  then have "c \<in> set (CHR ''='' # b64_alphabet)"
  proof cases
    case 2
    have "length b64_alphabet = 64" by (simp add: b64_alphabet_def)
    with 2 have "takeWhile (\<lambda>x. x \<noteq> c) b64_alphabet \<noteq> b64_alphabet" by (metis less_irrefl)
    then show ?thesis by (auto simp: takeWhile_eq_all_conv)
  qed simp
  then show ?thesis using b64_alphabet_plain by (auto simp: list_all_iff)
qed

lemma b64_encode_ends: "s \<noteq> [] \<Longrightarrow> b64_encode s \<noteq> [] \<and> plain_char (hd (b64_encode s)) \<and> plain_char (last (b64_encode s))"
proof -
  assume "s \<noteq> []"
  then have "b64_encode s \<noteq> []" by (cases s rule: b64_encode.cases) simp_all
  then show ?thesis using b64_encode_plain [of s] b64_plain_plain by (simp add: list_all_iff)
qed

text \<open>
  C31.  The authentication value survives the transport: what a client puts into a bearer
  header, base64-encodes into a basic header, or has as its session cookie is the value the
  server reads.
\<close>

theorem GetTokenAuthFromRequest_roundtrip:
  assumes "v \<noteq> []" and "plain_char (hd v)" and "plain_char (last v)"
  shows "(header_get (rq_Header req) AuthHeaderName = ''Bearer '' @ v \<longrightarrow> GetTokenAuthFromRequest req = v) \<and>
    (header_get (rq_Header req) AuthHeaderName = ''Basic '' @ b64_encode v \<longrightarrow> GetTokenAuthFromRequest req = v) \<and>
    (header_get (rq_Header req) AuthHeaderName = [] \<longrightarrow> map_of (rq_Cookies req) CookieName = Some v \<longrightarrow>
      GetTokenAuthFromRequest req = v)"
proof -
  have plainB: "plain_char (CHR ''B'')" by code_simp
  have words: "equal_fold ''Bearer'' ''Bearer''" "\<not> equal_fold ''Basic'' ''Bearer''" "equal_fold ''Basic'' ''Basic''"
    by code_simp+
  have tv: "trim_space v = v" using assms by (intro trim_space_plain) simp
  have bearer: "trim_space (''Bearer '' @ v) = ''Bearer '' @ v"
    using assms plainB by (intro trim_space_plain) simp
  have 1: "GetTokenAuthFromRequest req = v" if "header_get (rq_Header req) AuthHeaderName = ''Bearer '' @ v"
    using that bearer words(1) tv
    by (simp add: GetTokenAuthFromRequest_def split_n2_def AuthValuePrefix_def)
  note enc = b64_encode_ends [OF assms(1)]
  have te: "trim_space (b64_encode v) = b64_encode v" using enc by (intro trim_space_plain) simp
  have basic: "trim_space (''Basic '' @ b64_encode v) = ''Basic '' @ b64_encode v"
    using enc plainB by (intro trim_space_plain) simp
  have 2: "GetTokenAuthFromRequest req = v" if "header_get (rq_Header req) AuthHeaderName = ''Basic '' @ b64_encode v"
    using that basic words(2,3) te
    by (simp add: GetTokenAuthFromRequest_def split_n2_def AuthValuePrefix_def BasicAuthPrefix_def)
  have "trim_space [] = []" by (rule trim_space_plain) simp
  then have "GetTokenAuthFromRequest req = v"
    if "header_get (rq_Header req) AuthHeaderName = []" "map_of (rq_Cookies req) CookieName = Some v"
    using that by (simp add: GetTokenAuthFromRequest_def)
  with 1 2 show ?thesis by blast
qed

theorem GetTokenAuthFromRequest_roundtrip_witness:
  "GetTokenAuthFromRequest \<lparr>rq_Header = [(''Authorization'', [''Basic '' @ b64_encode ''token-a:ka''])], rq_Cookies = [],
     rq_Scheme = ''https'', rq_Path = ''/v3''\<rparr> = ''token-a:ka''"
proof -
  have "plain_char (hd ''token-a:ka'')" "plain_char (last ''token-a:ka'')" by code_simp+
  from GetTokenAuthFromRequest_roundtrip [OF _ this, of "\<lparr>rq_Header = [(''Authorization'', [''Basic '' @ b64_encode ''token-a:ka''])],
      rq_Cookies = [], rq_Scheme = ''https'', rq_Path = ''/v3''\<rparr>"]
  show ?thesis by (simp add: header_get_def AuthHeaderName_def del: b64_encode.simps)
qed

section \<open>Provider secrets\<close>

text \<open>
  A provider's access token is stored and read back: once the cache has caught up with
  a successful \<^verbatim>\<open>CreateSecret\<close>, \<^verbatim>\<open>GetSecret\<close> returns what was stored for that provider,
  whatever the fallback tokens hold, and the secrets of the user's other providers are kept.
\<close>

theorem CreateSecret_roundtrip:
  assumes "api_client (m_secrets m) secret_id view (=) avail" and "secret \<noteq> []"
    and "\<forall>k x. m_secretLister m k = Inr x \<longrightarrow> secret_id x = k"
    and "CreateSecret m userID provider secret s = (Inr (), s')"
    and "\<forall>k. lister' k = (case view (ts_secrets s') k of Some x \<Rightarrow> Inr x | None \<Rightarrow> Inl NotFound)"
  shows "GetSecret lister' userID provider fallback = Inr secret \<and>
    (\<forall>x other. m_secretLister m (secret_key userID) = Inr x \<longrightarrow> other \<noteq> provider \<longrightarrow> map_get (se_Data x) other [] \<noteq> [] \<longrightarrow>
       GetSecret lister' userID other fallback = Inr (map_get (se_Data x) other []))"
proof -
  let ?P = "\<lambda>s'. \<exists>y. view (ts_secrets s') (secret_key userID) = Some y \<and> map_get (se_Data y) provider [] = secret \<and>
    (\<forall>x other. m_secretLister m (secret_key userID) = Inr x \<longrightarrow> other \<noteq> provider \<longrightarrow> map_get (se_Data y) other [] = map_get (se_Data x) other [])"
  have sid: "secret_id x = secret_key userID" if "m_secretLister m (secret_key userID) = Inr x" for x
    using assms(3) that by blast
  have data: "secret_id (x\<lparr>se_Data := d\<rparr>) = secret_id x"
    "secret_id \<lparr>se_Namespace = secretNamespace, se_Name = userID @ secretNameEnding, se_Data = d\<rparr> = secret_key userID"
    "map_get (map_put provider secret d') provider [] = secret" "map_get [(provider, secret)] provider [] = secret"
    "other \<noteq> provider \<Longrightarrow> map_get (map_put provider secret d') other [] = map_get d' other []" for x d d' other
    by (simp_all add: secret_id_def secret_key_def map_get_def)
  have "wp (CreateSecret m userID provider secret) (\<lambda>_. ?P) (\<lambda>_ _. True) s"
    unfolding CreateSecret_def UpdateSecret_def wp_simps
    by (intro branchI api_client.wp_create [OF assms(1)] api_client.wp_update [OF assms(1)])
      (simp_all add: sid data, (hypsubst, simp add: sid data)+)
  then have "?P s'" using assms(4) by (simp add: wp_iff)
  then obtain y where y: "view (ts_secrets s') (secret_key userID) = Some y" "map_get (se_Data y) provider [] = secret"
      "\<And>x other. m_secretLister m (secret_key userID) = Inr x \<Longrightarrow> other \<noteq> provider \<Longrightarrow> map_get (se_Data y) other [] = map_get (se_Data x) other []"
    by blast
  have "lister' (secret_key userID) = Inr y" using assms(5) [rule_format, of "secret_key userID"] y(1) by simp
  then have get: "GetSecret lister' userID p fallback = Inr (map_get (se_Data y) p [])" if "map_get (se_Data y) p [] \<noteq> []" for p
    using that by (simp add: GetSecret_def Let_def)
  have "GetSecret lister' userID provider fallback = Inr secret" using get [of provider] y(2) assms(2) by simp
  moreover have "GetSecret lister' userID other fallback = Inr (map_get (se_Data x) other [])"
    if "m_secretLister m (secret_key userID) = Inr x" "other \<noteq> provider" "map_get (se_Data x) other [] \<noteq> []" for x other
    using get [of other] y(3) [OF that(1,2)] that(3) by simp
  ultimately show ?thesis by blast
qed

theorem CreateSecret_roundtrip_witness:
  "\<exists>s'. CreateSecret sample_manager ''u-1'' ''github'' ''secret'' sample_state = (Inr (), s') \<and>
     GetSecret (\<lambda>k. case mem_find secret_id (ts_secrets s') k of Some x \<Rightarrow> Inr x | None \<Rightarrow> Inl NotFound) ''u-1'' ''github'' [] = Inr ''secret''"
proof -
  have cl: "api_client (m_secrets sample_manager) secret_id (mem_find secret_id) (=) mem_avail"
    using se_mem.mem.api_client_axioms by (simp add: sample_manager_def)
  let ?c = "CreateSecret sample_manager ''u-1'' ''github'' ''secret'' sample_state"
  have "fst ?c = Inr ()" by code_simp
  then obtain s' where s': "?c = (Inr (), s')" by (cases ?c) auto
  have lister: "\<forall>k x. m_secretLister sample_manager k = Inr x \<longrightarrow> secret_id x = k" by (simp add: sample_manager_def)
  have "GetSecret (\<lambda>k. case mem_find secret_id (ts_secrets s') k of Some x \<Rightarrow> Inr x | None \<Rightarrow> Inl NotFound) ''u-1'' ''github'' [] = Inr ''secret''"
    using CreateSecret_roundtrip [OF cl _ lister s', of "\<lambda>k. case mem_find secret_id (ts_secrets s') k of Some x \<Rightarrow> Inr x | None \<Rightarrow> Inl NotFound" "[]"]
    by simp
  with s' show ?thesis by blast
qed

end
