(* ===== verification/Authenticate.thy ===== *)
theory Authenticate
  imports TokenFacts
begin

text \<open>
  Authentication of API requests: \<^verbatim>\<open>src/pkg/auth/requests\<close> (\<^verbatim>\<open>authenticate.go\<close>,
  \<^verbatim>\<open>filter.go\<close>, \<^verbatim>\<open>sar/sar.go\<close>) and \<^verbatim>\<open>GetClusterID\<close> of
  \<^verbatim>\<open>src/pkg/clusterrouter/lookup.go\<close>.

  The subject access reviews of the clusters' API servers are a parameter: \<open>review\<close> answers
  whether a user may impersonate a user or a group.  A map of group principals is ranged
  over in the order in which it is listed.
\<close>

section \<open>The authenticator\<close>

definition GetClusterID :: "Request \<Rightarrow> string" where
  "GetClusterID req =
     (let clusterID = header_get (rq_Header req) ''X-Api-Cluster-Id'' in
      if clusterID \<noteq> [] then clusterID
      else
        (let parts = str_split (rq_Path req) ''/'' in
         if length parts > 3 \<and> has_prefix (parts ! 2) ''cluster'' then parts ! 3 else []))"

record 'w tokenAuthenticator =
  a_tokenIndexer :: "string \<Rightarrow> Token list result"
  a_tokenClient :: "('w, string, Token) client"
  a_userAttributeLister :: "string \<Rightarrow> UserAttribute result"
  a_userLister :: "string \<Rightarrow> User result"
  a_now :: int

definition must_authenticate :: error where
  "must_authenticate = Err ''must authenticate''"

definition TokenFromRequest :: "'w tokenAuthenticator \<Rightarrow> Request \<Rightarrow> ('w, Token) act" where
  "TokenFromRequest a req =
     (let tokenAuthValue = GetTokenAuthFromRequest req in
      if tokenAuthValue = [] then raise must_authenticate
      else case SplitTokenParts tokenAuthValue of (tokenName, tokenKey) \<Rightarrow>
        if tokenName = [] \<or> tokenKey = [] then raise must_authenticate
        else
          bindA (lookup_token (a_tokenClient a) (a_tokenIndexer a) tokenName tokenKey
              (\<lambda>e. Err ''failed to retrieve auth token from cache'')
              (\<lambda>e. if IsNotFound e then must_authenticate else Err ''failed to retrieve auth token'')) (\<lambda>r.
          case r of
            Inl err \<Rightarrow> raise err
          | Inr storedToken \<Rightarrow>
              if tk_Token storedToken \<noteq> tokenKey \<or> tk_Name storedToken \<noteq> tokenName then raise must_authenticate
              else if IsExpired (a_now a) storedToken then raise must_authenticate
              else ret storedToken))"

definition AllAuthenticated :: string where
  "AllAuthenticated = ''system:authenticated''"

definition group_names :: "Principal list \<Rightarrow> string list" where
  "group_names gps = map (\<lambda>principal. trim_prefix (pr_Name principal) ''local://'') gps"

definition Authenticate :: "'w tokenAuthenticator \<Rightarrow> Request \<Rightarrow> ('w, string \<times> string list) act" where
  "Authenticate a req =
     bindA (TokenFromRequest a req) (\<lambda>token.
     if tk_Enabled token = Some False then raise (Err ''user's token is not enabled'')
     else if tk_ClusterName token \<noteq> [] \<and> tk_ClusterName token \<noteq> GetClusterID req then raise (Err ''clusterID does not match'')
     else
       bindA (liftR (case a_userAttributeLister a (tk_UserID token) of
            Inl err \<Rightarrow> if \<not> IsNotFound err then Inl err else Inr None
          | Inr attribs \<Rightarrow> Inr (Some attribs))) (\<lambda>attribs.
       bindA (liftR (a_userLister a (tk_UserID token))) (\<lambda>u.
       if us_Enabled u = Some False then raise (Err ''user is not enabled'')
       else
         let gps = (case attribs of None \<Rightarrow> [] | Some at \<Rightarrow> ua_GroupPrincipals at);
             hitProvider = list_ex (\<lambda>(provider, _). provider = tk_AuthProvider token) gps;
             groups = concat (map (\<lambda>(_, items). group_names items) gps);
             groups = (if hitProvider then groups else groups @ group_names (tk_GroupPrincipals token))
         in ret (tk_UserID token, groups @ [AllAuthenticated]))))"

section \<open>Subject access reviews\<close>

text \<open>\<open>userContext\<close> is \<^verbatim>\<open>clusterManager.UserContext\<close>: the reviews of a cluster, or an error.\<close>

type_synonym review = "string \<Rightarrow> string \<Rightarrow> string \<Rightarrow> bool result"

definition UserCanImpersonateUser ::
    "(string \<Rightarrow> review result) \<Rightarrow> Request \<Rightarrow> string \<Rightarrow> string \<Rightarrow> bool result" where
  "UserCanImpersonateUser userContext req user impUser =
     (case userContext (GetClusterID req) of
        Inl err \<Rightarrow> Inl err
      | Inr review \<Rightarrow> review user ''users'' impUser)"

fun checkUserCanImpersonateGroup :: "review \<Rightarrow> string \<Rightarrow> string list \<Rightarrow> bool result" where
  "checkUserCanImpersonateGroup review user [] = Inr True"
| "checkUserCanImpersonateGroup review user (g # gs) =
     (case review user ''groups'' g of
        Inl err \<Rightarrow> Inl err
      | Inr allowed \<Rightarrow> if \<not> allowed then Inr False else checkUserCanImpersonateGroup review user gs)"

definition UserCanImpersonateGroups ::
    "(string \<Rightarrow> review result) \<Rightarrow> Request \<Rightarrow> string \<Rightarrow> string list \<Rightarrow> bool result" where
  "UserCanImpersonateGroups userContext req user groups =
     (case userContext (GetClusterID req) of
        Inl err \<Rightarrow> Inl err
      | Inr review \<Rightarrow> checkUserCanImpersonateGroup review user groups)"

section \<open>The authentication filter\<close>

record AuditUser =
  au_Name :: string
  au_Group :: "string list"
  au_RequestUser :: string
  au_RequestGroups :: "string list"

datatype outcome = Rejected int | Forwarded header AuditUser

text \<open>The slices are sorted in place, so the header and the caller's groups are sorted too.\<close>

definition groupsEqual :: "string list \<Rightarrow> string list \<Rightarrow> bool \<times> string list \<times> string list" where
  "groupsEqual group1 group2 =
     (if length group1 \<noteq> length group2 then (False, group1, group2)
      else (sort group1 = sort group2, sort group1, sort group2))"

definition impersonated_user ::
    "(string \<Rightarrow> review result) option \<Rightarrow> Request \<Rightarrow> string \<Rightarrow> string \<Rightarrow> bool result" where
  "impersonated_user sar req user reqUser =
     (case sar of
        None \<Rightarrow> Inr False
      | Some userContext \<Rightarrow>
          if reqUser \<noteq> [] \<and> reqUser \<noteq> user then
            (case UserCanImpersonateUser userContext req user reqUser of
               Inl err \<Rightarrow> Inl err
             | Inr canDo \<Rightarrow> if canDo then Inr True else Inl (Err ''not allowed to impersonate''))
          else Inr False)"

definition impersonated_groups ::
    "(string \<Rightarrow> review result) option \<Rightarrow> Request \<Rightarrow> string \<Rightarrow> string list \<Rightarrow> string list \<Rightarrow>
     (bool \<times> string list \<times> string list) result" where
  "impersonated_groups sar req user reqGroup groups =
     (case sar of
        None \<Rightarrow> Inr (False, reqGroup, groups)
      | Some userContext \<Rightarrow>
          if reqGroup \<noteq> [] then
            (case groupsEqual reqGroup groups of (eq, reqGroup, groups) \<Rightarrow>
               if eq then Inr (False, reqGroup, groups)
               else
                 (case UserCanImpersonateGroups userContext req user reqGroup of
                    Inl err \<Rightarrow> Inl err
                  | Inr canDo \<Rightarrow> if canDo then Inr (True, reqGroup, groups) else Inl (Err ''not allowed to impersonate'')))
          else Inr (False, reqGroup, groups))"

definition filter_headers ::
    "bool \<Rightarrow> bool \<Rightarrow> string \<Rightarrow> string list \<Rightarrow> header \<Rightarrow> header" where
  "filter_headers impersonateUser impersonateGroup user groups h =
     (if \<not> impersonateUser \<and> \<not> impersonateGroup then
        fold (header_add ''Impersonate-Group'') groups
          (header_del ''Impersonate-Group'' (header_set ''Impersonate-User'' user h))
      else if impersonateUser \<and> \<not> impersonateGroup then header_set ''Impersonate-Group'' AllAuthenticated h
      else if \<not> impersonateUser \<and> impersonateGroup then
        header_add ''Impersonate-Group'' AllAuthenticated (header_del ''Impersonate-User'' h)
      else h)"

text \<open>
  \<^verbatim>\<open>ServeHTTP\<close> up to the call of the next handler: the answer 401, or the headers the next
  handler sees and what the audit log records.  The refresh of the user's group membership
  that it starts in the background is modelled apart.
\<close>

definition ServeHTTP ::
    "'w tokenAuthenticator \<Rightarrow> (string \<Rightarrow> review result) option \<Rightarrow> Request \<Rightarrow> ('w, outcome) act" where
  "ServeHTTP a sar req =
     caseA (Authenticate a req) (\<lambda>_. ret (Rejected 401)) (\<lambda>(user, groups).
       let h = rq_Header req;
           reqUser = header_get h ''Impersonate-User'';
           reqGroup = map_get h ''Impersonate-Group'' []
       in case impersonated_user sar req user reqUser of
            Inl err \<Rightarrow> ret (Rejected 401)
          | Inr impersonateUser \<Rightarrow>
              (case impersonated_groups sar req user reqGroup groups of
                 Inl err \<Rightarrow> ret (Rejected 401)
               | Inr (impersonateGroup, reqGroup', groups') \<Rightarrow>
                   let h' = (if map_has h ''Impersonate-Group'' then map_put ''Impersonate-Group'' reqGroup' h else h)
                   in ret (Forwarded (filter_headers impersonateUser impersonateGroup user groups' h')
                        \<lparr>au_Name = user, au_Group = groups', au_RequestUser = reqUser, au_RequestGroups = reqGroup'\<rparr>)))"

section \<open>Properties\<close>

lemma wp_TokenFromRequest:
  assumes "api_client (a_tokenClient a) tk_Name view stored avail"
    and "\<And>t w'. view w' = view w \<Longrightarrow> (avail w \<Longrightarrow> avail w') \<Longrightarrow>
      GetTokenAuthFromRequest req = tk_Name t @ CHR '':'' # tk_Token t \<Longrightarrow> tk_Name t \<noteq> [] \<Longrightarrow> tk_Token t \<noteq> [] \<Longrightarrow>
      \<not> IsExpired (a_now a) t \<Longrightarrow>
      (\<exists>ts. a_tokenIndexer a (tk_Token t) = Inr ts \<and> t \<in> set ts) \<or> view w (tk_Name t) = Some t \<Longrightarrow> Q t w'"
    and "\<And>e w'. view w' = view w \<Longrightarrow> E e w'"
  shows "wp (TokenFromRequest a req) Q E w"
  unfolding TokenFromRequest_def lookup_token_def Let_def wp_simps
  by (intro branchI api_client.wp_get [OF assms(1)])
    (auto intro!: assms(2,3) simp: sum.case_eq_if dest: SplitTokenParts_key)

text \<open>
  C2.  Authentication is sound: whatever the server and the caches answer, a request is
  accepted as a user only if it carries the name and the key of an unexpired, enabled token of
  that user which is valid for the cluster the request addresses, and the user exists and is
  enabled.  The groups are the user's recorded groups, with the token's own ones only if its
  provider has none recorded, and the group of authenticated users.
\<close>

theorem Authenticate_sound:
  assumes "api_client (a_tokenClient a) tk_Name view stored avail" and "Authenticate a req w = (Inr (user, groups), w')"
  shows "\<exists>t u gps. GetTokenAuthFromRequest req = tk_Name t @ CHR '':'' # tk_Token t \<and> tk_Token t \<noteq> [] \<and>
    ((\<exists>ts. a_tokenIndexer a (tk_Token t) = Inr ts \<and> t \<in> set ts) \<or> view w (tk_Name t) = Some t) \<and>
    \<not> IsExpired (a_now a) t \<and> tk_Enabled t \<noteq> Some False \<and> (tk_ClusterName t = [] \<or> tk_ClusterName t = GetClusterID req) \<and>
    tk_UserID t = user \<and> a_userLister a user = Inr u \<and> us_Enabled u \<noteq> Some False \<and>
    (a_userAttributeLister a user = Inl NotFound \<and> gps = [] \<or> (\<exists>x. a_userAttributeLister a user = Inr x \<and> gps = ua_GroupPrincipals x)) \<and>
    set groups = insert AllAuthenticated (\<Union>(p, items) \<in> set gps. set (group_names items)) \<union>
      (if tk_AuthProvider t \<in> fst ` set gps then {} else set (group_names (tk_GroupPrincipals t)))"
proof -
  let ?P = "\<lambda>user groups. \<exists>t u gps. GetTokenAuthFromRequest req = tk_Name t @ CHR '':'' # tk_Token t \<and> tk_Token t \<noteq> [] \<and>
    ((\<exists>ts. a_tokenIndexer a (tk_Token t) = Inr ts \<and> t \<in> set ts) \<or> view w (tk_Name t) = Some t) \<and>
    \<not> IsExpired (a_now a) t \<and> tk_Enabled t \<noteq> Some False \<and> (tk_ClusterName t = [] \<or> tk_ClusterName t = GetClusterID req) \<and>
    tk_UserID t = user \<and> a_userLister a user = Inr u \<and> us_Enabled u \<noteq> Some False \<and>
    (a_userAttributeLister a user = Inl NotFound \<and> gps = [] \<or> (\<exists>x. a_userAttributeLister a user = Inr x \<and> gps = ua_GroupPrincipals x)) \<and>
    set groups = insert AllAuthenticated (\<Union>(p, items) \<in> set gps. set (group_names items)) \<union>
      (if tk_AuthProvider t \<in> fst ` set gps then {} else set (group_names (tk_GroupPrincipals t)))"
  have hit: "list_ex (\<lambda>(provider, _). provider = p) gps \<longleftrightarrow> p \<in> fst ` set gps" for p and gps :: "(string, Principal list) gomap"
    by (force simp: list_ex_iff)
  have "wp (Authenticate a req) (\<lambda>(user, groups) _. ?P user groups) (\<lambda>_ _. True) w"
    unfolding Authenticate_def Let_def wp_simps
    apply (rule wp_TokenFromRequest [OF assms(1)])
     apply (simp_all only: wp_simps)
    apply (intro branchI TrueI)
    apply (simp_all only: prod.case)
    subgoal for t w1 attribs u
      apply (rule exI [of _ t], rule exI [of _ u], rule exI [of _ "case attribs of None \<Rightarrow> [] | Some at \<Rightarrow> ua_GroupPrincipals at"])
      apply (auto simp: hit IsNotFound_def split: sum.splits if_splits option.splits)
      done
    done
  with assms(2) show ?thesis by (simp add: wp_iff)
qed

lemma impersonated_userD:
  "impersonated_user sar req user reqUser = Inr True \<Longrightarrow> \<exists>ctx. sar = Some ctx \<and> UserCanImpersonateUser ctx req user reqUser = Inr True"
  by (auto simp: impersonated_user_def split: option.splits if_splits sum.splits)

lemma impersonated_groupsD:
  assumes "impersonated_groups sar req user reqGroup groups = Inr (b, rg, gs)"
  shows "b \<Longrightarrow> \<exists>ctx. sar = Some ctx \<and> UserCanImpersonateGroups ctx req user rg = Inr True"
    and "mset gs = mset groups" and "mset rg = mset reqGroup"
  using assms by (auto simp: impersonated_groups_def groupsEqual_def sort_eq_iff_mset split: option.splits if_splits sum.splits prod.splits)

definition group_header :: "header \<Rightarrow> string list \<Rightarrow> header" where
  "group_header h rg = (if map_has h ''Impersonate-Group'' then map_put ''Impersonate-Group'' rg h else h)"

lemma group_header_facts:
  "mset rg = mset (map_get h ''Impersonate-Group'' []) \<Longrightarrow> map_get (group_header h rg) ''Impersonate-Group'' [] = rg"
  "header_get (group_header h rg) ''Impersonate-User'' = header_get h ''Impersonate-User''"
  by (auto simp: group_header_def map_get_def map_has_def header_get_def split: option.splits)

lemma filter_headers_cases:
  "header_get (filter_headers False False user groups h) ''Impersonate-User'' = user"
  "map_get (filter_headers False False user groups h) ''Impersonate-Group'' [] = groups"
  "header_get (filter_headers True b user groups h) ''Impersonate-User'' = header_get h ''Impersonate-User''"
  "map_get (filter_headers True False user groups h) ''Impersonate-Group'' [] = [AllAuthenticated]"
  "map_of (filter_headers False True user groups h) ''Impersonate-User'' = None"
  "map_get (filter_headers False True user groups h) ''Impersonate-Group'' [] = map_get h ''Impersonate-Group'' [] @ [AllAuthenticated]"
  "filter_headers True True user groups h = h"
  by (simp_all add: filter_headers_def header_get_def fold_header_add header_del_def header_set_def)
    (simp_all add: header_add_def map_get_def)

text \<open>
  C3.  The filter never lets a request through under an identity its sender may not use: the
  user and groups the next handler sees are those of the token, or the user was approved by an
  access review (with approved groups, or none but the authenticated users'), or there is no
  user and the groups were approved.
\<close>

theorem ServeHTTP_no_escalation:
  assumes "ServeHTTP a sar req w = (Inr (Forwarded h audit), w')"
  shows "\<exists>user groups w1. Authenticate a req w = (Inr (user, groups), w1) \<and> au_Name audit = user \<and>
    (header_get h ''Impersonate-User'' = user \<and> mset (map_get h ''Impersonate-Group'' []) = mset groups \<or>
     (\<exists>ctx. sar = Some ctx \<and> UserCanImpersonateUser ctx req user (header_get h ''Impersonate-User'') = Inr True \<and>
        (map_get h ''Impersonate-Group'' [] = [AllAuthenticated] \<or>
         UserCanImpersonateGroups ctx req user (map_get h ''Impersonate-Group'' []) = Inr True)) \<or>
     (\<exists>ctx gs. sar = Some ctx \<and> map_of h ''Impersonate-User'' = None \<and> map_get h ''Impersonate-Group'' [] = gs @ [AllAuthenticated] \<and>
        UserCanImpersonateGroups ctx req user gs = Inr True))"
proof -
  obtain user groups w1 where auth: "Authenticate a req w = (Inr (user, groups), w1)"
    using assms by (cases "Authenticate a req w"; cases "fst (Authenticate a req w)") (auto simp: ServeHTTP_def caseA_def)
  let ?h = "rq_Header req"
  let ?ru = "header_get ?h ''Impersonate-User''" and ?rg = "map_get ?h ''Impersonate-Group'' []"
  obtain iu where iu: "impersonated_user sar req user ?ru = Inr iu"
    using assms auth by (cases "impersonated_user sar req user ?ru") (auto simp: ServeHTTP_def caseA_def Let_def)
  obtain ig rg gs where ig: "impersonated_groups sar req user ?rg groups = Inr (ig, rg, gs)"
    using assms auth iu by (cases "impersonated_groups sar req user ?rg groups") (auto simp: ServeHTTP_def caseA_def Let_def)
  have h: "h = filter_headers iu ig user gs (group_header ?h rg)" and au: "au_Name audit = user"
    using assms auth iu ig by (auto simp: ServeHTTP_def caseA_def Let_def group_header_def)
  note facts = impersonated_groupsD(2) [OF ig] group_header_facts(1) [OF impersonated_groupsD(3) [OF ig]] filter_headers_cases group_header_facts(2)
  have user: "iu \<Longrightarrow> \<exists>ctx. sar = Some ctx \<and> UserCanImpersonateUser ctx req user ?ru = Inr True"
    using iu by (cases iu) (auto dest: impersonated_userD)
  note grp = impersonated_groupsD(1) [OF ig]
  show ?thesis
  proof (intro exI conjI, rule auth, rule au)
    show "header_get h ''Impersonate-User'' = user \<and> mset (map_get h ''Impersonate-Group'' []) = mset groups \<or>
     (\<exists>ctx. sar = Some ctx \<and> UserCanImpersonateUser ctx req user (header_get h ''Impersonate-User'') = Inr True \<and>
        (map_get h ''Impersonate-Group'' [] = [AllAuthenticated] \<or>
         UserCanImpersonateGroups ctx req user (map_get h ''Impersonate-Group'' []) = Inr True)) \<or>
     (\<exists>ctx gs. sar = Some ctx \<and> map_of h ''Impersonate-User'' = None \<and> map_get h ''Impersonate-Group'' [] = gs @ [AllAuthenticated] \<and>
        UserCanImpersonateGroups ctx req user gs = Inr True)"
      using user grp by (cases iu; cases ig) (auto simp: h facts)
  qed
qed



section \<open>Instances\<close>

definition sample_authenticator :: "Token mem tokenAuthenticator" where
  "sample_authenticator =
     \<lparr>a_tokenIndexer = (\<lambda>_. Inr []), a_tokenClient = mem_client tk_Name (generate_token 0),
      a_userAttributeLister = (\<lambda>_. Inl NotFound), a_userLister = (\<lambda>u. Inr (sample_user u)), a_now = 1000\<rparr>"

lemma sample_authenticator_client: "api_client (a_tokenClient sample_authenticator) tk_Name (mem_find tk_Name) token_stored mem_avail"
  using tk_mem.mem.api_client_axioms by (simp add: sample_authenticator_def)

lemma sample_authenticates:
  "fst (Authenticate sample_authenticator (ac_Request (sample_request ''token-a:ka'' [])) (ts_tokens sample_state)) =
     Inr (''u-1'', [''system:authenticated''])"
  by code_simp

theorem Authenticate_sound_witness:
  "\<exists>w'. Authenticate sample_authenticator (ac_Request (sample_request ''token-a:ka'' [])) (ts_tokens sample_state) =
       (Inr (''u-1'', [''system:authenticated'']), w') \<and>
     (\<exists>t. tk_UserID t = ''u-1'' \<and> \<not> IsExpired (a_now sample_authenticator) t \<and> tk_Enabled t \<noteq> Some False)"
proof -
  let ?r = "ac_Request (sample_request ''token-a:ka'' [])"
  obtain w' where w': "Authenticate sample_authenticator ?r (ts_tokens sample_state) = (Inr (''u-1'', [''system:authenticated'']), w')"
    using sample_authenticates by (cases "Authenticate sample_authenticator ?r (ts_tokens sample_state)") simp
  from Authenticate_sound [OF sample_authenticator_client w']
  have "\<exists>t. tk_UserID t = ''u-1'' \<and> \<not> IsExpired (a_now sample_authenticator) t \<and> tk_Enabled t \<noteq> Some False"
    by (elim exE conjE) (intro exI conjI)
  with w' show ?thesis by blast
qed

theorem ServeHTTP_no_escalation_witness:
  "let req = \<lparr>rq_Header = [(''Authorization'', [''Bearer token-a:ka'']), (''Impersonate-User'', [''u-2''])], rq_Cookies = [],
       rq_Scheme = ''https'', rq_Path = ''/v3''\<rparr>;
     sar = Some (\<lambda>_. Inr (\<lambda>user resource name. Inr (user = ''u-1'' \<and> resource = ''users'' \<and> name = ''u-2'')))
   in \<exists>h audit w'. ServeHTTP sample_authenticator sar req (ts_tokens sample_state) = (Inr (Forwarded h audit), w') \<and> au_Name audit = ''u-1''"
proof -
  let ?req = "\<lparr>rq_Header = [(''Authorization'', [''Bearer token-a:ka'']), (''Impersonate-User'', [''u-2''])], rq_Cookies = [],
       rq_Scheme = ''https'', rq_Path = ''/v3''\<rparr>"
  let ?sar = "Some (\<lambda>_. Inr (\<lambda>user resource name. Inr (user = ''u-1'' \<and> resource = ''users'' \<and> name = ''u-2'')))"
  let ?out = "ServeHTTP sample_authenticator ?sar ?req (ts_tokens sample_state)"
  have "case fst ?out of Inr (Forwarded h audit) \<Rightarrow> True | _ \<Rightarrow> False" by code_simp
  then obtain h audit w' where out: "?out = (Inr (Forwarded h audit), w')"
    by (cases ?out) (auto split: sum.splits outcome.splits)
  have user: "map_sum id fst (fst (Authenticate sample_authenticator ?req (ts_tokens sample_state))) = Inr ''u-1''" by code_simp
  obtain user groups w1 where "Authenticate sample_authenticator ?req (ts_tokens sample_state) = (Inr (user, groups), w1)" "au_Name audit = user"
    using ServeHTTP_no_escalation [OF out] by blast
  with user have "au_Name audit = ''u-1''" by simp
  with out show ?thesis unfolding Let_def by blast
qed

end
