(* ===== verification/ProviderRefresh.thy ===== *)
theory ProviderRefresh
  imports TokenFacts
begin

text \<open>
  The refresh of a user's group membership with the authentication providers:
  \<^verbatim>\<open>src/pkg/auth/providerrefresh\<close> and the handler of
  \<^verbatim>\<open>src/pkg/controllers/management/auth/user_attribute_handler.go\<close>.

  The providers talk to external services and are parameters.  The parsing of the maximum age
  from its setting and the cron schedule are not modelled; the age comes in parsed.
\<close>

section \<open>Refreshing\<close>

record providers =
  pv_Names :: "string list"
  pv_WithSecrets :: "string \<Rightarrow> bool"
  pv_Unrefreshable :: "string \<Rightarrow> bool"
  pv_RefetchGroupPrincipals :: "string \<Rightarrow> string \<Rightarrow> string \<Rightarrow> Principal list result"
  pv_CanAccessWithGroupProviders :: "string \<Rightarrow> string \<Rightarrow> Principal list \<Rightarrow> bool result"

record 'w refresher =
  rf_tokenLister :: "Token list result"
  rf_tokens :: "('w, string, Token) client"
  rf_secretLister :: "string \<times> string \<Rightarrow> Secret result"
  rf_userLister :: "string \<Rightarrow> User result"
  rf_providers :: providers

definition login_tokens :: "User \<Rightarrow> Token list \<Rightarrow> string \<Rightarrow> Token list" where
  "login_tokens user allTokens p =
     filter (\<lambda>t. tk_UserID t = us_Name user \<and> \<not> tk_IsDerived t \<and> tk_AuthProvider t = p) allTokens"

definition derived_tokens :: "User \<Rightarrow> Token list \<Rightarrow> Token list" where
  "derived_tokens user allTokens = filter (\<lambda>t. tk_UserID t = us_Name user \<and> tk_IsDerived t) allTokens"

definition provider_prefix :: "string \<Rightarrow> string" where
  "provider_prefix providerName = (if providerName = ''local'' then ''local://'' else providerName @ ''_user://'')"

definition principal_of :: "User \<Rightarrow> string \<Rightarrow> string" where
  "principal_of user providerName =
     (case find (\<lambda>i. has_prefix i (provider_prefix providerName)) (us_PrincipalIDs user) of None \<Rightarrow> [] | Some i \<Rightarrow> i)"

definition delete_logins :: "('w, string, Token) client \<Rightarrow> Token list \<Rightarrow> ('w, unit) act" where
  "delete_logins tokens ts =
     forA (\<lambda>t. caseA (cdelete tokens (tk_Name t)) (\<lambda>err. if IsNotFound err then ret () else raise err) ret) ts"

definition noAccess :: error where
  "noAccess = Err ''no access''"

text \<open>
  One round of the loop over the providers.  The local variables are the attribute and the
  flags \<^verbatim>\<open>canLogInAtAll\<close> and \<^verbatim>\<open>errorConfirmingLogins\<close>; the round's own
  \<^verbatim>\<open>principalID\<close> and \<^verbatim>\<open>newGroupPrincipals\<close> are \<open>None\<close> when it ends with \<^verbatim>\<open>continue\<close>.
\<close>

definition refetch ::
    "'w refresher \<Rightarrow> User \<Rightarrow> Token list \<Rightarrow> UserAttribute \<Rightarrow> string \<Rightarrow> (string \<times> Principal list) option result" where
  "refetch r user allTokens attribs providerName =
     (let pv = rf_providers r;
          principalID = principal_of user providerName;
          existing = map_get (ua_GroupPrincipals attribs) providerName []
      in if principalID \<noteq> [] then
           (case (if pv_WithSecrets pv providerName
                  then GetSecret (rf_secretLister r) (us_Name user) providerName (login_tokens user allTokens providerName)
                  else Inr []) of
              Inl err \<Rightarrow> Inl err
            | Inr secret \<Rightarrow>
                if pv_Unrefreshable pv providerName then Inr (Some (principalID, existing))
                else
                  (case pv_RefetchGroupPrincipals pv principalID providerName secret of
                     Inr groups \<Rightarrow> Inr (Some (principalID, groups))
                   | Inl err \<Rightarrow> if err \<noteq> noAccess then Inr None else Inr (Some ([], []))))
         else Inr (Some ([], [])))"

definition refresh_provider ::
    "'w refresher \<Rightarrow> User \<Rightarrow> Token list \<Rightarrow> string \<Rightarrow> UserAttribute \<times> bool \<times> bool \<Rightarrow>
     ('w, UserAttribute \<times> bool \<times> bool) act" where
  "refresh_provider r user allTokens providerName st =
     (case st of (attribs, canLogInAtAll, errorConfirmingLogins) \<Rightarrow>
      bindA (liftR (refetch r user allTokens attribs providerName)) (\<lambda>fetched.
      case fetched of
        None \<Rightarrow> ret (attribs, canLogInAtAll, True)
      | Some (principalID, newGroupPrincipals) \<Rightarrow>
          let attribs = attribs\<lparr>ua_GroupPrincipals := map_put providerName newGroupPrincipals (ua_GroupPrincipals attribs)\<rparr> in
          bindA (liftR (if principalID \<noteq> []
                        then pv_CanAccessWithGroupProviders (rf_providers r) providerName principalID newGroupPrincipals
                        else Inr False)) (\<lambda>canAccessProvider.
          if \<not> canAccessProvider then
            bindA (delete_logins (rf_tokens r) (login_tokens user allTokens providerName)) (\<lambda>_.
            ret (attribs, canLogInAtAll, errorConfirmingLogins))
          else ret (attribs, True, errorConfirmingLogins))))"

definition refreshAttributes :: "'w refresher \<Rightarrow> UserAttribute \<Rightarrow> ('w, UserAttribute) act" where
  "refreshAttributes r attribs =
     bindA (liftR (rf_userLister r (ua_Name attribs))) (\<lambda>user.
     bindA (liftR (rf_tokenLister r)) (\<lambda>allTokens.
     bindA (foldA (refresh_provider r user allTokens) (pv_Names (rf_providers r)) (attribs, False, False))
       (\<lambda>(attribs, canLogInAtAll, errorConfirmingLogins).
     if canLogInAtAll \<or> errorConfirmingLogins then ret attribs
     else
       bindA (forA (\<lambda>t. bindA (cupdate (rf_tokens r) (t\<lparr>tk_Enabled := Some False\<rparr>)) (\<lambda>_. ret ()))
                (derived_tokens user allTokens)) (\<lambda>_.
       ret attribs))))"

definition RefreshAttributes :: "'w refresher option \<Rightarrow> int \<Rightarrow> UserAttribute \<Rightarrow> ('w, UserAttribute) act" where
  "RefreshAttributes ref now attribs =
     (case ref of
        None \<Rightarrow> raise (Err ''refresh daemon not yet initialized'')
      | Some r \<Rightarrow>
          bindA (refreshAttributes r attribs) (\<lambda>modified.
          ret (modified\<lparr>ua_LastRefresh := Some (now - now mod second), ua_NeedsRefresh := False\<rparr>)))"

text \<open>The handler of user attributes; deleted objects are skipped.\<close>

definition ua_sync ::
    "'w refresher option \<Rightarrow> ('a, string, UserAttribute) client \<Rightarrow> int \<Rightarrow> UserAttribute option \<Rightarrow>
     ('w \<times> 'a, UserAttribute option) act" where
  "ua_sync ref userAttributes now obj =
     (case obj of
        None \<Rightarrow> ret None
      | Some a \<Rightarrow>
          if \<not> ua_NeedsRefresh a then ret (Some a)
          else
            bindA (zoomA fst (\<lambda>f (w, v). (f w, v)) (RefreshAttributes ref now a)) (\<lambda>a'.
            bindA (zoomA snd (\<lambda>f (w, v). (w, f v)) (cupdate userAttributes a')) (\<lambda>updated.
            ret (Some updated))))"

section \<open>Triggering\<close>

definition zero_time :: int where
  "zero_time = - 62135596800 * second"

text \<open>Errors are logged only, so the result is always a success.\<close>

definition triggerUserRefresh ::
    "('t, 'a, 's, 'r) Manager \<Rightarrow> int \<Rightarrow> string \<Rightarrow> bool \<Rightarrow> (('t, 'a, 's, 'r) tstate, unit) act" where
  "triggerUserRefresh m maxAge userName force =
     caseA (EnsureAndGetUserAttribute m userName) (\<lambda>_. ret ()) (\<lambda>(attribs, needCreate).
       let lastRefresh = (case ua_LastRefresh attribs of None \<Rightarrow> zero_time | Some t \<Rightarrow> t) in
       if \<not> force \<and> m_now m < lastRefresh + maxAge then ret ()
       else
         case m_userLister m userName of
           Inl _ \<Rightarrow> ret ()
         | Inr user \<Rightarrow>
             if list_ex (\<lambda>principalID. has_prefix principalID ''system://'') (us_PrincipalIDs user) then ret ()
             else
               let attribs = attribs\<lparr>ua_NeedsRefresh := True\<rparr> in
               if needCreate
               then caseA (onAttributes (ccreate (m_userAttributes m) attribs)) (\<lambda>_. ret ()) (\<lambda>_. ret ())
               else caseA (onAttributes (cupdate (m_userAttributes m) attribs)) (\<lambda>_. ret ()) (\<lambda>_. ret ()))"

definition TriggerUserRefresh ::
    "('t, 'a, 's, 'r) Manager \<Rightarrow> int \<Rightarrow> string \<Rightarrow> bool \<Rightarrow> (('t, 'a, 's, 'r) tstate, unit) act" where
  "TriggerUserRefresh m maxAge userName force =
     (if \<not> force \<and> maxAge \<le> 0 then ret () else triggerUserRefresh m maxAge userName force)"

definition refreshAll ::
    "('t, 'a, 's, 'r) Manager \<Rightarrow> User list result \<Rightarrow> int \<Rightarrow> bool \<Rightarrow> (('t, 'a, 's, 'r) tstate, unit) act" where
  "refreshAll m users maxAge force =
     forA (\<lambda>u. triggerUserRefresh m maxAge (us_Name u) force) (case users of Inl _ \<Rightarrow> [] | Inr us \<Rightarrow> us)"

definition TriggerAllUserRefresh ::
    "('t, 'a, 's, 'r) Manager \<Rightarrow> User list result \<Rightarrow> int \<Rightarrow> (('t, 'a, 's, 'r) tstate, unit) act" where
  "TriggerAllUserRefresh m users maxAge = refreshAll m users maxAge True"

section \<open>What a refresh revokes\<close>

text \<open>The verdict on a provider, as a function of what the provider answers.\<close>

datatype login = Access | Denied | Unconfirmed

definition provider_login :: "'w refresher \<Rightarrow> User \<Rightarrow> Token list \<Rightarrow> UserAttribute \<Rightarrow> string \<Rightarrow> login" where
  "provider_login r user ts attribs p =
     (case refetch r user ts attribs p of
        Inr None \<Rightarrow> Unconfirmed
      | Inr (Some (i, gs)) \<Rightarrow>
          if i \<noteq> [] \<and> pv_CanAccessWithGroupProviders (rf_providers r) p i gs = Inr True then Access else Denied
      | Inl _ \<Rightarrow> Denied)"

lemma provider_login_cong:
  "map_get (ua_GroupPrincipals a) p [] = map_get (ua_GroupPrincipals b) p [] \<Longrightarrow> provider_login r user ts a p = provider_login r user ts b p"
  by (simp add: provider_login_def refetch_def)

lemma delete_logins_view:
  assumes "api_client tokens tk_Name view stored avail" and "delete_logins tokens ts w = (Inr (), w')"
  shows "view w' = (\<lambda>k. if k \<in> tk_Name ` set ts then None else view w k)"
  using assms(2)
proof (induction ts arbitrary: w)
  case (Cons t ts)
  let ?d = "caseA (cdelete tokens (tk_Name t)) (\<lambda>err. if IsNotFound err then ret () else raise err) ret"
  obtain w1 where d: "?d w = (Inr (), w1)" and rest: "delete_logins tokens ts w1 = (Inr (), w')"
    using Cons.prems by (auto simp: delete_logins_def split: prod.splits sum.splits)
  have "wp ?d (\<lambda>_ w1. view w1 = (view w)(tk_Name t := None)) (\<lambda>_ _. True) w"
    unfolding wp_simps
    by (intro branchI api_client.wp_delete [OF assms(1)]) (auto simp: wp_simps IsNotFound_def fun_eq_iff)
  with d have "view w1 = (view w)(tk_Name t := None)" by (simp add: wp_iff)
  with Cons.IH [OF rest] show ?case by (auto simp: fun_eq_iff)
qed (simp add: delete_logins_def)

lemma refresh_provider_view:
  assumes "api_client (rf_tokens r) tk_Name view stored avail"
    and "refresh_provider r user ts p (a, c, e) w = (Inr (a', c', e'), w')"
  shows "view w' = (\<lambda>k. if provider_login r user ts a p = Denied \<and> k \<in> tk_Name ` set (login_tokens user ts p) then None else view w k)"
    and "c' = (c \<or> provider_login r user ts a p = Access)" and "e' = (e \<or> provider_login r user ts a p = Unconfirmed)"
    and "q \<noteq> p \<Longrightarrow> map_get (ua_GroupPrincipals a') q [] = map_get (ua_GroupPrincipals a) q []"
proof -
  let ?P = "\<lambda>(a', c', e') w'. view w' = (\<lambda>k. if provider_login r user ts a p = Denied \<and> k \<in> tk_Name ` set (login_tokens user ts p) then None else view w k) \<and>
    c' = (c \<or> provider_login r user ts a p = Access) \<and> e' = (e \<or> provider_login r user ts a p = Unconfirmed) \<and>
    (\<forall>q. q \<noteq> p \<longrightarrow> map_get (ua_GroupPrincipals a') q [] = map_get (ua_GroupPrincipals a) q [])"
  have del: "wp (delete_logins (rf_tokens r) ts') (\<lambda>_ w'. view w' = (\<lambda>k. if k \<in> tk_Name ` set ts' then None else view w k)) (\<lambda>_ _. True) w" for ts'
    using delete_logins_view [OF assms(1)] by (auto simp: wp_iff)
  have "wp (refresh_provider r user ts p (a, c, e)) ?P (\<lambda>_ _. True) w"
    unfolding refresh_provider_def Let_def wp_simps
    apply (intro branchI TrueI)
    apply (auto simp: wp_simps provider_login_def map_get_def fun_eq_iff intro!: wp_mono [OF del] split: if_splits)
    done
  with assms(2) have "?P (a', c', e') w'" by (simp add: wp_iff)
  then show "view w' = (\<lambda>k. if provider_login r user ts a p = Denied \<and> k \<in> tk_Name ` set (login_tokens user ts p) then None else view w k)"
    and "c' = (c \<or> provider_login r user ts a p = Access)" and "e' = (e \<or> provider_login r user ts a p = Unconfirmed)"
    and "q \<noteq> p \<Longrightarrow> map_get (ua_GroupPrincipals a') q [] = map_get (ua_GroupPrincipals a) q []" by simp_all
qed

lemma refresh_fold_view:
  assumes "api_client (rf_tokens r) tk_Name view stored avail"
    and "foldA (refresh_provider r user ts) ps (a, c, e) w = (Inr (a', c', e'), w')" and "distinct ps"
    and "\<forall>p \<in> set ps. map_get (ua_GroupPrincipals a) p [] = map_get (ua_GroupPrincipals a0) p []"
  shows "view w' = (\<lambda>k. if \<exists>p \<in> set ps. provider_login r user ts a0 p = Denied \<and> k \<in> tk_Name ` set (login_tokens user ts p) then None else view w k) \<and>
    c' = (c \<or> (\<exists>p \<in> set ps. provider_login r user ts a0 p = Access)) \<and>
    e' = (e \<or> (\<exists>p \<in> set ps. provider_login r user ts a0 p = Unconfirmed))"
  using assms(2-4)
proof (induction ps arbitrary: a c e w)
  case (Cons p ps)
  obtain a1 c1 e1 w1 where one: "refresh_provider r user ts p (a, c, e) w = (Inr (a1, c1, e1), w1)"
    and rest: "foldA (refresh_provider r user ts) ps (a1, c1, e1) w1 = (Inr (a', c', e'), w')"
    using Cons.prems(1) by (auto split: prod.splits sum.splits)
  note step = refresh_provider_view [OF assms(1) one]
  have eq: "provider_login r user ts a p = provider_login r user ts a0 p"
    using Cons.prems(3) by (intro provider_login_cong) simp
  have "\<forall>q \<in> set ps. map_get (ua_GroupPrincipals a1) q [] = map_get (ua_GroupPrincipals a0) q []"
    using Cons.prems(2,3) step(4) by (metis distinct.simps(2) list.set_intros(2))
  with Cons.IH [OF rest] Cons.prems(2)
  have ih: "view w' = (\<lambda>k. if \<exists>p \<in> set ps. provider_login r user ts a0 p = Denied \<and> k \<in> tk_Name ` set (login_tokens user ts p) then None else view w1 k)"
    "c' = (c1 \<or> (\<exists>p \<in> set ps. provider_login r user ts a0 p = Access))"
    "e' = (e1 \<or> (\<exists>p \<in> set ps. provider_login r user ts a0 p = Unconfirmed))" by simp_all
  show ?case
    unfolding ih step(1-3) eq by (simp add: fun_eq_iff) blast
qed simp

lemma disable_derived_view:
  assumes "api_client tokens tk_Name view (=) avail"
    and "forA (\<lambda>t. bindA (cupdate tokens (t\<lparr>tk_Enabled := Some False\<rparr>)) (\<lambda>_. ret ())) ds w = (Inr (), w')"
    and "distinct (map tk_Name ds)"
  shows "(\<forall>t \<in> set ds. view w' (tk_Name t) = Some (t\<lparr>tk_Enabled := Some False\<rparr>)) \<and> (\<forall>k. k \<notin> tk_Name ` set ds \<longrightarrow> view w' k = view w k)"
  using assms(2,3)
proof (induction ds arbitrary: w)
  case (Cons d ds)
  let ?u = "bindA (cupdate tokens (d\<lparr>tk_Enabled := Some False\<rparr>)) (\<lambda>_. ret ())"
  obtain w1 where u: "?u w = (Inr (), w1)"
    and rest: "forA (\<lambda>t. bindA (cupdate tokens (t\<lparr>tk_Enabled := Some False\<rparr>)) (\<lambda>_. ret ())) ds w1 = (Inr (), w')"
    using Cons.prems(1) unfolding forA_Cons_Inr by blast
  have "wp ?u (\<lambda>_ w1. view w1 = (view w)(tk_Name d \<mapsto> d\<lparr>tk_Enabled := Some False\<rparr>)) (\<lambda>_ _. True) w"
    unfolding wp_simps by (intro api_client.wp_update [OF assms(1)]) auto
  with u have one: "view w1 = (view w)(tk_Name d \<mapsto> d\<lparr>tk_Enabled := Some False\<rparr>)" by (simp add: wp_iff)
  have ih: "\<forall>t \<in> set ds. view w' (tk_Name t) = Some (t\<lparr>tk_Enabled := Some False\<rparr>)"
    "\<And>k. k \<notin> tk_Name ` set ds \<Longrightarrow> view w' k = view w1 k"
    using Cons.IH [OF rest] Cons.prems(2) by simp_all
  have "view w' (tk_Name d) = Some (d\<lparr>tk_Enabled := Some False\<rparr>)"
    using ih(2) [of "tk_Name d"] one Cons.prems(2) by simp
  moreover have "view w' k = view w k" if "k \<notin> tk_Name ` set (d # ds)" for k
    using ih(2) [of k] one that by simp
  ultimately show ?case using ih(1) by simp
qed simp



definition sample_refresher :: "Token list \<Rightarrow> bool \<Rightarrow> Token mem refresher" where
  "sample_refresher ts ok =
     \<lparr>rf_tokenLister = Inr ts, rf_tokens = mem_client tk_Name (\<lambda>_ t. t), rf_secretLister = (\<lambda>_. Inl NotFound),
      rf_userLister = (\<lambda>u. Inr (sample_user u)),
      rf_providers = \<lparr>pv_Names = [''local''], pv_WithSecrets = (\<lambda>_. False), pv_Unrefreshable = (\<lambda>_. False),
        pv_RefetchGroupPrincipals = (\<lambda>_ _ _. Inr []), pv_CanAccessWithGroupProviders = (\<lambda>_ _ _. Inr ok)\<rparr>\<rparr>"

interpretation tke_mem: mem_server tk_Name "\<lambda>_ t. t" "(=)"
  by unfold_locales auto


end
