(* ===== verification/AccessControl.thy ===== *)
theory AccessControl
  imports Http Roles
begin

text \<open>
  Access control of the API by Kubernetes RBAC: \<^verbatim>\<open>src/pkg/rbac\<close> (\<^verbatim>\<open>permission_index.go\<close>,
  \<^verbatim>\<open>list_permission_store.go\<close>, \<^verbatim>\<open>access_control.go\<close>, \<^verbatim>\<open>common.go\<close>).

  The informer caches are the lists of bindings and the role listers; an indexer returns the
  cached objects whose index function yields the key.  An API object is the map of its string
  fields.
\<close>

section \<open>The permission index\<close>

definition rbacGroup :: string where
  "rbacGroup = ''rbac.authorization.k8s.io''"

definition clusterRoleBindingBySubject :: "string \<Rightarrow> ClusterRoleBinding \<Rightarrow> string list" where
  "clusterRoleBindingBySubject kind crb = map sj_Name (filter (\<lambda>s. sj_Kind s = kind) (crb_Subjects crb))"

definition roleBindingBySubject :: "string \<Rightarrow> RoleBinding \<Rightarrow> string list" where
  "roleBindingBySubject kind rb = map sj_Name (filter (\<lambda>s. sj_Kind s = kind) (rb_Subjects rb))"

record permissionIndex =
  pi_clusterRoleLister :: "string \<Rightarrow> ClusterRole result"
  pi_roleLister :: "string \<Rightarrow> string \<Rightarrow> Role result"
  pi_crbIndexer :: "string \<Rightarrow> string \<Rightarrow> ClusterRoleBinding list result"
  pi_rbIndexer :: "string \<Rightarrow> string \<Rightarrow> RoleBinding list result"
  pi_roleIndexKey :: string
  pi_clusterRoleIndexKey :: string

record ListPermission =
  lp_Namespace :: string
  lp_Name :: string

type_synonym ListPermissionSet = "(ListPermission, bool) gomap"

record rbacCache =
  ch_clusterRoles :: "string \<Rightarrow> ClusterRole result"
  ch_roles :: "string \<Rightarrow> string \<Rightarrow> Role result"
  ch_clusterRoleBindings :: "ClusterRoleBinding list"
  ch_roleBindings :: "RoleBinding list"

definition byIndex :: "(string \<times> ('o \<Rightarrow> string list)) list \<Rightarrow> 'o list \<Rightarrow> string \<Rightarrow> string \<Rightarrow> 'o list result" where
  "byIndex indexers items indexName key =
     (case map_of indexers indexName of
        None \<Rightarrow> Inl (Err ''index does not exist'')
      | Some f \<Rightarrow> Inr (filter (\<lambda>x. key \<in> set (f x)) items))"

definition newIndexes :: "rbacCache \<Rightarrow> permissionIndex \<times> permissionIndex" where
  "newIndexes client =
     (let crb = byIndex [(''crbUser'', clusterRoleBindingBySubject ''User''), (''crbGroup'', clusterRoleBindingBySubject ''Group'')]
                  (ch_clusterRoleBindings client);
          rb = byIndex [(''rbUser'', roleBindingBySubject ''User''), (''rbGroup'', roleBindingBySubject ''Group'')]
                  (ch_roleBindings client)
      in (\<lparr>pi_clusterRoleLister = ch_clusterRoles client, pi_roleLister = ch_roles client, pi_crbIndexer = crb,
           pi_rbIndexer = rb, pi_roleIndexKey = ''rbUser'', pi_clusterRoleIndexKey = ''crbUser''\<rparr>,
          \<lparr>pi_clusterRoleLister = ch_clusterRoles client, pi_roleLister = ch_roles client, pi_crbIndexer = crb,
           pi_rbIndexer = rb, pi_roleIndexKey = ''rbGroup'', pi_clusterRoleIndexKey = ''crbGroup''\<rparr>))"

definition getClusterRoleBindings :: "permissionIndex \<Rightarrow> string \<Rightarrow> ClusterRoleBinding list" where
  "getClusterRoleBindings p subjectName =
     (case pi_crbIndexer p (pi_clusterRoleIndexKey p) subjectName of Inl _ \<Rightarrow> [] | Inr items \<Rightarrow> items)"

definition getRoleBindings :: "permissionIndex \<Rightarrow> string \<Rightarrow> RoleBinding list" where
  "getRoleBindings p subjectName =
     (case pi_rbIndexer p (pi_roleIndexKey p) subjectName of Inl _ \<Rightarrow> [] | Inr items \<Rightarrow> items)"

definition getRules :: "permissionIndex \<Rightarrow> string \<Rightarrow> string \<Rightarrow> string \<Rightarrow> PolicyRule list" where
  "getRules p namespace kind name =
     (if kind = ''ClusterRole'' then (case pi_clusterRoleLister p name of Inl _ \<Rightarrow> [] | Inr r \<Rightarrow> cr_Rules r)
      else if kind = ''Role'' then (case pi_roleLister p namespace name of Inl _ \<Rightarrow> [] | Inr r \<Rightarrow> ro_Rules r)
      else [])"

fun matches :: "string list \<Rightarrow> string \<Rightarrow> bool" where
  "matches [] val = False"
| "matches (v # parts) val = (if v = ''*'' then True else if equal_fold v val then True else matches parts val)"

definition has_verb :: "PolicyRule \<Rightarrow> string \<Rightarrow> bool" where
  "has_verb rule verb \<longleftrightarrow> ''*'' \<in> set (p_Verbs rule) \<or> verb \<in> set (p_Verbs rule)"

fun filter_rules :: "PolicyRule list \<Rightarrow> string \<Rightarrow> string \<Rightarrow> string \<Rightarrow> string \<Rightarrow> string \<Rightarrow> ListPermission list \<Rightarrow> ListPermission list" where
  "filter_rules [] namespace nsForGets apiGroup resource verb result = result"
| "filter_rules (rule # rules) namespace nsForGets apiGroup resource verb result =
     filter_rules rules namespace nsForGets apiGroup resource verb
       (if \<not> matches (p_APIGroups rule) apiGroup \<or> \<not> matches (p_Resources rule) resource then result
        else if p_ResourceNames rule \<noteq> [] then
          (let v = (if verb = ''list'' then ''get'' else verb) in
           if has_verb rule v
           then result @ map (\<lambda>n. \<lparr>lp_Namespace = nsForGets, lp_Name = n\<rparr>) (p_ResourceNames rule)
           else result)
        else if has_verb rule verb then result @ [\<lparr>lp_Namespace = namespace, lp_Name = ''*''\<rparr>]
        else result)"

definition filterPermissions ::
    "permissionIndex \<Rightarrow> ListPermission list \<Rightarrow> string \<Rightarrow> string \<Rightarrow> string \<Rightarrow> string \<Rightarrow> string \<Rightarrow> string \<Rightarrow> ListPermission list" where
  "filterPermissions p result namespace kind name apiGroup resource verb =
     (let nsForResourceNameGets = (if namespace = ''*'' then [] else namespace) in
      filter_rules (getRules p namespace kind name) namespace nsForResourceNameGets apiGroup resource verb result)"

definition pi_get :: "permissionIndex \<Rightarrow> string \<Rightarrow> string \<Rightarrow> string \<Rightarrow> string \<Rightarrow> ListPermission list" where
  "pi_get p subjectName apiGroup resource verb =
     (let result = fold (\<lambda>b result. if rr_APIGroup (rb_RoleRef b) \<noteq> rbacGroup then result
            else filterPermissions p result (rb_Namespace b) (rr_Kind (rb_RoleRef b)) (rr_Name (rb_RoleRef b)) apiGroup resource verb)
          (getRoleBindings p subjectName) []
      in fold (\<lambda>b result. if rr_APIGroup (crb_RoleRef b) \<noteq> rbacGroup then result
            else filterPermissions p result ''*'' (rr_Kind (crb_RoleRef b)) (rr_Name (crb_RoleRef b)) apiGroup resource verb)
          (getClusterRoleBindings p subjectName) result)"

section \<open>Permission sets and access control\<close>

record ListPermissionStore =
  ls_users :: permissionIndex
  ls_groups :: permissionIndex

definition NewListPermissionStore :: "rbacCache \<Rightarrow> ListPermissionStore" where
  "NewListPermissionStore client =
     (case newIndexes client of (users, groups) \<Rightarrow> \<lparr>ls_users = users, ls_groups = groups\<rparr>)"

definition HasAccess :: "ListPermissionSet \<Rightarrow> string \<Rightarrow> string \<Rightarrow> bool" where
  "HasAccess l namespace name = map_get l \<lparr>lp_Namespace = namespace, lp_Name = name\<rparr> False"

definition getFromIndex :: "string \<Rightarrow> string \<Rightarrow> string \<Rightarrow> string \<Rightarrow> permissionIndex \<Rightarrow> ListPermissionSet" where
  "getFromIndex subjectName apiGroup resource verb index =
     fold (\<lambda>value result. map_put value True result) (pi_get index subjectName apiGroup resource verb) []"

definition UserPermissions :: "ListPermissionStore \<Rightarrow> string \<Rightarrow> string \<Rightarrow> string \<Rightarrow> string \<Rightarrow> ListPermissionSet" where
  "UserPermissions l subjectName apiGroup resource verb = getFromIndex subjectName apiGroup resource verb (ls_users l)"

definition GroupPermissions :: "ListPermissionStore \<Rightarrow> string \<Rightarrow> string \<Rightarrow> string \<Rightarrow> string \<Rightarrow> ListPermissionSet" where
  "GroupPermissions l subjectName apiGroup resource verb = getFromIndex subjectName apiGroup resource verb (ls_groups l)"

definition getUser :: "Request \<Rightarrow> string" where
  "getUser req = header_get (rq_Header req) ''Impersonate-User''"

definition getGroups :: "Request \<Rightarrow> string list" where
  "getGroups req = map_get (rq_Header req) ''Impersonate-Group'' []"

definition getPermissions :: "ListPermissionStore \<Rightarrow> Request \<Rightarrow> string \<Rightarrow> string \<Rightarrow> string \<Rightarrow> ListPermissionSet" where
  "getPermissions a context apiGroup resource verb =
     fold (\<lambda>group permset. fold (\<lambda>(k, v). map_put k v) (GroupPermissions a group apiGroup resource verb) permset)
       (getGroups context) (UserPermissions a (getUser context) apiGroup resource verb)"

type_synonym apiObject = "(string, string) gomap"

definition canAccess :: "apiObject option \<Rightarrow> ListPermissionSet \<Rightarrow> bool" where
  "canAccess obj permset =
     (let i = (case obj of None \<Rightarrow> ''*'' | Some ob \<Rightarrow> map_get ob ''id'' []);
          namespace = (case obj of
             None \<Rightarrow> []
           | Some ob \<Rightarrow>
               if map_get ob ''namespaceId'' [] = [] then
                 (let pieces = str_split i '':'' in if length pieces = 2 then pieces ! 0 else [])
               else map_get ob ''namespaceId'' [])
      in if HasAccess permset namespace ''*'' \<or> HasAccess permset ''*'' ''*'' then True
         else HasAccess permset namespace (trim_prefix i (namespace @ '':'')))"

definition CanDo :: "ListPermissionStore \<Rightarrow> string \<Rightarrow> string \<Rightarrow> string \<Rightarrow> Request \<Rightarrow> apiObject option \<Rightarrow> unit result" where
  "CanDo a apiGroup resource verb apiContext obj =
     (if canAccess obj (getPermissions a apiContext apiGroup resource verb) then Inr ()
      else Inl (HttpErr 403 ''PermissionDenied''))"

definition Filter :: "ListPermissionStore \<Rightarrow> Request \<Rightarrow> apiObject option \<Rightarrow> (string, string) gomap \<Rightarrow> apiObject option" where
  "Filter a apiContext obj context =
     (let apiGroup = map_get context ''apiGroup'' []; resource = map_get context ''resource'' [] in
      if resource = [] then obj
      else if canAccess obj (getPermissions a apiContext apiGroup resource ''list'') then obj
      else None)"

definition FilterList :: "ListPermissionStore \<Rightarrow> Request \<Rightarrow> apiObject list \<Rightarrow> (string, string) gomap \<Rightarrow> apiObject list" where
  "FilterList a apiContext items context =
     (let apiGroup = map_get context ''apiGroup'' []; resource = map_get context ''resource'' [] in
      if resource = [] then items
      else
        (let permset = getPermissions a apiContext apiGroup resource ''list'';
             all = HasAccess permset ''*'' ''*''
         in fold (\<lambda>obj result. if all then result @ [obj] else if canAccess (Some obj) permset then result @ [obj] else result) items []))"

section \<open>Subjects of role template bindings\<close>

datatype roleTemplateBinding = PRTB ProjectRoleTemplateBinding | CRTB ClusterRoleTemplateBinding | OtherRTB

definition subject_fields :: "roleTemplateBinding \<Rightarrow> (string \<times> string \<times> string \<times> string) option" where
  "subject_fields object =
     (case object of
        PRTB rtb \<Rightarrow> Some (ptb_UserName rtb, ptb_GroupPrincipalName rtb, ptb_GroupName rtb, ptb_ServiceAccount rtb)
      | CRTB rtb \<Rightarrow> Some (ctb_UserName rtb, ctb_GroupPrincipalName rtb, ctb_GroupName rtb, [])
      | OtherRTB \<Rightarrow> None)"

definition rtb_subject :: "string \<Rightarrow> string \<Rightarrow> string \<Rightarrow> Subject" where
  "rtb_subject namespace kind name = \<lparr>sj_Kind = kind, sj_Name = name, sj_Namespace = namespace, sj_APIGroup = []\<rparr>"

definition BuildSubjectFromRTB :: "roleTemplateBinding \<Rightarrow> Subject result" where
  "BuildSubjectFromRTB object =
     (case subject_fields object of
        None \<Rightarrow> Inl (Err ''unrecognized roleTemplateBinding type'')
      | Some (userName, groupPrincipalName, groupName, sa) \<Rightarrow>
          (let (name, kind) = (if userName \<noteq> [] then (userName, ''User'') else ([], [])) in
           if groupPrincipalName \<noteq> [] \<and> name \<noteq> [] then Inl (Err ''roletemplatebinding has more than one subject fields set'')
           else let (name, kind) = (if groupPrincipalName \<noteq> [] then (groupPrincipalName, ''Group'') else (name, kind)) in
           if groupName \<noteq> [] \<and> name \<noteq> [] then Inl (Err ''roletemplatebinding has more than one subject fields set'')
           else let (name, kind) = (if groupName \<noteq> [] then (groupName, ''Group'') else (name, kind)) in
           if sa \<noteq> [] then
             (case split_n2 sa CHR '':'' of
                [ns, n] \<Rightarrow> if n = [] then Inl (Err ''roletemplatebinding doesn't have any subject fields set'')
                          else Inr (rtb_subject ns ''ServiceAccount'' n)
              | _ \<Rightarrow> Inl (Err ''service account of projectroletemplatebinding is invalid''))
           else if name = [] then Inl (Err ''roletemplatebinding doesn't have any subject fields set'')
           else Inr (rtb_subject [] kind name)))"

section \<open>The RBAC decision\<close>

text \<open>
  The reference: what the bindings grant to a subject.  A rule without resource names covers
  every object; one with names covers those, and lets a list through if it allows to get them.
\<close>

definition rule_covers :: "PolicyRule \<Rightarrow> string \<Rightarrow> string \<Rightarrow> bool" where
  "rule_covers rule apiGroup resource \<longleftrightarrow> matches (p_APIGroups rule) apiGroup \<and> matches (p_Resources rule) resource"

definition grants_all :: "PolicyRule \<Rightarrow> string \<Rightarrow> string \<Rightarrow> string \<Rightarrow> bool" where
  "grants_all rule apiGroup resource verb \<longleftrightarrow>
     rule_covers rule apiGroup resource \<and> p_ResourceNames rule = [] \<and> has_verb rule verb"

definition grants_name :: "PolicyRule \<Rightarrow> string \<Rightarrow> string \<Rightarrow> string \<Rightarrow> string \<Rightarrow> bool" where
  "grants_name rule apiGroup resource verb n \<longleftrightarrow>
     rule_covers rule apiGroup resource \<and> n \<in> set (p_ResourceNames rule) \<and> has_verb rule (if verb = ''list'' then ''get'' else verb)"

definition ref_rules :: "rbacCache \<Rightarrow> string \<Rightarrow> RoleRef \<Rightarrow> PolicyRule set" where
  "ref_rules ch ns ref =
     (if rr_APIGroup ref \<noteq> rbacGroup then {}
      else if rr_Kind ref = ''ClusterRole'' then (case ch_clusterRoles ch (rr_Name ref) of Inl _ \<Rightarrow> {} | Inr r \<Rightarrow> set (cr_Rules r))
      else if rr_Kind ref = ''Role'' then (case ch_roles ch ns (rr_Name ref) of Inl _ \<Rightarrow> {} | Inr r \<Rightarrow> set (ro_Rules r))
      else {})"

text \<open>The rules bound to a subject in a namespace, and in the whole cluster.\<close>

definition bound_rules :: "rbacCache \<Rightarrow> string \<times> string \<Rightarrow> string \<Rightarrow> PolicyRule set" where
  "bound_rules ch sub ns =
     (\<Union>b \<in> {b \<in> set (ch_roleBindings ch). rb_Namespace b = ns \<and> (\<exists>s \<in> set (rb_Subjects b). (sj_Kind s, sj_Name s) = sub)}. ref_rules ch ns (rb_RoleRef b))"

definition cluster_rules :: "rbacCache \<Rightarrow> string \<times> string \<Rightarrow> PolicyRule set" where
  "cluster_rules ch sub =
     (\<Union>b \<in> {b \<in> set (ch_clusterRoleBindings ch). \<exists>s \<in> set (crb_Subjects b). (sj_Kind s, sj_Name s) = sub}. ref_rules ch ''*'' (crb_RoleRef b))"

definition request_subjects :: "Request \<Rightarrow> (string \<times> string) set" where
  "request_subjects req = insert (''User'', getUser req) (Pair ''Group'' ` set (getGroups req))"

definition authorized :: "rbacCache \<Rightarrow> Request \<Rightarrow> string \<Rightarrow> string \<Rightarrow> string \<Rightarrow> string \<Rightarrow> string \<Rightarrow> bool" where
  "authorized ch req apiGroup resource verb ns n \<longleftrightarrow>
     (\<exists>sub \<in> request_subjects req.
        (\<exists>rule \<in> bound_rules ch sub ns. grants_all rule apiGroup resource verb \<or> grants_name rule apiGroup resource verb n) \<or>
        (\<exists>rule \<in> cluster_rules ch sub. grants_all rule apiGroup resource verb \<or> ns = [] \<and> grants_name rule apiGroup resource verb n))"

section \<open>Lemmas\<close>

definition rule_perm :: "string \<Rightarrow> string \<Rightarrow> string \<Rightarrow> string \<Rightarrow> string \<Rightarrow> PolicyRule \<Rightarrow> ListPermission set" where
  "rule_perm ns nsg g r v rule =
     (if grants_all rule g r v then {\<lparr>lp_Namespace = ns, lp_Name = ''*''\<rparr>} else {}) \<union>
     (\<lambda>n. \<lparr>lp_Namespace = nsg, lp_Name = n\<rparr>) ` {n. grants_name rule g r v n}"

lemma rule_step:
  "set (if \<not> matches (p_APIGroups rule) g \<or> \<not> matches (p_Resources rule) r then result
        else if p_ResourceNames rule \<noteq> [] then
          (let v' = (if v = ''list'' then ''get'' else v) in
           if has_verb rule v'
           then result @ map (\<lambda>n. \<lparr>lp_Namespace = nsg, lp_Name = n\<rparr>) (p_ResourceNames rule)
           else result)
        else if has_verb rule v then result @ [\<lparr>lp_Namespace = ns, lp_Name = ''*''\<rparr>]
        else result) = set result \<union> rule_perm ns nsg g r v rule"
proof (cases "rule_covers rule g r")
  case True
  then have "matches (p_APIGroups rule) g" "matches (p_Resources rule) r" by (simp_all add: rule_covers_def)
  with True show ?thesis
    by (cases "p_ResourceNames rule = []") (simp_all add: Let_def rule_perm_def grants_all_def grants_name_def)
qed (auto simp: rule_covers_def rule_perm_def grants_all_def grants_name_def)

lemma set_filter_rules:
  "set (filter_rules rules ns nsg g r v result) = set result \<union> (\<Union>rule \<in> set rules. rule_perm ns nsg g r v rule)"
proof (induction rules arbitrary: result)
  case (Cons rule rules)
  show ?case unfolding filter_rules.simps Cons.IH rule_step by auto
qed simp

lemma set_fold_union:
  assumes "\<And>b result. set (f b result) = set result \<union> g b"
  shows "set (fold f bs result) = set result \<union> (\<Union>b \<in> set bs. g b)"
  by (induction bs arbitrary: result) (simp_all add: assms Un_assoc)

definition rule_perms :: "string \<Rightarrow> PolicyRule set \<Rightarrow> string \<Rightarrow> string \<Rightarrow> string \<Rightarrow> ListPermission set" where
  "rule_perms ns rules g r v = (\<Union>rule \<in> rules. rule_perm ns (if ns = ''*'' then [] else ns) g r v rule)"

lemma set_filterPermissions:
  "set (filterPermissions p result ns kind name g r v) = set result \<union> rule_perms ns (set (getRules p ns kind name)) g r v"
  unfolding filterPermissions_def Let_def set_filter_rules rule_perms_def by (rule refl)

text \<open>The permissions an index gives for a subject.\<close>

definition index_of :: "rbacCache \<Rightarrow> string \<Rightarrow> permissionIndex" where
  "index_of ch kind = (if kind = ''User'' then fst (newIndexes ch) else snd (newIndexes ch))"

lemma index_listers:
  "pi_clusterRoleLister (index_of ch kind) = ch_clusterRoles ch" "pi_roleLister (index_of ch kind) = ch_roles ch"
  by (cases "kind = ''User''"; simp add: index_of_def newIndexes_def Let_def)+

lemma set_case_result: "set (case x of Inl _ \<Rightarrow> [] | Inr r \<Rightarrow> f r) = (case x of Inl _ \<Rightarrow> {} | Inr r \<Rightarrow> set (f r))"
  by (cases x) simp_all

lemma index_getRules:
  assumes "rr_APIGroup ref = rbacGroup"
  shows "set (getRules (index_of ch kind) ns (rr_Kind ref) (rr_Name ref)) = ref_rules ch ns ref"
  unfolding getRules_def ref_rules_def index_listers if_distrib [of set] set_case_result assms
  by (simp only: simp_thms if_False list.set)

lemma index_bindings:
  assumes "kind \<in> {''User'', ''Group''}"
  shows "set (getRoleBindings (index_of ch kind) name) =
      {b \<in> set (ch_roleBindings ch). \<exists>s \<in> set (rb_Subjects b). (sj_Kind s, sj_Name s) = (kind, name)}"
    and "set (getClusterRoleBindings (index_of ch kind) name) =
      {b \<in> set (ch_clusterRoleBindings ch). \<exists>s \<in> set (crb_Subjects b). (sj_Kind s, sj_Name s) = (kind, name)}"
  using assms
  by (auto simp: index_of_def newIndexes_def Let_def getRoleBindings_def getClusterRoleBindings_def byIndex_def
      roleBindingBySubject_def clusterRoleBindingBySubject_def)

lemma set_pi_get:
  assumes "kind \<in> {''User'', ''Group''}"
  shows "set (pi_get (index_of ch kind) name g r v) =
    (\<Union>b \<in> {b \<in> set (ch_roleBindings ch). \<exists>s \<in> set (rb_Subjects b). (sj_Kind s, sj_Name s) = (kind, name)}.
       rule_perms (rb_Namespace b) (ref_rules ch (rb_Namespace b) (rb_RoleRef b)) g r v) \<union>
    rule_perms ''*'' (cluster_rules ch (kind, name)) g r v"
proof -
  let ?p = "index_of ch kind"
  let ?rb = "\<lambda>b result. if rr_APIGroup (rb_RoleRef b) \<noteq> rbacGroup then result
      else filterPermissions ?p result (rb_Namespace b) (rr_Kind (rb_RoleRef b)) (rr_Name (rb_RoleRef b)) g r v"
  let ?crb = "\<lambda>b result. if rr_APIGroup (crb_RoleRef b) \<noteq> rbacGroup then result
      else filterPermissions ?p result ''*'' (rr_Kind (crb_RoleRef b)) (rr_Name (crb_RoleRef b)) g r v"
  have rb: "set (?rb b result) = set result \<union> rule_perms (rb_Namespace b) (ref_rules ch (rb_Namespace b) (rb_RoleRef b)) g r v" for b result
  proof (cases "rr_APIGroup (rb_RoleRef b) = rbacGroup")
    case True
    then show ?thesis by (simp add: set_filterPermissions index_getRules)
  qed (simp add: ref_rules_def rule_perms_def)
  have crb: "set (?crb b result) = set result \<union> rule_perms ''*'' (ref_rules ch ''*'' (crb_RoleRef b)) g r v" for b result
  proof (cases "rr_APIGroup (crb_RoleRef b) = rbacGroup")
    case True
    then show ?thesis by (simp add: set_filterPermissions index_getRules)
  qed (simp add: ref_rules_def rule_perms_def)
  have un: "(\<Union>b \<in> B. rule_perms ''*'' (ref_rules ch ''*'' (crb_RoleRef b)) g r v) = rule_perms ''*'' (\<Union>b \<in> B. ref_rules ch ''*'' (crb_RoleRef b)) g r v" for B
    by (auto simp: rule_perms_def)
  show ?thesis
    unfolding pi_get_def Let_def set_fold_union [OF rb] set_fold_union [OF crb] index_bindings [OF assms] cluster_rules_def un
    by simp
qed


section \<open>Permission sets\<close>

definition entries_true :: "ListPermissionSet \<Rightarrow> bool" where
  "entries_true l \<longleftrightarrow> (\<forall>(k, v) \<in> set l. v)"

lemma map_get_fold_true:
  "map_get (fold (\<lambda>value result. map_put value True result) xs l) x False \<longleftrightarrow> x \<in> set xs \<or> map_get l x False"
  by (induction xs arbitrary: l) (auto simp: map_get_def)

lemma entries_true_put: "entries_true l \<Longrightarrow> entries_true (map_put k True l)"
  by (induction l) (auto simp: entries_true_def map_put_def)

lemma entries_true_fold: "entries_true l \<Longrightarrow> entries_true (fold (\<lambda>value result. map_put value True result) xs l)"
  by (induction xs arbitrary: l) (simp_all add: entries_true_put)

lemma map_get_merge:
  "entries_true l \<Longrightarrow> map_get (fold (\<lambda>(k, v). map_put k v) l p) x False \<longleftrightarrow> x \<in> fst ` set l \<or> map_get p x False"
  by (induction l arbitrary: p) (auto simp: entries_true_def map_get_def split: if_splits)

lemma entries_true_get: "entries_true l \<Longrightarrow> map_get l x False \<longleftrightarrow> x \<in> fst ` set l"
  by (induction l) (auto simp: entries_true_def map_get_def)

lemma getFromIndex_facts:
  "entries_true (getFromIndex s g r v p)" "fst ` set (getFromIndex s g r v p) = set (pi_get p s g r v)"
proof -
  show e: "entries_true (getFromIndex s g r v p)"
    unfolding getFromIndex_def by (rule entries_true_fold) (simp add: entries_true_def)
  show "fst ` set (getFromIndex s g r v p) = set (pi_get p s g r v)"
    using entries_true_get [OF e] map_get_fold_true [of "pi_get p s g r v" "[]"] by (auto simp: getFromIndex_def map_get_def)
qed

lemma getPermissions_iff:
  "map_get (getPermissions a req g r v) x False \<longleftrightarrow>
     x \<in> set (pi_get (ls_users a) (getUser req) g r v) \<or> (\<exists>grp \<in> set (getGroups req). x \<in> set (pi_get (ls_groups a) grp g r v))"
proof -
  have "map_get (fold (\<lambda>grp permset. fold (\<lambda>(k, v). map_put k v) (GroupPermissions a grp g r v) permset) gs p) x False \<longleftrightarrow>
      map_get p x False \<or> (\<exists>grp \<in> set gs. x \<in> set (pi_get (ls_groups a) grp g r v))" for gs p
    by (induction gs arbitrary: p)
      (auto simp: map_get_merge getFromIndex_facts GroupPermissions_def)
  then show ?thesis
    by (simp add: getPermissions_def UserPermissions_def entries_true_get getFromIndex_facts)
qed

lemma getPermissions_subjects:
  "map_get (getPermissions (NewListPermissionStore ch) req g r v) x False \<longleftrightarrow>
     (\<exists>(kind, name) \<in> request_subjects req. x \<in> set (pi_get (index_of ch kind) name g r v))"
  unfolding getPermissions_iff
  by (auto simp: NewListPermissionStore_def index_of_def request_subjects_def split: prod.split)


text \<open>Namespaces and resource names are Kubernetes names, so neither of them is the wildcard.\<close>

definition plain_cache :: "rbacCache \<Rightarrow> bool" where
  "plain_cache ch \<longleftrightarrow>
     (\<forall>b \<in> set (ch_roleBindings ch). rb_Namespace b \<noteq> ''*'' \<and>
        (\<forall>rule \<in> ref_rules ch (rb_Namespace b) (rb_RoleRef b). ''*'' \<notin> set (p_ResourceNames rule))) \<and>
     (\<forall>b \<in> set (ch_clusterRoleBindings ch). \<forall>rule \<in> ref_rules ch ''*'' (crb_RoleRef b). ''*'' \<notin> set (p_ResourceNames rule))"

definition object_ns :: "apiObject \<Rightarrow> string" where
  "object_ns ob =
     (if map_get ob ''namespaceId'' [] \<noteq> [] then map_get ob ''namespaceId'' []
      else if length (str_split (map_get ob ''id'' []) '':'') = 2 then str_split (map_get ob ''id'' []) '':'' ! 0
      else [])"

definition object_name :: "apiObject \<Rightarrow> string" where
  "object_name ob = trim_prefix (map_get ob ''id'' []) (object_ns ob @ '':'')"

lemma canAccess_object:
  "canAccess (Some ob) permset \<longleftrightarrow>
     HasAccess permset (object_ns ob) ''*'' \<or> HasAccess permset ''*'' ''*'' \<or> HasAccess permset (object_ns ob) (object_name ob)"
  by (simp add: canAccess_def object_ns_def object_name_def Let_def)

lemma in_rule_perms:
  "\<lparr>lp_Namespace = ns', lp_Name = n\<rparr> \<in> rule_perms ns rules g r v \<longleftrightarrow>
     (\<exists>rule \<in> rules. grants_all rule g r v \<and> ns' = ns \<and> n = ''*'' \<or>
        grants_name rule g r v n \<and> ns' = (if ns = ''*'' then [] else ns))"
  unfolding rule_perms_def rule_perm_def by (auto simp: image_iff)

lemma in_pi_get:
  assumes "kind \<in> {''User'', ''Group''}" "plain_cache ch"
  shows "\<lparr>lp_Namespace = ns, lp_Name = n\<rparr> \<in> set (pi_get (index_of ch kind) name g r v) \<longleftrightarrow>
     (\<exists>rule \<in> bound_rules ch (kind, name) ns. grants_all rule g r v \<and> n = ''*'' \<or> grants_name rule g r v n) \<or>
     (\<exists>rule \<in> cluster_rules ch (kind, name). grants_all rule g r v \<and> ns = ''*'' \<and> n = ''*'' \<or> ns = [] \<and> grants_name rule g r v n)"
proof -
  let ?B = "{b \<in> set (ch_roleBindings ch). \<exists>s \<in> set (rb_Subjects b). (sj_Kind s, sj_Name s) = (kind, name)}"
  have plain: "rb_Namespace b \<noteq> ''*''" if "b \<in> ?B" for b
    using that assms(2) unfolding plain_cache_def by blast
  have "(\<exists>b \<in> ?B. \<exists>rule \<in> ref_rules ch (rb_Namespace b) (rb_RoleRef b).
            grants_all rule g r v \<and> ns = rb_Namespace b \<and> n = ''*'' \<or>
            grants_name rule g r v n \<and> ns = (if rb_Namespace b = ''*'' then [] else rb_Namespace b)) \<longleftrightarrow>
        (\<exists>b \<in> ?B. rb_Namespace b = ns \<and> (\<exists>rule \<in> ref_rules ch ns (rb_RoleRef b).
            grants_all rule g r v \<and> n = ''*'' \<or> grants_name rule g r v n))"
    using plain by (intro bex_cong refl) auto
  then show ?thesis
    unfolding set_pi_get [OF assms(1)] Un_iff UN_iff in_rule_perms bound_rules_def
    by auto
qed

lemma plain_names:
  assumes "plain_cache ch"
  shows "rule \<in> bound_rules ch sub ns \<Longrightarrow> \<not> grants_name rule g r v ''*''"
    and "rule \<in> cluster_rules ch sub \<Longrightarrow> \<not> grants_name rule g r v ''*''"
    and "bound_rules ch sub ''*'' = {}"
  using assms unfolding plain_cache_def bound_rules_def cluster_rules_def grants_name_def by auto

lemma HasAccess_cache:
  assumes "plain_cache ch"
  shows "HasAccess (getPermissions (NewListPermissionStore ch) req g r v) ns n \<longleftrightarrow>
    (\<exists>sub \<in> request_subjects req.
       (\<exists>rule \<in> bound_rules ch sub ns. grants_all rule g r v \<and> n = ''*'' \<or> grants_name rule g r v n) \<or>
       (\<exists>rule \<in> cluster_rules ch sub. grants_all rule g r v \<and> ns = ''*'' \<and> n = ''*'' \<or> ns = [] \<and> grants_name rule g r v n))"
  unfolding HasAccess_def getPermissions_subjects
proof (intro bex_cong refl)
  fix sub assume "sub \<in> request_subjects req"
  then obtain kind name where sub: "sub = (kind, name)" "kind \<in> {''User'', ''Group''}" by (auto simp: request_subjects_def)
  show "(case sub of (kind, name) \<Rightarrow> \<lparr>lp_Namespace = ns, lp_Name = n\<rparr> \<in> set (pi_get (index_of ch kind) name g r v)) \<longleftrightarrow>
    (\<exists>rule \<in> bound_rules ch sub ns. grants_all rule g r v \<and> n = ''*'' \<or> grants_name rule g r v n) \<or>
    (\<exists>rule \<in> cluster_rules ch sub. grants_all rule g r v \<and> ns = ''*'' \<and> n = ''*'' \<or> ns = [] \<and> grants_name rule g r v n)"
    unfolding sub(1) prod.case by (rule in_pi_get [OF sub(2) assms])
qed

lemma canAccess_authorized:
  assumes "plain_cache ch" "object_ns ob \<noteq> ''*''"
  shows "canAccess (Some ob) (getPermissions (NewListPermissionStore ch) req g r v) \<longleftrightarrow>
    authorized ch req g r v (object_ns ob) (object_name ob)"
  unfolding canAccess_object HasAccess_cache [OF assms(1)] authorized_def
  using assms(2) by (auto simp: plain_names [OF assms(1)])


text \<open>
  C22. A filtered list is the sublist of exactly the objects the caller may list, in the order of the list; the
  shortcut for callers who may list everything changes nothing.
\<close>

theorem FilterList_exact:
  assumes "plain_cache ch" "\<forall>ob \<in> set items. object_ns ob \<noteq> ''*''" "map_get context ''resource'' [] \<noteq> []"
  shows "FilterList (NewListPermissionStore ch) req items context =
    filter (\<lambda>ob. authorized ch req (map_get context ''apiGroup'' []) (map_get context ''resource'' []) ''list''
      (object_ns ob) (object_name ob)) items"
proof -
  let ?p = "getPermissions (NewListPermissionStore ch) req (map_get context ''apiGroup'' []) (map_get context ''resource'' []) ''list''"
  have step: "(if HasAccess ?p ''*'' ''*'' then result @ [ob] else if canAccess (Some ob) ?p then result @ [ob] else result) =
      (if canAccess (Some ob) ?p then result @ [ob] else result)" for ob result
    by (simp add: canAccess_object)
  have "fold (\<lambda>ob result. if canAccess (Some ob) ?p then result @ [ob] else result) items acc =
      acc @ filter (\<lambda>ob. canAccess (Some ob) ?p) items" for acc
    by (induction items arbitrary: acc) simp_all
  with assms(3) have "FilterList (NewListPermissionStore ch) req items context = filter (\<lambda>ob. canAccess (Some ob) ?p) items"
    by (simp add: FilterList_def Let_def step)
  also have "\<dots> = filter (\<lambda>ob. authorized ch req (map_get context ''apiGroup'' []) (map_get context ''resource'' []) ''list''
      (object_ns ob) (object_name ob)) items"
    using assms(2) by (intro filter_cong refl) (simp add: canAccess_authorized [OF assms(1)])
  finally show ?thesis .
qed


text \<open>
  C37. A rule of a role with the resource name \<^verbatim>\<open>*\<close> grants every object of the namespace, although RBAC
  reads it as the name of one object: the index uses \<^verbatim>\<open>*\<close> as its own wildcard and does not escape it.
\<close>

theorem wildcard_resource_name:
  assumes "sub \<in> request_subjects req" "rule \<in> bound_rules ch sub (object_ns ob)" "object_ns ob \<noteq> ''*''"
    and "rule_covers rule g r" "''*'' \<in> set (p_ResourceNames rule)" "has_verb rule (if v = ''list'' then ''get'' else v)"
  shows "CanDo (NewListPermissionStore ch) g r v req (Some ob) = Inr ()"
proof -
  obtain kind name where sub: "sub = (kind, name)" "kind \<in> {''User'', ''Group''}"
    using assms(1) by (auto simp: request_subjects_def)
  have grants: "grants_name rule g r v ''*''" using assms(4-6) by (simp add: grants_name_def)
  obtain b where b: "b \<in> set (ch_roleBindings ch)" "rb_Namespace b = object_ns ob"
      "\<exists>s \<in> set (rb_Subjects b). (sj_Kind s, sj_Name s) = (kind, name)" "rule \<in> ref_rules ch (rb_Namespace b) (rb_RoleRef b)"
    using assms(2) unfolding bound_rules_def sub(1) by auto
  have "\<lparr>lp_Namespace = object_ns ob, lp_Name = ''*''\<rparr> \<in> rule_perms (rb_Namespace b) (ref_rules ch (rb_Namespace b) (rb_RoleRef b)) g r v"
    unfolding in_rule_perms by (rule bexI [OF _ b(4)]) (simp add: grants b(2) assms(3))
  then have "\<lparr>lp_Namespace = object_ns ob, lp_Name = ''*''\<rparr> \<in> set (pi_get (index_of ch kind) name g r v)"
    unfolding set_pi_get [OF sub(2)] using b(1,3) by (intro UnI1 UN_I [of b]) (simp_all add: b(2))
  then have "HasAccess (getPermissions (NewListPermissionStore ch) req g r v) (object_ns ob) ''*''"
    unfolding HasAccess_def getPermissions_subjects by (intro bexI [OF _ assms(1)]) (simp add: sub(1))
  then show ?thesis by (simp add: CanDo_def canAccess_object)
qed

lemma split_n2_cases:
  "c \<notin> set s \<and> split_n2 s c = [s] \<or>
   (\<exists>a b. split_n2 s c = [a, b] \<and> (\<forall>a' b'. s = a' @ c # b' \<and> c \<notin> set a' \<longleftrightarrow> a' = a \<and> b' = b))"
proof (cases "c \<in> set s")
  case True
  then obtain a b where ab: "s = a @ c # b" "c \<notin> set a" by (meson split_list_first)
  then have "split_n2 s c = [a, b]" by (simp add: split_n2_def takeWhile_append dropWhile_append)
  moreover have "s = a' @ c # b' \<and> c \<notin> set a' \<longleftrightarrow> a' = a \<and> b' = b" for a' b'
    using ab by (auto simp: append_eq_append_conv2 append_eq_Cons_conv Cons_eq_append_conv)
  ultimately show ?thesis by blast
qed (simp add: split_n2_def)

text \<open>
  A role template binding has a subject exactly if at most one of user, group principal and group is set and
  either that one is the subject or a well-formed service account \<^verbatim>\<open>namespace:name\<close> is set, which then replaces
  the user or group.
\<close>

theorem BuildSubjectFromRTB_iff:
  "BuildSubjectFromRTB rtb = Inr sub \<longleftrightarrow>
    (\<exists>user principal grp sa. subject_fields rtb = Some (user, principal, grp, sa) \<and>
       length (filter (\<lambda>x. x \<noteq> []) [user, principal, grp]) \<le> 1 \<and>
       (if sa = [] then
          user \<noteq> [] \<and> sub = rtb_subject [] ''User'' user \<or>
          principal \<noteq> [] \<and> sub = rtb_subject [] ''Group'' principal \<or>
          grp \<noteq> [] \<and> sub = rtb_subject [] ''Group'' grp
        else \<exists>ns n. sa = ns @ CHR '':'' # n \<and> CHR '':'' \<notin> set ns \<and> n \<noteq> [] \<and> sub = rtb_subject ns ''ServiceAccount'' n))"
proof (cases "subject_fields rtb")
  case (Some fields)
  obtain user principal grp sa where f: "fields = (user, principal, grp, sa)" by (cases fields)
  show ?thesis
  proof (cases "sa = []")
    case True
    then show ?thesis
      by (cases "user = []"; cases "principal = []"; cases "grp = []") (auto simp: BuildSubjectFromRTB_def Some f)
  next
    case False
    consider "CHR '':'' \<notin> set sa" "split_n2 sa CHR '':'' = [sa]"
      | a b where "split_n2 sa CHR '':'' = [a, b]" "\<And>a' b'. sa = a' @ CHR '':'' # b' \<and> CHR '':'' \<notin> set a' \<longleftrightarrow> a' = a \<and> b' = b"
      using split_n2_cases [of "CHR '':''" sa] by auto
    then show ?thesis
    proof cases
      case 1
      then have "\<not> (\<exists>ns n. sa = ns @ CHR '':'' # n)" by auto
      with 1 False show ?thesis
        by (cases "user = []"; cases "principal = []"; cases "grp = []") (simp_all add: BuildSubjectFromRTB_def Some f)
    next
      case (2 a b)
      have "(\<exists>ns n. sa = ns @ CHR '':'' # n \<and> CHR '':'' \<notin> set ns \<and> n \<noteq> [] \<and> sub = rtb_subject ns ''ServiceAccount'' n) \<longleftrightarrow>
          b \<noteq> [] \<and> sub = rtb_subject a ''ServiceAccount'' b"
        unfolding conj_assoc [symmetric] 2(2) by simp
      with 2(1) False show ?thesis
        by (cases "user = []"; cases "principal = []"; cases "grp = []") (auto simp: BuildSubjectFromRTB_def Some f)
    qed
  qed
qed (simp add: BuildSubjectFromRTB_def)


definition sample_rule :: "string list \<Rightarrow> PolicyRule" where
  "sample_rule names =
     \<lparr>p_APIGroups = [''management.cattle.io''], p_Resources = [''nodes''], p_ResourceNames = names,
      p_NonResourceURLs = [], p_Verbs = [''get'']\<rparr>"

definition sample_cache :: "string list \<Rightarrow> rbacCache" where
  "sample_cache names =
     \<lparr>ch_clusterRoles = (\<lambda>_. Inl NotFound),
      ch_roles = (\<lambda>ns n. if (ns, n) = (''c-1'', ''viewer'')
         then Inr \<lparr>ro_Namespace = ns, ro_Name = n, ro_Labels = [], ro_Owners = [], ro_Rules = [sample_rule names]\<rparr>
         else Inl NotFound),
      ch_clusterRoleBindings = [],
      ch_roleBindings = [\<lparr>rb_Namespace = ''c-1'', rb_Name = ''b'', rb_Labels = [], rb_Owners = [],
         rb_Subjects = [\<lparr>sj_Kind = ''Group'', sj_Name = ''g'', sj_Namespace = [], sj_APIGroup = []\<rparr>],
         rb_RoleRef = \<lparr>rr_APIGroup = ''rbac.authorization.k8s.io'', rr_Kind = ''Role'', rr_Name = ''viewer''\<rparr>\<rparr>]\<rparr>"

definition sample_call :: Request where
  "sample_call = \<lparr>rq_Header = [(''Impersonate-User'', [''u'']), (''Impersonate-Group'', [''g''])], rq_Cookies = [], rq_Scheme = [], rq_Path = []\<rparr>"

lemma sample_access:
  "plain_cache (sample_cache [''m-1''])"
  "object_ns [(''id'', ''c-1:m-1'')] = ''c-1''" "object_name [(''id'', ''c-1:m-1'')] = ''m-1''"
  "object_ns [(''id'', ''c-1:m-2'')] = ''c-1''" "object_name [(''id'', ''c-1:m-2'')] = ''m-2''"
  by code_simp+

lemma sample_bound:
  "(''Group'', ''g'') \<in> request_subjects sample_call" "sample_rule [''*''] \<in> bound_rules (sample_cache [''*'']) (''Group'', ''g'') ''c-1''"
  "rule_covers (sample_rule [''*'']) ''management.cattle.io'' ''nodes''" "has_verb (sample_rule [''*'']) ''get''"
  by code_simp+

lemma sample_authorized:
  "authorized (sample_cache [''m-1'']) sample_call ''management.cattle.io'' ''nodes'' ''list'' ''c-1'' ''m-1''"
  "\<not> authorized (sample_cache [''m-1'']) sample_call ''management.cattle.io'' ''nodes'' ''list'' ''c-1'' ''m-2''"
  by code_simp+


theorem FilterList_exact_witness:
  "FilterList (NewListPermissionStore (sample_cache [''m-1''])) sample_call [[(''id'', ''c-1:m-1'')], [(''id'', ''c-1:m-2'')]]
     [(''apiGroup'', ''management.cattle.io''), (''resource'', ''nodes'')] = [[(''id'', ''c-1:m-1'')]]"
  by (subst FilterList_exact) (simp_all add: sample_access sample_authorized map_get_def)

theorem wildcard_resource_name_witness:
  "CanDo (NewListPermissionStore (sample_cache [''*''])) ''management.cattle.io'' ''nodes'' ''get'' sample_call
     (Some [(''id'', ''c-1:m-2'')]) = Inr ()"
  by (rule wildcard_resource_name [of "(''Group'', ''g'')" _ "sample_rule [''*'']"])
    (simp_all add: sample_access sample_bound, simp_all add: sample_rule_def)

end
