(* ===== verification/Refs.thy ===== *)
theory Refs
  imports Objects
begin

text \<open>
  References to namespaced objects, \<^verbatim>\<open>src/pkg/ref/parse.go\<close>, and the decimal printing of
  Go's \<^verbatim>\<open>strconv\<close> and \<^verbatim>\<open>fmt\<close> packages that several controllers use to make names.
\<close>

section \<open>References\<close>

definition FromStrings :: "string \<Rightarrow> string \<Rightarrow> string" where
  "FromStrings namespace name = namespace @ '':'' @ name"

definition Ref :: "string \<Rightarrow> string \<Rightarrow> string" where
  "Ref namespace name = (if namespace = [] then name else FromStrings namespace name)"

definition Parse :: "string \<Rightarrow> string \<times> string" where
  "Parse reference = (case split_n2 reference CHR '':'' of [namespace, name] \<Rightarrow> (namespace, name) | _ \<Rightarrow> ([], reference))"

lemma Parse_Ref:
  assumes "CHR '':'' \<notin> set namespace" "CHR '':'' \<notin> set name"
  shows "Parse (Ref namespace name) = (namespace, name)"
  using assms by (simp add: Parse_def Ref_def FromStrings_def split_n2_def takeWhile_append dropWhile_append)

section \<open>Decimal numbers\<close>

definition digit :: "nat \<Rightarrow> char" where
  "digit d = char_of (48 + d)"

definition is_digit :: "char \<Rightarrow> bool" where
  "is_digit c \<longleftrightarrow> 48 \<le> (of_char c :: nat) \<and> (of_char c :: nat) \<le> 57"

fun digits :: "nat \<Rightarrow> string" where
  "digits n = (if n < 10 then [digit n] else digits (n div 10) @ [digit (n mod 10)])"

declare digits.simps [simp del]

definition num_value :: "string \<Rightarrow> nat" where
  "num_value s = foldl (\<lambda>a c. 10 * a + (of_char c - 48)) 0 s"

text \<open>\<^verbatim>\<open>strconv.Itoa\<close>, and \<^verbatim>\<open>fmt\<close>'s verb \<^verbatim>\<open>%0wd\<close>, whose width counts the sign.\<close>

definition Itoa :: "int \<Rightarrow> string" where
  "Itoa i = (if i < 0 then CHR ''-'' # digits (nat (- i)) else digits (nat i))"

definition pad_zero :: "nat \<Rightarrow> string \<Rightarrow> string" where
  "pad_zero w s = replicate (w - length s) CHR ''0'' @ s"

definition format_padded :: "nat \<Rightarrow> int \<Rightarrow> string" where
  "format_padded w i =
     (if i < 0 then CHR ''-'' # pad_zero (w - 1) (digits (nat (- i))) else pad_zero w (digits (nat i)))"

text \<open>\<^verbatim>\<open>strconv.Atoi\<close> on a string of digits: its value, or the largest int on overflow.\<close>

definition Atoi_digits :: "string \<Rightarrow> int" where
  "Atoi_digits s = min max_duration (int (num_value s))"

lemma of_char_digit: "d < 10 \<Longrightarrow> of_char (digit d) = (48 + d :: nat)"
  by (simp add: digit_def)

lemma num_value_append: "num_value (s @ t) = foldl (\<lambda>a c. 10 * a + (of_char c - 48)) (num_value s) t"
  by (simp add: num_value_def)

lemma num_value_digits: "num_value (digits n) = n"
proof (induction n rule: digits.induct)
  case (1 n)
  show ?case
  proof (cases "n < 10")
    case True
    then show ?thesis by (subst digits.simps) (simp add: num_value_def of_char_digit)
  next
    case False
    with 1 show ?thesis by (subst digits.simps) (simp add: num_value_append of_char_digit)
  qed
qed

lemma num_value_pad: "num_value (pad_zero w s) = num_value s"
proof -
  have "foldl (\<lambda>a c. 10 * a + (of_char c - 48)) 0 (replicate k CHR ''0'') = (0 :: nat)" for k
    by (induction k) simp_all
  then show ?thesis unfolding pad_zero_def num_value_append by (simp add: num_value_def)
qed

lemma digits_is_digit: "c \<in> set (digits n) \<Longrightarrow> is_digit c"
proof (induction n rule: digits.induct)
  case (1 n)
  show ?case
  proof (cases "n < 10")
    case True
    with 1 show ?thesis by (subst (asm) (2) digits.simps) (simp add: is_digit_def of_char_digit)
  next
    case False
    have "c \<in> set (digits (n div 10)) \<or> c = digit (n mod 10)"
      using 1(2) False by (subst (asm) digits.simps) auto
    with 1(1) False show ?thesis by (auto simp: is_digit_def of_char_digit)
  qed
qed

text \<open>Two numbers with the same padded text are the same number.\<close>

lemma format_padded_inj: "format_padded w i = format_padded w' j \<Longrightarrow> i = j"
proof -
  have first_digit: "pad_zero v (digits n) \<noteq> CHR ''-'' # s" for v n s
  proof
    assume eq: "pad_zero v (digits n) = CHR ''-'' # s"
    have "CHR ''-'' \<in> set (pad_zero v (digits n))" unfolding eq by simp
    then show False using digits_is_digit [of "CHR ''-''" n] by (auto simp: pad_zero_def is_digit_def)
  qed
  have inj: "pad_zero v (digits n) = pad_zero v' (digits m) \<Longrightarrow> n = m" for v v' n m
    by (metis num_value_pad num_value_digits)
  assume "format_padded w i = format_padded w' j"
  then show ?thesis
    by (auto simp: format_padded_def first_digit dest!: inj split: if_splits) (metis first_digit)
qed

lemma length_digits: "0 < length (digits n)"
  by (subst digits.simps) simp

lemma Itoa_padded: "Itoa i = format_padded 0 i"
  by (simp add: Itoa_def format_padded_def pad_zero_def)

end
