(* ===== verification/NodePool.thy ===== *)
theory NodePool
  imports Refs "HOL-Library.Multiset" "HOL-Library.List_Lexorder" "HOL-Library.Char_ord"
begin

text \<open>
  The node pool controller, \<^verbatim>\<open>src/pkg/controllers/management/nodepool/nodepool.go\<close>: a pass
  compares the nodes of a pool with its quantity, first on the cache without effects and
  then, if something is to change, on the server.  The goroutines a pass starts (delayed
  deletions and the polls of unreachable nodes) are recorded in the state with their
  arguments, and \<open>requeue\<close> is the run of a poll over the answers it gets.

  Conditions of a node are a map from type to status.  The sort by host name is a parameter,
  because \<^verbatim>\<open>sort.Slice\<close> leaves the order of equal names open.
\<close>

section \<open>Data\<close>

record Taint =
  ta_Key :: string
  ta_Effect :: string
  ta_TimeAdded :: "int option"

record Node =
  nd_Namespace :: string
  nd_Name :: string
  nd_Labels :: "(string, string) gomap"
  nd_Annotations :: "(string, string) gomap"
  nd_Etcd :: bool
  nd_ControlPlane :: bool
  nd_Worker :: bool
  nd_NodeTemplateName :: string
  nd_NodePoolName :: string
  nd_RequestedHostname :: string
  nd_Taints :: "Taint list"
  nd_Conditions :: conditions
  nd_NodeConditions :: "(string \<times> string) list"
  nd_Role :: "string list option"

record NodePool =
  np_Namespace :: string
  np_Name :: string
  np_Labels :: "(string, string) gomap"
  np_Annotations :: "(string, string) gomap"
  np_Etcd :: bool
  np_ControlPlane :: bool
  np_Worker :: bool
  np_NodeTemplateName :: string
  np_HostnamePrefix :: string
  np_Quantity :: int
  np_DeleteNotReadyAfterSecs :: int
  np_Conditions :: conditions

datatype goroutine = DeleteLater string string int | Requeue int NodePool Node

type_synonym nodeKey = "string \<times> string"

definition node_key :: "Node \<Rightarrow> nodeKey" where
  "node_key n = (nd_Namespace n, nd_Name n)"

record 'w Controller =
  nc_NodePoolLister :: "NodePool list result"
  nc_NodeLister :: "string \<Rightarrow> Node list result"
  nc_Nodes :: "('w, nodeKey, Node) client"
  nc_sort :: "Node list \<Rightarrow> Node list"
  nc_now :: int

record 'w poolState =
  ps_nodes :: 'w
  ps_syncmap :: "(string, bool) gomap"
  ps_spawned :: "goroutine list"
  ps_queue :: "nodeKey list"

definition nodesA :: "('w, 'a) act \<Rightarrow> ('w poolState, 'a) act" where
  "nodesA = zoomA ps_nodes ps_nodes_update"

definition Enqueue :: "string \<Rightarrow> string \<Rightarrow> ('w poolState, unit) act" where
  "Enqueue ns name s = (Inr (), s\<lparr>ps_queue := ps_queue s @ [(ns, name)]\<rparr>)"

definition spawn :: "goroutine \<Rightarrow> ('w poolState, unit) act" where
  "spawn g s = (Inr (), s\<lparr>ps_spawned := ps_spawned s @ [g]\<rparr>)"

section \<open>Taints, readiness and host names\<close>

definition unReachableTaint :: Taint where
  "unReachableTaint = \<lparr>ta_Key = ''node.kubernetes.io/unreachable'', ta_Effect = ''NoExecute'', ta_TimeAdded = None\<rparr>"

definition MatchTaint :: "Taint \<Rightarrow> Taint \<Rightarrow> bool" where
  "MatchTaint t taintToMatch \<longleftrightarrow> ta_Key t = ta_Key taintToMatch \<and> ta_Effect t = ta_Effect taintToMatch"

definition getTaint :: "Taint list \<Rightarrow> Taint \<Rightarrow> Taint option" where
  "getTaint taints taintToFind = find (\<lambda>t. MatchTaint t taintToFind) taints"

definition isNodeReadyUnknown :: "Node \<Rightarrow> bool" where
  "isNodeReadyUnknown node =
     (case find (\<lambda>c. fst c = ''Ready'') (nd_NodeConditions node) of None \<Rightarrow> False | Some c \<Rightarrow> snd c = ''Unknown'')"

text \<open>
  The regular expression \<^verbatim>\<open>^(.*?)([0-9]+)$\<close>: the digits at the end, if any, and what is
  before them, which may not contain a newline.
\<close>

definition trailing_digits :: "string \<Rightarrow> string" where
  "trailing_digits s = rev (takeWhile is_digit (rev s))"

definition parsePrefix :: "string \<Rightarrow> string \<times> nat \<times> int" where
  "parsePrefix fullPrefix =
     (let ds = trailing_digits fullPrefix; pre = take (length fullPrefix - length ds) fullPrefix in
      if ds = [] \<or> CHR 0x0A \<in> set pre then (fullPrefix, 1, 1)
      else (pre, length ds, Atoi_digits ds))"

definition hostname :: "string \<Rightarrow> nat \<Rightarrow> int \<Rightarrow> string" where
  "hostname pre minLength i =
     (let ia = Itoa i in if length ia < minLength then pre @ format_padded minLength i else pre @ ia)"

section \<open>Operations on nodes\<close>

definition new_node :: "string \<Rightarrow> NodePool \<Rightarrow> Node" where
  "new_node name nodePool =
     \<lparr>nd_Namespace = np_Namespace nodePool, nd_Name = [], nd_Labels = np_Labels nodePool,
      nd_Annotations = np_Annotations nodePool, nd_Etcd = np_Etcd nodePool, nd_ControlPlane = np_ControlPlane nodePool,
      nd_Worker = np_Worker nodePool, nd_NodeTemplateName = np_NodeTemplateName nodePool,
      nd_NodePoolName = Ref (np_Namespace nodePool) (np_Name nodePool), nd_RequestedHostname = name,
      nd_Taints = [], nd_Conditions = [], nd_NodeConditions = [], nd_Role = None\<rparr>"

definition createNode :: "'w Controller \<Rightarrow> string \<Rightarrow> NodePool \<Rightarrow> bool \<Rightarrow> ('w poolState, Node) act" where
  "createNode c name nodePool simulate =
     (if simulate then ret (new_node name nodePool) else nodesA (ccreate (nc_Nodes c) (new_node name nodePool)))"

definition deleteNode :: "'w Controller \<Rightarrow> Node \<Rightarrow> int \<Rightarrow> ('w poolState, unit) act" where
  "deleteNode c node duration =
     (if duration > 0 then spawn (DeleteLater (nd_Namespace node) (nd_Name node) duration)
      else nodesA (cdelete (nc_Nodes c) (nd_Namespace node, nd_Name node)))"

definition nodes :: "'w Controller \<Rightarrow> NodePool \<Rightarrow> bool \<Rightarrow> ('w poolState, Node list) act" where
  "nodes c nodePool simulate =
     (if simulate then liftR (nc_NodeLister c (np_Namespace nodePool))
      else bindA (nodesA (clist (nc_Nodes c) (\<lambda>_. True)))
        (\<lambda>items. ret (filter (\<lambda>n. nd_Namespace n = np_Namespace nodePool) items)))"

definition needRoleUpdate :: "Node \<Rightarrow> NodePool \<Rightarrow> bool" where
  "needRoleUpdate node nodePool =
     (case nd_Role node of
        None \<Rightarrow> False
      | Some roles \<Rightarrow>
          if roles = [] \<and> \<not> np_Worker nodePool then True
          else
            (let nodeRolesMap = fold (\<lambda>r m. if r \<in> {''etcd'', ''controlplane'', ''worker''} then map_put r True m else m) roles [];
                 poolRolesMap = [(''etcd'', np_Etcd nodePool), (''controlplane'', np_ControlPlane nodePool), (''worker'', np_Worker nodePool)]
             in \<not> map_eq nodeRolesMap poolRolesMap))"

definition pool_roles :: "NodePool \<Rightarrow> string list" where
  "pool_roles nodePool =
     (if np_ControlPlane nodePool then [''controlplane''] else []) @
     (if np_Etcd nodePool then [''etcd''] else []) @
     (if np_Worker nodePool then [''worker''] else [])"

definition updateNodeRoles :: "'w Controller \<Rightarrow> Node \<Rightarrow> NodePool \<Rightarrow> bool \<Rightarrow> ('w poolState, Node) act" where
  "updateNodeRoles c existing nodePool simulate =
     (let toUpdate = existing\<lparr>nd_Role := Some (pool_roles nodePool)\<rparr> in
      if simulate then ret toUpdate else nodesA (cupdate (nc_Nodes c) toUpdate))"

section \<open>A pass over the pool\<close>

definition in_pool :: "NodePool \<Rightarrow> Node \<Rightarrow> bool" where
  "in_pool nodePool node \<longleftrightarrow> snd (Parse (nd_NodePoolName node)) = np_Name nodePool"

definition node_failed :: "Node \<Rightarrow> bool" where
  "node_failed node \<longleftrightarrow>
     cond_false ''Provisioned'' (nd_Conditions node) \<or> cond_false ''Initialized'' (nd_Conditions node) \<or>
     cond_false ''Saved'' (nd_Conditions node)"

definition node_id :: "Node \<Rightarrow> string" where
  "node_id node = nd_Namespace node @ '':'' @ nd_Name node"

definition start_requeue :: "int \<Rightarrow> NodePool \<Rightarrow> Node \<Rightarrow> ('w poolState, unit) act" where
  "start_requeue timeout nodePool node s =
     (if map_has (ps_syncmap s) (node_id node) then (Inr (), s)
      else spawn (Requeue timeout nodePool node) (s\<lparr>ps_syncmap := map_put (node_id node) True (ps_syncmap s)\<rparr>))"

text \<open>
  The handling of an unreachable node.  A matching taint without a time, on a node whose
  readiness is unknown, makes the code dereference a nil pointer.
\<close>

definition check_unreachable :: "'w Controller \<Rightarrow> NodePool \<Rightarrow> bool \<Rightarrow> int \<Rightarrow> Node \<Rightarrow> bool \<Rightarrow> ('w poolState, bool) act" where
  "check_unreachable c nodePool simulate deleteNotReadyAfter node changed =
     (case getTaint (nd_Taints node) unReachableTaint of
        None \<Rightarrow> ret changed
      | Some q \<Rightarrow>
          if deleteNotReadyAfter > 0 then
            (if isNodeReadyUnknown node \<and> \<not> simulate then
               (case ta_TimeAdded q of
                  None \<Rightarrow> raise (Err ''panic: nil pointer dereference'')
                | Some start \<Rightarrow>
                    if time_since (nc_now c) start > deleteNotReadyAfter
                    then bindA (deleteNode c node 0) (\<lambda>_. ret True)
                    else bindA (start_requeue deleteNotReadyAfter nodePool node) (\<lambda>_. ret True))
             else ret True)
          else ret changed)"

definition check_node ::
    "'w Controller \<Rightarrow> NodePool \<Rightarrow> bool \<Rightarrow> int \<Rightarrow> Node \<Rightarrow> (string, Node) gomap \<times> bool \<times> Node list \<Rightarrow>
     ('w poolState, (string, Node) gomap \<times> bool \<times> Node list) act" where
  "check_node c nodePool simulate deleteNotReadyAfter node = (\<lambda>(byName, changed, ns).
     let byName = map_put (nd_RequestedHostname node) node byName in
     if \<not> in_pool nodePool node then ret (byName, changed, ns)
     else bindA (if node_failed node \<and> \<not> simulate then deleteNode c node (120 * second) else ret ()) (\<lambda>_.
       bindA (check_unreachable c nodePool simulate deleteNotReadyAfter node (changed \<or> node_failed node)) (\<lambda>changed.
         ret (byName, changed, ns @ [node]))))"

partial_function (option) create_missing ::
    "'w Controller \<Rightarrow> NodePool \<Rightarrow> bool \<Rightarrow> int \<Rightarrow> string \<Rightarrow> nat \<Rightarrow> int \<Rightarrow> (string, Node) gomap \<Rightarrow> bool \<Rightarrow> Node list \<Rightarrow>
     'w poolState \<Rightarrow> (((string, Node) gomap \<times> bool \<times> Node list) result \<times> 'w poolState) option" where
  "create_missing c nodePool simulate quantity pre minLength i byName changed ns s =
     (if \<not> int (length ns) < quantity then Some (Inr (byName, changed, ns), s)
      else if map_has byName (hostname pre minLength i)
      then create_missing c nodePool simulate quantity pre minLength (wrap64 (i + 1)) byName changed ns s
      else
        (case createNode c (hostname pre minLength i) nodePool simulate s of
           (r, s') \<Rightarrow>
             (case r of
                Inl e \<Rightarrow> Some (Inl e, s')
              | Inr newNode \<Rightarrow>
                  create_missing c nodePool simulate quantity pre minLength (wrap64 (i + 1))
                    (map_put (nd_RequestedHostname newNode) newNode byName) True (ns @ [newNode]) s')))"

declare create_missing.simps [code]

text \<open>The errors of these deletions are ignored.\<close>

fun remove_extra :: "'w Controller \<Rightarrow> bool \<Rightarrow> nat \<Rightarrow> bool \<Rightarrow> Node list \<Rightarrow> 'w poolState \<Rightarrow> (bool \<times> Node list) \<times> 'w poolState" where
  "remove_extra c simulate 0 changed ns s = ((changed, ns), s)"
| "remove_extra c simulate (Suc k) changed ns s =
     (let sorted = nc_sort c ns; toDelete = last sorted in
      remove_extra c simulate k True (butlast sorted) (if simulate then s else snd (deleteNode c toDelete 0 s)))"

definition update_roles :: "'w Controller \<Rightarrow> NodePool \<Rightarrow> bool \<Rightarrow> Node list \<Rightarrow> bool \<Rightarrow> ('w poolState, bool) act" where
  "update_roles c nodePool simulate ns changed =
     foldA (\<lambda>n changed. if needRoleUpdate n nodePool then bindA (updateNodeRoles c n nodePool simulate) (\<lambda>_. ret True) else ret changed)
       ns changed"

definition createOrCheckNodes :: "'w Controller \<Rightarrow> NodePool \<Rightarrow> bool \<Rightarrow> 'w poolState \<Rightarrow> (bool result \<times> 'w poolState) option" where
  "createOrCheckNodes c nodePool simulate s =
     (let deleteNotReadyAfter = wrap64 (np_DeleteNotReadyAfterSecs nodePool * second) in
      case bindA (nodes c nodePool simulate)
             (\<lambda>allNodes. foldA (check_node c nodePool simulate deleteNotReadyAfter) allNodes ([], False, [])) s of
        (Inl e, s) \<Rightarrow> Some (Inl e, s)
      | (Inr (byName, changed, ns), s) \<Rightarrow>
          (let quantity = max 0 (np_Quantity nodePool) in
           case parsePrefix (np_HostnamePrefix nodePool) of
             (pre, minLength, start) \<Rightarrow>
               Option.bind (create_missing c nodePool simulate quantity pre minLength start byName changed ns s) (\<lambda>(r, s).
                 case r of
                   Inl e \<Rightarrow> Some (Inl e, s)
                 | Inr (byName, changed, ns) \<Rightarrow>
                     (case remove_extra c simulate (length ns - nat quantity) changed ns s of
                        ((changed, ns), s) \<Rightarrow> Some (update_roles c nodePool simulate ns changed s)))))"

definition reconcile :: "'w Controller \<Rightarrow> NodePool \<Rightarrow> 'w poolState \<Rightarrow> (unit result \<times> 'w poolState) option" where
  "reconcile c nodePool s =
     Option.bind (createOrCheckNodes c nodePool True s) (\<lambda>(r, s).
       case r of
         Inl e \<Rightarrow> Some (Inl e, s)
       | Inr changed \<Rightarrow>
           if changed then map_option (\<lambda>(r, s). (map_sum id (\<lambda>_. ()) r, s)) (createOrCheckNodes c nodePool False s)
           else Some (Inr (), s))"

section \<open>Handlers\<close>

definition Create :: "NodePool \<Rightarrow> ('w poolState, NodePool) act" where
  "Create nodePool = ret nodePool"

text \<open>
  \<^verbatim>\<open>Cond.Do\<close>: the condition is unknown while the function runs, unless it was false, then true or
  false by its outcome.  The object comes back in both cases.
\<close>

definition mark_unknown :: "NodePool \<Rightarrow> NodePool" where
  "mark_unknown nodePool =
     (if cond_false ''Updated'' (np_Conditions nodePool) then nodePool
      else nodePool\<lparr>np_Conditions := map_put ''Updated'' ''Unknown'' (np_Conditions nodePool)\<rparr>)"

definition mark_outcome :: "NodePool \<Rightarrow> unit result \<Rightarrow> NodePool \<times> error option" where
  "mark_outcome nodePool r =
     (case r of
        Inl e \<Rightarrow> (nodePool\<lparr>np_Conditions := map_put ''Updated'' ''False'' (np_Conditions nodePool)\<rparr>, Some e)
      | Inr _ \<Rightarrow> (nodePool\<lparr>np_Conditions := map_put ''Updated'' ''True'' (np_Conditions nodePool)\<rparr>, None))"

definition Updated :: "'w Controller \<Rightarrow> NodePool \<Rightarrow> 'w poolState \<Rightarrow> ((NodePool \<times> error option) \<times> 'w poolState) option" where
  "Updated c nodePool s =
     map_option (\<lambda>(r, s). (mark_outcome (mark_unknown nodePool) r, s)) (reconcile c (mark_unknown nodePool) s)"

definition Remove :: "'w Controller \<Rightarrow> NodePool \<Rightarrow> ('w poolState, NodePool) act" where
  "Remove c nodePool =
     bindA (nodes c nodePool False) (\<lambda>allNodes.
     bindA (forA (\<lambda>node. if \<not> in_pool nodePool node then ret () else deleteNode c node 0) allNodes) (\<lambda>_.
     ret nodePool))"

definition machineChanged :: "'w Controller \<Rightarrow> Node option \<Rightarrow> ('w poolState, unit) act" where
  "machineChanged c machine =
     (case machine of
        None \<Rightarrow> bindA (liftR (nc_NodePoolLister c)) (\<lambda>nps. forA (\<lambda>np. Enqueue (np_Namespace np) (np_Name np)) nps)
      | Some m \<Rightarrow>
          if nd_NodePoolName m \<noteq> [] then (case Parse (nd_NodePoolName m) of (ns, name) \<Rightarrow> Enqueue ns name)
          else ret ())"

text \<open>
  The polls of an unreachable node: every five seconds the cache answers with the node or
  an error, at a time.  \<open>None\<close>: the goroutine is still running; \<open>Some b\<close>: it left the loop
  and has (\<open>b\<close>) or has not enqueued the pool.
\<close>

fun requeue_loop :: "int \<Rightarrow> (int \<times> Node result) list \<Rightarrow> bool result option" where
  "requeue_loop timeout [] = None"
| "requeue_loop timeout ((now, r) # polls) =
     (case r of
        Inl _ \<Rightarrow> Some (Inr False)
      | Inr exist \<Rightarrow>
          (case getTaint (nd_Taints exist) unReachableTaint of
             None \<Rightarrow> Some (Inr False)
           | Some t \<Rightarrow>
               (case ta_TimeAdded t of
                  None \<Rightarrow> Some (Inl (Err ''panic: nil pointer dereference''))
                | Some start \<Rightarrow> if time_since now start > timeout then Some (Inr True) else requeue_loop timeout polls)))"

definition requeue :: "int \<Rightarrow> NodePool \<Rightarrow> Node \<Rightarrow> (int \<times> Node result) list \<Rightarrow> 'w poolState \<Rightarrow> (unit result \<times> 'w poolState) option" where
  "requeue timeout np node polls s =
     Option.bind (if getTaint (nd_Taints node) unReachableTaint = None then Some (Inr False) else requeue_loop timeout polls) (\<lambda>r.
       case r of
         Inl e \<Rightarrow> Some (Inl e, s)
       | Inr b \<Rightarrow>
           Some (bindA (if b then Enqueue (np_Namespace np) (np_Name np) else ret ()) (\<lambda>_ s.
             (Inr (), s\<lparr>ps_syncmap := map_del (node_id node) (ps_syncmap s)\<rparr>)) s))"

end
