(* ===== verification/NodePoolFacts.thy ===== *)
theory NodePoolFacts
  imports NodePool
begin

text \<open>
  Properties of a pass of the node pool controller: it returns, brings the pool to its
  quantity, leaves the nodes of other pools alone and keeps host names unique.
\<close>

section \<open>Proof rules for a pass\<close>

lemma create_missing_rule:
  assumes "create_missing c np sim q pre ml i byName changed ns s = Some (r, s')"
    and "I i byName changed ns s"
    and "\<And>i byName changed ns s. I i byName changed ns s \<Longrightarrow> int (length ns) < q \<Longrightarrow> map_has byName (hostname pre ml i) \<Longrightarrow>
      I (wrap64 (i + 1)) byName changed ns s"
    and "\<And>i byName changed ns s. I i byName changed ns s \<Longrightarrow> int (length ns) < q \<Longrightarrow> \<not> map_has byName (hostname pre ml i) \<Longrightarrow>
      wp (createNode c (hostname pre ml i) np sim)
        (\<lambda>n. I (wrap64 (i + 1)) (map_put (nd_RequestedHostname n) n byName) True (ns @ [n])) E s"
  shows "case r of Inl e \<Rightarrow> E e s' | Inr (byName, changed, ns) \<Rightarrow> \<not> int (length ns) < q \<and> (\<exists>i. I i byName changed ns s')"
proof -
  let ?P = "\<lambda>c' np' sim' q' pre' ml' i byName changed ns s (r, s'). c' = c \<longrightarrow> np' = np \<longrightarrow> sim' = sim \<longrightarrow> q' = q \<longrightarrow> pre' = pre \<longrightarrow> ml' = ml \<longrightarrow>
    I i byName changed ns s \<longrightarrow>
    (case r of Inl e \<Rightarrow> E e s' | Inr (byName, changed, ns) \<Rightarrow> \<not> int (length ns) < q \<and> (\<exists>i. I i byName changed ns s'))"
  have "?P c np sim q pre ml i byName changed ns s (r, s')"
  proof (rule create_missing.raw_induct [where P = ?P, OF _ assms(1)], goal_cases)
    case (1 f c' np' sim' q' pre' ml' i byName changed ns s y)
    obtain r s' where y: "y = (r, s')" by (cases y)
    show ?case
    proof (unfold y prod.case, intro impI)
      assume eqs: "c' = c" "np' = np" "sim' = sim" "q' = q" "pre' = pre" "ml' = ml" and inv: "I i byName changed ns s"
      note IH = 1(1) and eq = 1(2) [unfolded eqs y]
      show "case r of Inl e \<Rightarrow> E e s' | Inr (byName, changed, ns) \<Rightarrow> \<not> int (length ns) < q \<and> (\<exists>i. I i byName changed ns s')"
      proof (cases "int (length ns) < q")
        case False
        with eq inv show ?thesis by auto
      next
        case len: True
        show ?thesis
        proof (cases "map_has byName (hostname pre ml i)")
          case True
          with len eq have "f c np sim q pre ml (wrap64 (i + 1)) byName changed ns s = Some (r, s')" by simp
          from IH [OF this] assms(3) [OF inv len True] show ?thesis by simp
        next
          case False
          note step = assms(4) [OF inv len False]
          obtain r1 s1 where call: "createNode c (hostname pre ml i) np sim s = (r1, s1)" by (cases "createNode c (hostname pre ml i) np sim s")
          show ?thesis
          proof (cases r1)
            case (Inl e)
            with len False eq call step show ?thesis by (auto simp: wp_def)
          next
            case (Inr n)
            with len False eq call have "f c np sim q pre ml (wrap64 (i + 1)) (map_put (nd_RequestedHostname n) n byName) True (ns @ [n]) s1 = Some (r, s')"
              by simp
            from IH [OF this] step call Inr show ?thesis by (simp add: wp_def)
          qed
        qed
      qed
    qed
  qed
  with assms(2) show ?thesis by simp
qed

text \<open>A pass by its four loops.\<close>

lemma pass_rule:
  assumes "createOrCheckNodes c np sim s = Some (r, s')"
    and "wp (bindA (nodes c np sim)
          (\<lambda>allNodes. foldA (check_node c np sim (wrap64 (np_DeleteNotReadyAfterSecs np * second))) allNodes ([], False, [])))
        (\<lambda>(byName, changed, ns). I (snd (snd (parsePrefix (np_HostnamePrefix np)))) byName changed ns) E s"
    and "\<And>pre ml i byName changed ns s. I i byName changed ns s \<Longrightarrow> int (length ns) < max 0 (np_Quantity np) \<Longrightarrow>
      map_has byName (hostname pre ml i) \<Longrightarrow> I (wrap64 (i + 1)) byName changed ns s"
    and "\<And>pre ml i byName changed ns s. I i byName changed ns s \<Longrightarrow> int (length ns) < max 0 (np_Quantity np) \<Longrightarrow>
      \<not> map_has byName (hostname pre ml i) \<Longrightarrow>
      wp (createNode c (hostname pre ml i) np sim)
        (\<lambda>n. I (wrap64 (i + 1)) (map_put (nd_RequestedHostname n) n byName) True (ns @ [n])) E s"
    and "\<And>i byName changed ns s. I i byName changed ns s \<Longrightarrow> nat (max 0 (np_Quantity np)) \<le> length ns \<Longrightarrow>
      (case remove_extra c sim (length ns - nat (max 0 (np_Quantity np))) changed ns s of
        ((changed, ns), s) \<Rightarrow> wp (update_roles c np sim ns changed) Q E s)"
  shows "case r of Inl e \<Rightarrow> E e s' | Inr changed \<Rightarrow> Q changed s'"
proof -
  obtain pre ml start where prefix: "parsePrefix (np_HostnamePrefix np) = (pre, ml, start)" by (cases "parsePrefix (np_HostnamePrefix np)")
  let ?list = "bindA (nodes c np sim)
          (\<lambda>allNodes. foldA (check_node c np sim (wrap64 (np_DeleteNotReadyAfterSecs np * second))) allNodes ([], False, []))"
  obtain r1 s1 where list: "?list s = (r1, s1)" by (cases "?list s")
  show ?thesis
  proof (cases r1)
    case (Inl e)
    with list assms(1,2) show ?thesis by (auto simp: createOrCheckNodes_def Let_def wp_def)
  next
    case (Inr t)
    obtain byName changed ns where t: "t = (byName, changed, ns)" by (cases t)
    obtain r2 s2 where made: "create_missing c np sim (max 0 (np_Quantity np)) pre ml start byName changed ns s1 = Some (r2, s2)"
      using assms(1) list prefix by (auto simp: createOrCheckNodes_def Let_def Inr t Option.bind_eq_Some_conv)
    have "case r2 of Inl e \<Rightarrow> E e s2
      | Inr (byName, changed, ns) \<Rightarrow> \<not> int (length ns) < max 0 (np_Quantity np) \<and> (\<exists>i. I i byName changed ns s2)"
      using list assms(2) by (intro create_missing_rule [OF made, of I] assms(3,4)) (simp_all add: wp_def Inr t prefix)
    then show ?thesis
    proof (cases r2)
      case (Inr u)
      obtain byName' changed' ns' where u: "u = (byName', changed', ns')" by (cases u)
      obtain changed'' ns'' s3 where extra: "remove_extra c sim (length ns' - nat (max 0 (np_Quantity np))) changed' ns' s2 = ((changed'', ns''), s3)"
        by (metis surj_pair)
      have "(r, s') = update_roles c np sim ns'' changed'' s3"
        using assms(1) list prefix made extra \<open>r1 = Inr t\<close> by (simp add: createOrCheckNodes_def Let_def Inr t u)
      moreover assume "case r2 of Inl e \<Rightarrow> E e s2
        | Inr (byName, changed, ns) \<Rightarrow> \<not> int (length ns) < max 0 (np_Quantity np) \<and> (\<exists>i. I i byName changed ns s2)"
      then obtain i where "I i byName' changed' ns' s2" "nat (max 0 (np_Quantity np)) \<le> length ns'" by (auto simp: Inr u)
      from assms(5) [OF this] have "wp (update_roles c np sim ns'' changed'') Q E s3" by (simp add: extra)
      ultimately show ?thesis by (simp add: wp_def split: prod.splits)
    qed (use assms(1) list prefix made \<open>r1 = Inr t\<close> in \<open>auto simp: createOrCheckNodes_def Let_def t\<close>)
  qed
qed

section \<open>Every pass returns\<close>

lemma hostname_inj: "hostname pre ml i = hostname pre ml j \<Longrightarrow> i = j"
  by (auto simp: hostname_def Let_def Itoa_padded split: if_splits dest!: format_padded_inj)

lemma wrap64_add: "wrap64 (wrap64 i + k) = wrap64 (i + k)"
  by (simp add: wrap64_def mod_simps algebra_simps)

lemma wrap64_wrap64: "wrap64 (wrap64 i) = wrap64 i"
  using wrap64_add [of i 0] by simp

text \<open>The host names of the next \<open>n\<close> iterations.\<close>

definition upcoming :: "string \<Rightarrow> nat \<Rightarrow> int \<Rightarrow> nat \<Rightarrow> string set" where
  "upcoming pre ml i n = (\<lambda>k. hostname pre ml (wrap64 (i + int k))) ` {..<n}"

lemma finite_upcoming [simp]: "finite (upcoming pre ml i n)"
  by (simp add: upcoming_def)

lemma upcoming_Suc: "upcoming pre ml i (Suc n) = insert (hostname pre ml (wrap64 i)) (upcoming pre ml (wrap64 (i + 1)) n)"
  unfolding upcoming_def lessThan_Suc_eq_insert_0 image_insert image_image by (simp add: wrap64_add add.assoc)

lemma upcoming_fresh: "int (Suc n) \<le> 2 ^ 64 \<Longrightarrow> hostname pre ml (wrap64 i) \<notin> upcoming pre ml (wrap64 (i + 1)) n"
proof
  assume n: "int (Suc n) \<le> 2 ^ 64" and "hostname pre ml (wrap64 i) \<in> upcoming pre ml (wrap64 (i + 1)) n"
  then obtain k where k: "k < n" "wrap64 i = wrap64 (i + 1 + int k)"
    by (auto simp: upcoming_def wrap64_add dest!: hostname_inj)
  then have "(i + 1 + int k + 2 ^ 63) mod 2 ^ 64 = (i + 2 ^ 63) mod 2 ^ 64" unfolding wrap64_def by linarith
  then have "2 ^ 64 dvd (i + 1 + int k + 2 ^ 63) - (i + 2 ^ 63)" by (simp only: mod_eq_dvd_iff)
  then have "2 ^ 64 dvd 1 + int k" by (simp add: algebra_simps)
  then have "2 ^ 64 \<le> 1 + int k" by (rule zdvd_imp_le) simp
  with k(1) n show False by linarith
qed

lemma create_missing_returns:
  assumes "card (fst ` set byName \<inter> upcoming pre ml i n) + 2 * nat (q - int (length ns)) < n" and "int n \<le> 2 ^ 64" "wrap64 i = i"
  shows "create_missing c np sim q pre ml i byName changed ns s \<noteq> None"
  using assms
proof (induction n arbitrary: i byName changed ns s)
  case (Suc n)
  let ?h = "hostname pre ml i" and ?rest = "upcoming pre ml (wrap64 (i + 1)) n"
  have up: "upcoming pre ml i (Suc n) = insert ?h ?rest" "?h \<notin> ?rest"
    using upcoming_Suc [of pre ml i n] upcoming_fresh [of n pre ml i] Suc.prems by simp_all
  show ?case
  proof (cases "int (length ns) < q")
    case False
    then show ?thesis by (simp add: create_missing.simps)
  next
    case len: True
    show ?thesis
    proof (cases "map_has byName ?h")
      case True
      then have "?h \<in> fst ` set byName" by (simp add: map_has_def map_of_eq_None_iff)
      then have "fst ` set byName \<inter> upcoming pre ml i (Suc n) = insert ?h (fst ` set byName \<inter> ?rest)" using up by auto
      with up Suc.prems have "card (fst ` set byName \<inter> ?rest) + 2 * nat (q - int (length ns)) < n" by simp
      from Suc.IH [OF this] Suc.prems True len show ?thesis
        by (subst create_missing.simps) (simp add: wrap64_wrap64)
    next
      case False
      have "create_missing c np sim q pre ml (wrap64 (i + 1)) (map_put (nd_RequestedHostname m) m byName) True (ns @ [m]) s' \<noteq> None" for m s'
      proof (rule Suc.IH)
        have "card (fst ` set (map_put (nd_RequestedHostname m) m byName) \<inter> ?rest) \<le> card (insert (nd_RequestedHostname m) (fst ` set byName \<inter> upcoming pre ml i (Suc n)))"
          using up by (intro card_mono) auto
        also have "\<dots> \<le> Suc (card (fst ` set byName \<inter> upcoming pre ml i (Suc n)))" by (rule card_insert_le_m1) simp_all
        finally show "card (fst ` set (map_put (nd_RequestedHostname m) m byName) \<inter> ?rest) + 2 * nat (q - int (length (ns @ [m]))) < n"
          using Suc.prems len by simp
      qed (use Suc.prems in \<open>simp_all add: wrap64_wrap64\<close>)
      then show ?thesis
        using False len by (subst create_missing.simps) (simp split: prod.split sum.split)
    qed
  qed
qed simp

lemma parsePrefix_start: "wrap64 (snd (snd (parsePrefix p))) = snd (snd (parsePrefix p))"
  by (auto simp: parsePrefix_def Let_def Atoi_digits_def max_duration_def intro!: wrap64_id)

lemma length_map_put: "length (map_put k v m) \<le> Suc (length m)"
  by (induction m) (auto simp: map_put_def)

lemma check_nodes_size:
  "foldA (check_node c np sim d) xs (byName, changed, ns) s = (Inr (byName', changed', ns'), s') \<Longrightarrow>
   length byName' \<le> length byName + length xs"
proof (induction xs arbitrary: byName changed ns s)
  case (Cons x xs)
  obtain byName1 changed1 ns1 s1 where step: "check_node c np sim d x (byName, changed, ns) s = (Inr (byName1, changed1, ns1), s1)"
    and rest: "foldA (check_node c np sim d) xs (byName1, changed1, ns1) s1 = (Inr (byName', changed', ns'), s')"
    using Cons.prems by (auto split: prod.splits sum.splits)
  have "byName1 = map_put (nd_RequestedHostname x) x byName"
    using step by (auto simp: check_node_def Let_def bindA_eq_Inr split: if_splits)
  with Cons.IH [OF rest] length_map_put [of "nd_RequestedHostname x" x byName] show ?case by simp
qed simp

lemma pass_returns:
  assumes "\<And>xs s'. nodes c np sim s = (Inr xs, s') \<Longrightarrow> length xs \<le> N" and "int N + 2 * max 0 (np_Quantity np) < 2 ^ 64"
  shows "createOrCheckNodes c np sim s \<noteq> None"
proof -
  obtain pre ml start where prefix: "parsePrefix (np_HostnamePrefix np) = (pre, ml, start)" by (cases "parsePrefix (np_HostnamePrefix np)")
  let ?q = "max 0 (np_Quantity np)"
  let ?list = "bindA (nodes c np sim)
          (\<lambda>allNodes. foldA (check_node c np sim (wrap64 (np_DeleteNotReadyAfterSecs np * second))) allNodes ([], False, []))"
  have "create_missing c np sim ?q pre ml start byName changed ns s' \<noteq> None"
    if list: "?list s = (Inr (byName, changed, ns), s')" for byName changed ns s'
  proof -
    have "length byName \<le> N"
      using list assms(1) by (force simp: bindA_eq_Inr dest: check_nodes_size)
    moreover have "card (fst ` set byName \<inter> X) \<le> length byName" for X
      by (metis card_length length_map list.set_map card_mono List.finite_set inf_le1 le_trans)
    ultimately have size: "card (fst ` set byName \<inter> X) \<le> N" for X using le_trans by blast
    show ?thesis
    proof (rule create_missing_returns)
      show "card (fst ` set byName \<inter> upcoming pre ml start (Suc (N + 2 * nat ?q))) + 2 * nat (?q - int (length ns)) < Suc (N + 2 * nat ?q)"
        using size [of "upcoming pre ml start (Suc (N + 2 * nat ?q))"] by simp
    qed (use assms(2) parsePrefix_start [of "np_HostnamePrefix np"] in \<open>simp_all add: prefix\<close>)
  qed
  then show ?thesis
    by (auto simp: createOrCheckNodes_def Let_def prefix split: prod.splits sum.splits)
qed

lemma roles_simulated: "wp (update_roles c np True ns changed) (\<lambda>_ s'. s' = s) (\<lambda>_ s'. s' = s) s"
  unfolding update_roles_def updateNodeRoles_def Let_def
  by (intro wp_foldA [where I = "\<lambda>t s'. s' = s"]) (auto simp: wp_def)

lemma pass_simulated:
  assumes "createOrCheckNodes c np True s = Some (r, s')"
  shows "s' = s"
proof -
  have "case r of Inl e \<Rightarrow> s' = s | Inr changed \<Rightarrow> s' = s"
  proof (rule pass_rule [OF assms, where I = "\<lambda>i byName changed ns s'. s' = s"], goal_cases)
    case 1
    show ?case
      unfolding wp_simps nodes_def if_True
      by (intro branchI wp_foldA [where I = "\<lambda>t s'. s' = s"] refl)
        (auto simp: check_node_def check_unreachable_def Let_def wp_simps split: prod.splits option.splits)
  next
    case (4 i byName changed ns s1)
    have "snd (remove_extra c True k changed ns s) = s" for k changed ns
      by (induction k arbitrary: changed ns) (auto simp: Let_def)
    then obtain a b where extra: "remove_extra c True (length ns - nat (max 0 (np_Quantity np))) changed ns s = ((a, b), s)"
      by (metis prod.collapse)
    show ?case using extra roles_simulated [of c np b a s] 4(1) by simp
  qed (auto simp: createNode_def wp_simps)
  then show ?thesis by (auto split: sum.splits)
qed

lemma mark_unknown_keeps [simp]:
  "np_Namespace (mark_unknown np) = np_Namespace np" "np_Name (mark_unknown np) = np_Name np"
  "np_Quantity (mark_unknown np) = np_Quantity np" "np_DeleteNotReadyAfterSecs (mark_unknown np) = np_DeleteNotReadyAfterSecs np"
  by (simp_all add: mark_unknown_def)

text \<open>What holds after the passes of a reconciliation holds after the handler.\<close>

lemma Updated_cases:
  assumes "Updated c np s = Some (r, s')"
  obtains changed where "createOrCheckNodes c (mark_unknown np) True s = Some (Inr changed, s)" "\<not> changed" "s' = s" "snd r = None"
  | r' where "createOrCheckNodes c (mark_unknown np) True s = Some (Inr True, s)" "createOrCheckNodes c (mark_unknown np) False s = Some (r', s')"
      "snd r = None \<longleftrightarrow> (\<exists>changed. r' = Inr changed)"
  | e where "createOrCheckNodes c (mark_unknown np) True s = Some (Inl e, s)" "s' = s" "snd r = Some e"
proof -
  obtain r1 s1 where first: "createOrCheckNodes c (mark_unknown np) True s = Some (r1, s1)"
    using assms by (auto simp: Updated_def reconcile_def Option.bind_eq_Some_conv)
  have "s1 = s" by (rule pass_simulated [OF first])
  note first = first [unfolded this]
  show thesis
  proof (cases r1)
    case (Inl e)
    with assms first have "s' = s" "snd r = Some e" by (auto simp: Updated_def reconcile_def mark_outcome_def)
    with first Inl show thesis by (intro that(3)) simp_all
  next
    case (Inr changed)
    show thesis
    proof (cases changed)
      case False
      with assms first Inr have "s' = s" "snd r = None" by (auto simp: Updated_def reconcile_def mark_outcome_def)
      with first Inr False show thesis by (intro that(1)) simp_all
    next
      case True
      with assms first Inr obtain r' where "createOrCheckNodes c (mark_unknown np) False s = Some (r', s')"
          "r = mark_outcome (mark_unknown np) (map_sum id (\<lambda>_. ()) r')"
        by (auto simp: Updated_def reconcile_def)
      moreover from this(2) have "snd r = None \<longleftrightarrow> (\<exists>changed. r' = Inr changed)"
        by (cases r') (simp_all add: mark_outcome_def)
      ultimately show thesis using first Inr True by (intro that(2)) simp_all
    qed
  qed
qed

text \<open>
  C16. The loop that looks for free host names always ends, and so does every run of the handler, whatever the
  server answers: with at most \<open>N\<close> nodes listed it skips at most as many names as there are nodes, since
  the names of 2^64 successive counters differ, also across the overflow of the counter.
\<close>

theorem Updated_returns:
  assumes "\<And>xs w'. clist (nc_Nodes c) (\<lambda>_. True) (ps_nodes s) = (Inr xs, w') \<Longrightarrow> length xs \<le> N"
    and "\<And>xs. nc_NodeLister c (np_Namespace np) = Inr xs \<Longrightarrow> length xs \<le> N"
    and "int N + 2 * max 0 (np_Quantity np) < 2 ^ 64"
  shows "\<exists>r s'. Updated c np s = Some (r, s')"
proof -
  have listed: "length xs \<le> N" if np': "np_Namespace np' = np_Namespace np" and xs: "nodes c np' sim s = (Inr xs, s')" for np' sim xs s'
  proof (cases sim)
    case True
    with np' xs show ?thesis by (auto simp: nodes_def intro: assms(2))
  next
    case False
    with xs np' show ?thesis
      using assms(1) by (fastforce simp: nodes_def bindA_eq_Inr nodesA_def zoomA_def intro: le_trans [OF length_filter_le] split: prod.splits)
  qed
  have pass: "createOrCheckNodes c np' sim s \<noteq> None" if "np_Quantity np' = np_Quantity np" "np_Namespace np' = np_Namespace np" for np' sim
    using pass_returns [of c np' sim s N] listed assms(3) that by simp
  have "reconcile c np' s \<noteq> None" if np': "np_Quantity np' = np_Quantity np" "np_Namespace np' = np_Namespace np" for np'
  proof -
    obtain r s1 where first: "createOrCheckNodes c np' True s = Some (r, s1)" using pass [OF np', of True] by auto
    with pass_simulated [OF first] pass [OF np', of False] show ?thesis
      by (auto simp: reconcile_def split: sum.splits)
  qed
  then have "reconcile c (mark_unknown np) s \<noteq> None" by simp
  then show ?thesis by (auto simp: Updated_def simp del: mark_unknown_keeps)
qed

declare split_paired_All [simp del] split_paired_Ex [simp del]

section \<open>Passes on a server\<close>

text \<open>
  The server keeps a node as it is sent, apart from the generated name.
\<close>

definition node_stored :: "Node \<Rightarrow> Node \<Rightarrow> bool" where
  "node_stored x y \<longleftrightarrow> y = x\<lparr>nd_Name := nd_Name y\<rparr> \<and> (nd_Name x \<noteq> [] \<longrightarrow> nd_Name y = nd_Name x)"

lemma node_stored_keeps:
  assumes "node_stored x y"
  shows "nd_Namespace y = nd_Namespace x" "nd_RequestedHostname y = nd_RequestedHostname x" "nd_NodePoolName y = nd_NodePoolName x"
proof -
  from assms obtain nm where "y = x\<lparr>nd_Name := nm\<rparr>" unfolding node_stored_def by blast
  then show "nd_Namespace y = nd_Namespace x" "nd_RequestedHostname y = nd_RequestedHostname x" "nd_NodePoolName y = nd_NodePoolName x" by simp_all
qed

text \<open>A node of the pool, with the identity the controller goes by.\<close>

definition pool_node :: "NodePool \<Rightarrow> Node \<Rightarrow> bool" where
  "pool_node np n \<longleftrightarrow> nd_Namespace n = np_Namespace np \<and> in_pool np n"

definition same_identity :: "Node \<Rightarrow> Node \<Rightarrow> bool" where
  "same_identity m n \<longleftrightarrow> nd_Namespace m = nd_Namespace n \<and> nd_RequestedHostname m = nd_RequestedHostname n \<and> nd_NodePoolName m = nd_NodePoolName n"

lemma same_identity_pool: "same_identity m n \<Longrightarrow> pool_node np m \<longleftrightarrow> pool_node np n"
  by (simp add: same_identity_def pool_node_def in_pool_def)

lemma new_node_pool:
  assumes "CHR '':'' \<notin> set (np_Namespace np)" "CHR '':'' \<notin> set (np_Name np)"
  shows "pool_node np (new_node name np)"
  using Parse_Ref [OF assms] by (simp add: pool_node_def in_pool_def new_node_def)

lemma node_key_simps: "node_key (new_node name np) = (np_Namespace np, [])" "node_key (n\<lparr>nd_Role := r\<rparr>) = node_key n"
  by (simp_all add: node_key_def new_node_def)

lemma wp_foldA_Cons: "wp (foldA f (x # xs) t) Q E s = wp (f x t) (\<lambda>t'. wp (foldA f xs t') Q E) E s"
  by (simp add: wp_def split: prod.splits sum.splits)

text \<open>No two nodes of the namespace ask for the same host name.\<close>

definition unique_hostnames :: "string \<Rightarrow> (nodeKey \<Rightarrow> Node option) \<Rightarrow> bool" where
  "unique_hostnames ns v \<longleftrightarrow>
     (\<forall>k k' n n'. v k = Some n \<longrightarrow> v k' = Some n' \<longrightarrow> nd_Namespace n = ns \<longrightarrow> nd_Namespace n' = ns \<longrightarrow>
        nd_RequestedHostname n = nd_RequestedHostname n' \<longrightarrow> k = k')"

lemma uniqueI:
  "(\<And>k k' n n'. v k = Some n \<Longrightarrow> v k' = Some n' \<Longrightarrow> nd_Namespace n = ns \<Longrightarrow> nd_Namespace n' = ns \<Longrightarrow>
      nd_RequestedHostname n = nd_RequestedHostname n' \<Longrightarrow> k = k') \<Longrightarrow> unique_hostnames ns v"
  unfolding unique_hostnames_def by blast

lemma uniqueD:
  "unique_hostnames ns v \<Longrightarrow> v k = Some n \<Longrightarrow> v k' = Some n' \<Longrightarrow> nd_Namespace n = ns \<Longrightarrow> nd_Namespace n' = ns \<Longrightarrow>
   nd_RequestedHostname n = nd_RequestedHostname n' \<Longrightarrow> k = k'"
  unfolding unique_hostnames_def by blast

definition all_named :: "(nodeKey \<Rightarrow> Node option) \<Rightarrow> bool" where
  "all_named v \<longleftrightarrow> (\<forall>ns. v (ns, []) = None)"

definition outsiders_kept :: "NodePool \<Rightarrow> (nodeKey \<Rightarrow> Node option) \<Rightarrow> (nodeKey \<Rightarrow> Node option) \<Rightarrow> bool" where
  "outsiders_kept np v0 v \<longleftrightarrow> (\<forall>k n. v0 k = Some n \<longrightarrow> \<not> pool_node np n \<longrightarrow> v k = Some n)"

definition pool_keys :: "NodePool \<Rightarrow> (nodeKey \<Rightarrow> Node option) \<Rightarrow> nodeKey set" where
  "pool_keys np v = {k. \<exists>n. v k = Some n \<and> pool_node np n}"

text \<open>
  The state of a pass that started with the nodes \<open>v0\<close>.  \<open>quiet\<close>: it does not remove
  unreachable nodes, so that its list is up to date.  \<open>sound\<close>: the server answers.
\<close>

definition safe :: "NodePool \<Rightarrow> bool \<Rightarrow> (nodeKey \<Rightarrow> Node option) \<Rightarrow> (nodeKey \<Rightarrow> Node option) \<Rightarrow> bool" where
  "safe np quiet v0 v \<longleftrightarrow> outsiders_kept np v0 v \<and>
     (quiet \<longrightarrow> unique_hostnames (np_Namespace np) v0 \<longrightarrow> unique_hostnames (np_Namespace np) v)"

definition listed :: "NodePool \<Rightarrow> Node list \<Rightarrow> (nodeKey \<Rightarrow> Node option) \<Rightarrow> bool" where
  "listed np ns v \<longleftrightarrow> distinct (map node_key ns) \<and>
     (\<forall>m \<in> set ns. pool_node np m \<and> (\<exists>n. v (node_key m) = Some n \<and> same_identity m n))"

definition pass_inv :: "NodePool \<Rightarrow> bool \<Rightarrow> bool \<Rightarrow> (nodeKey \<Rightarrow> Node option) \<Rightarrow> Node list \<Rightarrow> (nodeKey \<Rightarrow> Node option) \<Rightarrow> bool \<Rightarrow> bool" where
  "pass_inv np quiet sound v0 ns v a \<longleftrightarrow>
     safe np quiet v0 v \<and>
     (\<forall>m \<in> set ns. \<forall>n. v0 (node_key m) = Some n \<longrightarrow> pool_node np n) \<and>
     (quiet \<longrightarrow> listed np ns v) \<and>
     (quiet \<and> sound \<longrightarrow> a \<and> all_named v \<and> pool_keys np v = node_key ` set ns)"

lemma safe_shrink:
  "safe np quiet v0 v \<Longrightarrow> (\<And>n. v0 k = Some n \<Longrightarrow> pool_node np n) \<Longrightarrow> safe np quiet v0 (v(k := None))"
proof -
  assume old: "safe np quiet v0 v" and pool: "\<And>n. v0 k = Some n \<Longrightarrow> pool_node np n"
  have "unique_hostnames (np_Namespace np) (v(k := None))" if "unique_hostnames (np_Namespace np) v"
    by (rule uniqueI) (use uniqueD [OF that] in \<open>simp split: if_splits\<close>)
  with old pool show ?thesis by (simp add: safe_def outsiders_kept_def)
qed

lemma pass_inv_remove:
  assumes inv: "pass_inv np quiet sound v0 ns v a" and m: "insert m (set ns') = set ns"
    and "distinct (map node_key ns) \<Longrightarrow> distinct (map node_key ns') \<and> node_key m \<notin> node_key ` set ns'"
  shows "(a \<Longrightarrow> a') \<Longrightarrow> pass_inv np quiet sound v0 ns' (v(node_key m := None)) a'"
    and "\<not> (quiet \<and> sound) \<Longrightarrow> pass_inv np quiet sound v0 ns' v a'"
proof -
  have ns: "set ns = insert m (set ns')" using m by simp
  have safe': "safe np quiet v0 (v(node_key m := None))"
    using inv by (intro safe_shrink) (auto simp: pass_inv_def ns)
  have sub: "\<forall>m \<in> set ns'. \<forall>n. v0 (node_key m) = Some n \<longrightarrow> pool_node np n" using inv by (auto simp: pass_inv_def ns)
  have lst: "listed np ns' (v(node_key m := None))" "listed np ns' v" if quiet
  proof -
    have old: "distinct (map node_key ns)" "\<And>m'. m' \<in> set ns' \<Longrightarrow> pool_node np m' \<and> (\<exists>n. v (node_key m') = Some n \<and> same_identity m' n)"
      using inv that by (simp_all add: pass_inv_def listed_def ns)
    then have "node_key m' \<noteq> node_key m" if "m' \<in> set ns'" for m' using assms(3) that by (metis imageI)
    with old assms(3) show "listed np ns' (v(node_key m := None))" "listed np ns' v" by (simp_all add: listed_def)
  qed
  show "pass_inv np quiet sound v0 ns' (v(node_key m := None)) a'" if "a \<Longrightarrow> a'"
  proof -
    have "pool_keys np (v(node_key m := None)) = pool_keys np v - {node_key m}" by (auto simp: pool_keys_def split: if_splits)
    moreover have "node_key m \<notin> node_key ` set ns'" if quiet using inv that assms(3) by (simp add: pass_inv_def listed_def)
    ultimately show ?thesis
      using inv safe' sub lst that by (auto simp: pass_inv_def ns all_named_def)
  qed
  show "pass_inv np quiet sound v0 ns' v a'" if "\<not> (quiet \<and> sound)"
    using inv that sub lst by (auto simp: pass_inv_def)
qed

lemma safe_update:
  assumes "safe np quiet v0 v" "\<And>n. v0 k = Some n \<Longrightarrow> pool_node np n"
    and "quiet \<Longrightarrow> \<exists>n. v k = Some n \<and> same_identity y n"
  shows "safe np quiet v0 (v(k \<mapsto> y))"
proof -
  have "unique_hostnames (np_Namespace np) (v(k \<mapsto> y))" if quiet "unique_hostnames (np_Namespace np) v"
  proof (rule uniqueI)
    fix k1 k2 n1 n2
    assume n: "(v(k \<mapsto> y)) k1 = Some n1" "(v(k \<mapsto> y)) k2 = Some n2" "nd_Namespace n1 = np_Namespace np" "nd_Namespace n2 = np_Namespace np"
      "nd_RequestedHostname n1 = nd_RequestedHostname n2"
    have old: "\<exists>m. v k' = Some m \<and> same_identity n' m" if "(v(k \<mapsto> y)) k' = Some n'" for k' n'
      using that assms(3) [OF \<open>quiet\<close>] by (cases "k' = k") (auto simp: same_identity_def)
    obtain m1 m2 where "v k1 = Some m1" "same_identity n1 m1" "v k2 = Some m2" "same_identity n2 m2"
      using old [OF n(1)] old [OF n(2)] by blast
    with n(3-5) have "nd_Namespace m1 = np_Namespace np" "nd_Namespace m2 = np_Namespace np" "nd_RequestedHostname m1 = nd_RequestedHostname m2"
      unfolding same_identity_def by simp_all
    then show "k1 = k2" by (rule uniqueD [OF that(2) \<open>v k1 = Some m1\<close> \<open>v k2 = Some m2\<close>])
  qed
  with assms(1,2) show ?thesis unfolding safe_def outsiders_kept_def by simp
qed

lemma pass_inv_update:
  assumes inv: "pass_inv np quiet sound v0 ns v a" and "m \<in> set ns" "same_identity m y" "a \<Longrightarrow> a'" "v (node_key m) \<noteq> None"
  shows "pass_inv np quiet sound v0 ns (v(node_key m \<mapsto> y)) a'"
proof -
  have here: "\<exists>n. v (node_key m) = Some n \<and> same_identity y n" "pool_node np y" if quiet
    using inv that assms(2,3) by (auto simp: pass_inv_def listed_def same_identity_def pool_node_def in_pool_def)
  have "safe np quiet v0 (v(node_key m \<mapsto> y))"
    using inv assms(2) here by (intro safe_update) (auto simp: pass_inv_def)
  moreover have "listed np ns (v(node_key m \<mapsto> y))" if quiet
  proof -
    have old: "listed np ns v" using inv that by (simp add: pass_inv_def)
    then have "m' = m" if "m' \<in> set ns" "node_key m' = node_key m" for m'
      using that assms(2) by (auto simp: listed_def distinct_map dest: inj_onD)
    with old assms(3) show ?thesis unfolding listed_def by (auto simp del: distinct_map)
  qed
  moreover have "pool_keys np (v(node_key m \<mapsto> y)) = pool_keys np v" if quiet
  proof -
    obtain n where "v (node_key m) = Some n" "same_identity y n" using here(1) [OF \<open>quiet\<close>] by blast
    with here(2) [OF that] same_identity_pool [of y n np] show ?thesis unfolding pool_keys_def by (auto split: if_splits)
  qed
  moreover have "all_named (v(node_key m \<mapsto> y))" if "all_named v"
    using that assms(5) unfolding all_named_def by (metis fun_upd_other)
  ultimately show ?thesis using inv assms(4) unfolding pass_inv_def by (intro conjI impI) simp_all
qed

lemma pass_inv_create:
  assumes inv: "pass_inv np quiet sound v0 ns v a" and new: "v (node_key y) = None" "nd_Name y \<noteq> []" "quiet \<Longrightarrow> pool_node np y" "a \<Longrightarrow> a'"
    and fresh: "\<And>k n. quiet \<Longrightarrow> v k = Some n \<Longrightarrow> nd_Namespace n = np_Namespace np \<Longrightarrow> nd_RequestedHostname n \<noteq> nd_RequestedHostname y"
  shows "pass_inv np quiet sound v0 (ns @ [y]) (v(node_key y \<mapsto> y)) a'"
proof -
  have kept: "pool_node np n" if "v0 (node_key y) = Some n" for n
    using inv new(1) that unfolding pass_inv_def safe_def outsiders_kept_def by fastforce
  have uniq: "unique_hostnames (np_Namespace np) (v(node_key y \<mapsto> y))" if "unique_hostnames (np_Namespace np) v" quiet
  proof (rule uniqueI)
    fix k1 k2 n1 n2
    assume n: "(v(node_key y \<mapsto> y)) k1 = Some n1" "(v(node_key y \<mapsto> y)) k2 = Some n2" "nd_Namespace n1 = np_Namespace np" "nd_Namespace n2 = np_Namespace np"
      "nd_RequestedHostname n1 = nd_RequestedHostname n2"
    have other: "k' \<noteq> node_key y \<Longrightarrow> v k' = Some n' \<and> nd_RequestedHostname n' \<noteq> nd_RequestedHostname y"
      "k' = node_key y \<Longrightarrow> n' = y" if "(v(node_key y \<mapsto> y)) k' = Some n'" "nd_Namespace n' = np_Namespace np" for k' n'
      using that fresh [OF \<open>quiet\<close>, of k' n'] by simp_all
    show "k1 = k2"
    proof (cases "k1 = node_key y \<or> k2 = node_key y")
      case True
      with other [OF n(1,3)] other [OF n(2,4)] n(5) show ?thesis by metis
    next
      case False
      with other(1) [OF n(1,3)] other(1) [OF n(2,4)] show ?thesis using uniqueD [OF that(1) _ _ n(3-5)] by simp
    qed
  qed
  have "safe np quiet v0 (v(node_key y \<mapsto> y))"
  proof -
    have "outsiders_kept np v0 v" and "quiet \<Longrightarrow> unique_hostnames (np_Namespace np) v0 \<Longrightarrow> unique_hostnames (np_Namespace np) v"
      using inv by (simp_all add: pass_inv_def safe_def)
    then show ?thesis using uniq kept unfolding safe_def outsiders_kept_def by auto
  qed
  moreover have "listed np (ns @ [y]) (v(node_key y \<mapsto> y))" if quiet
    using inv that new by (auto simp: pass_inv_def listed_def same_identity_def)
  moreover have "pool_keys np (v(node_key y \<mapsto> y)) = insert (node_key y) (pool_keys np v)" if quiet
    using new(1,3) that by (auto simp: pool_keys_def)
  moreover have "all_named (v(node_key y \<mapsto> y))" if "all_named v"
    using that new(2) by (auto simp: all_named_def node_key_def)
  ultimately show ?thesis using inv new(4) kept unfolding pass_inv_def by (intro conjI impI) auto
qed

locale node_server =
  api_client "nc_Nodes c" node_key view node_stored avail for c :: "'w Controller" and view :: "'w \<Rightarrow> nodeKey \<Rightarrow> Node option" and avail +
  assumes sort_perm: "mset (nc_sort c xs) = mset xs"
    and create_named: "ccreate (nc_Nodes c) x w = (Inr y, w') \<Longrightarrow> nd_Name y \<noteq> []"
begin

lemma set_sort: "set (nc_sort c xs) = set xs"
  by (metis sort_perm set_mset_mset)

lemma butlast_sort:
  assumes "xs \<noteq> []"
  shows "length (butlast (nc_sort c xs)) = length xs - 1" "insert (last (nc_sort c xs)) (set (butlast (nc_sort c xs))) = set xs"
    and "distinct (map f xs) \<Longrightarrow> distinct (map f (butlast (nc_sort c xs))) \<and> f (last (nc_sort c xs)) \<notin> f ` set (butlast (nc_sort c xs))"
proof -
  let ?s = "nc_sort c xs"
  have len: "length ?s = length xs" by (metis sort_perm size_mset)
  with assms have split: "?s = butlast ?s @ [last ?s]" by (metis append_butlast_last_id length_0_conv)
  show "length (butlast ?s) = length xs - 1" by (simp add: len)
  show "insert (last ?s) (set (butlast ?s)) = set xs" using split set_sort [of xs] by (metis set_append set_simps list.set(1) Un_commute Un_insert_left sup_bot_left insert_is_Un)
  have "mset (map f ?s) = mset (map f xs)" by (simp add: sort_perm)
  then have "distinct (map f xs) \<Longrightarrow> distinct (map f ?s)" by (metis mset_eq_imp_distinct_iff)
  then show "distinct (map f xs) \<Longrightarrow> distinct (map f (butlast ?s)) \<and> f (last ?s) \<notin> f ` set (butlast ?s)"
    by (subst (asm) split) auto
qed

text \<open>Abstract states: the nodes the server holds and whether it answers.\<close>

abbreviation V :: "'w poolState \<Rightarrow> nodeKey \<Rightarrow> Node option" where
  "V s \<equiv> view (ps_nodes s)"

abbreviation A :: "'w poolState \<Rightarrow> bool" where
  "A s \<equiv> avail (ps_nodes s)"

lemma wp_deleteNode:
  assumes "0 < d \<Longrightarrow> R (V s) (A s)"
    and "\<And>a. d \<le> 0 \<Longrightarrow> (A s \<Longrightarrow> a) \<Longrightarrow> R ((V s)(node_key m := None)) a"
    and "\<And>a. d \<le> 0 \<Longrightarrow> (A s \<Longrightarrow> a \<and> V s (node_key m) = None) \<Longrightarrow> F (V s) a"
  shows "wp (deleteNode c m d) (\<lambda>_ s'. R (V s') (A s')) (\<lambda>_ s'. F (V s') (A s')) s"
proof (cases "0 < d")
  case True
  with assms(1) show ?thesis by (simp add: deleteNode_def spawn_def wp_def)
next
  case False
  then show ?thesis
    unfolding deleteNode_def nodesA_def wp_simps
    by (auto simp: node_key_def [symmetric] intro!: wp_delete assms(2,3))
qed

lemma wp_createNode:
  assumes "\<And>y a. node_stored (new_node name np) y \<Longrightarrow> nd_Name y \<noteq> [] \<Longrightarrow> V s (node_key y) = None \<Longrightarrow> (A s \<Longrightarrow> a) \<Longrightarrow>
      R y ((V s)(node_key y \<mapsto> y)) a"
    and "\<And>a. (A s \<Longrightarrow> a \<and> V s (np_Namespace np, []) \<noteq> None) \<Longrightarrow> F (V s) a"
  shows "wp (createNode c name np False) (\<lambda>y s'. R y (V s') (A s')) (\<lambda>_ s'. F (V s') (A s')) s"
proof -
  have "wp (ccreate (nc_Nodes c) (new_node name np)) (\<lambda>y w'. nd_Name y \<noteq> [] \<longrightarrow> R y (view w') (avail w')) (\<lambda>_ w'. F (view w') (avail w')) (ps_nodes s)"
    by (rule wp_create) (auto simp: node_key_simps intro!: assms)
  moreover have "wp (ccreate (nc_Nodes c) (new_node name np)) (\<lambda>y w'. nd_Name y \<noteq> []) (\<lambda>_ _. True) (ps_nodes s)"
    by (auto simp: wp_iff dest: create_named)
  ultimately have "wp (ccreate (nc_Nodes c) (new_node name np)) (\<lambda>y w'. R y (view w') (avail w')) (\<lambda>_ w'. F (view w') (avail w')) (ps_nodes s)"
    by (auto simp: wp_iff)
  then show ?thesis unfolding createNode_def nodesA_def if_False wp_simps by simp
qed

lemma wp_updateNodeRoles:
  assumes "\<And>y a. node_stored (n\<lparr>nd_Role := Some (pool_roles np)\<rparr>) y \<Longrightarrow> node_key y = node_key n \<Longrightarrow> V s (node_key n) \<noteq> None \<Longrightarrow>
      (A s \<Longrightarrow> a) \<Longrightarrow> R ((V s)(node_key n \<mapsto> y)) a"
    and "\<And>a. (A s \<Longrightarrow> a \<and> V s (node_key n) = None) \<Longrightarrow> F (V s) a"
  shows "wp (updateNodeRoles c n np False) (\<lambda>_ s'. R (V s') (A s')) (\<lambda>_ s'. F (V s') (A s')) s"
  unfolding updateNodeRoles_def Let_def nodesA_def if_False wp_simps
  by (rule wp_update) (auto simp: node_key_simps intro!: assms)

text \<open>The first loop removes at most nodes of the pool, and none if unreachable nodes are to be kept.\<close>

definition shrinks :: "int \<Rightarrow> nodeKey set \<Rightarrow> 'w poolState \<Rightarrow> 'w poolState \<Rightarrow> bool" where
  "shrinks d K s s' \<longleftrightarrow> (A s \<longrightarrow> A s') \<and> (\<forall>k. V s' k = V s k \<or> k \<in> K \<and> 0 < d)"

lemma shrinks_refl [simp]: "shrinks d K s s"
  by (simp add: shrinks_def)

lemma shrinks_trans: "shrinks d K s s1 \<Longrightarrow> shrinks d L s1 s2 \<Longrightarrow> shrinks d (K \<union> L) s s2"
  unfolding shrinks_def by (metis UnCI)

lemma shrinks_mono: "shrinks d K s s1 \<Longrightarrow> K \<subseteq> L \<Longrightarrow> shrinks d L s s1"
  unfolding shrinks_def by blast

lemma wp_check_unreachable:
  "wp (check_unreachable c np False d x changed) (\<lambda>_. shrinks d {node_key x} s) (\<lambda>_ s'. shrinks d {node_key x} s s' \<and> 0 < d) s"
proof -
  have del: "wp (deleteNode c x 0) (\<lambda>_. shrinks d {node_key x} s) (\<lambda>_ s'. shrinks d {node_key x} s s' \<and> 0 < d) s" if "0 < d"
    unfolding shrinks_def by (rule wp_deleteNode) (auto simp: that)
  have start: "wp (start_requeue d np x) (\<lambda>_. shrinks d {node_key x} s) (\<lambda>_ s'. shrinks d {node_key x} s s' \<and> 0 < d) s"
    by (simp add: wp_def start_requeue_def spawn_def shrinks_def)
  show ?thesis
    unfolding check_unreachable_def wp_simps by (intro branchI del start) simp_all
qed

lemma wp_check_node:
  assumes "K = (if in_pool np x then {node_key x} else {})"
  shows "wp (check_node c np False d x (byName, changed, ns))
    (\<lambda>(byName', changed', ns') s'. byName' = map_put (nd_RequestedHostname x) x byName \<and> ns' = ns @ filter (in_pool np) [x] \<and> shrinks d K s s')
    (\<lambda>_ s'. shrinks d K s s' \<and> 0 < d) s"
proof (cases "in_pool np x")
  case True
  let ?failed = "if node_failed x \<and> \<not> False then deleteNode c x (120 * second) else ret ()"
  have "wp ?failed (\<lambda>_ s'. shrinks d {} s s') (\<lambda>_ s'. False) s"
    by (simp add: wp_def deleteNode_def spawn_def second_def shrinks_def)
  moreover have "wp (check_unreachable c np False d x ch) (\<lambda>_. shrinks d {node_key x} s) (\<lambda>_ s'. shrinks d {node_key x} s s' \<and> 0 < d) s1"
    if "shrinks d {} s s1" for ch s1
    using wp_check_unreachable by (rule wp_mono) (use shrinks_trans [OF that] in \<open>auto\<close>)
  ultimately show ?thesis
    using True unfolding check_node_def prod.case Let_def assms wp_simps
    by (auto elim!: wp_mono intro: shrinks_mono)
qed (simp add: check_node_def assms wp_simps)

lemma wp_check_nodes:
  "wp (foldA (check_node c np False d) xs (byName, changed, ns))
    (\<lambda>(byName', changed', ns') s'. fst ` set byName' = fst ` set byName \<union> nd_RequestedHostname ` set xs \<and>
       ns' = ns @ filter (in_pool np) xs \<and> shrinks d (node_key ` set (filter (in_pool np) xs)) s s')
    (\<lambda>_ s'. shrinks d (node_key ` set (filter (in_pool np) xs)) s s' \<and> 0 < d) s"
proof (induction xs arbitrary: byName changed ns s)
  case (Cons x xs)
  let ?K = "if in_pool np x then {node_key x} else {}"
  obtain r s1 where step: "check_node c np False d x (byName, changed, ns) s = (r, s1)" by (cases "check_node c np False d x (byName, changed, ns) s")
  note first = wp_check_node [OF refl, of np d x byName changed ns s, unfolded wp_def step prod.case]
  show ?case
  proof (cases r)
    case (Inl e)
    with first step show ?thesis by (auto simp: wp_def elim!: shrinks_mono split: if_splits)
  next
    case (Inr t)
    obtain byName1 changed1 ns1 where t: "t = (byName1, changed1, ns1)" by (cases t)
    have *: "shrinks d ?K s s1" "byName1 = map_put (nd_RequestedHostname x) x byName" "ns1 = ns @ filter (in_pool np) [x]"
      using first by (simp_all add: Inr t)
    have "wp (foldA (check_node c np False d) xs t)
      (\<lambda>(byName', changed', ns') s'. fst ` set byName' = fst ` set byName \<union> nd_RequestedHostname ` set (x # xs) \<and>
         ns' = ns @ filter (in_pool np) (x # xs) \<and> shrinks d (?K \<union> node_key ` set (filter (in_pool np) xs)) s s')
      (\<lambda>_ s'. shrinks d (?K \<union> node_key ` set (filter (in_pool np) xs)) s s' \<and> 0 < d) s1"
      unfolding t using Cons.IH by (rule wp_mono) (auto simp: *(2,3) dest!: shrinks_trans [OF *(1)])
    moreover have "?K \<union> node_key ` set (filter (in_pool np) xs) = node_key ` set (filter (in_pool np) (x # xs))" by simp
    ultimately show ?thesis
      by (simp only: wp_foldA_Cons wp_def [of "check_node c np False d x (byName, changed, ns)"] step Inr prod.case sum.case)
  qed
qed (simp add: wp_def)


lemma remove_extra_inv:
  assumes "pass_inv np quiet sound v0 ns (V s) (A s)" "k \<le> length ns"
    and "remove_extra c False k changed ns s = ((changed', ns'), s')"
  shows "pass_inv np quiet sound v0 ns' (V s') (A s') \<and> length ns' = length ns - k"
  using assms
proof (induction k arbitrary: changed ns s)
  case (Suc k)
  let ?m = "last (nc_sort c ns)" and ?rest = "butlast (nc_sort c ns)"
  have "ns \<noteq> []" using Suc.prems(2) by auto
  note rest = butlast_sort [OF this]
  have "wp (deleteNode c ?m 0) (\<lambda>_ s'. pass_inv np quiet sound v0 ?rest (V s') (A s')) (\<lambda>_ s'. pass_inv np quiet sound v0 ?rest (V s') (A s')) s"
  proof (rule wp_deleteNode)
    show "pass_inv np quiet sound v0 ?rest ((V s)(node_key ?m := None)) a" if "A s \<Longrightarrow> a" for a
      using rest(2) rest(3) that by (intro pass_inv_remove(1) [OF Suc.prems(1)])
    show "pass_inv np quiet sound v0 ?rest (V s) a" if "A s \<Longrightarrow> a \<and> V s (node_key ?m) = None" for a
    proof (rule pass_inv_remove(2) [OF Suc.prems(1) rest(2) rest(3)])
      show "\<not> (quiet \<and> sound)"
      proof
        assume "quiet \<and> sound"
        then have "A s" "listed np ns (V s)" using Suc.prems(1) by (simp_all add: pass_inv_def)
        moreover have "?m \<in> set ns" using rest(2) by blast
        ultimately show False using that by (auto simp: listed_def)
      qed
    qed
  qed simp
  then have inv: "pass_inv np quiet sound v0 ?rest (V (snd (deleteNode c ?m 0 s))) (A (snd (deleteNode c ?m 0 s)))"
    by (simp only: wp_snd)
  have run: "remove_extra c False k True ?rest (snd (deleteNode c ?m 0 s)) = ((changed', ns'), s')"
    using Suc.prems(3) by (simp add: Let_def)
  have "k \<le> length ?rest" using Suc.prems(2) rest(1) by simp
  from Suc.IH [OF inv this run] rest(1) Suc.prems(2) show ?case by simp
qed simp

lemma wp_update_roles:
  assumes "pass_inv np quiet sound v0 ns (V s) (A s)"
  shows "wp (update_roles c np False ns changed) (\<lambda>_ s'. pass_inv np quiet sound v0 ns (V s') (A s'))
    (\<lambda>_ s'. safe np quiet v0 (V s') \<and> \<not> (quiet \<and> sound)) s"
  unfolding update_roles_def
proof (rule wp_foldA [where I = "\<lambda>_ s'. pass_inv np quiet sound v0 ns (V s') (A s')"], goal_cases)
  case (2 m ch s)
  have update: "wp (updateNodeRoles c m np False) (\<lambda>_ s'. pass_inv np quiet sound v0 ns (V s') (A s'))
    (\<lambda>_ s'. safe np quiet v0 (V s') \<and> \<not> (quiet \<and> sound)) s"
  proof (rule wp_updateNodeRoles)
    fix y a
    assume y: "node_stored (m\<lparr>nd_Role := Some (pool_roles np)\<rparr>) y" "V s (node_key m) \<noteq> None" "A s \<Longrightarrow> a"
    show "pass_inv np quiet sound v0 ns ((V s)(node_key m \<mapsto> y)) a"
      using node_stored_keeps [OF y(1)] y(2,3) 2 by (intro pass_inv_update [OF 2(2) 2(1)]) (simp_all add: same_identity_def)
  next
    fix a assume a: "A s \<Longrightarrow> a \<and> V s (node_key m) = None"
    have "\<not> (quiet \<and> sound)"
    proof
      assume "quiet \<and> sound"
      then have "A s" "listed np ns (V s)" using 2(2) by (simp_all add: pass_inv_def)
      with a 2(1) show False by (auto simp: listed_def)
    qed
    then show "safe np quiet v0 (V s) \<and> \<not> (quiet \<and> sound)" using 2(2) by (simp add: pass_inv_def)
  qed
  show ?case unfolding wp_simps using update 2(2) by (intro ifI) simp_all
qed (use assms in simp_all)

lemma pass_inv_start:
  assumes items: "distinct (map node_key items)" "\<And>x. x \<in> set items \<longleftrightarrow> v (node_key x) = Some x" "\<And>k n. v k = Some n \<Longrightarrow> node_key n = k"
    and ns: "ns = filter (in_pool np) (filter (\<lambda>n. nd_Namespace n = np_Namespace np) items)"
    and diff: "\<And>k. v' k = v k \<or> k \<in> node_key ` set ns \<and> \<not> quiet" and "sound \<Longrightarrow> a \<and> all_named v"
  shows "pass_inv np quiet sound v ns v' a"
proof -
  have set_ns: "m \<in> set ns \<longleftrightarrow> v (node_key m) = Some m \<and> pool_node np m" for m
    using items(2) by (auto simp: ns pool_node_def)
  have same: "v' = v" if quiet using diff that by blast
  have "outsiders_kept np v v'"
    unfolding outsiders_kept_def
  proof (intro allI impI)
    fix k n assume n: "v k = Some n" "\<not> pool_node np n"
    have "k \<notin> node_key ` set ns"
    proof
      assume "k \<in> node_key ` set ns"
      then obtain m where "m \<in> set ns" "k = node_key m" by blast
      with n set_ns [of m] show False by simp
    qed
    with diff [of k] n show "v' k = Some n" by simp
  qed
  then have "safe np quiet v v'" using same by (auto simp: safe_def)
  moreover have "pool_node np n" if "m \<in> set ns" "v (node_key m) = Some n" for m n
    using set_ns [of m] that by simp
  moreover have "distinct (map node_key ns)"
    using items(1) unfolding ns by (simp add: distinct_map_filter)
  moreover have "pool_keys np v = node_key ` set ns"
    using items(3) set_ns by (force simp: pool_keys_def)
  ultimately show ?thesis
    using same set_ns assms(6) by (auto simp: pass_inv_def listed_def same_identity_def)
qed


lemma pass_server:
  assumes run: "createOrCheckNodes c np False s = Some (r, s')"
    and quiet: "quiet \<Longrightarrow> wrap64 (np_DeleteNotReadyAfterSecs np * second) \<le> 0 \<and> CHR '':'' \<notin> set (np_Namespace np) \<and> CHR '':'' \<notin> set (np_Name np)"
    and sound: "sound \<Longrightarrow> A s \<and> all_named (V s)"
  shows "safe np quiet (V s) (V s') \<and>
    (quiet \<and> sound \<longrightarrow> (\<exists>changed. r = Inr changed) \<and> card (pool_keys np (V s')) = nat (max 0 (np_Quantity np)))"
proof -
  let ?d = "wrap64 (np_DeleteNotReadyAfterSecs np * second)" and ?q = "nat (max 0 (np_Quantity np))"
  define covers where "covers byName v \<longleftrightarrow>
    (\<forall>k n. v k = Some n \<longrightarrow> nd_Namespace n = np_Namespace np \<longrightarrow> nd_RequestedHostname n \<in> fst ` set byName)"
    for byName :: "(string, Node) gomap" and v :: "nodeKey \<Rightarrow> Node option"
  let ?I = "\<lambda>(i :: int) byName (changed :: bool) ns s'. pass_inv np quiet sound (V s) ns (V s') (A s') \<and> (quiet \<longrightarrow> covers byName (V s'))"
  let ?E = "\<lambda>(e :: error) s'. safe np quiet (V s) (V s') \<and> \<not> (quiet \<and> sound)"
  let ?Q = "\<lambda>(changed :: bool) s'. safe np quiet (V s) (V s') \<and> (quiet \<and> sound \<longrightarrow> card (pool_keys np (V s')) = ?q)"
  have "case r of Inl e \<Rightarrow> ?E e s' | Inr changed \<Rightarrow> ?Q changed s'"
  proof (rule pass_rule [OF run, where I = ?I], goal_cases)
    case 1
    have "wp (foldA (check_node c np False ?d) (filter (\<lambda>n. nd_Namespace n = np_Namespace np) items) ([], False, []))
        (\<lambda>(byName, changed, ns). ?I (snd (snd (parsePrefix (np_HostnamePrefix np)))) byName changed ns) ?E s1"
      if items: "view (ps_nodes s1) = V s" "A s \<Longrightarrow> A s1" "distinct (map node_key items)" "\<And>x. x \<in> set items \<longleftrightarrow> V s (node_key x) = Some x"
      for items s1
    proof -
      let ?xs = "filter (\<lambda>n. nd_Namespace n = np_Namespace np) items"
      have diff: "V s2 k = V s k \<or> k \<in> node_key ` set (filter (in_pool np) ?xs) \<and> \<not> quiet"
        if "shrinks ?d (node_key ` set (filter (in_pool np) ?xs)) s1 s2" for s2 k
        using that quiet items(1) unfolding shrinks_def by fastforce
      have start: "pass_inv np quiet sound (V s) (filter (in_pool np) ?xs) (V s2) (A s2)"
        if "shrinks ?d (node_key ` set (filter (in_pool np) ?xs)) s1 s2" for s2
        using that sound items by (intro pass_inv_start [OF items(3,4) _ refl diff [OF that]]) (auto simp: view_key shrinks_def)
      show ?thesis
      proof (rule wp_mono [OF wp_check_nodes], goal_cases)
        case (1 t s2)
        obtain byName changed ns where t: "t = (byName, changed, ns)" by (cases t)
        from 1 have *: "fst ` set byName = nd_RequestedHostname ` set ?xs" "ns = filter (in_pool np) ?xs"
          and shr: "shrinks ?d (node_key ` set (filter (in_pool np) ?xs)) s1 s2" by (simp_all add: t)
        have "covers byName (V s2)" if quiet
        proof (unfold covers_def *(1), intro allI impI)
          fix k n assume n: "V s2 k = Some n" "nd_Namespace n = np_Namespace np"
          then have "V s k = Some n" using diff [OF shr, of k] that by simp
          then have "n \<in> set items" using items(4) [of n] view_key by simp
          with n show "nd_RequestedHostname n \<in> nd_RequestedHostname ` set ?xs" by simp
        qed
        with start [OF shr] show ?case by (simp add: t *(2))
      next
        case (2 e s2)
        then have "\<not> quiet" using quiet by fastforce
        with start 2 show ?case by (simp add: pass_inv_def)
      qed
    qed
    then show ?case
      unfolding nodes_def nodesA_def if_False wp_simps
      by (intro wp_list) (use sound in \<open>auto simp: safe_def outsiders_kept_def\<close>)
  next
    case (2 pre ml i byName changed ns s1)
    then show ?case by simp
  next
    case (3 pre ml i byName changed ns s1)
    show ?case
    proof (rule wp_createNode)
      fix y a assume y: "node_stored (new_node (hostname pre ml i) np) y" "V s1 (node_key y) = None" "A s1 \<Longrightarrow> a" "nd_Name y \<noteq> []"
      note keeps = node_stored_keeps [OF y(1)]
      have host: "nd_RequestedHostname y = hostname pre ml i" using keeps by (simp add: new_node_def)
      have fresh: "hostname pre ml i \<notin> fst ` set byName" using 3(3) by (simp add: map_has_def map_of_eq_None_iff)
      have "pool_node np y" if quiet
        using keeps quiet [OF that] new_node_pool [of np "hostname pre ml i"] by (simp add: pool_node_def in_pool_def)
      moreover have "nd_RequestedHostname n \<noteq> nd_RequestedHostname y" if "quiet" "V s1 k = Some n" "nd_Namespace n = np_Namespace np" for k n
        using 3(1) that fresh unfolding covers_def host by metis
      ultimately have "pass_inv np quiet sound (V s) (ns @ [y]) ((V s1)(node_key y \<mapsto> y)) a"
        using y(2-4) by (intro pass_inv_create [OF conjunct1 [OF 3(1)]]) simp_all
      moreover have "covers (map_put (nd_RequestedHostname y) y byName) ((V s1)(node_key y \<mapsto> y))" if quiet
        using 3(1) that unfolding covers_def by auto
      ultimately show "pass_inv np quiet sound (V s) (ns @ [y]) ((V s1)(node_key y \<mapsto> y)) a \<and>
          (quiet \<longrightarrow> covers (map_put (nd_RequestedHostname y) y byName) ((V s1)(node_key y \<mapsto> y)))" by simp
    next
      fix a assume "A s1 \<Longrightarrow> a \<and> V s1 (np_Namespace np, []) \<noteq> None"
      with 3(1) show "safe np quiet (V s) (V s1) \<and> \<not> (quiet \<and> sound)" by (auto simp: pass_inv_def all_named_def)
    qed
  next
    case (4 i byName changed ns s1)
    obtain changed' ns' s2 where extra: "remove_extra c False (length ns - ?q) changed ns s1 = ((changed', ns'), s2)" by (metis surj_pair)
    have inv: "pass_inv np quiet sound (V s) ns' (V s2) (A s2)" "length ns' = ?q"
      using remove_extra_inv [OF _ _ extra, of np quiet sound "V s"] 4 by auto
    have "wp (update_roles c np False ns' changed') ?Q ?E s2"
    proof (rule wp_mono [OF wp_update_roles [OF inv(1)]])
      fix ch s3 assume i3: "pass_inv np quiet sound (V s) ns' (V s3) (A s3)"
      have "card (pool_keys np (V s3)) = ?q" if "quiet \<and> sound"
      proof -
        have "pool_keys np (V s3) = node_key ` set ns'" "distinct (map node_key ns')" using i3 that by (simp_all add: pass_inv_def listed_def)
        then show ?thesis using inv(2) by (metis distinct_card length_map set_map)
      qed
      with i3 show "?Q ch s3" by (simp add: pass_inv_def)
    qed
    then show ?case by (simp only: extra prod.case)
  qed
  then show ?thesis by (cases r) auto
qed

end


section \<open>The server of the development's own model\<close>

definition assign_node :: "Node list \<Rightarrow> Node \<Rightarrow> Node" where
  "assign_node xs x = (if nd_Name x = [] then x\<lparr>nd_Name := fresh_name ''m-'' (map nd_Name xs)\<rparr> else x)"

text \<open>
  C14. A run of the handler never changes or removes a node of another pool or another namespace, also when calls of the
  server fail in between.
\<close>

theorem Updated_isolated:
  assumes "node_server c view avail" "Updated c np s = Some (r, s')"
    and "view (ps_nodes s) k = Some n" "nd_Namespace n \<noteq> np_Namespace np \<or> \<not> in_pool np n"
  shows "view (ps_nodes s') k = Some n"
  using assms(2)
proof (cases rule: Updated_cases)
  case (2 r')
  from node_server.pass_server [OF assms(1) 2(2), of False False]
  have "outsiders_kept (mark_unknown np) (view (ps_nodes s)) (view (ps_nodes s'))" by (simp add: safe_def)
  with assms(3,4) show ?thesis by (simp add: outsiders_kept_def pool_node_def in_pool_def)
qed (use assms(3) in simp_all)

text \<open>
  C15. Host names stay unique: if no two nodes of the namespace, of whatever pool, ask for the same host name, this holds
  after a run as well, also when calls fail.  (For pools that keep unreachable nodes: otherwise the run works with a list that
  may hold nodes it has removed.)
\<close>

theorem Updated_unique_hostnames:
  assumes "node_server c view avail" "Updated c np s = Some (r, s')"
    and "wrap64 (np_DeleteNotReadyAfterSecs np * second) \<le> 0" "CHR '':'' \<notin> set (np_Namespace np)" "CHR '':'' \<notin> set (np_Name np)"
    and "unique_hostnames (np_Namespace np) (view (ps_nodes s))"
  shows "unique_hostnames (np_Namespace np) (view (ps_nodes s'))"
  using assms(2)
proof (cases rule: Updated_cases)
  case (2 r')
  from node_server.pass_server [OF assms(1) 2(2), of True False] assms(3-6) show ?thesis by (simp add: safe_def)
qed (use assms(6) in simp_all)

lemma check_nodes_simulated:
  fixes c :: "'w Controller"
  shows "wp (foldA (check_node c np True d) xs (byName, changed, ns)) (\<lambda>(byName', changed', ns') s'. ns' = ns @ filter (in_pool np) xs) (\<lambda>_ _. False) s"
proof (induction xs arbitrary: byName changed ns s)
  case (Cons n xs byName changed ns s)
  have "wp (check_node c np True d n (byName, changed, ns)) (\<lambda>(byName', changed', ns') s'. ns' = ns @ filter (in_pool np) [n]) (\<lambda>_ _. False) s"
    unfolding check_node_def check_unreachable_def prod.case Let_def wp_simps by (simp split: option.split)
  then show ?case
    unfolding wp_foldA_Cons by (rule wp_mono) (auto intro!: wp_mono [OF Cons.IH])
qed (simp add: wp_def)

lemma roles_changed: "wp (update_roles c np True ns changed) (\<lambda>ch _. changed \<longrightarrow> ch) (\<lambda>_ _. False) s"
  unfolding update_roles_def updateNodeRoles_def Let_def
  by (intro wp_foldA [where I = "\<lambda>ch _. changed \<longrightarrow> ch"]) (auto simp: wp_def)

lemma simulated_unchanged:
  assumes run: "createOrCheckNodes c np True s = Some (r, s')" and "nc_NodeLister c (np_Namespace np) = Inr xs"
  shows "\<exists>changed. r = Inr changed \<and> (\<not> changed \<longrightarrow> length (filter (in_pool np) xs) = nat (max 0 (np_Quantity np)))"
proof -
  let ?n = "length (filter (in_pool np) xs)" and ?q = "nat (max 0 (np_Quantity np))"
  have "case r of Inl e \<Rightarrow> False | Inr changed \<Rightarrow> \<not> changed \<longrightarrow> ?n = ?q"
  proof (rule pass_rule [OF run, where I = "\<lambda>i byName changed ns s'. \<not> changed \<longrightarrow> length ns = ?n"], goal_cases)
    case 1
    show ?case unfolding wp_simps nodes_def if_True assms(2) sum.case
      by (rule wp_mono [OF check_nodes_simulated]) auto
  next
    case (3 pre ml i byName changed ns s1)
    show ?case by (simp add: createNode_def wp_simps)
  next
    case (4 i byName changed ns s1)
    let ?k = "length ns - ?q"
    obtain changed' ns' s2 where extra: "remove_extra c True ?k changed ns s1 = ((changed', ns'), s2)" by (metis surj_pair)
    have grow: "remove_extra c sim k ch ns s = ((ch', ns'), s') \<Longrightarrow> ch' \<longleftrightarrow> ch \<or> 0 < k" for sim k ch ns s ch' ns' s'
      by (induction k arbitrary: ch ns s) (auto simp: Let_def)
    have "wp (update_roles c np True ns' changed') (\<lambda>ch _. \<not> ch \<longrightarrow> ?n = ?q) (\<lambda>_ _. False) s2"
      by (rule wp_mono [OF roles_changed]) (use grow [OF extra] 4 in auto)
    then show ?case by (simp only: extra prod.case)
  qed simp
  then show ?thesis by (cases r) auto
qed


section \<open>Instances\<close>

definition mem_controller :: "NodePool list result \<Rightarrow> (string \<Rightarrow> Node list result) \<Rightarrow> int \<Rightarrow> Node mem Controller" where
  "mem_controller pools lister now =
     \<lparr>nc_NodePoolLister = pools, nc_NodeLister = lister, nc_Nodes = mem_client node_key assign_node,
      nc_sort = sort_key nd_RequestedHostname, nc_now = now\<rparr>"

interpretation node_mem: mem_server node_key assign_node node_stored
proof
  show "node_stored x x" for x by (simp add: node_stored_def)
  show "node_stored x (assign_node xs x)" for x xs by (simp add: node_stored_def assign_node_def)
  show "find (\<lambda>y. node_key y = node_key (assign_node xs x)) xs = None" if "find (\<lambda>y. node_key y = node_key x) xs = None" for x xs
  proof (cases "nd_Name x = []")
    case True
    have "nd_Name y \<noteq> fresh_name ''m-'' (map nd_Name xs)" if "y \<in> set xs" for y
      using fresh_name_fresh [of "''m-''" "map nd_Name xs"] that by (metis image_eqI list.set_map)
    with True show ?thesis by (auto simp: find_None_iff assign_node_def node_key_def)
  qed (simp add: assign_node_def that)
qed

interpretation mem_nodes: node_server "mem_controller pools lister now" "mem_find node_key" mem_avail
proof (rule node_server.intro)
  show "api_client (nc_Nodes (mem_controller pools lister now)) node_key (mem_find node_key) node_stored mem_avail"
    unfolding mem_controller_def Controller.simps by (rule node_mem.mem.api_client_axioms)
  show "node_server_axioms (mem_controller pools lister now)"
    by unfold_locales (auto simp: mem_controller_def mem_client_def faultA_def assign_node_def fresh_name_def Let_def split: option.splits list.splits if_splits)
qed

definition sample_node :: "string \<Rightarrow> string \<Rightarrow> string \<Rightarrow> Node" where
  "sample_node pool name host = (new_node host \<lparr>np_Namespace = ''c'', np_Name = pool, np_Labels = [], np_Annotations = [], np_Etcd = False,
     np_ControlPlane = False, np_Worker = True, np_NodeTemplateName = ''t'', np_HostnamePrefix = ''web'', np_Quantity = 0,
     np_DeleteNotReadyAfterSecs = 0, np_Conditions = []\<rparr>)\<lparr>nd_Name := name\<rparr>"

definition sample_pool :: "int \<Rightarrow> NodePool" where
  "sample_pool q = \<lparr>np_Namespace = ''c'', np_Name = ''p'', np_Labels = [], np_Annotations = [], np_Etcd = False,
     np_ControlPlane = False, np_Worker = True, np_NodeTemplateName = ''t'', np_HostnamePrefix = ''web'', np_Quantity = q,
     np_DeleteNotReadyAfterSecs = 0, np_Conditions = []\<rparr>"

definition sample_nodes :: "Node list" where
  "sample_nodes = [sample_node ''p'' ''m1'' ''web1'', sample_node ''z'' ''m2'' ''web2'']"

definition sample_pools :: "Node mem Controller" where
  "sample_pools = mem_controller (Inr []) (\<lambda>_. Inr sample_nodes) 0"

definition sample_pool_state :: "Node mem poolState" where
  "sample_pool_state = \<lparr>ps_nodes = \<lparr>objs = sample_nodes, faults = []\<rparr>, ps_syncmap = [], ps_spawned = [], ps_queue = []\<rparr>"

lemma sample_pool_run: "Updated sample_pools (sample_pool 2) sample_pool_state \<noteq> None"
  by code_simp


lemma sample_pools_server: "node_server sample_pools (mem_find node_key) mem_avail"
  unfolding sample_pools_def by (rule mem_nodes.node_server_axioms)

lemma sample_pool_obtain:
  obtains r s' where "Updated sample_pools (sample_pool 2) sample_pool_state = Some (r, s')"
  using sample_pool_run by auto

lemma sample_find:
  "mem_find node_key (ps_nodes sample_pool_state) k =
    (if k = (''c'', ''m1'') then Some (sample_node ''p'' ''m1'' ''web1'') else if k = (''c'', ''m2'') then Some (sample_node ''z'' ''m2'' ''web2'') else None)"
  by (auto simp: mem_find_def sample_pool_state_def sample_nodes_def sample_node_def new_node_def node_key_def)

theorem Updated_returns_witness: "\<exists>r s'. Updated sample_pools (sample_pool 2) sample_pool_state = Some (r, s')"
proof (rule Updated_returns [where N = 2])
  show "length xs \<le> 2" if "clist (nc_Nodes sample_pools) (\<lambda>_. True) (ps_nodes sample_pool_state) = (Inr xs, w')" for xs w'
  proof -
    have "fst (clist (nc_Nodes sample_pools) (\<lambda>_. True) (ps_nodes sample_pool_state)) = Inr sample_nodes" by code_simp
    with that show ?thesis by (simp add: sample_nodes_def)
  qed
qed (simp_all add: sample_pools_def mem_controller_def sample_nodes_def sample_pool_def)

theorem Updated_isolated_witness:
  "\<exists>r s'. Updated sample_pools (sample_pool 2) sample_pool_state = Some (r, s') \<and>
     mem_find node_key (ps_nodes s') (''c'', ''m2'') = Some (sample_node ''z'' ''m2'' ''web2'')"
proof -
  obtain r s' where run: "Updated sample_pools (sample_pool 2) sample_pool_state = Some (r, s')" by (rule sample_pool_obtain)
  have "\<not> in_pool (sample_pool 2) (sample_node ''z'' ''m2'' ''web2'')" by code_simp
  then have "mem_find node_key (ps_nodes s') (''c'', ''m2'') = Some (sample_node ''z'' ''m2'' ''web2'')"
    by (intro Updated_isolated [OF sample_pools_server run]) (simp_all add: sample_find)
  with run show ?thesis by (intro exI conjI)
qed

theorem Updated_unique_hostnames_witness:
  "\<exists>r s'. Updated sample_pools (sample_pool 2) sample_pool_state = Some (r, s') \<and> unique_hostnames ''c'' (mem_find node_key (ps_nodes s'))"
proof -
  obtain r s' where run: "Updated sample_pools (sample_pool 2) sample_pool_state = Some (r, s')" by (rule sample_pool_obtain)
  have "unique_hostnames (np_Namespace (sample_pool 2)) (mem_find node_key (ps_nodes sample_pool_state))"
    by (rule uniqueI) (auto simp: sample_find sample_node_def new_node_def split: if_splits)
  then have "unique_hostnames (np_Namespace (sample_pool 2)) (mem_find node_key (ps_nodes s'))"
    by (intro Updated_unique_hostnames [OF sample_pools_server run]) (simp_all add: sample_pool_def wrap64_def)
  with run show ?thesis by (auto simp: sample_pool_def)
qed


end
