(* ===== verification/NodePoolPolls.thy ===== *)
theory NodePoolPolls
  imports NodePoolFacts
begin

text \<open>
  The node pool controller with its goroutines as a transition system: one goroutine polls
  an unreachable node at a time and hands the pool back to the controller.
\<close>

section \<open>Polls of unreachable nodes\<close>

fun poll_ids :: "goroutine list \<Rightarrow> string list" where
  "poll_ids [] = []"
| "poll_ids (Requeue t np n # gs) = node_id n # poll_ids gs"
| "poll_ids (DeleteLater ns nm d # gs) = poll_ids gs"

lemma poll_ids_append [simp]: "poll_ids (gs @ hs) = poll_ids gs @ poll_ids hs"
  by (induction gs rule: poll_ids.induct) simp_all

definition polls_tracked :: "'w poolState \<Rightarrow> bool" where
  "polls_tracked s \<longleftrightarrow> distinct (poll_ids (ps_spawned s)) \<and> (\<forall>i \<in> set (poll_ids (ps_spawned s)). map_has (ps_syncmap s) i)"

text \<open>
  The controller and its goroutines: handlers run one at a time for each pool and, like the
  goroutines, in any order; the controller's view of the cluster and the clock change in
  between, so every step has a controller of its own.
\<close>

inductive pool_step :: "'w poolState \<Rightarrow> 'w poolState \<Rightarrow> bool" where
  update: "Updated c np s = Some (r, s') \<Longrightarrow> pool_step s s'"
| remove: "Remove c np s = (r, s') \<Longrightarrow> pool_step s s'"
| machine: "machineChanged c m s = (r, s') \<Longrightarrow> pool_step s s'"
| poll_done: "ps_spawned s = gs @ Requeue t np n # hs \<Longrightarrow> requeue t np n polls s = Some (Inr (), s') \<Longrightarrow>
    pool_step s (s'\<lparr>ps_spawned := gs @ hs\<rparr>)"
| delete_due: "ps_spawned s = gs @ DeleteLater ns nm d # hs \<Longrightarrow> cdelete (nc_Nodes (c :: 'w Controller)) (ns, nm) (ps_nodes s) = (r, w) \<Longrightarrow>
    pool_step s (s\<lparr>ps_nodes := w, ps_spawned := gs @ hs\<rparr>)"

inductive pool_reachable :: "'w poolState \<Rightarrow> bool" where
  start: "ps_spawned s = [] \<Longrightarrow> ps_syncmap s = [] \<Longrightarrow> pool_reachable s"
| step: "pool_reachable s \<Longrightarrow> pool_step s s' \<Longrightarrow> pool_reachable s'"


text \<open>What the calls of a pass do to the polls: nothing, except to start one for a node that has none.\<close>

lemma wp_nodesA_tracked: "polls_tracked s \<Longrightarrow> wp (nodesA m) (\<lambda>_. polls_tracked) (\<lambda>_. polls_tracked) s"
  by (auto simp: nodesA_def wp_def zoomA_def polls_tracked_def split: prod.splits sum.splits)

lemma wp_tracked:
  "polls_tracked s \<Longrightarrow> wp (deleteNode c n d) (\<lambda>_. polls_tracked) (\<lambda>_. polls_tracked) s"
  "polls_tracked s \<Longrightarrow> wp (createNode c nm np sim) (\<lambda>_. polls_tracked) (\<lambda>_. polls_tracked) s"
  "polls_tracked s \<Longrightarrow> wp (updateNodeRoles c n np sim) (\<lambda>_. polls_tracked) (\<lambda>_. polls_tracked) s"
  "polls_tracked s \<Longrightarrow> wp (start_requeue d np n) (\<lambda>_. polls_tracked) (\<lambda>_. polls_tracked) s"
  "polls_tracked s \<Longrightarrow> wp (nodes c np sim) (\<lambda>_. polls_tracked) (\<lambda>_. polls_tracked) s"
proof -
  assume s: "polls_tracked s"
  note call = wp_nodesA_tracked [OF s]
  show "wp (deleteNode c n d) (\<lambda>_. polls_tracked) (\<lambda>_. polls_tracked) s"
  proof -
    have "wp (spawn (DeleteLater (nd_Namespace n) (nd_Name n) d)) (\<lambda>_. polls_tracked) (\<lambda>_. polls_tracked) s"
      using s by (simp add: spawn_def wp_def polls_tracked_def)
    then show ?thesis unfolding deleteNode_def wp_simps by (simp add: call)
  qed
  show "wp (createNode c nm np sim) (\<lambda>_. polls_tracked) (\<lambda>_. polls_tracked) s"
    using s unfolding createNode_def wp_simps by (simp add: call)
  show "wp (updateNodeRoles c n np sim) (\<lambda>_. polls_tracked) (\<lambda>_. polls_tracked) s"
    using s unfolding updateNodeRoles_def Let_def wp_simps by (simp add: call)
  show "wp (start_requeue d np n) (\<lambda>_. polls_tracked) (\<lambda>_. polls_tracked) s"
    using s by (auto simp: start_requeue_def spawn_def wp_def polls_tracked_def map_has_def)
  show "wp (nodes c np sim) (\<lambda>_. polls_tracked) (\<lambda>_. polls_tracked) s"
    using s unfolding nodes_def wp_simps by (auto intro: wp_mono [OF call] split: sum.split)
qed

lemma wp_check_node_tracked:
  assumes "polls_tracked s"
  shows "wp (check_node c np sim d n t) (\<lambda>_. polls_tracked) (\<lambda>_. polls_tracked) s"
proof -
  have unreachable: "wp (check_unreachable c np sim d n changed) (\<lambda>_. polls_tracked) (\<lambda>_. polls_tracked) s" if "polls_tracked s" for changed s
    using that unfolding check_unreachable_def wp_simps by (auto intro: wp_tracked split: option.split)
  show ?thesis
    unfolding check_node_def Let_def wp_simps using assms
    by (intro prodI ifI wp_tracked(1) [THEN wp_mono] unreachable [THEN wp_mono]) (auto intro: unreachable)
qed

lemma pass_tracked:
  assumes "createOrCheckNodes c np sim s = Some (r, s')" "polls_tracked s"
  shows "polls_tracked s'"
proof -
  have "case r of Inl e \<Rightarrow> polls_tracked s' | Inr changed \<Rightarrow> polls_tracked s'"
  proof (rule pass_rule [OF assms(1), where I = "\<lambda>i byName changed ns. polls_tracked"], goal_cases)
    case 1
    show ?case unfolding wp_simps using assms(2)
      by (intro wp_tracked(5) [THEN wp_mono] wp_foldA [where I = "\<lambda>_. polls_tracked"]) (auto intro: wp_check_node_tracked)
  next
    case (3 pre ml i byName changed ns s)
    then show ?case by (auto intro: wp_tracked)
  next
    case (4 i byName changed ns s)
    have "polls_tracked (snd (remove_extra c sim k changed ns s))" if "polls_tracked s" for k changed ns s
      using that
    proof (induction k arbitrary: changed ns s)
      case (Suc k)
      have "polls_tracked (snd (deleteNode c (last (nc_sort c ns)) 0 s))" using wp_tracked(1) [OF Suc.prems] unfolding wp_snd .
      with Suc show ?case by (simp add: Let_def)
    qed simp
    from this [OF 4(1)] obtain changed' ns' s2 where extra: "remove_extra c sim (length ns - nat (max 0 (np_Quantity np))) changed ns s = ((changed', ns'), s2)" "polls_tracked s2"
      by (metis prod.collapse)
    have "wp (update_roles c np sim ns' changed') (\<lambda>_. polls_tracked) (\<lambda>_. polls_tracked) s2"
      unfolding update_roles_def using extra(2)
      by (intro wp_foldA [where I = "\<lambda>_. polls_tracked"]) (auto simp: wp_simps intro!: wp_tracked(3) [THEN wp_mono])
    then show ?case by (simp only: extra(1) prod.case)
  qed simp
  then show ?thesis by (cases r) auto
qed


lemma poll_step_tracked:
  assumes "polls_tracked s" "ps_spawned s = gs @ Requeue t np n # hs" "requeue t np n polls s = Some (Inr (), s')"
  shows "polls_tracked (s'\<lparr>ps_spawned := gs @ hs\<rparr>)"
proof -
  have sync: "ps_syncmap s' = map_del (node_id n) (ps_syncmap s)"
  proof -
    obtain r where "(if getTaint (nd_Taints n) unReachableTaint = None then Some (Inr False) else requeue_loop t polls) = Some r"
      using assms(3) by (auto simp: requeue_def Option.bind_eq_Some_conv)
    with assms(3) show ?thesis
      unfolding requeue_def by (cases r) (auto simp: Enqueue_def bindA_def split: if_splits)
  qed
  have "distinct (poll_ids gs @ node_id n # poll_ids hs)" "\<forall>i \<in> set (poll_ids gs @ node_id n # poll_ids hs). map_has (ps_syncmap s) i"
    using assms(1,2) by (simp_all add: polls_tracked_def)
  then show ?thesis by (auto simp: polls_tracked_def sync map_has_def)
qed

lemma pool_step_tracked: "pool_step s s' \<Longrightarrow> polls_tracked s \<Longrightarrow> polls_tracked s'"
proof (induction rule: pool_step.induct)
  case (update c np s r s')
  from update(1) show ?case
    by (cases rule: Updated_cases) (use update(2) in \<open>auto dest: pass_tracked\<close>)
next
  case (remove c np s r s')
  have "wp (Remove c np) (\<lambda>_. polls_tracked) (\<lambda>_. polls_tracked) s"
    unfolding Remove_def wp_simps using remove(2)
    by (intro wp_tracked(5) [THEN wp_mono] wp_forA [where I = polls_tracked]) (auto simp: wp_simps intro: wp_tracked)
  with remove(1) show ?case by (simp add: wp_snd)
next
  case (machine c m s r s')
  have enq: "wp (Enqueue ns nm) (\<lambda>_. polls_tracked) (\<lambda>_. polls_tracked) s" if "polls_tracked s" for ns nm s
    using that by (simp add: Enqueue_def wp_def polls_tracked_def)
  have "wp (machineChanged c m) (\<lambda>_. polls_tracked) (\<lambda>_. polls_tracked) s"
    unfolding machineChanged_def wp_simps using machine(2)
    by (intro branchI wp_forA [where I = polls_tracked] enq) auto
  with machine(1) show ?case by (simp add: wp_snd)
next
  case (poll_done s gs t np n hs polls s')
  then show ?case by (intro poll_step_tracked)
next
  case (delete_due s gs ns nm d hs c r w)
  then show ?case by (simp add: polls_tracked_def)
qed

text \<open>
  C19. At any time at most one goroutine polls a node, as the comment of \<^verbatim>\<open>requeue\<close> promises, and every
  node that is polled is marked in the map: whatever passes, removals and polls run, in any order.
\<close>

theorem one_poll_per_node:
  assumes "pool_reachable s"
  shows "distinct (poll_ids (ps_spawned s)) \<and> set (poll_ids (ps_spawned s)) \<subseteq> {i. map_has (ps_syncmap s) i}"
proof -
  have "polls_tracked s"
    using assms
  proof (induction rule: pool_reachable.induct)
    case (start s)
    then show ?case by (simp add: polls_tracked_def)
  next
    case (step s s')
    then show ?case by (blast intro: pool_step_tracked)
  qed
  then show ?thesis by (auto simp: polls_tracked_def)
qed

text \<open>
  C20. A poll of a node that stays tainted ends as soon as it sees the taint older than the
  timeout: the pool is handed to the controller and the node may be polled again.
\<close>

theorem requeue_enqueues:
  assumes "\<And>now r. (now, r) \<in> set polls \<Longrightarrow>
      \<exists>n t start. r = Inr n \<and> getTaint (nd_Taints n) unReachableTaint = Some t \<and> ta_TimeAdded t = Some start"
    and "(now, Inr n') \<in> set polls" "getTaint (nd_Taints n') unReachableTaint = Some t" "ta_TimeAdded t = Some start" "timeout < time_since now start"
    and "getTaint (nd_Taints node) unReachableTaint \<noteq> None"
  shows "requeue timeout np node polls s =
    Some (Inr (), s\<lparr>ps_queue := ps_queue s @ [(np_Namespace np, np_Name np)], ps_syncmap := map_del (node_id node) (ps_syncmap s)\<rparr>)"
proof -
  have "requeue_loop timeout polls = Some (Inr True)"
    using assms(1,2)
  proof (induction polls)
    case (Cons p polls)
    obtain now' r where p: "p = (now', r)" by (cases p)
    obtain m t' start' where r: "r = Inr m" "getTaint (nd_Taints m) unReachableTaint = Some t'" "ta_TimeAdded t' = Some start'"
      using Cons.prems(1) [of now' r] p by auto
    show ?case
    proof (cases "timeout < time_since now' start'")
      case True
      then show ?thesis by (simp add: p r)
    next
      case False
      with Cons.prems(2) p r assms(3-5) have "(now, Inr n') \<in> set polls" by auto
      moreover have "\<exists>n t start. r = Inr n \<and> getTaint (nd_Taints n) unReachableTaint = Some t \<and> ta_TimeAdded t = Some start"
        if "(now, r) \<in> set polls" for now r
        using Cons.prems(1) [of now r] that by simp
      ultimately have "requeue_loop timeout polls = Some (Inr True)" by (intro Cons.IH)
      with False show ?thesis by (simp add: p r)
    qed
  qed simp
  with assms(6) show ?thesis by (auto simp: requeue_def Enqueue_def bindA_def)
qed

text \<open>
  C40. The comparison of roles settles only for pools with all three roles: it compares a map that has
  the node's roles only with one that has an entry for each role, true or false.  So a node whose roles
  have just been set to those of its pool needs the update again, unless the pool has all three.
\<close>

theorem needRoleUpdate_never_settles:
  "needRoleUpdate (n\<lparr>nd_Role := Some (pool_roles np)\<rparr>) np \<longleftrightarrow> \<not> (np_Etcd np \<and> np_ControlPlane np \<and> np_Worker np)"
  by (cases "np_Etcd np"; cases "np_ControlPlane np"; cases "np_Worker np")
    (simp_all add: needRoleUpdate_def pool_roles_def map_eq_def map_put_def)


definition tainted_node :: Node where
  "tainted_node = (sample_node ''p'' ''m1'' ''web1'')\<lparr>nd_Taints := [unReachableTaint\<lparr>ta_TimeAdded := Some 0\<rparr>], nd_NodeConditions := [(''Ready'', ''Unknown'')]\<rparr>"

definition tainted_pool :: NodePool where
  "tainted_pool = (sample_pool 1)\<lparr>np_DeleteNotReadyAfterSecs := 10\<rparr>"

definition tainted_state :: "Node mem poolState" where
  "tainted_state = \<lparr>ps_nodes = \<lparr>objs = [tainted_node], faults = []\<rparr>, ps_syncmap = [], ps_spawned = [], ps_queue = []\<rparr>"

theorem one_poll_per_node_witness:
  "\<exists>s. poll_ids (ps_spawned s) = [''c:m1''] \<and> pool_reachable (s :: Node mem poolState) \<and>
     distinct (poll_ids (ps_spawned s)) \<and> set (poll_ids (ps_spawned s)) \<subseteq> {i. map_has (ps_syncmap s) i}"
proof -
  let ?run = "Updated (mem_controller (Inr []) (\<lambda>_. Inr [tainted_node]) (5 * second)) tainted_pool tainted_state"
  have ids: "map_option (\<lambda>(r, s). poll_ids (ps_spawned s)) ?run = Some [''c:m1'']" by code_simp
  then obtain r s where run: "?run = Some (r, s)" "poll_ids (ps_spawned s) = [''c:m1'']" by auto
  have "pool_reachable tainted_state" by (rule pool_reachable.start) (simp_all add: tainted_state_def)
  then have "pool_reachable s" using pool_step.update [OF run(1)] by (rule pool_reachable.step)
  with run(2) one_poll_per_node [OF this] show ?thesis by (elim conjE) (intro exI conjI)
qed

theorem requeue_enqueues_witness:
  "requeue (10 * second) tainted_pool tainted_node [(5 * second, Inr tainted_node), (11 * second, Inr tainted_node)]
     (tainted_state\<lparr>ps_syncmap := [(''c:m1'', True)]\<rparr>) = Some (Inr (), tainted_state\<lparr>ps_queue := [(''c'', ''p'')]\<rparr>)"
proof -
  have t: "getTaint (nd_Taints tainted_node) unReachableTaint = Some (unReachableTaint\<lparr>ta_TimeAdded := Some 0\<rparr>)" by code_simp
  have late: "10 * second < time_since (11 * second) 0" by code_simp
  have result: "(tainted_state\<lparr>ps_syncmap := [(''c:m1'', True)]\<rparr>)\<lparr>ps_queue := ps_queue tainted_state @ [(np_Namespace tainted_pool, np_Name tainted_pool)],
      ps_syncmap := map_del (node_id tainted_node) [(''c:m1'', True)]\<rparr> = tainted_state\<lparr>ps_queue := [(''c'', ''p'')]\<rparr>" by code_simp
  show ?thesis
    by (subst requeue_enqueues [OF _ _ t _ late]) (use t result in auto)
qed

end
