(* ===== verification/Quota.thy ===== *)
theory Quota
  imports Refs "HOL-Library.List_Lexorder" "HOL-Library.Char_ord"
begin

text \<open>
  Resource quotas of projects and namespaces: limits and their conversion to resource
  lists (\<^verbatim>\<open>src/pkg/resourcequota/quota_validate.go\<close>,
  \<^verbatim>\<open>src/pkg/controllers/user/resourcequota/resource_quota_common.go\<close>), and the conditions kept in
  an annotation of the namespace (\<^verbatim>\<open>src/pkg/namespace\<close>).

  A quantity is its exact amount in units of 1/10^9, its format and the rest of its representation
  (\<^verbatim>\<open>resource.Quantity\<close> caches its text), which only \<^verbatim>\<open>reflect.DeepEqual\<close> looks at.  The parser
  and the printer of quantities are parameters.  An annotation with JSON text is the value it encodes; the text
  \<^verbatim>\<open>null\<close> is \<open>Json None\<close>.  A Go map that may be nil is an option.
\<close>

section \<open>Quantities and resource lists\<close>

record Quantity =
  qu_nano :: int
  qu_Format :: string
  qu_rep :: string

definition Quantity_Add :: "Quantity \<Rightarrow> Quantity \<Rightarrow> Quantity" where
  "Quantity_Add q y =
     \<lparr>qu_nano = qu_nano q + qu_nano y, qu_Format = (if qu_nano q = 0 then qu_Format y else qu_Format q), qu_rep = []\<rparr>"

type_synonym ResourceList = "(string, Quantity) gomap"

definition quota_Add :: "ResourceList \<Rightarrow> ResourceList \<Rightarrow> ResourceList" where
  "quota_Add a b =
     map (\<lambda>(k, v). (k, case map_of b k of None \<Rightarrow> v | Some other \<Rightarrow> Quantity_Add v other)) a @
     filter (\<lambda>(k, v). \<not> map_has a k) b"

definition quota_LessThanOrEqual :: "ResourceList \<Rightarrow> ResourceList \<Rightarrow> bool \<times> string list" where
  "quota_LessThanOrEqual a b =
     (let exceeded = map fst (filter (\<lambda>(k, v). case map_of a k of None \<Rightarrow> False | Some other \<Rightarrow> qu_nano other > qu_nano v) b)
      in (exceeded = [], exceeded))"

definition quota_Mask :: "ResourceList \<Rightarrow> string list \<Rightarrow> ResourceList" where
  "quota_Mask resources names = filter (\<lambda>(k, v). k \<in> set names) resources"

section \<open>Limits\<close>

record ResourceQuotaLimit =
  li_Pods :: string
  li_Services :: string
  li_ReplicationControllers :: string
  li_Secrets :: string
  li_ConfigMaps :: string
  li_PersistentVolumeClaims :: string
  li_ServicesNodePorts :: string
  li_ServicesLoadBalancers :: string
  li_RequestsCPU :: string
  li_RequestsMemory :: string
  li_RequestsStorage :: string
  li_LimitsCPU :: string
  li_LimitsMemory :: string

text \<open>The JSON object of a limit omits empty fields.\<close>

definition limit_entries :: "ResourceQuotaLimit \<Rightarrow> (string, string) gomap" where
  "limit_entries l =
     [(''pods'', li_Pods l), (''services'', li_Services l), (''replicationControllers'', li_ReplicationControllers l),
      (''secrets'', li_Secrets l), (''configMaps'', li_ConfigMaps l), (''persistentVolumeClaims'', li_PersistentVolumeClaims l),
      (''servicesNodePorts'', li_ServicesNodePorts l), (''servicesLoadBalancers'', li_ServicesLoadBalancers l),
      (''requestsCpu'', li_RequestsCPU l), (''requestsMemory'', li_RequestsMemory l), (''requestsStorage'', li_RequestsStorage l),
      (''limitsCpu'', li_LimitsCPU l), (''limitsMemory'', li_LimitsMemory l)]"

definition encode_limit :: "ResourceQuotaLimit \<Rightarrow> (string, string) gomap" where
  "encode_limit l = filter (\<lambda>(k, v). v \<noteq> []) (limit_entries l)"

definition decode_limit :: "(string, string) gomap \<Rightarrow> ResourceQuotaLimit" where
  "decode_limit m =
     \<lparr>li_Pods = map_get m ''pods'' [], li_Services = map_get m ''services'' [],
      li_ReplicationControllers = map_get m ''replicationControllers'' [], li_Secrets = map_get m ''secrets'' [],
      li_ConfigMaps = map_get m ''configMaps'' [], li_PersistentVolumeClaims = map_get m ''persistentVolumeClaims'' [],
      li_ServicesNodePorts = map_get m ''servicesNodePorts'' [], li_ServicesLoadBalancers = map_get m ''servicesLoadBalancers'' [],
      li_RequestsCPU = map_get m ''requestsCpu'' [], li_RequestsMemory = map_get m ''requestsMemory'' [],
      li_RequestsStorage = map_get m ''requestsStorage'' [], li_LimitsCPU = map_get m ''limitsCpu'' [],
      li_LimitsMemory = map_get m ''limitsMemory'' []\<rparr>"

record ContainerResourceLimit =
  cl_RequestsCPU :: string
  cl_RequestsMemory :: string
  cl_LimitsCPU :: string
  cl_LimitsMemory :: string

definition encode_container :: "ContainerResourceLimit \<Rightarrow> (string, string) gomap" where
  "encode_container l = filter (\<lambda>(k, v). v \<noteq> [])
     [(''requestsCpu'', cl_RequestsCPU l), (''requestsMemory'', cl_RequestsMemory l), (''limitsCpu'', cl_LimitsCPU l), (''limitsMemory'', cl_LimitsMemory l)]"

definition decode_container :: "(string, string) gomap \<Rightarrow> ContainerResourceLimit" where
  "decode_container m =
     \<lparr>cl_RequestsCPU = map_get m ''requestsCpu'' [], cl_RequestsMemory = map_get m ''requestsMemory'' [],
      cl_LimitsCPU = map_get m ''limitsCpu'' [], cl_LimitsMemory = map_get m ''limitsMemory'' []\<rparr>"

type_synonym parser = "string \<Rightarrow> Quantity result"

fun parse_entries :: "parser \<Rightarrow> (string \<Rightarrow> string) \<Rightarrow> (string, string) gomap \<Rightarrow> ResourceList \<Rightarrow> ResourceList result" where
  "parse_entries parse rename [] acc = Inr acc"
| "parse_entries parse rename ((k, v) # m) acc =
     (case parse v of Inl e \<Rightarrow> Inl e | Inr q \<Rightarrow> parse_entries parse rename m (map_put (rename k) q acc))"

definition ConvertLimitToResourceList :: "parser \<Rightarrow> ResourceQuotaLimit option \<Rightarrow> ResourceList result" where
  "ConvertLimitToResourceList parse limit =
     (case limit of None \<Rightarrow> Inr [] | Some l \<Rightarrow> parse_entries parse id (encode_limit l) [])"

fun add_limits :: "parser \<Rightarrow> ResourceQuotaLimit option list \<Rightarrow> ResourceList \<Rightarrow> ResourceList result" where
  "add_limits parse [] acc = Inr acc"
| "add_limits parse (l # ls) acc =
     (case ConvertLimitToResourceList parse l of Inl e \<Rightarrow> Inl e | Inr rl \<Rightarrow> add_limits parse ls (quota_Add acc rl))"

definition prettyPrint :: "(Quantity \<Rightarrow> string) \<Rightarrow> ResourceList \<Rightarrow> string" where
  "prettyPrint qstring item =
     join '','' (map (\<lambda>key. key @ ''='' @ (case map_of item key of None \<Rightarrow> [] | Some v \<Rightarrow> qstring v)) (sort (map fst item)))"

definition IsQuotaFit ::
    "parser \<Rightarrow> (Quantity \<Rightarrow> string) \<Rightarrow> ResourceQuotaLimit option \<Rightarrow> ResourceQuotaLimit option list \<Rightarrow> ResourceQuotaLimit option \<Rightarrow>
     (bool \<times> string) result" where
  "IsQuotaFit parse qstring nsLimit nsLimits projectLimit =
     (case add_limits parse (nsLimit # nsLimits) [] of
        Inl e \<Rightarrow> Inl e
      | Inr nssResourceList \<Rightarrow>
          (case ConvertLimitToResourceList parse projectLimit of
             Inl e \<Rightarrow> Inl e
           | Inr projectResourceList \<Rightarrow>
               (case quota_LessThanOrEqual nssResourceList projectResourceList of
                  (allowed, exceeded) \<Rightarrow>
                    if allowed then Inr (True, [])
                    else Inr (False, prettyPrint qstring (quota_Mask nssResourceList exceeded)))))"

section \<open>Conversion to Kubernetes objects\<close>

definition resourceQuotaConversion :: "(string, string) gomap" where
  "resourceQuotaConversion =
     [(''replicationControllers'', ''replicationcontrollers''), (''configMaps'', ''configmaps''),
      (''persistentVolumeClaims'', ''persistentvolumeclaims''), (''servicesNodePorts'', ''services.nodeports''),
      (''servicesLoadBalancers'', ''services.loadbalancers''), (''requestsCpu'', ''requests.cpu''),
      (''requestsMemory'', ''requests.memory''), (''requestsStorage'', ''requests.storage''),
      (''limitsCpu'', ''limits.cpu''), (''limitsMemory'', ''limits.memory'')]"

definition convertProjectResourceLimitToResourceList :: "parser \<Rightarrow> ResourceQuotaLimit \<Rightarrow> ResourceList result" where
  "convertProjectResourceLimitToResourceList parse limit =
     parse_entries parse (\<lambda>k. map_get resourceQuotaConversion k k) (encode_limit limit) []"

text \<open>A resource quota specification is its map \<^verbatim>\<open>Hard\<close>.\<close>

definition convertResourceLimitResourceQuotaSpec :: "parser \<Rightarrow> ResourceQuotaLimit \<Rightarrow> ResourceList result" where
  "convertResourceLimitResourceQuotaSpec parse limit = convertProjectResourceLimitToResourceList parse limit"

definition convertResourceListToLimit :: "(Quantity \<Rightarrow> string) \<Rightarrow> ResourceList \<Rightarrow> ResourceQuotaLimit" where
  "convertResourceListToLimit qstring rList = decode_limit (map (\<lambda>(k, v). (k, qstring v)) rList)"

definition limitRangerRequestConversion :: "(string, string) gomap" where
  "limitRangerRequestConversion = [(''requestsCpu'', ''cpu''), (''requestsMemory'', ''memory'')]"

definition limitRangerLimitConversion :: "(string, string) gomap" where
  "limitRangerLimitConversion = [(''limitsCpu'', ''cpu''), (''limitsMemory'', ''memory'')]"

fun split_container :: "parser \<Rightarrow> (string, string) gomap \<Rightarrow> ResourceList \<Rightarrow> ResourceList \<Rightarrow> (ResourceList \<times> ResourceList) result" where
  "split_container parse [] requests limits = Inr (requests, limits)"
| "split_container parse ((k, v) # m) requests limits =
     (case map_of limitRangerRequestConversion k of
        Some r \<Rightarrow> (case parse v of Inl e \<Rightarrow> Inl e | Inr q \<Rightarrow> split_container parse m (map_put r q requests) limits)
      | None \<Rightarrow>
          (case map_of limitRangerLimitConversion k of
             Some r \<Rightarrow> (case parse v of Inl e \<Rightarrow> Inl e | Inr q \<Rightarrow> split_container parse m requests (map_put r q limits))
           | None \<Rightarrow> split_container parse m requests limits))"

definition convertContainerResourceLimitToResourceList ::
    "parser \<Rightarrow> ContainerResourceLimit \<Rightarrow> (ResourceList \<times> ResourceList) option result" where
  "convertContainerResourceLimitToResourceList parse limit =
     (if encode_container limit = [] then Inr None
      else map_sum id Some (split_container parse (encode_container limit) [] []))"

record LimitRangeItem =
  lt_Type :: string
  lt_Default :: "ResourceList option"
  lt_DefaultRequest :: "ResourceList option"

definition convertPodResourceLimitToLimitRangeSpec :: "parser \<Rightarrow> ContainerResourceLimit \<Rightarrow> LimitRangeItem list option result" where
  "convertPodResourceLimitToLimitRangeSpec parse podResourceLimit =
     (case convertContainerResourceLimitToResourceList parse podResourceLimit of
        Inl e \<Rightarrow> Inl e
      | Inr None \<Rightarrow> Inr None
      | Inr (Some (request, limit)) \<Rightarrow>
          Inr (Some [\<lparr>lt_Type = ''Container'', lt_Default = Some limit, lt_DefaultRequest = Some request\<rparr>]))"

text \<open>\<^verbatim>\<open>reflect.DeepEqual\<close> of two maps that may be nil.\<close>

definition deep_equal_map :: "('k, 'v) gomap option \<Rightarrow> ('k, 'v) gomap option \<Rightarrow> bool" where
  "deep_equal_map a b = (case (a, b) of (None, None) \<Rightarrow> True | (Some x, Some y) \<Rightarrow> map_eq x y | _ \<Rightarrow> False)"

definition limitsChanged :: "LimitRangeItem list \<Rightarrow> LimitRangeItem list \<Rightarrow> bool" where
  "limitsChanged existing toUpdate =
     (if length existing \<noteq> length toUpdate then True
      else if existing = [] \<or> toUpdate = [] then True
      else if \<not> deep_equal_map (lt_DefaultRequest (existing ! 0)) (lt_DefaultRequest (toUpdate ! 0)) then True
      else if \<not> deep_equal_map (lt_Default (existing ! 0)) (lt_Default (toUpdate ! 0)) then True
      else False)"

section \<open>Projects and namespaces\<close>

record Project =
  pj_Namespace :: string
  pj_Name :: string
  pj_Deleted :: bool
  pj_ResourceQuota :: "(ResourceQuotaLimit \<times> ResourceQuotaLimit) option"
  pj_NamespaceDefaultResourceQuota :: "ResourceQuotaLimit option"
  pj_ContainerDefaultResourceLimit :: "ContainerResourceLimit option"

record condition =
  cn_Type :: string
  cn_Status :: string
  cn_Message :: string
  cn_LastUpdateTime :: int

record Namespace =
  nm_Name :: string
  nm_Deleted :: bool
  nm_ProjectID :: string
  nm_ResourceQuota :: "ResourceQuotaLimit option json option"
  nm_ContainerLimit :: "ContainerResourceLimit option json option"
  nm_Status :: "condition list json option"

definition status_text :: "bool \<Rightarrow> string" where
  "status_text b = (if b then ''True'' else ''False'')"

fun set_condition :: "condition \<Rightarrow> condition list \<Rightarrow> condition list" where
  "set_condition cond [] = [cond]"
| "set_condition cond (c # cs) = (if cn_Type c = cn_Type cond then cond # cs else c # set_condition cond cs)"

definition GenerateConditionAnnotation :: "int \<Rightarrow> condition list json option \<Rightarrow> int \<Rightarrow> string \<Rightarrow> string \<Rightarrow> string \<Rightarrow> condition list json result" where
  "GenerateConditionAnnotation now ann d conditionType conditionStatus message =
     (case (case ann of None \<Rightarrow> Inr [] | Some j \<Rightarrow> unmarshal j) of
        Inl e \<Rightarrow> Inl e
      | Inr conditions \<Rightarrow>
          Inr (Json (set_condition
            \<lparr>cn_Type = conditionType, cn_Status = conditionStatus,
             cn_Message = (if conditionStatus \<noteq> ''True'' then message else []), cn_LastUpdateTime = now + d\<rparr> conditions)))"

definition SetNamespaceCondition :: "int \<Rightarrow> Namespace \<Rightarrow> int \<Rightarrow> string \<Rightarrow> bool \<Rightarrow> string \<Rightarrow> Namespace result" where
  "SetNamespaceCondition now ns d conditionType conditionStatus message =
     (case GenerateConditionAnnotation now (nm_Status ns) d conditionType (status_text conditionStatus) message of
        Inl e \<Rightarrow> Inl e
      | Inr ann \<Rightarrow> Inr (ns\<lparr>nm_Status := Some ann\<rparr>))"

definition IsNamespaceConditionSet :: "Namespace \<Rightarrow> string \<Rightarrow> bool \<Rightarrow> bool result" where
  "IsNamespaceConditionSet ns conditionType conditionStatus =
     (case nm_Status ns of
        None \<Rightarrow> Inr False
      | Some ann \<Rightarrow>
          (case unmarshal ann of
             Inl e \<Rightarrow> Inl e
           | Inr conditions \<Rightarrow> Inr (\<exists>c \<in> set conditions. cn_Type c = conditionType \<and> cn_Status c = status_text conditionStatus)))"

definition getProjectNamespaceName :: "string \<Rightarrow> string \<times> string" where
  "getProjectNamespaceName projectID =
     (if projectID = [] then ([], [])
      else case str_split projectID '':'' of [a, b] \<Rightarrow> (a, b) | _ \<Rightarrow> ([], []))"

type_synonym projectLister = "string \<Rightarrow> string \<Rightarrow> Project result"

definition getProjectResourceQuotaLimit :: "Namespace \<Rightarrow> projectLister \<Rightarrow> (ResourceQuotaLimit option \<times> string) result" where
  "getProjectResourceQuotaLimit ns lister =
     (if nm_ProjectID ns = [] then Inr (None, [])
      else case getProjectNamespaceName (nm_ProjectID ns) of
        (projectNamespace, projectName) \<Rightarrow>
          if projectName = [] then Inr (None, [])
          else case lister projectNamespace projectName of
            Inl e \<Rightarrow> Inl e
          | Inr project \<Rightarrow>
              (case pj_ResourceQuota project of
                 None \<Rightarrow> Inr (None, [])
               | Some (limit, used) \<Rightarrow> Inr (Some limit, nm_ProjectID ns)))"

definition getProjectNamespaceDefaultQuota :: "Namespace \<Rightarrow> projectLister \<Rightarrow> ResourceQuotaLimit option result" where
  "getProjectNamespaceDefaultQuota ns lister =
     (if nm_ProjectID ns = [] then Inr None
      else case getProjectNamespaceName (nm_ProjectID ns) of
        (projectNamespace, projectName) \<Rightarrow>
          if projectName = [] then Inr None
          else case lister projectNamespace projectName of
            Inl e \<Rightarrow> Inl e
          | Inr project \<Rightarrow> Inr (if pj_ResourceQuota project = None then None else pj_NamespaceDefaultResourceQuota project))"

definition getProjectContainerDefaultLimit :: "Namespace \<Rightarrow> projectLister \<Rightarrow> ContainerResourceLimit option result" where
  "getProjectContainerDefaultLimit ns lister =
     (if nm_ProjectID ns = [] then Inr None
      else case Parse (nm_ProjectID ns) of
        (projectNamespace, projectName) \<Rightarrow>
          if projectName = [] then Inr None
          else case lister projectNamespace projectName of
            Inl e \<Rightarrow> Inl e
          | Inr project \<Rightarrow> Inr (if pj_ResourceQuota project = None then None else pj_ContainerDefaultResourceLimit project))"

text \<open>The text \<^verbatim>\<open>null\<close> decodes to the empty limit here.\<close>

definition getNamespaceResourceQuotaLimit :: "Namespace \<Rightarrow> ResourceQuotaLimit option result" where
  "getNamespaceResourceQuotaLimit ns =
     (case nm_ResourceQuota ns of
        None \<Rightarrow> Inr None
      | Some j \<Rightarrow>
          (case unmarshal j of
             Inl e \<Rightarrow> Inl e
           | Inr None \<Rightarrow> Inr (Some (decode_limit []))
           | Inr (Some limit) \<Rightarrow> Inr (Some limit)))"

definition getNamespaceContainerResourceLimit :: "Namespace \<Rightarrow> ContainerResourceLimit option result" where
  "getNamespaceContainerResourceLimit ns =
     (case nm_ContainerLimit ns of None \<Rightarrow> Inr None | Some j \<Rightarrow> unmarshal j)"

end
