(* ===== verification/QuotaSync.thy ===== *)
theory QuotaSync
  imports Quota
begin

text \<open>
  The resource quota controllers of a user cluster, \<^verbatim>\<open>src/pkg/controllers/user/resourcequota\<close>: the
  synchronisation of a namespace's resource quota and limit range with its annotations, the sum
  of the limits in the project, the reset of namespace quotas and the requeuing of namespaces.

  The caches are parameters: the project lister, the namespaces of a project, and the default
  quota and limit range of a namespace (the lists selected by the label).  The lock of a project
  is not modelled: a handler runs as one step.
\<close>

section \<open>State\<close>

record ResourceQuota =
  rq_Namespace :: string
  rq_Name :: string
  rq_Labels :: "(string, string) gomap"
  rq_Hard :: "ResourceList option"

record LimitRange =
  lr_Namespace :: string
  lr_Name :: string
  lr_Labels :: "(string, string) gomap"
  lr_Limits :: "LimitRangeItem list"

record ('n, 'q, 'l) SyncController =
  sc_ProjectLister :: projectLister
  sc_Namespaces :: "('n, string, Namespace) client"
  sc_ResourceQuotas :: "('q, string \<times> string, ResourceQuota) client"
  sc_ResourceQuotaLister :: "string \<Rightarrow> ResourceQuota list result"
  sc_LimitRange :: "('l, string \<times> string, LimitRange) client"
  sc_LimitRangeLister :: "string \<Rightarrow> LimitRange list result"
  sc_NsIndexer :: "string \<Rightarrow> Namespace list result"
  sc_parse :: parser
  sc_qstring :: "Quantity \<Rightarrow> string"
  sc_now :: int

record ('n, 'q, 'l) quotaState =
  qs_namespaces :: 'n
  qs_quotas :: 'q
  qs_limits :: 'l

definition nsA :: "('n, 'a) act \<Rightarrow> (('n, 'q, 'l) quotaState, 'a) act" where
  "nsA = zoomA qs_namespaces qs_namespaces_update"

definition quotaA :: "('q, 'a) act \<Rightarrow> (('n, 'q, 'l) quotaState, 'a) act" where
  "quotaA = zoomA qs_quotas qs_quotas_update"

definition limitA :: "('l, 'a) act \<Rightarrow> (('n, 'q, 'l) quotaState, 'a) act" where
  "limitA = zoomA qs_limits qs_limits_update"

definition resourceQuotaLabel :: string where
  "resourceQuotaLabel = ''resourcequota.management.cattle.io/default-resource-quota''"

definition ResourceQuotaValidatedCondition :: string where
  "ResourceQuotaValidatedCondition = ''ResourceQuotaValidated''"

definition ResourceQuotaInitCondition :: string where
  "ResourceQuotaInitCondition = ''ResourceQuotaInit''"

section \<open>Existing objects and specifications\<close>

definition getExistingResourceQuota :: "('n, 'q, 'l) SyncController \<Rightarrow> Namespace \<Rightarrow> ResourceQuota option result" where
  "getExistingResourceQuota c ns =
     (case sc_ResourceQuotaLister c (nm_Name ns) of Inl e \<Rightarrow> Inl e | Inr [] \<Rightarrow> Inr None | Inr (q # _) \<Rightarrow> Inr (Some q))"

definition getExistingLimitRange :: "('n, 'q, 'l) SyncController \<Rightarrow> Namespace \<Rightarrow> LimitRange option result" where
  "getExistingLimitRange c ns =
     (case sc_LimitRangeLister c (nm_Name ns) of Inl e \<Rightarrow> Inl e | Inr [] \<Rightarrow> Inr None | Inr (r # _) \<Rightarrow> Inr (Some r))"

definition defaultResourceLimit :: ResourceQuotaLimit where
  "defaultResourceLimit =
     \<lparr>li_Pods = ''0'', li_Services = ''0'', li_ReplicationControllers = ''0'', li_Secrets = ''0'', li_ConfigMaps = ''0'',
      li_PersistentVolumeClaims = ''0'', li_ServicesNodePorts = ''0'', li_ServicesLoadBalancers = ''0'', li_RequestsCPU = ''0'',
      li_RequestsMemory = ''0'', li_RequestsStorage = ''0'', li_LimitsCPU = ''0'', li_LimitsMemory = ''0''\<rparr>"

definition getDefaultQuotaSpec :: "('n, 'q, 'l) SyncController \<Rightarrow> ResourceList result" where
  "getDefaultQuotaSpec c = convertResourceLimitResourceQuotaSpec (sc_parse c) defaultResourceLimit"

definition getNamespaceResourceQuotaSpec :: "('n, 'q, 'l) SyncController \<Rightarrow> Namespace \<Rightarrow> ResourceList result" where
  "getNamespaceResourceQuotaSpec c ns =
     (case getNamespaceResourceQuotaLimit ns of
        Inl e \<Rightarrow> Inl e
      | Inr None \<Rightarrow> convertResourceLimitResourceQuotaSpec (sc_parse c) defaultResourceLimit
      | Inr (Some limit) \<Rightarrow> convertResourceLimitResourceQuotaSpec (sc_parse c) limit)"

text \<open>Both completions: the fields of the default, with the existing values where there are any.\<close>

definition complete_map :: "(string, string) gomap \<Rightarrow> (string, string) gomap \<Rightarrow> (string, string) gomap" where
  "complete_map existing new = fold (\<lambda>(k, v) m. if map_has m k then map_put k v m else m) existing new"

definition completeQuota :: "ResourceQuotaLimit \<Rightarrow> ResourceQuotaLimit option \<Rightarrow> ResourceQuotaLimit option" where
  "completeQuota existingQuota defaultQuota =
     (case defaultQuota of
        None \<Rightarrow> None
      | Some d \<Rightarrow>
          (let existingLimitMap = encode_limit existingQuota; newLimitMap = complete_map existingLimitMap (encode_limit d)
           in if map_eq existingLimitMap newLimitMap then None else Some (decode_limit newLimitMap)))"

definition completeLimit :: "ContainerResourceLimit \<Rightarrow> ContainerResourceLimit option \<Rightarrow> ContainerResourceLimit option" where
  "completeLimit existingLimit defaultLimit =
     (case defaultLimit of
        None \<Rightarrow> None
      | Some d \<Rightarrow>
          (let existingLimitMap = encode_container existingLimit; newLimitMap = complete_map existingLimitMap (encode_container d)
           in if map_eq existingLimitMap newLimitMap then None else Some (decode_container newLimitMap)))"

text \<open>The text of the annotation to write, \<open>None\<close> for the empty string.\<close>

definition getResourceQuotaToUpdate :: "('n, 'q, 'l) SyncController \<Rightarrow> Namespace \<Rightarrow> ResourceQuotaLimit option json option result" where
  "getResourceQuotaToUpdate c ns =
     (case getProjectNamespaceDefaultQuota ns (sc_ProjectLister c) of
        Inl e \<Rightarrow> Inl e
      | Inr defaultQuota \<Rightarrow>
          (case nm_ResourceQuota ns of
             None \<Rightarrow> Inr (Some (Json defaultQuota))
           | Some (Json None) \<Rightarrow> Inr (Some (Json defaultQuota))
           | Some (Json (Some existingQuota)) \<Rightarrow>
               (case completeQuota existingQuota defaultQuota of
                  None \<Rightarrow> Inr None
                | Some updatedQuota \<Rightarrow> Inr (Some (Json (Some updatedQuota))))
           | Some BadJson \<Rightarrow> map_sum id (\<lambda>_. None) (unmarshal (BadJson :: unit json))))"

definition getResourceLimitToUpdate :: "('n, 'q, 'l) SyncController \<Rightarrow> Namespace \<Rightarrow> LimitRangeItem list option result" where
  "getResourceLimitToUpdate c ns =
     (case getNamespaceContainerResourceLimit ns of
        Inl e \<Rightarrow> Inl e
      | Inr nsLimit \<Rightarrow>
          (case getProjectContainerDefaultLimit ns (sc_ProjectLister c) of
             Inl e \<Rightarrow> Inl e
           | Inr projectLimit \<Rightarrow>
               (case nsLimit of
                  None \<Rightarrow> Inr None
                | Some l \<Rightarrow>
                    (case completeLimit l projectLimit of
                       Some updatedLimit \<Rightarrow> convertPodResourceLimitToLimitRangeSpec (sc_parse c) updatedLimit
                     | None \<Rightarrow> convertPodResourceLimitToLimitRangeSpec (sc_parse c) l))))"

section \<open>Writing objects\<close>

definition createDefaultResourceQuota :: "('n, 'q, 'l) SyncController \<Rightarrow> Namespace \<Rightarrow> ResourceList \<Rightarrow> (('n, 'q, 'l) quotaState, unit) act" where
  "createDefaultResourceQuota c ns spec =
     bindA (quotaA (ccreate (sc_ResourceQuotas c)
       \<lparr>rq_Namespace = nm_Name ns, rq_Name = [], rq_Labels = [(resourceQuotaLabel, ''true'')], rq_Hard = Some spec\<rparr>)) (\<lambda>_. ret ())"

definition updateResourceQuota :: "('n, 'q, 'l) SyncController \<Rightarrow> ResourceQuota \<Rightarrow> ResourceList \<Rightarrow> (('n, 'q, 'l) quotaState, unit) act" where
  "updateResourceQuota c quota spec = bindA (quotaA (cupdate (sc_ResourceQuotas c) (quota\<lparr>rq_Hard := Some spec\<rparr>))) (\<lambda>_. ret ())"

definition deleteResourceQuota :: "('n, 'q, 'l) SyncController \<Rightarrow> ResourceQuota \<Rightarrow> (('n, 'q, 'l) quotaState, unit) act" where
  "deleteResourceQuota c quota = quotaA (cdelete (sc_ResourceQuotas c) (rq_Namespace quota, rq_Name quota))"

definition createDefaultLimitRange :: "('n, 'q, 'l) SyncController \<Rightarrow> Namespace \<Rightarrow> LimitRangeItem list \<Rightarrow> (('n, 'q, 'l) quotaState, unit) act" where
  "createDefaultLimitRange c ns spec =
     bindA (limitA (ccreate (sc_LimitRange c)
       \<lparr>lr_Namespace = nm_Name ns, lr_Name = [], lr_Labels = [(resourceQuotaLabel, ''true'')], lr_Limits = spec\<rparr>)) (\<lambda>_. ret ())"

definition updateDefaultLimitRange :: "('n, 'q, 'l) SyncController \<Rightarrow> LimitRange \<Rightarrow> LimitRangeItem list \<Rightarrow> (('n, 'q, 'l) quotaState, unit) act" where
  "updateDefaultLimitRange c limitRange spec = bindA (limitA (cupdate (sc_LimitRange c) (limitRange\<lparr>lr_Limits := spec\<rparr>))) (\<lambda>_. ret ())"

definition deleteDefaultLimitRange :: "('n, 'q, 'l) SyncController \<Rightarrow> LimitRange \<Rightarrow> (('n, 'q, 'l) quotaState, unit) act" where
  "deleteDefaultLimitRange c limitRange = limitA (cdelete (sc_LimitRange c) (lr_Namespace limitRange, lr_Name limitRange))"

definition createLimitRange :: "('n, 'q, 'l) SyncController \<Rightarrow> Namespace \<Rightarrow> (('n, 'q, 'l) quotaState, unit) act" where
  "createLimitRange c ns =
     bindA (liftR (getExistingLimitRange c ns)) (\<lambda>existing.
     bindA (liftR (getResourceLimitToUpdate c ns)) (\<lambda>limitRangeSpec.
       case (existing, limitRangeSpec) of
         (None, None) \<Rightarrow> ret ()
       | (None, Some spec) \<Rightarrow> createDefaultLimitRange c ns spec
       | (Some r, None) \<Rightarrow> deleteDefaultLimitRange c r
       | (Some r, Some spec) \<Rightarrow> if limitsChanged (lr_Limits r) spec then updateDefaultLimitRange c r spec else ret ()))"

section \<open>Validation and synchronisation\<close>

definition setValidated :: "('n, 'q, 'l) SyncController \<Rightarrow> Namespace \<Rightarrow> bool \<Rightarrow> string \<Rightarrow> (('n, 'q, 'l) quotaState, Namespace) act" where
  "setValidated c ns value msg =
     bindA (liftR (IsNamespaceConditionSet ns ResourceQuotaValidatedCondition value)) (\<lambda>isSet.
       if isSet then ret ns
       else bindA (liftR (SetNamespaceCondition (sc_now c) ns second ResourceQuotaValidatedCondition value msg)) (\<lambda>toUpdate.
         nsA (cupdate (sc_Namespaces c) toUpdate)))"

fun other_limits :: "string \<Rightarrow> Namespace list \<Rightarrow> ResourceQuotaLimit option list result" where
  "other_limits name [] = Inr []"
| "other_limits name (other # os) =
     (if nm_Name other = name then other_limits name os
      else case getNamespaceResourceQuotaLimit other of
        Inl e \<Rightarrow> Inl e
      | Inr nsLimit \<Rightarrow> map_sum id ((#) nsLimit) (other_limits name os))"

definition validateAndSetNamespaceQuota ::
    "('n, 'q, 'l) SyncController \<Rightarrow> Namespace \<Rightarrow> ResourceQuotaLimit option json option \<Rightarrow> (('n, 'q, 'l) quotaState, bool \<times> Namespace) act" where
  "validateAndSetNamespaceQuota c ns quotaToUpdate =
     (if nm_Deleted ns then ret (True, ns)
      else bindA (liftR (getProjectResourceQuotaLimit ns (sc_ProjectLister c))) (\<lambda>(projectLimit, projectID).
        case projectLimit of
          None \<Rightarrow> ret (True, ns)
        | Some limit \<Rightarrow>
            bindA (if quotaToUpdate \<noteq> None then nsA (cupdate (sc_Namespaces c) (ns\<lparr>nm_ResourceQuota := quotaToUpdate\<rparr>)) else ret ns) (\<lambda>updatedNs.
            bindA (liftR (sc_NsIndexer c projectID)) (\<lambda>objects.
            bindA (liftR (other_limits (nm_Name ns) objects)) (\<lambda>nsLimits.
            bindA (liftR (getNamespaceResourceQuotaLimit updatedNs)) (\<lambda>nsLimit.
            bindA (liftR (IsQuotaFit (sc_parse c) (sc_qstring c) nsLimit nsLimits (Some limit))) (\<lambda>(isFit, msg).
            bindA (setValidated c updatedNs isFit
              (if \<not> isFit \<and> msg \<noteq> [] then ''Resource quota ['' @ msg @ ''] exceeds project limit '' else msg)) (\<lambda>validated.
            ret (isFit, validated)))))))))"

definition setInit :: "('n, 'q, 'l) SyncController \<Rightarrow> Namespace \<Rightarrow> Namespace \<Rightarrow> (('n, 'q, 'l) quotaState, Namespace) act" where
  "setInit c ns updated =
     bindA (liftR (IsNamespaceConditionSet ns ResourceQuotaInitCondition True)) (\<lambda>isSet.
       if isSet then ret updated
       else nsA (cupdate (sc_Namespaces c)
         (case SetNamespaceCondition (sc_now c) updated second ResourceQuotaInitCondition True [] of Inl _ \<Rightarrow> updated | Inr n \<Rightarrow> n)))"

definition CreateResourceQuota :: "('n, 'q, 'l) SyncController \<Rightarrow> Namespace \<Rightarrow> (('n, 'q, 'l) quotaState, Namespace) act" where
  "CreateResourceQuota c ns =
     bindA (liftR (getExistingResourceQuota c ns)) (\<lambda>existing.
     bindA (liftR (getProjectResourceQuotaLimit ns (sc_ProjectLister c))) (\<lambda>(projectLimit, _).
     bindA (case projectLimit of
              None \<Rightarrow> ret None
            | Some _ \<Rightarrow> bindA (liftR (getNamespaceResourceQuotaSpec c ns)) (\<lambda>spec. ret (Some spec))) (\<lambda>quotaSpec.
     bindA (liftR (getResourceQuotaToUpdate c ns)) (\<lambda>quotaToUpdate.
       case (existing, quotaSpec) of
         (None, None) \<Rightarrow> setInit c ns ns
       | (None, Some spec) \<Rightarrow>
           bindA (validateAndSetNamespaceQuota c ns quotaToUpdate) (\<lambda>(isFit, updated).
           bindA (if isFit then ret spec else liftR (getDefaultQuotaSpec c)) (\<lambda>spec.
           bindA (createDefaultResourceQuota c ns spec) (\<lambda>_. setInit c ns updated)))
       | (Some q, None) \<Rightarrow> bindA (deleteResourceQuota c q) (\<lambda>_. setInit c ns ns)
       | (Some q, Some spec) \<Rightarrow>
           if quotaToUpdate \<noteq> None \<or> \<not> deep_equal_map (rq_Hard q) (Some spec) then
             bindA (validateAndSetNamespaceQuota c ns quotaToUpdate) (\<lambda>(isFit, updated).
               if \<not> isFit then ret updated
               else bindA (updateResourceQuota c q spec) (\<lambda>_. setInit c ns updated))
           else setInit c ns ns))))"

definition syncResourceQuota :: "('n, 'q, 'l) SyncController \<Rightarrow> Namespace option \<Rightarrow> (('n, 'q, 'l) quotaState, unit) act" where
  "syncResourceQuota c ns =
     (case ns of
        None \<Rightarrow> ret ()
      | Some n \<Rightarrow> if nm_Deleted n then ret () else bindA (CreateResourceQuota c n) (\<lambda>_. createLimitRange c n))"

section \<open>The other controllers\<close>

record 'p calculateLimitController =
  cc_projectLister :: projectLister
  cc_projects :: "('p, string \<times> string, Project) client"
  cc_nsIndexer :: "string \<Rightarrow> Namespace list result"
  cc_clusterName :: string
  cc_parse :: parser
  cc_qstring :: "Quantity \<Rightarrow> string"

fun used_limits :: "parser \<Rightarrow> Namespace list \<Rightarrow> ResourceList \<Rightarrow> ResourceList result" where
  "used_limits parse [] acc = Inr acc"
| "used_limits parse (ns # nss) acc =
     (if nm_Deleted ns then used_limits parse nss acc
      else case IsNamespaceConditionSet ns ResourceQuotaValidatedCondition True of
        Inl e \<Rightarrow> Inl e
      | Inr isSet \<Rightarrow>
          if \<not> isSet then used_limits parse nss acc
          else case getNamespaceResourceQuotaLimit ns of
            Inl e \<Rightarrow> Inl e
          | Inr nsLimit \<Rightarrow>
              (case ConvertLimitToResourceList parse nsLimit of
                 Inl e \<Rightarrow> Inl e
               | Inr rl \<Rightarrow> used_limits parse nss (quota_Add acc rl)))"

text \<open>
  The comparison with the recorded sum, \<^verbatim>\<open>reflect.DeepEqual\<close> of a struct and a pointer, is false for every pair.
\<close>

definition deep_equal_struct_pointer :: "ResourceQuotaLimit \<Rightarrow> ResourceQuotaLimit \<Rightarrow> bool" where
  "deep_equal_struct_pointer s p = False"

definition calculateProjectResourceQuota :: "'p calculateLimitController \<Rightarrow> string \<Rightarrow> ('p, unit) act" where
  "calculateProjectResourceQuota c projectID =
     (case getProjectNamespaceName projectID of
        (projectNamespace, projectName) \<Rightarrow>
          bindA (liftR (cc_projectLister c projectNamespace projectName)) (\<lambda>project.
            case pj_ResourceQuota project of
              None \<Rightarrow> ret ()
            | Some (projectLimit, usedLimit) \<Rightarrow>
                bindA (liftR (cc_nsIndexer c projectID)) (\<lambda>namespaces.
                bindA (liftR (used_limits (cc_parse c) namespaces [])) (\<lambda>nssResourceList.
                  let limit = convertResourceListToLimit (cc_qstring c) nssResourceList in
                  if deep_equal_struct_pointer usedLimit limit then ret ()
                  else bindA (cupdate (cc_projects c) (project\<lparr>pj_ResourceQuota := Some (projectLimit, limit)\<rparr>)) (\<lambda>_. ret ())))))"

definition calculateResourceQuotaUsed :: "'p calculateLimitController \<Rightarrow> Namespace option \<Rightarrow> ('p, unit) act" where
  "calculateResourceQuotaUsed c ns =
     (case ns of
        None \<Rightarrow> ret ()
      | Some n \<Rightarrow> if nm_ProjectID n = [] then ret () else calculateProjectResourceQuota c (nm_ProjectID n))"

definition calculateResourceQuotaUsedProject :: "'p calculateLimitController \<Rightarrow> Project option \<Rightarrow> ('p, unit) act" where
  "calculateResourceQuotaUsedProject c p =
     (case p of
        None \<Rightarrow> ret ()
      | Some pj \<Rightarrow> if pj_Deleted pj then ret () else calculateProjectResourceQuota c (cc_clusterName c @ '':'' @ pj_Name pj))"

definition resetNamespaceQuota :: "('n, string, Namespace) client \<Rightarrow> (string \<Rightarrow> Namespace list result) \<Rightarrow> Project option \<Rightarrow> ('n, unit) act" where
  "resetNamespaceQuota namespaces nsIndexer project =
     (case project of
        None \<Rightarrow> ret ()
      | Some p \<Rightarrow>
          if pj_Deleted p \<or> pj_ResourceQuota p \<noteq> None then ret ()
          else bindA (liftR (nsIndexer (pj_Namespace p @ '':'' @ pj_Name p))) (\<lambda>nss.
            forA (\<lambda>ns. if nm_ResourceQuota ns = None then ret ()
              else bindA (cupdate namespaces (ns\<lparr>nm_ResourceQuota := None\<rparr>)) (\<lambda>_. ret ())) nss))"

definition reconcileNamespaces :: "(string \<Rightarrow> Namespace list result) \<Rightarrow> Project option \<Rightarrow> string list \<Rightarrow> unit result \<times> string list" where
  "reconcileNamespaces nsIndexer project queue =
     (case project of
        None \<Rightarrow> (Inr (), queue)
      | Some p \<Rightarrow>
          if pj_Deleted p then (Inr (), queue)
          else case nsIndexer (pj_Namespace p @ '':'' @ pj_Name p) of
            Inl e \<Rightarrow> (Inl e, queue)
          | Inr nss \<Rightarrow> (Inr (), queue @ map nm_Name nss))"

end
