(* ===== verification/QuotaFacts.thy ===== *)
theory QuotaFacts
  imports QuotaSync
begin

text \<open>
  Properties of the resource quota controllers: the fit test is the comparison of sums it stands
  for, an unvalidated quota is never enforced, completed annotations settle, and the used limit of
  a project is the sum over its validated namespaces.
\<close>

section \<open>Limits as maps\<close>

definition limit_fields :: "string list" where
  "limit_fields =
     [''pods'', ''services'', ''replicationControllers'', ''secrets'', ''configMaps'', ''persistentVolumeClaims'', ''servicesNodePorts'',
      ''servicesLoadBalancers'', ''requestsCpu'', ''requestsMemory'', ''requestsStorage'', ''limitsCpu'', ''limitsMemory'']"

lemma limit_entries_fields: "map fst (limit_entries l) = limit_fields"
  by (simp add: limit_entries_def limit_fields_def)

lemma limit_fields_distinct: "distinct limit_fields"
  by (simp add: limit_fields_def)

lemma encode_limit_keys: "distinct (map fst (encode_limit l))"
  unfolding encode_limit_def by (rule distinct_map_filter) (simp add: limit_entries_fields limit_fields_distinct)

lemma encode_limit_fields: "map_of (encode_limit l) k = Some v \<Longrightarrow> k \<in> set limit_fields \<and> v \<noteq> []"
  unfolding limit_entries_fields [of l, symmetric]
  by (drule map_of_SomeD) (auto simp: encode_limit_def intro: rev_image_eqI)

lemma map_of_filter_values:
  "distinct (map fst m) \<Longrightarrow> map_of (filter (\<lambda>(k, v). P v) m) k = (case map_of m k of None \<Rightarrow> None | Some v \<Rightarrow> if P v then Some v else None)"
  by (induction m) (auto split: option.splits dest: map_of_SomeD simp: image_iff)

text \<open>A map with the fields of a limit and no empty values survives decoding and encoding.\<close>

lemma encode_decode_limit:
  assumes "\<And>k v. map_of m k = Some v \<Longrightarrow> k \<in> set limit_fields \<and> v \<noteq> []"
  shows "map_of (encode_limit (decode_limit m)) = map_of m"
proof
  fix k
  show "map_of (encode_limit (decode_limit m)) k = map_of m k"
  proof (cases "k \<in> set limit_fields")
    case True
    have "map_of (encode_limit (decode_limit m)) k = (if map_get m k [] = [] then None else Some (map_get m k []))"
    proof -
      have "map_of (limit_entries (decode_limit m)) k = Some (map_get m k [])"
        using True by (auto simp: limit_fields_def limit_entries_def decode_limit_def)
      then show ?thesis
        unfolding encode_limit_def by (subst map_of_filter_values) (simp_all add: limit_entries_fields limit_fields_distinct)
    qed
    also have "\<dots> = map_of m k" using assms [of k] by (cases "map_of m k") (auto simp: map_get_def)
    finally show ?thesis .
  next
    case False
    have "map_of m k = None" using assms [of k] False by (cases "map_of m k") auto
    moreover have "map_of (encode_limit (decode_limit m)) k = None"
      using encode_limit_fields [of "decode_limit m" k] False by (cases "map_of (encode_limit (decode_limit m)) k") auto
    ultimately show ?thesis by simp
  qed
qed

section \<open>The fit test\<close>

text \<open>The amount a limit sets for a resource, and the sum over several limits, if any sets one.\<close>

definition limit_amount :: "parser \<Rightarrow> ResourceQuotaLimit option \<Rightarrow> string \<Rightarrow> int option" where
  "limit_amount parse l k =
     (case l of
        None \<Rightarrow> None
      | Some lim \<Rightarrow>
          (case map_of (encode_limit lim) k of
             None \<Rightarrow> None
           | Some v \<Rightarrow> (case parse v of Inl _ \<Rightarrow> None | Inr q \<Rightarrow> Some (qu_nano q))))"

definition total_amount :: "parser \<Rightarrow> ResourceQuotaLimit option list \<Rightarrow> string \<Rightarrow> int option" where
  "total_amount parse ls k =
     (let set_amounts = List.map_filter (\<lambda>l. limit_amount parse l k) ls in if set_amounts = [] then None else Some (sum_list set_amounts))"

definition amount :: "ResourceList \<Rightarrow> string \<Rightarrow> int option" where
  "amount rl k = map_option qu_nano (map_of rl k)"

definition plus_opt :: "int option \<Rightarrow> int option \<Rightarrow> int option" where
  "plus_opt a b = (case a of None \<Rightarrow> b | Some x \<Rightarrow> (case b of None \<Rightarrow> a | Some y \<Rightarrow> Some (x + y)))"

lemma amount_Add: "amount (quota_Add a b) k = plus_opt (amount a k) (amount b k)"
proof -
  have left: "map_of (map (\<lambda>(k, v). (k, f k v)) m) k = map_option (f k) (map_of m k)" for f and m :: ResourceList
    by (induction m) auto
  have right: "map_of (filter (\<lambda>(k, v). P k) m) k = (if P k then map_of m k else None)" for P and m :: ResourceList
    by (induction m) auto
  show ?thesis
    unfolding amount_def plus_opt_def quota_Add_def map_of_append map_add_def left right
    by (auto simp: map_has_def Quantity_Add_def split: option.splits)
qed

lemma parse_entries_amount:
  assumes "parse_entries parse id m acc = Inr rl" "distinct (map fst m)"
  shows "map_of rl k = (case map_of m k of None \<Rightarrow> map_of acc k | Some v \<Rightarrow> (case parse v of Inl _ \<Rightarrow> None | Inr q \<Rightarrow> Some q))"
  using assms
proof (induction m arbitrary: acc)
  case (Cons e m)
  obtain k' v where e: "e = (k', v)" by (cases e)
  from Cons.prems(1) obtain q where q: "parse v = Inr q" "parse_entries parse id m (map_put k' q acc) = Inr rl"
    by (auto simp: e id_def split: sum.splits)
  have "map_of m k' = None" using Cons.prems(2) by (simp add: e map_of_eq_None_iff)
  with Cons.IH [OF q(2)] Cons.prems(2) q(1) show ?case by (auto simp: e split: option.splits)
qed simp

lemma parse_entries_distinct:
  "parse_entries parse rename m acc = Inr rl \<Longrightarrow> distinct (map fst acc) \<Longrightarrow> distinct (map fst rl)"
proof (induction m arbitrary: acc)
  case (Cons e m)
  then show ?case by (cases e) (auto split: sum.splits dest: distinct_map_put)
qed simp

lemma amount_Convert: "ConvertLimitToResourceList parse l = Inr rl \<Longrightarrow> amount rl k = limit_amount parse l k"
  using parse_entries_amount [OF _ encode_limit_keys]
  by (fastforce simp: ConvertLimitToResourceList_def limit_amount_def amount_def split: option.splits sum.splits)

lemma amount_add_limits:
  "add_limits parse ls acc = Inr rl \<Longrightarrow> amount rl k = plus_opt (amount acc k) (total_amount parse ls k)"
proof (induction ls arbitrary: acc)
  case Nil
  then show ?case by (simp add: total_amount_def plus_opt_def map_filter_simps split: option.splits)
next
  case (Cons l ls)
  then obtain rl1 where "ConvertLimitToResourceList parse l = Inr rl1" "add_limits parse ls (quota_Add acc rl1) = Inr rl"
    by (auto split: sum.splits)
  with Cons.IH [OF this(2)] show ?case
    by (auto simp: amount_Add amount_Convert total_amount_def plus_opt_def map_filter_simps Let_def split: option.splits)
qed

text \<open>
  C17. The fit test of a namespace's limit is the comparison it stands for: it accepts exactly if for every resource
  that the project limits and some namespace sets, the limits of all namespaces add up to at most the project's.
\<close>

theorem IsQuotaFit_iff:
  assumes "IsQuotaFit parse qstring nsLimit nsLimits (Some projectLimit) = Inr (fit, msg)"
  shows "fit \<longleftrightarrow> (\<forall>k p t. limit_amount parse (Some projectLimit) k = Some p \<longrightarrow>
    total_amount parse (nsLimit # nsLimits) k = Some t \<longrightarrow> t \<le> p)"
proof -
  obtain nss pl where rl: "add_limits parse (nsLimit # nsLimits) [] = Inr nss" "ConvertLimitToResourceList parse (Some projectLimit) = Inr pl"
    and fit: "fit \<longleftrightarrow> fst (quota_LessThanOrEqual nss pl)"
    using assms unfolding IsQuotaFit_def by (auto split: sum.splits prod.splits if_splits)
  have "amount nss k = total_amount parse (nsLimit # nsLimits) k" for k
    using amount_add_limits [OF rl(1), of k] by (simp add: amount_def plus_opt_def)
  moreover have "amount pl k = limit_amount parse (Some projectLimit) k" for k by (rule amount_Convert [OF rl(2)])
  moreover have "fst (quota_LessThanOrEqual nss pl) \<longleftrightarrow> (\<forall>k p t. amount pl k = Some p \<longrightarrow> amount nss k = Some t \<longrightarrow> t \<le> p)"
  proof -
    have "distinct (map fst pl)"
      using rl(2) by (auto simp: ConvertLimitToResourceList_def intro: parse_entries_distinct)
    then have "(k, v) \<in> set pl \<longleftrightarrow> map_of pl k = Some v" for k v by (simp add: map_of_eq_Some_iff)
    moreover have "fst (quota_LessThanOrEqual nss pl) \<longleftrightarrow> (\<forall>k v. (k, v) \<in> set pl \<longrightarrow> (\<forall>u. map_of nss k = Some u \<longrightarrow> qu_nano u \<le> qu_nano v))"
      by (force simp: quota_LessThanOrEqual_def Let_def filter_empty_conv split: option.splits)
    ultimately show ?thesis unfolding amount_def map_option_eq_Some by blast
  qed
  ultimately show ?thesis using fit by simp
qed

section \<open>Completion of annotations\<close>

lemma map_of_complete:
  assumes "distinct (map fst e)"
  shows "map_of (complete_map e n) k =
    (case map_of n k of None \<Rightarrow> None | Some d \<Rightarrow> (case map_of e k of None \<Rightarrow> Some d | Some v \<Rightarrow> Some v))"
  using assms
proof (induction e arbitrary: n)
  case Nil
  then show ?case by (simp add: complete_map_def split: option.split)
next
  case (Cons p e)
  obtain k' v where p: "p = (k', v)" by (cases p)
  have fresh: "map_of e k' = None" using Cons.prems by (simp add: p map_of_eq_None_iff)
  have "complete_map (p # e) n = complete_map e (if map_has n k' then map_put k' v n else n)"
    by (simp add: complete_map_def p)
  then have "map_of (complete_map (p # e) n) k =
      (case map_of (if map_has n k' then map_put k' v n else n) k of None \<Rightarrow> None | Some d \<Rightarrow> (case map_of e k of None \<Rightarrow> Some d | Some v \<Rightarrow> Some v))"
    using Cons.IH Cons.prems by simp
  then show ?case using fresh by (auto simp: p map_has_def split: option.splits)
qed

text \<open>
  Completing the quota annotation of a namespace settles after one step: the completed quota has exactly the fields of the project's
  default, with the namespace's own values where it had some, and needs no further completion.
\<close>

theorem completeQuota_settles:
  assumes "completeQuota existing (Some std) = Some updated"
  shows "completeQuota updated (Some std) = None \<and>
    map_of (encode_limit updated) = (\<lambda>k. case map_of (encode_limit std) k of None \<Rightarrow> None
      | Some d \<Rightarrow> Some (map_get (encode_limit existing) k d))"
proof -
  let ?m = "complete_map (encode_limit existing) (encode_limit std)"
  have u: "updated = decode_limit ?m" using assms by (auto simp: completeQuota_def Let_def split: if_splits)
  have m: "map_of ?m k = (case map_of (encode_limit std) k of None \<Rightarrow> None | Some d \<Rightarrow> Some (map_get (encode_limit existing) k d))" for k
    unfolding map_of_complete [OF encode_limit_keys] by (simp add: map_get_def split: option.split)
  have "map_of (encode_limit updated) = map_of ?m"
    unfolding u
  proof (rule encode_decode_limit)
    fix k v assume "map_of ?m k = Some v"
    then show "k \<in> set limit_fields \<and> v \<noteq> []"
      using encode_limit_fields [of std k] encode_limit_fields [of existing k]
      by (auto simp: m map_get_def split: option.splits)
  qed
  then have enc: "map_of (encode_limit updated) = (\<lambda>k. case map_of (encode_limit std) k of None \<Rightarrow> None
      | Some d \<Rightarrow> Some (map_get (encode_limit existing) k d))" by (simp add: m fun_eq_iff)
  have "map_of (complete_map (encode_limit updated) (encode_limit std)) = map_of (encode_limit updated)"
    by (rule ext) (auto simp: map_of_complete [OF encode_limit_keys] enc split: option.split)
  with enc show ?thesis by (simp add: completeQuota_def Let_def map_eq_iff)
qed

section \<open>The used limit of a project\<close>

definition counted :: "Namespace list \<Rightarrow> ResourceQuotaLimit option list" where
  "counted nss =
     map (\<lambda>n. case getNamespaceResourceQuotaLimit n of Inl _ \<Rightarrow> None | Inr l \<Rightarrow> l)
       (filter (\<lambda>n. \<not> nm_Deleted n \<and> IsNamespaceConditionSet n ResourceQuotaValidatedCondition True = Inr True) nss)"

lemma total_Cons: "total_amount parse (l # ls) k = plus_opt (limit_amount parse l k) (total_amount parse ls k)"
  by (auto simp: total_amount_def plus_opt_def map_filter_simps Let_def split: option.splits)

lemma plus_opt_assoc: "plus_opt (plus_opt a b) c = plus_opt a (plus_opt b c)"
  by (auto simp: plus_opt_def split: option.splits)

lemma amount_used_limits:
  "used_limits parse nss acc = Inr rl \<Longrightarrow> amount rl k = plus_opt (amount acc k) (total_amount parse (counted nss) k)"
proof (induction nss arbitrary: acc)
  case Nil
  then show ?case by (simp add: counted_def total_amount_def plus_opt_def map_filter_simps split: option.splits)
next
  case (Cons n nss)
  show ?case
  proof (cases "\<not> nm_Deleted n \<and> IsNamespaceConditionSet n ResourceQuotaValidatedCondition True = Inr True")
    case False
    with Cons.prems have "used_limits parse nss acc = Inr rl" by (auto split: if_splits sum.splits)
    from Cons.IH [OF this] False show ?thesis by (auto simp: counted_def)
  next
    case True
    with Cons.prems obtain l rl1 where l: "getNamespaceResourceQuotaLimit n = Inr l" "ConvertLimitToResourceList parse l = Inr rl1"
        "used_limits parse nss (quota_Add acc rl1) = Inr rl"
      by (auto split: sum.splits)
    have "counted (n # nss) = l # counted nss" using True l(1) by (simp add: counted_def)
    with Cons.IH [OF l(3)] show ?thesis by (simp add: amount_Add amount_Convert [OF l(2)] total_Cons plus_opt_assoc)
  qed
qed

definition project_key :: "Project \<Rightarrow> string \<times> string" where
  "project_key p = (pj_Namespace p, pj_Name p)"

text \<open>
  C18. After a successful calculation the project records as used exactly the sum, resource by resource, of the limits of its live namespaces whose
  quota has been validated, and nothing else of the project or of other projects changes.
\<close>

theorem calculate_writes_sum:
  assumes "api_client (cc_projects c) project_key view (=) avail"
    and "getProjectNamespaceName projectID = (pns, pname)" "cc_projectLister c pns pname = Inr project" "pj_ResourceQuota project = Some (limit, used)"
    and "calculateProjectResourceQuota c projectID w = (Inr (), w')"
  shows "\<exists>namespaces totals. cc_nsIndexer c projectID = Inr namespaces \<and>
    (\<forall>k. amount totals k = total_amount (cc_parse c) (counted namespaces) k) \<and>
    view w' = (view w)(project_key project \<mapsto> project\<lparr>pj_ResourceQuota := Some (limit, convertResourceListToLimit (cc_qstring c) totals)\<rparr>)"
proof -
  obtain namespaces totals y where nss: "cc_nsIndexer c projectID = Inr namespaces" and totals: "used_limits (cc_parse c) namespaces [] = Inr totals"
    and update: "cupdate (cc_projects c) (project\<lparr>pj_ResourceQuota := Some (limit, convertResourceListToLimit (cc_qstring c) totals)\<rparr>) w = (Inr y, w')"
    using assms(2-5) by (auto simp: calculateProjectResourceQuota_def bindA_eq_Inr Let_def deep_equal_struct_pointer_def)
  have "amount totals k = total_amount (cc_parse c) (counted namespaces) k" for k
    using amount_used_limits [OF totals, of k] by (simp add: amount_def plus_opt_def)
  moreover have "view w' = (view w)(project_key project \<mapsto> project\<lparr>pj_ResourceQuota := Some (limit, convertResourceListToLimit (cc_qstring c) totals)\<rparr>)"
    using api_client.update_ok [OF assms(1) update] by (simp add: project_key_def)
  ultimately show ?thesis using nss by (intro exI conjI allI)
qed

section \<open>Synchronisation\<close>

definition quota_stored :: "ResourceQuota \<Rightarrow> ResourceQuota \<Rightarrow> bool" where
  "quota_stored x y \<longleftrightarrow> y = x\<lparr>rq_Name := rq_Name y\<rparr>"

lemma quota_stored_Hard: "quota_stored x y \<Longrightarrow> rq_Hard y = rq_Hard x"
  unfolding quota_stored_def by (metis ResourceQuota.select_convs(4) ResourceQuota.surjective ResourceQuota.update_convs(2))

definition quota_key :: "ResourceQuota \<Rightarrow> string \<times> string" where
  "quota_key q = (rq_Namespace q, rq_Name q)"

text \<open>Calls on other servers leave the quotas alone.\<close>

lemma wp_nsA_quotas: "P (qs_quotas s) \<Longrightarrow> wp (nsA m) (\<lambda>_ s'. P (qs_quotas s')) (\<lambda>_ s'. P (qs_quotas s')) s"
  by (auto simp: nsA_def wp_def zoomA_def split: prod.splits sum.splits)

lemma wp_limitA_quotas: "P (qs_quotas s) \<Longrightarrow> wp (limitA m) (\<lambda>_ s'. P (qs_quotas s')) (\<lambda>_ s'. P (qs_quotas s')) s"
  by (auto simp: limitA_def wp_def zoomA_def split: prod.splits sum.splits)

lemma wp_setInit_quotas:
  assumes "P (qs_quotas s)"
  shows "wp (setInit c ns updated) (\<lambda>_ s'. P (qs_quotas s')) (\<lambda>_ s'. P (qs_quotas s')) s"
  unfolding setInit_def wp_simps using assms by (intro branchI wp_nsA_quotas) simp_all

lemma wp_setValidated_quotas:
  assumes "P (qs_quotas s)"
  shows "wp (setValidated c ns b msg) (\<lambda>_ s'. P (qs_quotas s')) (\<lambda>_ s'. P (qs_quotas s')) s"
  unfolding setValidated_def wp_simps using assms by (intro branchI wp_nsA_quotas) simp_all

lemma wp_createLimitRange_quotas:
  assumes "P (qs_quotas s)"
  shows "wp (createLimitRange c ns) (\<lambda>_ s'. P (qs_quotas s')) (\<lambda>_ s'. P (qs_quotas s')) s"
  unfolding createLimitRange_def createDefaultLimitRange_def updateDefaultLimitRange_def deleteDefaultLimitRange_def wp_simps
  using assms by (intro branchI wp_limitA_quotas) simp_all

lemma wp_validate_quotas:
  assumes "P (qs_quotas s)" "\<not> nm_Deleted ns" "getProjectResourceQuotaLimit ns (sc_ProjectLister c) = Inr (Some limit, projectID)"
    and "sc_NsIndexer c projectID = Inr objects" "other_limits (nm_Name ns) objects = Inr nsLimits" "getNamespaceResourceQuotaLimit ns = Inr nsLimit"
  shows "wp (validateAndSetNamespaceQuota c ns None)
    (\<lambda>(isFit, _) s'. P (qs_quotas s') \<and> (\<exists>msg. IsQuotaFit (sc_parse c) (sc_qstring c) nsLimit nsLimits (Some limit) = Inr (isFit, msg)))
    (\<lambda>_ s'. P (qs_quotas s')) s"
proof -
  have "validateAndSetNamespaceQuota c ns None =
      bindA (liftR (IsQuotaFit (sc_parse c) (sc_qstring c) nsLimit nsLimits (Some limit))) (\<lambda>(isFit, msg).
        bindA (setValidated c ns isFit (if \<not> isFit \<and> msg \<noteq> [] then ''Resource quota ['' @ msg @ ''] exceeds project limit '' else msg)) (\<lambda>validated.
          ret (isFit, validated)))"
    using assms(2-6) by (simp add: validateAndSetNamespaceQuota_def fun_eq_iff bindA_def)
  then show ?thesis
    using assms(1) by (simp only: wp_simps) (intro branchI wp_mono [OF wp_setValidated_quotas [of P, OF assms(1)]]; simp add: wp_simps)
qed


section \<open>Instances\<close>

text \<open>Whole numbers as quantities; a namespace \<^verbatim>\<open>web\<close> of a project with ten pods, of which another namespace has six.\<close>

definition parse_number :: parser where
  "parse_number s =
     (if s \<noteq> [] \<and> list_all is_digit s then Inr \<lparr>qu_nano = int (num_value s) * 10 ^ 9, qu_Format = ''DecimalSI'', qu_rep = s\<rparr>
      else Inl (Err ''quantities must match the regular expression''))"

definition pods :: "string \<Rightarrow> ResourceQuotaLimit" where
  "pods n = (decode_limit [])\<lparr>li_Pods := n\<rparr>"

definition sample_project :: Project where
  "sample_project =
     \<lparr>pj_Namespace = ''c1'', pj_Name = ''p1'', pj_Deleted = False, pj_ResourceQuota = Some (pods ''10'', pods []),
      pj_NamespaceDefaultResourceQuota = Some (pods ''2''), pj_ContainerDefaultResourceLimit = None\<rparr>"

definition sample_namespace :: "string \<Rightarrow> string \<Rightarrow> Namespace" where
  "sample_namespace name n =
     \<lparr>nm_Name = name, nm_Deleted = False, nm_ProjectID = ''c1:p1'', nm_ResourceQuota = Some (Json (Some (pods n))), nm_ContainerLimit = None,
      nm_Status = Some (Json [\<lparr>cn_Type = ResourceQuotaValidatedCondition, cn_Status = ''True'', cn_Message = [], cn_LastUpdateTime = 0\<rparr>])\<rparr>"

definition sample_namespaces :: "Namespace list" where
  "sample_namespaces = [sample_namespace ''web'' ''4'', sample_namespace ''db'' ''6'']"

definition assign_quota :: "ResourceQuota list \<Rightarrow> ResourceQuota \<Rightarrow> ResourceQuota" where
  "assign_quota xs q = (if rq_Name q = [] then q\<lparr>rq_Name := fresh_name ''default-'' (map rq_Name xs)\<rparr> else q)"

interpretation rq_mem: mem_server quota_key assign_quota quota_stored
proof
  show "quota_stored x x" for x by (simp add: quota_stored_def)
  show "quota_stored x (assign_quota xs x)" for x xs by (simp add: quota_stored_def assign_quota_def)
  show "find (\<lambda>y. quota_key y = quota_key (assign_quota xs x)) xs = None" if "find (\<lambda>y. quota_key y = quota_key x) xs = None" for x xs
  proof (cases "rq_Name x = []")
    case True
    have "rq_Name y \<noteq> fresh_name ''default-'' (map rq_Name xs)" if "y \<in> set xs" for y
      using fresh_name_fresh [of "''default-''" "map rq_Name xs"] that by (metis image_eqI list.set_map)
    with True show ?thesis by (auto simp: find_None_iff assign_quota_def quota_key_def)
  qed (simp add: assign_quota_def that)
qed

interpretation pj_mem: mem_server project_key "\<lambda>_ p. p" "(=)"
  by unfold_locales auto

definition sample_sync :: "(Namespace mem, ResourceQuota mem, LimitRange mem) SyncController" where
  "sample_sync =
     \<lparr>sc_ProjectLister = (\<lambda>_ _. Inr sample_project), sc_Namespaces = mem_client nm_Name (\<lambda>_ n. n),
      sc_ResourceQuotas = mem_client quota_key assign_quota, sc_ResourceQuotaLister = (\<lambda>_. Inr []),
      sc_LimitRange = mem_client (\<lambda>r. (lr_Namespace r, lr_Name r)) (\<lambda>_ r. r), sc_LimitRangeLister = (\<lambda>_. Inr []),
      sc_NsIndexer = (\<lambda>_. Inr sample_namespaces), sc_parse = parse_number, sc_qstring = qu_rep, sc_now = 0\<rparr>"

definition sample_quota_state :: "(Namespace mem, ResourceQuota mem, LimitRange mem) quotaState" where
  "sample_quota_state =
     \<lparr>qs_namespaces = \<lparr>objs = sample_namespaces, faults = []\<rparr>, qs_quotas = \<lparr>objs = [], faults = []\<rparr>, qs_limits = \<lparr>objs = [], faults = []\<rparr>\<rparr>"

definition sample_calculation :: "Project mem calculateLimitController" where
  "sample_calculation =
     \<lparr>cc_projectLister = (\<lambda>_ _. Inr sample_project), cc_projects = mem_client project_key (\<lambda>_ p. p), cc_nsIndexer = (\<lambda>_. Inr sample_namespaces),
      cc_clusterName = ''c1'', cc_parse = parse_number, cc_qstring = (\<lambda>q. Itoa (qu_nano q div 10 ^ 9))\<rparr>"

theorem IsQuotaFit_iff_witness:
  "\<exists>p t. limit_amount parse_number (Some (pods ''10'')) ''pods'' = Some p \<and>
     total_amount parse_number [Some (pods ''4''), Some (pods ''6'')] ''pods'' = Some t \<and> t \<le> p"
proof -
  have fit: "IsQuotaFit parse_number qu_rep (Some (pods ''4'')) [Some (pods ''6'')] (Some (pods ''10'')) = Inr (True, [])" by code_simp
  have "limit_amount parse_number (Some (pods ''10'')) ''pods'' = Some 10000000000" by code_simp
  moreover have "total_amount parse_number [Some (pods ''4''), Some (pods ''6'')] ''pods'' = Some 10000000000" by code_simp
  ultimately show ?thesis using IsQuotaFit_iff [OF fit] by blast
qed

theorem completeQuota_settles_witness:
  "completeQuota (pods []) (Some (pods ''2'')) = Some (pods ''2'') \<and> completeQuota (pods ''2'') (Some (pods ''2'')) = None"
proof -
  have "completeQuota (pods []) (Some (pods ''2'')) = Some (pods ''2'')" by code_simp
  with completeQuota_settles [OF this] show ?thesis by blast
qed

theorem calculate_writes_sum_witness:
  "\<exists>w' totals. calculateProjectResourceQuota sample_calculation ''c1:p1'' \<lparr>objs = [sample_project], faults = []\<rparr> = (Inr (), w') \<and>
     mem_find project_key w' (''c1'', ''p1'') =
       Some (sample_project\<lparr>pj_ResourceQuota := Some (pods ''10'', convertResourceListToLimit (cc_qstring sample_calculation) totals)\<rparr>) \<and>
     amount totals ''pods'' = total_amount parse_number [Some (pods ''4''), Some (pods ''6'')] ''pods''"
proof -
  let ?w = "\<lparr>objs = [sample_project], faults = []\<rparr>"
  obtain r w' where run: "calculateProjectResourceQuota sample_calculation ''c1:p1'' ?w = (r, w')" by fastforce
  have "fst (calculateProjectResourceQuota sample_calculation ''c1:p1'' ?w) = Inr ()" by code_simp
  with run have ok: "calculateProjectResourceQuota sample_calculation ''c1:p1'' ?w = (Inr (), w')" by simp
  have client: "api_client (cc_projects sample_calculation) project_key (mem_find project_key) (=) mem_avail"
    unfolding sample_calculation_def calculateLimitController.simps by (rule pj_mem.mem.api_client_axioms)
  have name: "getProjectNamespaceName ''c1:p1'' = (''c1'', ''p1'')" by code_simp
  have lister: "cc_projectLister sample_calculation ''c1'' ''p1'' = Inr sample_project" by (simp add: sample_calculation_def)
  have rq: "pj_ResourceQuota sample_project = Some (pods ''10'', pods [])" by (simp add: sample_project_def)
  have key: "project_key sample_project = (''c1'', ''p1'')" by (simp add: project_key_def sample_project_def)
  obtain namespaces totals where nss: "cc_nsIndexer sample_calculation ''c1:p1'' = Inr namespaces"
    and sum: "\<forall>k. amount totals k = total_amount (cc_parse sample_calculation) (counted namespaces) k"
    and upd: "mem_find project_key w' = (mem_find project_key ?w)(project_key sample_project \<mapsto>
      sample_project\<lparr>pj_ResourceQuota := Some (pods ''10'', convertResourceListToLimit (cc_qstring sample_calculation) totals)\<rparr>)"
    using calculate_writes_sum [OF client name lister rq ok] by (elim exE conjE)
  have "namespaces = sample_namespaces" using nss by (simp add: sample_calculation_def)
  moreover have "counted sample_namespaces = [Some (pods ''4''), Some (pods ''6'')]" by code_simp
  moreover have "cc_parse sample_calculation = parse_number" by (simp add: sample_calculation_def)
  ultimately have am: "amount totals ''pods'' = total_amount parse_number [Some (pods ''4''), Some (pods ''6'')] ''pods''" using sum by simp
  have new: "mem_find project_key w' (''c1'', ''p1'') =
       Some (sample_project\<lparr>pj_ResourceQuota := Some (pods ''10'', convertResourceListToLimit (cc_qstring sample_calculation) totals)\<rparr>)"
    unfolding upd key by (rule fun_upd_same)
  from ok new am show ?thesis by blast
qed


end
