(* ===== verification/ProjectLock.thy ===== *)
theory ProjectLock
  imports Prelude
begin

text \<open>
  The lock of a project, \<^verbatim>\<open>GetProjectLock\<close> of \<^verbatim>\<open>src/pkg/resourcequota/quota_validate.go\<close>, with the
  cache that keeps the mutexes (\<^verbatim>\<open>src/vendor/k8s.io/apimachinery/pkg/util/cache/lruexpirecache.go\<close>).

  The operations of the cache are atomic, under the cache's own lock, and \<^verbatim>\<open>GetProjectLock\<close> is not: a caller
  is a program counter between them, and callers interleave.  A mutex is its number, in the order of allocation.
\<close>

section \<open>The cache\<close>

text \<open>Entries with their mutex and expiry time, the most recently used one first.\<close>

type_synonym lockCache = "(string, nat \<times> int) gomap"

definition cache_maxSize :: nat where
  "cache_maxSize = 1000"

definition cache_ttl :: int where
  "cache_ttl = 3600 * second"

definition cache_Get :: "int \<Rightarrow> string \<Rightarrow> lockCache \<Rightarrow> nat option \<times> lockCache" where
  "cache_Get now key c =
     (case map_of c key of
        None \<Rightarrow> (None, c)
      | Some (v, expireTime) \<Rightarrow>
          if now > expireTime then (None, map_del key c)
          else (Some v, (key, v, expireTime) # map_del key c))"

definition cache_Add :: "int \<Rightarrow> string \<Rightarrow> nat \<Rightarrow> lockCache \<Rightarrow> lockCache" where
  "cache_Add now key v c =
     (let c' = (key, v, now + cache_ttl) # map_del key c
      in if \<not> map_has c key \<and> length c' > cache_maxSize then butlast c' else c')"

section \<open>Callers\<close>

datatype caller = Calls | Missed | Stored | Holds nat | Panicked

record lockState =
  ls_cache :: lockCache
  ls_next :: nat
  ls_now :: int
  ls_callers :: "nat \<Rightarrow> caller"

text \<open>
  One step of a caller: the first look-up, the allocation and storing of a mutex, the second look-up (whose type
  assertion panics if the entry is gone again).  Time passes between the steps.
\<close>

inductive lock_step :: "(nat \<Rightarrow> string) \<Rightarrow> lockState \<Rightarrow> lockState \<Rightarrow> bool" for projectID :: "nat \<Rightarrow> string" where
  lookup_hit: "ls_callers s i = Calls \<Longrightarrow> cache_Get (ls_now s) (projectID i) (ls_cache s) = (Some v, c) \<Longrightarrow>
    lock_step projectID s (s\<lparr>ls_cache := c, ls_callers := (ls_callers s)(i := Holds v)\<rparr>)"
| lookup_miss: "ls_callers s i = Calls \<Longrightarrow> cache_Get (ls_now s) (projectID i) (ls_cache s) = (None, c) \<Longrightarrow>
    lock_step projectID s (s\<lparr>ls_cache := c, ls_callers := (ls_callers s)(i := Missed)\<rparr>)"
| store: "ls_callers s i = Missed \<Longrightarrow>
    lock_step projectID s (s\<lparr>ls_cache := cache_Add (ls_now s) (projectID i) (ls_next s) (ls_cache s), ls_next := Suc (ls_next s),
      ls_callers := (ls_callers s)(i := Stored)\<rparr>)"
| reread_hit: "ls_callers s i = Stored \<Longrightarrow> cache_Get (ls_now s) (projectID i) (ls_cache s) = (Some v, c) \<Longrightarrow>
    lock_step projectID s (s\<lparr>ls_cache := c, ls_callers := (ls_callers s)(i := Holds v)\<rparr>)"
| reread_miss: "ls_callers s i = Stored \<Longrightarrow> cache_Get (ls_now s) (projectID i) (ls_cache s) = (None, c) \<Longrightarrow>
    lock_step projectID s (s\<lparr>ls_cache := c, ls_callers := (ls_callers s)(i := Panicked)\<rparr>)"
| tick: "0 \<le> d \<Longrightarrow> lock_step projectID s (s\<lparr>ls_now := ls_now s + d\<rparr>)"

inductive_cases lock_stepE: "lock_step projectID s s'"

text \<open>A caller that runs alone: \<^verbatim>\<open>GetProjectLock\<close> without interleaving.\<close>

definition GetProjectLock :: "int \<Rightarrow> string \<Rightarrow> lockCache \<times> nat \<Rightarrow> nat option \<times> lockCache \<times> nat" where
  "GetProjectLock now projectID = (\<lambda>(c, next).
     case cache_Get now projectID c of
       (Some v, c') \<Rightarrow> (Some v, c', next)
     | (None, c') \<Rightarrow>
         (case cache_Get now projectID (cache_Add now projectID next c') of (r, c'') \<Rightarrow> (r, c'', Suc next)))"

section \<open>Properties\<close>

lemma cache_Get_hit:
  "map_of c key = Some (v, e) \<Longrightarrow> now \<le> e \<Longrightarrow> cache_Get now key c = (Some v, (key, v, e) # map_del key c)"
  by (simp add: cache_Get_def)

lemma map_of_Add: "map_of (cache_Add now key v c) key = Some (v, now + cache_ttl)"
  unfolding cache_Add_def Let_def by (cases "map_del key c = []") (simp_all add: cache_maxSize_def)

text \<open>Callers one after the other share the mutex until its entry expires.\<close>

lemma GetProjectLock_alone:
  assumes "GetProjectLock now projectID (c, n) = (r, c', n')"
  obtains v e where "r = Some v" "map_of c' projectID = Some (v, e)" "now \<le> e"
    and "\<And>now'. now' \<le> e \<Longrightarrow> fst (GetProjectLock now' projectID (c', n')) = Some v"
proof -
  have hit: "fst (GetProjectLock now' projectID (c', n')) = Some v" if "map_of c' projectID = Some (v, e)" "now' \<le> e" for v e now'
    using cache_Get_hit [OF that] by (simp add: GetProjectLock_def)
  consider v e where "map_of c projectID = Some (v, e)" "now \<le> e" | c1 where "cache_Get now projectID c = (None, c1)"
  proof (cases "map_of c projectID")
    case None
    with that(2) show ?thesis by (simp add: cache_Get_def)
  next
    case (Some p)
    obtain v e where "p = (v, e)" by (cases p)
    with Some that show ?thesis by (cases "now \<le> e") (simp_all add: cache_Get_def)
  qed
  then show thesis
  proof cases
    case 1
    with assms have "r = Some v" "c' = (projectID, v, e) # map_del projectID c" by (simp_all add: GetProjectLock_def cache_Get_hit)
    with 1 hit [of v e] that show thesis by simp
  next
    case 2
    have le: "now \<le> now + cache_ttl" by (simp add: cache_ttl_def second_def)
    from assms have "r = Some n" "map_of c' projectID = Some (n, now + cache_ttl)"
      by (auto simp: GetProjectLock_def 2 cache_Get_hit [OF map_of_Add le])
    with le hit that show thesis by blast
  qed
qed

text \<open>
  C33. The lock does not exclude: two callers of the same project whose look-ups overlap each store a mutex and end up holding different ones.
\<close>

theorem GetProjectLock_two_locks:
  assumes "i \<noteq> j" "projectID i = projectID j" "ls_callers s i = Calls" "ls_callers s j = Calls" "ls_cache s = []"
  shows "\<exists>s' a b. (lock_step projectID)\<^sup>*\<^sup>* s s' \<and> ls_callers s' i = Holds a \<and> ls_callers s' j = Holds b \<and> a \<noteq> b"
proof -
  let ?k = "projectID i" and ?n = "ls_next s" and ?f = "ls_callers s" and ?e = "ls_now s + cache_ttl"
  define s1 where "s1 = \<lparr>ls_cache = [], ls_next = ?n, ls_now = ls_now s, ls_callers = ?f(i := Missed)\<rparr>"
  define s2 where "s2 = \<lparr>ls_cache = [], ls_next = ?n, ls_now = ls_now s, ls_callers = ?f(i := Missed, j := Missed)\<rparr>"
  define s3 where "s3 = \<lparr>ls_cache = [(?k, ?n, ?e)], ls_next = Suc ?n, ls_now = ls_now s, ls_callers = ?f(i := Stored, j := Missed)\<rparr>"
  define s4 where "s4 = \<lparr>ls_cache = [(?k, ?n, ?e)], ls_next = Suc ?n, ls_now = ls_now s, ls_callers = ?f(i := Holds ?n, j := Missed)\<rparr>"
  define s5 where "s5 = \<lparr>ls_cache = [(?k, Suc ?n, ?e)], ls_next = Suc (Suc ?n), ls_now = ls_now s, ls_callers = ?f(i := Holds ?n, j := Stored)\<rparr>"
  define s6 where "s6 = \<lparr>ls_cache = [(?k, Suc ?n, ?e)], ls_next = Suc (Suc ?n), ls_now = ls_now s, ls_callers = ?f(i := Holds ?n, j := Holds (Suc ?n))\<rparr>"
  have s: "s = \<lparr>ls_cache = [], ls_next = ?n, ls_now = ls_now s, ls_callers = ?f\<rparr>" using assms(5) by simp
  have miss: "cache_Get now key [] = (None, [])" for now key by (simp add: cache_Get_def)
  have add: "cache_Add now key v [] = [(key, v, now + cache_ttl)]" "cache_Add now key v [(key, w)] = [(key, v, now + cache_ttl)]" for now key v w
    by (simp_all add: cache_Add_def map_del_def map_has_def cache_maxSize_def)
  have hit: "cache_Get (ls_now s) ?k [(?k, v, ?e)] = (Some v, [(?k, v, ?e)])" for v
    by (simp add: cache_Get_def cache_ttl_def second_def map_del_def)
  have "lock_step projectID s s1" by (subst s, unfold s1_def, rule lock_step.lookup_miss [of "\<lparr>ls_cache = [], ls_next = ?n, ls_now = ls_now s, ls_callers = ?f\<rparr>" i, simplified]) (simp_all add: miss assms(3))
  moreover have "lock_step projectID s1 s2" using lock_step.lookup_miss [of s1 j projectID "[]"] assms(1,4,5) by (simp add: miss s1_def s2_def)
  moreover have "lock_step projectID s2 s3"
    using lock_step.store [of s2 i projectID] assms(1,5) by (simp add: add s2_def s3_def fun_upd_twist)
  moreover have "lock_step projectID s3 s4"
    using lock_step.reread_hit [of s3 i projectID ?n "[(?k, ?n, ?e)]"] assms(1) by (simp add: hit s3_def s4_def fun_upd_twist)
  moreover have "lock_step projectID s4 s5"
    using lock_step.store [of s4 j projectID] assms(2) by (simp add: add s4_def s5_def)
  moreover have "lock_step projectID s5 s6"
    using lock_step.reread_hit [of s5 j projectID "Suc ?n" "[(?k, Suc ?n, ?e)]"] assms(2) hit by (simp add: s5_def s6_def)
  ultimately have "(lock_step projectID)\<^sup>*\<^sup>* s s6" by (meson converse_rtranclp_into_rtranclp rtranclp.rtrancl_refl)
  moreover have "ls_callers s6 i = Holds ?n" "ls_callers s6 j = Holds (Suc ?n)" using assms(1) by (simp_all add: s6_def)
  ultimately show ?thesis by (metis n_not_Suc_n)
qed

theorem GetProjectLock_two_locks_witness:
  "\<exists>s' a b. (lock_step (\<lambda>_. ''c1:p1''))\<^sup>*\<^sup>* \<lparr>ls_cache = [], ls_next = 0, ls_now = 0, ls_callers = (\<lambda>_. Calls)\<rparr> s' \<and>
     ls_callers s' 0 = Holds a \<and> ls_callers s' 1 = Holds b \<and> a \<noteq> b"
  by (rule GetProjectLock_two_locks) simp_all

end
