(* ===== verification/UserManager.thy ===== *)
theory UserManager
  imports Tokens
begin

text \<open>
  The user manager, \<^verbatim>\<open>src/pkg/auth/providers/common/usermanager.go\<close>: users by principal, access
  modes, the tokens of service users, and the creation of a user with its bindings at the first login.

  The indexes and listers over the caches are parameters, and so is SHA-256.  Base32
  (\<^verbatim>\<open>encoding/base32\<close>) is defined here.  The waiting time between two attempts to update a user is not modelled.
\<close>

section \<open>Base32 and strings\<close>

definition byte_bits :: "char \<Rightarrow> bool list" where
  "byte_bits c = map (bit (of_char c :: nat)) [7, 6, 5, 4, 3, 2, 1, 0]"

definition bits_value :: "bool list \<Rightarrow> nat" where
  "bits_value bs = foldl (\<lambda>a b. 2 * a + of_bool b) 0 bs"

text \<open>Groups of five bits; the last one is filled with zeros.\<close>

function base32_groups :: "bool list \<Rightarrow> nat list" where
  "base32_groups [] = []"
| "base32_groups (b # bs) = bits_value (take 5 (b # bs @ replicate 4 False)) # base32_groups (drop 5 (b # bs))"
  by pat_completeness auto
termination by (relation "measure length") auto

definition base32_encode :: "string \<Rightarrow> string \<Rightarrow> string" where
  "base32_encode alphabet s = map (\<lambda>n. alphabet ! n) (base32_groups (concat (map byte_bits s)))"

definition StdEncoding :: string where
  "StdEncoding = ''ABCDEFGHIJKLMNOPQRSTUVWXYZ234567''"

definition HexEncoding :: string where
  "HexEncoding = ''0123456789ABCDEFGHIJKLMNOPQRSTUV''"

definition str_contains :: "string \<Rightarrow> string \<Rightarrow> bool" where
  "str_contains s t = sublist t s"

section \<open>The manager\<close>

record ('u, 't, 'b, 'c, 'd, 'r) userManager =
  um_users :: "('u, string, User) client"
  um_globalRoleBindings :: "('b, string, GlobalRoleBinding) client"
  um_globalRoleLister :: "GlobalRole list result"
  um_grbIndexer :: "string \<Rightarrow> GlobalRoleBinding list result"
  um_userIndexer :: "string \<Rightarrow> User list result"
  um_crtbIndexer :: "string \<Rightarrow> ClusterRoleTemplateBinding list result"
  um_prtbIndexer :: "string \<Rightarrow> ProjectRoleTemplateBinding list result"
  um_tokenLister :: "string \<Rightarrow> Token result"
  um_tokens :: "('t, string, Token) client"
  um_clusterRoleLister :: "string \<Rightarrow> ClusterRole result"
  um_clusterRoleBindingLister :: "string \<Rightarrow> ClusterRoleBinding result"
  um_clusterRoles :: "('c, string, ClusterRole) client"
  um_clusterRoleBindings :: "('d, string, ClusterRoleBinding) client"
  um_rand :: "('r, nat) act"
  um_sha256 :: "string \<Rightarrow> string"

record ('u, 't, 'b, 'c, 'd, 'r) userState =
  up_users :: 'u
  up_tokens :: 't
  up_bindings :: 'b
  up_clusterRoles :: 'c
  up_clusterRoleBindings :: 'd
  up_rand :: 'r

abbreviation usersA where "usersA \<equiv> zoomA up_users up_users_update"
abbreviation userTokensA where "userTokensA \<equiv> zoomA up_tokens up_tokens_update"
abbreviation bindingsA where "bindingsA \<equiv> zoomA up_bindings up_bindings_update"
abbreviation clusterRolesA where "clusterRolesA \<equiv> zoomA up_clusterRoles up_clusterRoles_update"
abbreviation clusterRoleBindingsA where "clusterRoleBindingsA \<equiv> zoomA up_clusterRoleBindings up_clusterRoleBindings_update"

definition userAuthHeader :: string where
  "userAuthHeader = ''Impersonate-User''"

definition initialRolesPopulated :: string where
  "initialRolesPopulated = ''InitialRolesPopulated''"

subsection \<open>Index functions\<close>

definition userByPrincipal :: "User \<Rightarrow> string list" where
  "userByPrincipal u = us_PrincipalIDs u"

definition crtbsByPrincipalAndUser :: "ClusterRoleTemplateBinding \<Rightarrow> string list" where
  "crtbsByPrincipalAndUser b =
     (if ctb_GroupPrincipalName b \<noteq> [] then [ctb_GroupPrincipalName b] else []) @
     (if ctb_UserPrincipalName b \<noteq> [] then [ctb_UserPrincipalName b] else []) @
     (if ctb_UserName b \<noteq> [] then [ctb_UserName b] else [])"

definition prtbsByPrincipalAndUser :: "ProjectRoleTemplateBinding \<Rightarrow> string list" where
  "prtbsByPrincipalAndUser b =
     (if ptb_GroupPrincipalName b \<noteq> [] then [ptb_GroupPrincipalName b] else []) @
     (if ptb_UserPrincipalName b \<noteq> [] then [ptb_UserPrincipalName b] else []) @
     (if ptb_UserName b \<noteq> [] then [ptb_UserName b] else [])"

definition grbByUser :: "GlobalRoleBinding \<Rightarrow> string list" where
  "grbByUser b = [grb_UserName b]"

definition providerExists :: "string list \<Rightarrow> string \<Rightarrow> bool" where
  "providerExists principalIDs provider \<longleftrightarrow> (\<exists>i \<in> set principalIDs. str_contains (hd (str_split i '':'')) provider)"

subsection \<open>Users by principal\<close>

definition checkCache :: "('u, 't, 'b, 'c, 'd, 'r) userManager \<Rightarrow> string \<Rightarrow> User option result" where
  "checkCache m principalName =
     (case um_userIndexer m principalName of
        Inl e \<Rightarrow> Inl e
      | Inr users \<Rightarrow>
          if length users > 1 then Inl (Err ''can't find unique user for principal'')
          else if length users = 1 then Inr (Some (users ! 0))
          else Inr None)"

definition principal_label :: "string \<Rightarrow> string" where
  "principal_label principalName = take 63 (base32_encode HexEncoding principalName)"

definition hashedPrincipalName :: string where
  "hashedPrincipalName = ''hashed-principal-name''"

text \<open>
  The loop over the listed users: whether one of them matched.  \<^verbatim>\<open>match = &u\<close> is the address of the loop
  variable, which holds the last listed user after the loop.
\<close>

fun label_matches :: "string \<Rightarrow> bool \<Rightarrow> User list \<Rightarrow> bool result" where
  "label_matches principalName found [] = Inr found"
| "label_matches principalName found (u # us) =
     (if principalName \<in> set (us_PrincipalIDs u) then
        if found then Inl (Err ''can't find unique user for principal'') else label_matches principalName True us
      else label_matches principalName found us)"

definition checkLabels ::
    "('u, 't, 'b, 'c, 'd, 'r) userManager \<Rightarrow> string \<Rightarrow> (('u, 't, 'b, 'c, 'd, 'r) userState, User option \<times> (string, string) gomap) act" where
  "checkLabels m principalName =
     (let labels = [(principal_label principalName, hashedPrincipalName)] in
      bindA (usersA (clist (um_users m) (\<lambda>u. map_of (us_Labels u) (principal_label principalName) = Some hashedPrincipalName))) (\<lambda>users.
        if users = [] then ret (None, labels)
        else bindA (liftR (label_matches principalName False users)) (\<lambda>found.
          ret (if found then Some (last users) else None, labels))))"

definition GetUserByPrincipalID ::
    "('u, 't, 'b, 'c, 'd, 'r) userManager \<Rightarrow> string \<Rightarrow> (('u, 't, 'b, 'c, 'd, 'r) userState, User option) act" where
  "GetUserByPrincipalID m principalName =
     bindA (liftR (checkCache m principalName)) (\<lambda>user.
       case user of
         Some u \<Rightarrow> ret (Some u)
       | None \<Rightarrow> bindA (checkLabels m principalName) (\<lambda>(user, _). ret user))"

definition SetPrincipalOnCurrentUserByUserID ::
    "('u, 't, 'b, 'c, 'd, 'r) userManager \<Rightarrow> string \<Rightarrow> Principal \<Rightarrow> (('u, 't, 'b, 'c, 'd, 'r) userState, User) act" where
  "SetPrincipalOnCurrentUserByUserID m userID prin =
     bindA (usersA (cget (um_users m) userID)) (\<lambda>user.
       let user = (if providerExists (us_PrincipalIDs user) (pr_Provider prin)
                   then user\<lparr>us_PrincipalIDs := filter (\<lambda>i. \<not> str_contains i (pr_Provider prin)) (us_PrincipalIDs user)\<rparr>
                   else user)
       in if pr_Name prin \<notin> set (us_PrincipalIDs user)
          then usersA (cupdate (um_users m) (user\<lparr>us_PrincipalIDs := us_PrincipalIDs user @ [pr_Name prin]\<rparr>))
          else ret user)"

definition GetUser :: "Request \<Rightarrow> string" where
  "GetUser req = header_get (rq_Header req) userAuthHeader"

definition SetPrincipalOnCurrentUser ::
    "('u, 't, 'b, 'c, 'd, 'r) userManager \<Rightarrow> Request \<Rightarrow> Principal \<Rightarrow> (('u, 't, 'b, 'c, 'd, 'r) userState, User) act" where
  "SetPrincipalOnCurrentUser m req prin =
     (if GetUser req = [] then raise (Err ''user not provided'')
      else SetPrincipalOnCurrentUserByUserID m (GetUser req) prin)"

subsection \<open>Access modes\<close>

fun userExistsInClusterOrProject :: "('u, 't, 'b, 'c, 'd, 'r) userManager \<Rightarrow> string list \<Rightarrow> bool result" where
  "userExistsInClusterOrProject m [] = Inr False"
| "userExistsInClusterOrProject m (p # ps) =
     (case um_crtbIndexer m p of
        Inl e \<Rightarrow> Inl e
      | Inr crtbs \<Rightarrow>
          if crtbs \<noteq> [] then Inr True
          else case um_prtbIndexer m p of
            Inl e \<Rightarrow> Inl e
          | Inr prtbs \<Rightarrow> if prtbs \<noteq> [] then Inr True else userExistsInClusterOrProject m ps)"

definition CheckAccess ::
    "('u, 't, 'b, 'c, 'd, 'r) userManager \<Rightarrow> string \<Rightarrow> string list \<Rightarrow> string \<Rightarrow> Principal list \<Rightarrow> bool result" where
  "CheckAccess m accessMode allowedPrincipalIDs userPrincipalID groups =
     (if accessMode = ''unrestricted'' \<or> accessMode = [] then Inr True
      else if accessMode = ''required'' \<or> accessMode = ''restricted'' then
        case checkCache m userPrincipalID of
          Inl e \<Rightarrow> Inl e
        | Inr user \<Rightarrow>
            (let userPrincipals = userPrincipalID #
                   (case user of None \<Rightarrow> [] | Some u \<Rightarrow> filter (\<lambda>p. userPrincipalID \<noteq> p) (us_PrincipalIDs u))
             in if list_ex (\<lambda>p. p \<in> set allowedPrincipalIDs) userPrincipals then Inr True
                else if list_ex (\<lambda>g. pr_Name g \<in> set allowedPrincipalIDs) groups then Inr True
                else if accessMode = ''restricted'' then
                  userExistsInClusterOrProject m
                    (map pr_Name groups @ (case user of None \<Rightarrow> [] | Some u \<Rightarrow> us_Name u # userPrincipals))
                else Inr False)
      else Inl (Err ''Unsupported accessMode''))"

subsection \<open>Tokens of service users\<close>

definition service_token :: "string \<Rightarrow> string \<Rightarrow> string \<Rightarrow> string \<Rightarrow> string \<Rightarrow> Token" where
  "service_token clusterName tokenName description userName key =
     emptyToken\<lparr>tk_Name := tokenName, tk_Labels := [(UserIDLabel, userName)], tk_TTLMillis := 0, tk_Description := description,
       tk_UserID := userName, tk_AuthProvider := ''local'', tk_IsDerived := True, tk_Token := key, tk_ClusterName := clusterName\<rparr>"

definition EnsureClusterToken ::
    "('u, 't, 'b, 'c, 'd, 'r) userManager \<Rightarrow> string \<Rightarrow> string \<Rightarrow> string \<Rightarrow> string \<Rightarrow> (('u, 't, 'b, 'c, 'd, 'r) userState, string) act" where
  "EnsureClusterToken m clusterName tokenName description userName =
     (if has_prefix tokenName ''token-'' then raise (Err ''token names can't start with token-'')
      else bindA (case um_tokenLister m tokenName of
          Inr token \<Rightarrow> ret token
        | Inl e \<Rightarrow>
            if \<not> IsNotFound e then raise e
            else bindA (caseA (zoomA up_rand up_rand_update (Generate (um_rand m))) (\<lambda>_. raise (Err ''failed to generate token key'')) ret) (\<lambda>key.
              caseA (userTokensA (ccreate (um_tokens m) (service_token clusterName tokenName description userName key)))
                (\<lambda>e. if \<not> IsAlreadyExists e then raise e else userTokensA (cget (um_tokens m) tokenName))
                ret)) (\<lambda>token.
        ret (tk_Name token @ '':'' @ tk_Token token)))"

definition EnsureToken ::
    "('u, 't, 'b, 'c, 'd, 'r) userManager \<Rightarrow> string \<Rightarrow> string \<Rightarrow> string \<Rightarrow> (('u, 't, 'b, 'c, 'd, 'r) userState, string) act" where
  "EnsureToken m tokenName description userName = EnsureClusterToken m [] tokenName description userName"

subsection \<open>The first login of a user\<close>

text \<open>A create that fails leaves the empty object that the client returns with the error: the name of the role is then empty.\<close>

definition CreateNewUserClusterRoleBinding ::
    "('u, 't, 'b, 'c, 'd, 'r) userManager \<Rightarrow> string \<Rightarrow> string \<Rightarrow> (('u, 't, 'b, 'c, 'd, 'r) userState, unit) act" where
  "CreateNewUserClusterRoleBinding m userName userUID =
     (let roleName = userName @ ''-view''; bindingName = ''grb-'' @ roleName;
          owner = \<lparr>ow_Kind = ''User'', ow_Name = userName, ow_UID = userUID\<rparr> in
      bindA (case um_clusterRoleLister m roleName of
          Inr cr \<Rightarrow> ret (cr_Name cr)
        | Inl e \<Rightarrow>
            if \<not> IsNotFound e then raise e
            else caseA (clusterRolesA (ccreate (um_clusterRoles m)
                \<lparr>cr_Name = roleName, cr_Labels = [], cr_Annotations = [], cr_Owners = [owner],
                 cr_Rules = [\<lparr>p_APIGroups = [''management.cattle.io''], p_Resources = [''users''], p_ResourceNames = [userName],
                   p_NonResourceURLs = [], p_Verbs = [''get'']\<rparr>]\<rparr>))
              (\<lambda>e. if \<not> IsAlreadyExists e then raise e else ret [])
              (\<lambda>cr. ret (cr_Name cr))) (\<lambda>crName.
      case um_clusterRoleBindingLister m bindingName of
        Inr _ \<Rightarrow> ret ()
      | Inl e \<Rightarrow>
          if \<not> IsNotFound e then raise e
          else caseA (clusterRoleBindingsA (ccreate (um_clusterRoleBindings m)
              \<lparr>crb_Name = bindingName, crb_Labels = [], crb_Owners = [owner],
               crb_Subjects = [\<lparr>sj_Kind = ''User'', sj_Name = userName, sj_Namespace = [], sj_APIGroup = []\<rparr>],
               crb_RoleRef = \<lparr>rr_APIGroup = [], rr_Kind = ''ClusterRole'', rr_Name = crName\<rparr>\<rparr>))
            (\<lambda>e. if \<not> IsAlreadyExists e then raise e else ret ())
            (\<lambda>_. ret ())))"

text \<open>
  At most four attempts, each on the user as stored; after four conflicts the function returns without an error.  \<^verbatim>\<open>reflect.DeepEqual\<close>
  tells a missing list from an empty one.
\<close>

definition required_done :: "roleMap \<Rightarrow> string list \<Rightarrow> bool" where
  "required_done roleMap createdRoles \<longleftrightarrow>
     (case map_of roleMap ''required'' of None \<Rightarrow> createdRoles = [] | Some rs \<Rightarrow> rs = createdRoles \<and> rs \<noteq> [])"

fun record_roles ::
    "('u, 't, 'b, 'c, 'd, 'r) userManager \<Rightarrow> roleMap \<Rightarrow> string list \<Rightarrow> nat \<Rightarrow> string \<Rightarrow> (('u, 't, 'b, 'c, 'd, 'r) userState, unit) act" where
  "record_roles m roleMap createdRoles 0 name = ret ()"
| "record_roles m roleMap createdRoles (Suc attempts) name =
     bindA (usersA (cget (um_users m) name)) (\<lambda>user.
     caseA (usersA (cupdate (um_users m)
         (user\<lparr>us_RoleTemplatesRequired := Some (Json roleMap),
            us_Conditions := (if required_done roleMap createdRoles then cond_set_true initialRolesPopulated (us_Conditions user)
              else us_Conditions user)\<rparr>)))
       (\<lambda>e. if IsConflict e then record_roles m roleMap createdRoles attempts (us_Name user) else raise e)
       (\<lambda>_. ret ()))"

definition createUsersBindings ::
    "('u, 't, 'b, 'c, 'd, 'r) userManager \<Rightarrow> User \<Rightarrow> (('u, 't, 'b, 'c, 'd, 'r) userState, unit) act" where
  "createUsersBindings m user =
     bindA (liftR (case us_RoleTemplatesRequired user of None \<Rightarrow> Inl (Err ''unexpected end of JSON input'') | Some j \<Rightarrow> unmarshal j)) (\<lambda>roleMap.
     bindA (liftR (um_grbIndexer m (us_Name user))) (\<lambda>grbs.
     bindA (forA (\<lambda>role.
         if role \<in> set (map grb_GlobalRoleName grbs) then ret ()
         else bindA (bindingsA (ccreate (um_globalRoleBindings m)
           \<lparr>grb_Name = [], grb_UID = [], grb_Labels = [], grb_Annotations = [], grb_UserName = us_Name user, grb_GlobalRoleName = role\<rparr>))
           (\<lambda>_. ret ())) (map_get roleMap ''required'' [])) (\<lambda>_.
       let createdRoles = map_get roleMap ''required'' [] in
       record_roles m (map_put ''created'' createdRoles roleMap) createdRoles 4 (us_Name user))))"

definition createUsersRoleAnnotation :: "('u, 't, 'b, 'c, 'd, 'r) userManager \<Rightarrow> roleMap json result" where
  "createUsersRoleAnnotation m =
     (case um_globalRoleLister m of
        Inl e \<Rightarrow> Inl e
      | Inr roles \<Rightarrow>
          (let required = map gr_Name (filter gr_NewUserDefault roles)
           in Inr (Json (if required = [] then [] else [(''required'', required)]))))"

definition new_user :: "('u, 't, 'b, 'c, 'd, 'r) userManager \<Rightarrow> string \<Rightarrow> string \<Rightarrow> (string, string) gomap \<Rightarrow> roleMap json \<Rightarrow> User" where
  "new_user m principalName displayName labels annotation =
     \<lparr>us_Name = ''u-'' @ map fold_char (take 10 (base32_encode StdEncoding (um_sha256 m principalName))), us_UID = [], us_Labels = labels,
      us_RoleTemplatesRequired = Some annotation, us_DisplayName = displayName, us_Username = [], us_Password = [], us_MustChangePassword = False,
      us_PrincipalIDs = [principalName], us_Enabled = None, us_Conditions = []\<rparr>"

definition EnsureUser ::
    "('u, 't, 'b, 'c, 'd, 'r) userManager \<Rightarrow> string \<Rightarrow> string \<Rightarrow> (('u, 't, 'b, 'c, 'd, 'r) userState, User) act" where
  "EnsureUser m principalName displayName =
     bindA (liftR (checkCache m principalName)) (\<lambda>cached.
     bindA (case cached of Some u \<Rightarrow> ret (Some u, []) | None \<Rightarrow> checkLabels m principalName) (\<lambda>(found, labelSet).
       case found of
         Some user \<Rightarrow>
           if us_RoleTemplatesRequired user = None then ret user
           else if cond_true initialRolesPopulated (us_Conditions user) then ret user
           else bindA (createUsersBindings m user) (\<lambda>_. ret user)
       | None \<Rightarrow>
           bindA (liftR (createUsersRoleAnnotation m)) (\<lambda>annotation.
           bindA (usersA (ccreate (um_users m) (new_user m principalName displayName labelSet annotation))) (\<lambda>user.
           bindA (CreateNewUserClusterRoleBinding m (us_Name user) (us_UID user)) (\<lambda>_.
           bindA (createUsersBindings m user) (\<lambda>_. ret user))))))"

end
