(* ===== verification/UserManagerFacts.thy ===== *)
theory UserManagerFacts
  imports UserManager RoleData
begin

text \<open>
  Properties of the user manager: who may log in under each access mode, when the user found for a principal is the
  principal's, what a first login leaves on the server, and the loop variable that confuses two users with the same label.
\<close>

section \<open>Labels of principals\<close>

definition five_bits :: "nat \<Rightarrow> bool list" where
  "five_bits n = map (bit n) [4, 3, 2, 1, 0]"

lemma bits_value_bits:
  assumes "length bs = 5"
  shows "five_bits (bits_value bs) = bs" and "bits_value bs < 32"
proof -
  obtain a b c d e where bs: "bs = [a, b, c, d, e]" using assms by (auto simp: length_Suc_conv numeral_eq_Suc)
  show "five_bits (bits_value bs) = bs" unfolding bs by (cases a; cases b; cases c; cases d; cases e) (simp_all add: bits_value_def five_bits_def bit_0 flip: numeral_2_eq_2 numeral_3_eq_3)
  show "bits_value bs < 32" unfolding bs by (simp add: bits_value_def of_bool_def)
qed

lemma byte_bits_inj: "byte_bits c = byte_bits d \<Longrightarrow> c = d"
proof -
  assume "byte_bits c = byte_bits d"
  then have "char_of (of_char c :: nat) = (char_of (of_char d :: nat) :: char)" unfolding char_of_def byte_bits_def by simp
  then show "c = d" by simp
qed

lemma concat_byte_bits_inj: "concat (map byte_bits p) = concat (map byte_bits q) \<Longrightarrow> p = q"
proof (induction p arbitrary: q)
  case Nil
  then show ?case by (cases q) (auto simp: byte_bits_def)
next
  case (Cons c p)
  then obtain d q' where q: "q = d # q'" by (cases q) (auto simp: byte_bits_def)
  with Cons.prems have "byte_bits c @ concat (map byte_bits p) = byte_bits d @ concat (map byte_bits q')" by simp
  then have "byte_bits c = byte_bits d" "concat (map byte_bits p) = concat (map byte_bits q')" by (simp_all add: byte_bits_def)
  with Cons.IH q show ?case by (auto dest: byte_bits_inj)
qed

definition group_bits :: "nat list \<Rightarrow> bool list" where
  "group_bits ns = concat (map five_bits ns)"

lemma group_bits_groups: "\<exists>k<5. group_bits (base32_groups bs) = bs @ replicate k False"
proof (induction bs rule: base32_groups.induct)
  case 1
  then show ?case by (auto simp: group_bits_def)
next
  case (2 b bs)
  let ?g = "take 5 (b # bs @ replicate 4 False)"
  have g: "five_bits (bits_value ?g) = ?g" by (rule bits_value_bits) simp
  obtain k where k: "k < 5" "group_bits (base32_groups (drop 5 (b # bs))) = drop 5 (b # bs) @ replicate k False" using 2 by blast
  have "group_bits (base32_groups (b # bs)) = ?g @ group_bits (base32_groups (drop 5 (b # bs)))"
    by (simp only: group_bits_def base32_groups.simps list.map concat.simps g)
  also have "\<dots> = ?g @ drop 5 (b # bs) @ replicate k False" unfolding k(2) ..
  also have "\<exists>j<5. ?g @ drop 5 (b # bs) @ replicate k False = (b # bs) @ replicate j False"
  proof (cases "length bs \<ge> 4")
    case True
    then have g': "?g = take 5 (b # bs)" by simp
    have "?g @ drop 5 (b # bs) @ replicate k False = (b # bs) @ replicate k False"
      unfolding g' append_assoc [symmetric] append_take_drop_id ..
    with k(1) show ?thesis by (intro exI conjI)
  next
    case False
    then have d: "drop 5 (b # bs) = []" and g': "?g = (b # bs) @ replicate (4 - length bs) False" by simp_all
    have "k = 0" using k(2) unfolding d by (simp add: group_bits_def)
    then have "?g @ drop 5 (b # bs) @ replicate k False = (b # bs) @ replicate (4 - length bs) False" unfolding d g' by simp
    moreover have "4 - length bs < 5" by simp
    ultimately show ?thesis by (intro exI conjI)
  qed
  finally show ?case .
qed

lemma groups_below: "n \<in> set (base32_groups bs) \<Longrightarrow> n < 32"
proof (induction bs rule: base32_groups.induct)
  case (2 b bs)
  have "bits_value (take 5 (b # bs @ replicate 4 False)) < 32" by (rule bits_value_bits) simp
  with 2 show ?case by auto
qed simp

lemma length_concat_byte_bits: "length (concat (map byte_bits p)) = 8 * length p"
  by (induction p) (simp_all add: byte_bits_def)

lemma base32_groups_inj:
  assumes "base32_groups (concat (map byte_bits p)) = base32_groups (concat (map byte_bits q))"
  shows "p = q"
proof -
  let ?p = "concat (map byte_bits p)" and ?q = "concat (map byte_bits q)"
  obtain j k where pad: "j < 5" "k < 5" "?p @ replicate j False = ?q @ replicate k False"
    using group_bits_groups [of ?p] group_bits_groups [of ?q] unfolding assms by (elim exE conjE) simp
  have "length (?p @ replicate j False) = length (?q @ replicate k False)" by (rule arg_cong [OF pad(3)])
  then have "8 * length p + j = 8 * length q + k" by (simp only: length_append length_concat_byte_bits length_replicate)
  with pad(1,2) have "length ?p = length ?q" unfolding length_concat_byte_bits by presburger
  with pad(3) have "?p = ?q" by simp
  then show ?thesis by (rule concat_byte_bits_inj)
qed

lemma base32_encode_inj: "base32_encode HexEncoding p = base32_encode HexEncoding q \<Longrightarrow> p = q"
proof -
  assume eq: "base32_encode HexEncoding p = base32_encode HexEncoding q"
  have "inj_on (\<lambda>n. HexEncoding ! n) {..<32}"
    by (rule inj_on_nth) (simp_all add: HexEncoding_def)
  then have "inj_on (\<lambda>n. HexEncoding ! n) (set (base32_groups bs) \<union> set (base32_groups cs))" for bs cs
    by (rule inj_on_subset) (auto dest: groups_below)
  with eq show "p = q" unfolding base32_encode_def by (intro base32_groups_inj) (rule map_inj_on)
qed

lemma length_base32_groups: "5 * length (base32_groups bs) < length bs + 5"
proof (induction bs rule: base32_groups.induct)
  case (2 b bs)
  then show ?case by (cases "length bs \<le> 4") simp_all
qed simp

text \<open>Up to 39 bytes the label of a principal is its whole encoding, and different principals have different labels.\<close>

lemma principal_label_inj:
  assumes "length p \<le> 39" "length q \<le> 39" "principal_label p = principal_label q"
  shows "p = q"
proof -
  have "principal_label s = base32_encode HexEncoding s" if "length s \<le> 39" for s
    using that length_base32_groups [of "concat (map byte_bits s)"]
    by (simp add: principal_label_def base32_encode_def length_concat_byte_bits)
  with assms show ?thesis by (simp add: base32_encode_inj)
qed

section \<open>Access modes\<close>

text \<open>An index of the cache: the objects whose index values contain the key.\<close>

definition indexed :: "('o \<Rightarrow> string list) \<Rightarrow> 'o list \<Rightarrow> string \<Rightarrow> 'o list result" where
  "indexed f xs k = Inr (filter (\<lambda>x. k \<in> set (f x)) xs)"

text \<open>
  Who may log in.  \<open>owners\<close> are the users of the principal.  A list of allowed principals admits the principal, the other principals
  of its user and its groups; bindings admit the groups, and a user by name or by any of its principals.
\<close>

definition bound :: "ClusterRoleTemplateBinding list \<Rightarrow> ProjectRoleTemplateBinding list \<Rightarrow> string \<Rightarrow> bool" where
  "bound crtbs prtbs q \<longleftrightarrow>
     (\<exists>b \<in> set crtbs. q \<in> set (crtbsByPrincipalAndUser b)) \<or> (\<exists>b \<in> set prtbs. q \<in> set (prtbsByPrincipalAndUser b))"

definition may_login ::
    "User list \<Rightarrow> ClusterRoleTemplateBinding list \<Rightarrow> ProjectRoleTemplateBinding list \<Rightarrow> string \<Rightarrow> string list \<Rightarrow> string \<Rightarrow> Principal list \<Rightarrow> bool" where
  "may_login users crtbs prtbs mode allowed p groups \<longleftrightarrow>
     (let owners = filter (\<lambda>u. p \<in> set (us_PrincipalIDs u)) users;
          ids = \<Union> (set ` us_PrincipalIDs ` set owners); names = pr_Name ` set groups in
      mode = ''unrestricted'' \<or> mode = [] \<or>
      (mode = ''required'' \<or> mode = ''restricted'') \<and> length owners \<le> 1 \<and>
        ((insert p ids \<union> names) \<inter> set allowed \<noteq> {} \<or>
         mode = ''restricted'' \<and> (\<exists>q \<in> names \<union> us_Name ` set owners \<union> ids. bound crtbs prtbs q)))"

lemma userExists_iff:
  assumes "um_crtbIndexer m = indexed crtbsByPrincipalAndUser crtbs" "um_prtbIndexer m = indexed prtbsByPrincipalAndUser prtbs"
  shows "userExistsInClusterOrProject m ps = Inr (\<exists>q \<in> set ps. bound crtbs prtbs q)"
  by (induction ps) (auto simp: assms indexed_def bound_def filter_empty_conv)

text \<open>
  C11. The login check accepts exactly the principals that the access mode admits: everybody without restriction, otherwise the listed
  principals and groups and, in restricted mode, whoever has a cluster or project binding; a principal with two users is never accepted.
\<close>

theorem CheckAccess_iff:
  assumes "um_userIndexer m = indexed userByPrincipal users"
    and "um_crtbIndexer m = indexed crtbsByPrincipalAndUser crtbs" "um_prtbIndexer m = indexed prtbsByPrincipalAndUser prtbs"
  shows "CheckAccess m mode allowed p groups = Inr True \<longleftrightarrow> may_login users crtbs prtbs mode allowed p groups"
proof -
  let ?owners = "filter (\<lambda>u. p \<in> set (us_PrincipalIDs u)) users"
  have cache: "um_userIndexer m p = Inr ?owners" by (simp add: assms(1) indexed_def userByPrincipal_def)
  note exists = userExists_iff [OF assms(2,3)]
  consider (many) "length ?owners > 1" | (none) "?owners = []" | (one) u where "?owners = [u]"
    by (cases ?owners; cases "tl ?owners") auto
  then show ?thesis
  proof cases
    case many
    then show ?thesis by (auto simp: CheckAccess_def checkCache_def cache may_login_def Let_def)
  next
    case none
    then show ?thesis unfolding CheckAccess_def checkCache_def cache none may_login_def exists
      by (auto simp: Let_def list_ex_iff)
  next
    case one
    then have p: "p \<in> set (us_PrincipalIDs u)" by (metis filter_eq_Cons_iff)
    show ?thesis unfolding CheckAccess_def checkCache_def cache one may_login_def exists
      using p by (auto simp: Let_def list_ex_iff)
  qed
qed

section \<open>Users by label\<close>

lemma user_stored_PrincipalIDs: "user_stored x v \<Longrightarrow> us_PrincipalIDs v = us_PrincipalIDs x"
  unfolding user_stored_def by (metis User.select_convs(9) User.surjective User.update_convs(1,2))

lemma user_stored_annotation: "user_stored x v \<Longrightarrow> us_RoleTemplatesRequired v = us_RoleTemplatesRequired x"
  unfolding user_stored_def by (metis User.select_convs(4) User.surjective User.update_convs(1,2))

lemma grb_stored_fields: "grb_stored x v \<Longrightarrow> grb_UserName v = grb_UserName x \<and> grb_GlobalRoleName v = grb_GlobalRoleName x"
  unfolding grb_stored_def by (metis GlobalRoleBinding.select_convs(5,6) GlobalRoleBinding.surjective GlobalRoleBinding.update_convs(1,2))

lemma label_matches_one:
  "length (filter (\<lambda>u. p \<in> set (us_PrincipalIDs u)) us) + of_bool found = 1 \<Longrightarrow> label_matches p found us = Inr True"
  by (induction us arbitrary: found) (auto simp: of_bool_def split: if_splits)

text \<open>
  The users a server holds are well labelled if every label of a hashed principal belongs to a principal of the user, principals
  are at most 39 bytes long, and no two users share one.
\<close>

definition well_labelled :: "(string \<Rightarrow> User option) \<Rightarrow> bool" where
  "well_labelled users \<longleftrightarrow>
     (\<forall>k u l. users k = Some u \<longrightarrow> map_of (us_Labels u) l = Some hashedPrincipalName \<longrightarrow> (\<exists>q \<in> set (us_PrincipalIDs u). principal_label q = l)) \<and>
     (\<forall>k u q. users k = Some u \<longrightarrow> q \<in> set (us_PrincipalIDs u) \<longrightarrow> length q \<le> 39) \<and>
     (\<forall>k l u v q. users k = Some u \<longrightarrow> users l = Some v \<longrightarrow> q \<in> set (us_PrincipalIDs u) \<longrightarrow> q \<in> set (us_PrincipalIDs v) \<longrightarrow> k = l)"

lemma well_labelled_has_principal:
  assumes "well_labelled users" "length p \<le> 39" "users k = Some u" "map_of (us_Labels u) (principal_label p) = Some hashedPrincipalName"
  shows "p \<in> set (us_PrincipalIDs u)"
proof -
  obtain q where q: "q \<in> set (us_PrincipalIDs u)" "principal_label q = principal_label p" using assms unfolding well_labelled_def by blast
  have "length q \<le> 39" using q(1) assms(1,3) unfolding well_labelled_def by blast
  from principal_label_inj [OF this assms(2) q(2)] have "q = p" .
  with q(1) show ?thesis by simp
qed

lemma wp_checkLabels:
  fixes m :: "('u, 't, 'b, 'c, 'd, 'r) userManager"
  assumes "api_client (um_users m) us_Name uview stored uavail" "well_labelled (uview (up_users s))" "length p \<le> 39"
  shows "wp (checkLabels m p)
    (\<lambda>(found, _) s'. uview (up_users s') = uview (up_users s) \<and> up_bindings s' = up_bindings s \<and> (\<forall>u. found = Some u \<longrightarrow> p \<in> set (us_PrincipalIDs u)))
    (\<lambda>_ _. True) s"
  unfolding checkLabels_def Let_def wp_simps
proof (rule api_client.wp_list [OF assms(1)], goal_cases)
  case (1 w' xs)
  have "p \<in> set (us_PrincipalIDs x)" if "x \<in> set xs" for x
    using that 1(4) [of x] well_labelled_has_principal [OF assms(2,3)] by blast
  then have "p \<in> set (us_PrincipalIDs (last xs))" if "xs \<noteq> []" using that by (meson last_in_set)
  with 1(1) show ?case by (auto split: sum.split)
qed simp


text \<open>
  C32. Two users with the same label are confused: if the cache does not have the principal yet and the server lists its user before another user with
  the same label, \<^verbatim>\<open>EnsureUser\<close> returns the other user, who does not have the principal.
\<close>

theorem EnsureUser_confuses_users:
  assumes "um_userIndexer m p = Inr []"
    and "clist (um_users m) (\<lambda>u. map_of (us_Labels u) (principal_label p) = Some hashedPrincipalName) (up_users s) = (Inr [u, v], w')"
    and "p \<in> set (us_PrincipalIDs u)" "p \<notin> set (us_PrincipalIDs v)" "cond_true initialRolesPopulated (us_Conditions v)"
  shows "EnsureUser m p displayName s = (Inr v, s\<lparr>up_users := w'\<rparr>)"
proof -
  have "label_matches p False [u, v] = Inr True" using assms(3,4) by simp
  then have "checkLabels m p s = (Inr (Some v, [(principal_label p, hashedPrincipalName)]), s\<lparr>up_users := w'\<rparr>)"
    using assms(2) by (simp add: checkLabels_def Let_def bindA_def zoomA_def)
  moreover have "checkCache m p = Inr None" by (simp add: checkCache_def assms(1))
  ultimately show ?thesis using assms(5) by (simp add: EnsureUser_def bindA_def)
qed

section \<open>The first login\<close>

text \<open>Recording the roles changes the user's own object only, and not its principals.\<close>

definition only_user :: "(string \<Rightarrow> User option) \<Rightarrow> string \<Rightarrow> string list \<Rightarrow> (string \<Rightarrow> User option) \<Rightarrow> bool" where
  "only_user old n ids new \<longleftrightarrow> (\<forall>k. k \<noteq> n \<longrightarrow> new k = old k) \<and> (\<exists>v. new n = Some v \<and> us_PrincipalIDs v = ids)"

lemma wp_record_roles:
  assumes "api_client (um_users m) us_Name uview user_stored uavail" "only_user old n ids (uview (up_users s))" "B (up_bindings s)"
  shows "wp (record_roles m roleMap createdRoles attempts n)
    (\<lambda>_ s'. only_user old n ids (uview (up_users s')) \<and> B (up_bindings s')) (\<lambda>_ _. True) s"
  using assms(2,3)
proof (induction attempts arbitrary: s)
  case (Suc attempts)
  show ?case
    unfolding record_roles.simps wp_simps
  proof (rule api_client.wp_get [OF assms(1)], goal_cases)
    case (1 w user)
    have name: "us_Name user = n" by (rule api_client.view_key [OF assms(1) 1(3)])
    have user: "us_PrincipalIDs user = ids" using Suc.prems(1) 1(3) by (auto simp: only_user_def)
    show ?case
    proof (rule api_client.wp_update [OF assms(1)], goal_cases)
      case (1 w' y)
      then show ?case using Suc.prems name user \<open>uview w = _\<close> by (auto simp: only_user_def dest: user_stored_PrincipalIDs)
    next
      case (2 w' e)
      then show ?case using Suc.IH [of "up_users_update (\<lambda>_. w') s"] Suc.prems name \<open>uview w = _\<close> by (auto simp: zoomA_def)
    qed
  qed simp
qed (simp add: wp_ret)

definition role_bound :: "string \<Rightarrow> (string \<Rightarrow> GlobalRoleBinding option) \<Rightarrow> string \<Rightarrow> bool" where
  "role_bound n bindings r \<longleftrightarrow> (\<exists>k b. bindings k = Some b \<and> grb_UserName b = n \<and> grb_GlobalRoleName b = r)"

lemma wp_createUsersBindings:
  fixes m :: "('u, 't, 'b, 'c, 'd, 'r) userManager"
  assumes "api_client (um_users m) us_Name uview user_stored uavail" "api_client (um_globalRoleBindings m) grb_Name bview grb_stored bavail"
    and "only_user old n ids (uview (up_users s))" "us_Name user = n" "us_RoleTemplatesRequired user = Some (Json rm)"
    and "um_grbIndexer m n = Inr grbs" "\<And>b. b \<in> set grbs \<Longrightarrow> grb_UserName b = n \<and> bview (up_bindings s) (grb_Name b) = Some b"
  shows "wp (createUsersBindings m user)
    (\<lambda>_ s'. only_user old n ids (uview (up_users s')) \<and> (\<forall>r \<in> set (map_get rm ''required'' []). role_bound n (bview (up_bindings s')) r)) (\<lambda>_ _. True) s"
proof -
  define I where "I s1 \<longleftrightarrow> only_user old n ids (uview (up_users s1)) \<and> (\<forall>b \<in> set grbs. bview (up_bindings s1) (grb_Name b) = Some b)"
    for s1 :: "('u, 't, 'b, 'c, 'd, 'r) userState"
  let ?D = "\<lambda>r s1. role_bound n (bview (up_bindings s1)) r"
  let ?f = "\<lambda>role. if role \<in> set (map grb_GlobalRoleName grbs) then ret ()
       else bindA (bindingsA (ccreate (um_globalRoleBindings m)
         \<lparr>grb_Name = [], grb_UID = [], grb_Labels = [], grb_Annotations = [], grb_UserName = n, grb_GlobalRoleName = role\<rparr>)) (\<lambda>_. ret ())"
  have step: "wp (?f r) (\<lambda>_ w'. I w' \<and> ?D r w' \<and> (\<forall>y. ?D y w \<longrightarrow> ?D y w')) (\<lambda>_ _. True) w" if "I w" for r w
  proof (cases "r \<in> set (map grb_GlobalRoleName grbs)")
    case True
    then have "?D r w" using that assms(7) unfolding I_def role_bound_def by auto
    with True that show ?thesis by (simp add: wp_ret)
  next
    case False
    have "wp (bindA (bindingsA (ccreate (um_globalRoleBindings m)
         \<lparr>grb_Name = [], grb_UID = [], grb_Labels = [], grb_Annotations = [], grb_UserName = n, grb_GlobalRoleName = r\<rparr>)) (\<lambda>_. ret ()))
      (\<lambda>_ w'. I w' \<and> ?D r w' \<and> (\<forall>y. ?D y w \<longrightarrow> ?D y w')) (\<lambda>_ _. True) w"
      unfolding wp_simps
    proof (rule api_client.wp_create [OF assms(2)], goal_cases)
      case (1 w' y)
      have "?D q (up_bindings_update (\<lambda>_. w') w)" if q: "?D q w" for q
      proof -
        obtain k b where b: "bview (up_bindings w) k = Some b" "grb_UserName b = n" "grb_GlobalRoleName b = q" using q by (auto simp: role_bound_def)
        with 1(2) have "k \<noteq> grb_Name y" by auto
        with b 1(3) show ?thesis by (auto simp: role_bound_def)
      qed
      moreover have "?D r (up_bindings_update (\<lambda>_. w') w)" using grb_stored_fields [OF 1(1)] 1(3) by (auto simp: role_bound_def)
      moreover have "I (up_bindings_update (\<lambda>_. w') w)" using that 1(2,3) by (auto simp: I_def)
      ultimately show ?case by blast
    qed simp
    with False show ?thesis by simp
  qed
  have start: "I s" using assms(3,7) by (simp add: I_def)
  have "wp (bindA (forA ?f (map_get rm ''required'' [])) (\<lambda>_. record_roles m (map_put ''created'' (map_get rm ''required'' []) rm) (map_get rm ''required'' []) 4 n))
    (\<lambda>_ s'. only_user old n ids (uview (up_users s')) \<and> (\<forall>r \<in> set (map_get rm ''required'' []). ?D r s')) (\<lambda>_ _. True) s"
    unfolding wp_bindA
  proof (rule wp_forA_each [of I _ _ _ ?D, OF start step], goal_cases)
    case (2 w)
    then show ?case by (intro wp_record_roles [OF assms(1)]) (simp_all add: I_def)
  qed
  then show ?thesis by (simp add: createUsersBindings_def assms(4-6) Let_def cong: if_cong)
qed

lemma wp_CreateNewUserClusterRoleBinding:
  assumes "R (up_users s) (up_bindings s)"
  shows "wp (CreateNewUserClusterRoleBinding m userName userUID) (\<lambda>_ s'. R (up_users s') (up_bindings s')) (\<lambda>_ _. True) s"
  unfolding CreateNewUserClusterRoleBinding_def Let_def wp_simps
  by (intro branchI wp_anyI) (use assms in \<open>simp_all\<close>)

text \<open>
  C10. A first login leaves a complete user: if nobody has the principal's label and the login succeeds, the server holds a new user with the
  principal, the user is bound to every global role that new users get, and no other user has changed.
\<close>

theorem EnsureUser_first_login:
  fixes m :: "('u, 't, 'b, 'c, 'd, 'r) userManager"
  assumes "api_client (um_users m) us_Name uview user_stored uavail" "api_client (um_globalRoleBindings m) grb_Name bview grb_stored bavail"
    and "um_userIndexer m p = Inr []"
    and "\<And>k u. uview (up_users s) k = Some u \<Longrightarrow> map_of (us_Labels u) (principal_label p) \<noteq> Some hashedPrincipalName"
    and "um_globalRoleLister m = Inr roles"
    and "\<And>n. \<exists>grbs. um_grbIndexer m n = Inr grbs \<and> (\<forall>b \<in> set grbs. grb_UserName b = n \<and> bview (up_bindings s) (grb_Name b) = Some b)"
    and "EnsureUser m p displayName s = (Inr u, s')"
  shows "uview (up_users s) (us_Name u) = None \<and> only_user (uview (up_users s)) (us_Name u) [p] (uview (up_users s')) \<and>
    (\<forall>g \<in> set roles. gr_NewUserDefault g \<longrightarrow> role_bound (us_Name u) (bview (up_bindings s')) (gr_Name g))"
proof -
  obtain rm where annotation: "createUsersRoleAnnotation m = Inr (Json rm)"
    and required: "map_get rm ''required'' [] = map gr_Name (filter gr_NewUserDefault roles)"
    by (auto simp: createUsersRoleAnnotation_def assms(5) Let_def map_get_def)
  let ?Q = "\<lambda>u s'. uview (up_users s) (us_Name u) = None \<and> only_user (uview (up_users s)) (us_Name u) [p] (uview (up_users s')) \<and>
    (\<forall>r \<in> set (map_get rm ''required'' []). role_bound (us_Name u) (bview (up_bindings s')) r)"
  have "wp (bindA (usersA (ccreate (um_users m) (new_user m p displayName labels (Json rm)))) (\<lambda>user.
        bindA (CreateNewUserClusterRoleBinding m (us_Name user) (us_UID user)) (\<lambda>_. bindA (createUsersBindings m user) (\<lambda>_. ret user)))) ?Q (\<lambda>_ _. True) s1"
    if "uview (up_users s1) = uview (up_users s)" "up_bindings s1 = up_bindings s" for labels s1
    unfolding wp_bindA wp_zoomA
  proof (rule api_client.wp_create [OF assms(1)], goal_cases)
    case (1 w y)
    note y = user_stored_PrincipalIDs [OF 1(1)] user_stored_annotation [OF 1(1)]
    obtain grbs where grbs: "um_grbIndexer m (us_Name y) = Inr grbs"
      "\<And>b. b \<in> set grbs \<Longrightarrow> grb_UserName b = us_Name y \<and> bview (up_bindings s) (grb_Name b) = Some b" using assms(6) by blast
    have new: "uview (up_users s) (us_Name y) = None" using 1(2) that(1) by simp
    show ?case
    proof (rule wp_mono [OF wp_CreateNewUserClusterRoleBinding [of "\<lambda>us bs. only_user (uview (up_users s)) (us_Name y) [p] (uview us) \<and> bs = up_bindings s"]], goal_cases)
      case 1
      show ?case using \<open>uview w = _\<close> that y by (simp add: only_user_def new_user_def)
    next
      case (2 x s2)
      have "wp (createUsersBindings m y) (\<lambda>_ s'. only_user (uview (up_users s)) (us_Name y) [p] (uview (up_users s')) \<and>
          (\<forall>r \<in> set (map_get rm ''required'' []). role_bound (us_Name y) (bview (up_bindings s')) r)) (\<lambda>_ _. True) s2"
        by (rule wp_createUsersBindings [OF assms(1,2) _ refl _ grbs(1)]) (use 2 y(2) grbs(2) in \<open>simp_all add: new_user_def\<close>)
      then show ?case by (rule wp_mono) (use new in \<open>simp_all add: wp_ret\<close>)
    qed simp
  qed simp
  note created = this
  have "wp (EnsureUser m p displayName) ?Q (\<lambda>_ _. True) s"
  proof -
    have "wp (checkLabels m p) (\<lambda>x s1. fst x = None \<and> uview (up_users s1) = uview (up_users s) \<and> up_bindings s1 = up_bindings s) (\<lambda>_ _. True) s"
      unfolding checkLabels_def Let_def wp_simps
      by (rule api_client.wp_list [OF assms(1)]) (use assms(4) in \<open>fastforce simp: neq_Nil_conv\<close>)+
    then have "wp (checkLabels m p) (\<lambda>x. wp (case x of (found, labelSet) \<Rightarrow> (case found of
           Some user \<Rightarrow>
             if us_RoleTemplatesRequired user = None then ret user
             else if cond_true initialRolesPopulated (us_Conditions user) then ret user
             else bindA (createUsersBindings m user) (\<lambda>_. ret user)
         | None \<Rightarrow>
             bindA (liftR (createUsersRoleAnnotation m)) (\<lambda>annotation.
             bindA (usersA (ccreate (um_users m) (new_user m p displayName labelSet annotation))) (\<lambda>user.
             bindA (CreateNewUserClusterRoleBinding m (us_Name user) (us_UID user)) (\<lambda>_.
             bindA (createUsersBindings m user) (\<lambda>_. ret user)))))) ?Q (\<lambda>_ _. True)) (\<lambda>_ _. True) s"
      by (rule wp_mono) (use created annotation in \<open>auto split: prod.splits\<close>)
    moreover have "checkCache m p = Inr None" by (simp add: checkCache_def assms(3))
    ultimately show ?thesis unfolding EnsureUser_def by (simp add: wp_bindA)
  qed
  with assms(7) required show ?thesis by (auto simp: wp_iff)
qed

section \<open>Instances\<close>

definition user_sample :: "string \<Rightarrow> string \<Rightarrow> User" where
  "user_sample name p =
     \<lparr>us_Name = name, us_UID = [], us_Labels = [(principal_label p, hashedPrincipalName)], us_RoleTemplatesRequired = Some (Json []), us_DisplayName = [],
      us_Username = [], us_Password = [], us_MustChangePassword = False, us_PrincipalIDs = [p], us_Enabled = None,
      us_Conditions = [(initialRolesPopulated, ''True'')]\<rparr>"

definition role_sample :: "string \<Rightarrow> bool \<Rightarrow> GlobalRole" where
  "role_sample name b =
     \<lparr>gr_Name = name, gr_UID = [], gr_Labels = [], gr_Annotations = [], gr_DisplayName = [], gr_Rules = [], gr_NewUserDefault = b\<rparr>"

definition member_sample :: ClusterRoleTemplateBinding where
  "member_sample =
     \<lparr>ctb_Namespace = ''c1'', ctb_Name = ''crtb-1'', ctb_UID = [], ctb_UserName = [], ctb_UserPrincipalName = [], ctb_GroupName = [],
      ctb_GroupPrincipalName = ''github_team://7'', ctb_ClusterName = ''c1'', ctb_RoleTemplateName = ''cluster-member''\<rparr>"

definition manager_sample ::
    "User list \<Rightarrow> (User mem, Token mem, GlobalRoleBinding mem, ClusterRole mem, ClusterRoleBinding mem, nat) userManager" where
  "manager_sample cached =
     \<lparr>um_users = mem_client us_Name generate_user, um_globalRoleBindings = mem_client grb_Name generate_binding,
      um_globalRoleLister = Inr [role_sample ''user'' True, role_sample ''admin'' False], um_grbIndexer = (\<lambda>_. Inr []),
      um_userIndexer = indexed userByPrincipal cached, um_crtbIndexer = indexed crtbsByPrincipalAndUser [member_sample],
      um_prtbIndexer = indexed prtbsByPrincipalAndUser [], um_tokenLister = (\<lambda>_. Inl NotFound), um_tokens = mem_client tk_Name (\<lambda>_ t. t),
      um_clusterRoleLister = (\<lambda>_. Inl NotFound), um_clusterRoleBindingLister = (\<lambda>_. Inl NotFound),
      um_clusterRoles = mem_client cr_Name (\<lambda>_ r. r), um_clusterRoleBindings = mem_client crb_Name (\<lambda>_ b. b),
      um_rand = (\<lambda>n. (Inr (n mod 27), n + 1)), um_sha256 = rev\<rparr>"

definition user_state_sample ::
    "User list \<Rightarrow> (User mem, Token mem, GlobalRoleBinding mem, ClusterRole mem, ClusterRoleBinding mem, nat) userState" where
  "user_state_sample us =
     \<lparr>up_users = \<lparr>objs = us, faults = []\<rparr>, up_tokens = \<lparr>objs = [], faults = []\<rparr>, up_bindings = \<lparr>objs = [], faults = []\<rparr>,
      up_clusterRoles = \<lparr>objs = [], faults = []\<rparr>, up_clusterRoleBindings = \<lparr>objs = [], faults = []\<rparr>, up_rand = 0\<rparr>"

lemma user_clients:
  "api_client (um_users (manager_sample cached)) us_Name (mem_find us_Name) user_stored mem_avail"
  "api_client (um_globalRoleBindings (manager_sample cached)) grb_Name (mem_find grb_Name) grb_stored mem_avail"
  unfolding manager_sample_def userManager.simps by (rule us_mem.mem.api_client_axioms, rule grb_mem.mem.api_client_axioms)

theorem CheckAccess_iff_witness:
  "CheckAccess (manager_sample []) ''restricted'' [''local://u-1''] ''github_user://1'' [emptyPrincipal\<lparr>pr_Name := ''github_team://7''\<rparr>] = Inr True"
proof -
  let ?m = "manager_sample []" and ?groups = "[emptyPrincipal\<lparr>pr_Name := ''github_team://7''\<rparr>]"
  have "um_userIndexer ?m = indexed userByPrincipal []" "um_crtbIndexer ?m = indexed crtbsByPrincipalAndUser [member_sample]"
    "um_prtbIndexer ?m = indexed prtbsByPrincipalAndUser []" by (simp_all add: manager_sample_def)
  note iff = CheckAccess_iff [OF this, of "''restricted''" "[''local://u-1'']" "''github_user://1''" ?groups]
  have "may_login [] [member_sample] [] ''restricted'' [''local://u-1''] ''github_user://1'' ?groups"
    by (simp add: may_login_def bound_def member_sample_def crtbsByPrincipalAndUser_def)
  with iff show ?thesis by (rule iffD2)
qed


definition smith :: string where
  "smith = ''activedirectory_user://CN=Christopher Smith,OU=Sales''"

definition smithers :: string where
  "smithers = ''activedirectory_user://CN=Christopher Smithers,OU=IT''"

theorem EnsureUser_confuses_users_witness:
  "\<exists>s'. EnsureUser (manager_sample []) smith [] (user_state_sample [user_sample ''u-1'' smith, user_sample ''u-2'' smithers]) =
     (Inr (user_sample ''u-2'' smithers), s')"
proof -
  let ?s = "user_state_sample [user_sample ''u-1'' smith, user_sample ''u-2'' smithers]"
  let ?list = "clist (um_users (manager_sample [])) (\<lambda>u. map_of (us_Labels u) (principal_label smith) = Some hashedPrincipalName) (up_users ?s)"
  obtain r w' where run: "?list = (r, w')" by fastforce
  have "fst ?list = Inr [user_sample ''u-1'' smith, user_sample ''u-2'' smithers]" by code_simp
  with run have ok: "?list = (Inr [user_sample ''u-1'' smith, user_sample ''u-2'' smithers], w')" by simp
  have "um_userIndexer (manager_sample []) smith = Inr []" by (simp add: manager_sample_def indexed_def)
  from EnsureUser_confuses_users [OF this ok, of "[]"] show ?thesis
    by (auto simp: user_sample_def smith_def smithers_def cond_true_def)
qed

theorem EnsureUser_first_login_witness:
  "\<exists>u s'. EnsureUser (manager_sample []) ''github_user://1'' ''Jo'' (user_state_sample []) = (Inr u, s') \<and>
     only_user Map.empty (us_Name u) [''github_user://1''] (mem_find us_Name (up_users s')) \<and>
     role_bound (us_Name u) (mem_find grb_Name (up_bindings s')) ''user''"
proof -
  let ?m = "manager_sample []" and ?p = "''github_user://1''" and ?s = "user_state_sample []"
  obtain r s' where run: "EnsureUser ?m ?p ''Jo'' ?s = (r, s')" by fastforce
  have "\<not> isl (fst (EnsureUser ?m ?p ''Jo'' ?s))" by code_simp
  with run obtain u where ok: "EnsureUser ?m ?p ''Jo'' ?s = (Inr u, s')" by (cases r) auto
  have cache: "um_userIndexer ?m ?p = Inr []" by (simp add: manager_sample_def indexed_def)
  have roles: "um_globalRoleLister ?m = Inr [role_sample ''user'' True, role_sample ''admin'' False]" by (simp add: manager_sample_def)
  have none: "mem_find us_Name (up_users ?s) = Map.empty" by (simp add: user_state_sample_def mem_find_def fun_eq_iff)
  have "only_user (mem_find us_Name (up_users ?s)) (us_Name u) [?p] (mem_find us_Name (up_users s')) \<and>
     (\<forall>g \<in> set [role_sample ''user'' True, role_sample ''admin'' False]. gr_NewUserDefault g \<longrightarrow> role_bound (us_Name u) (mem_find grb_Name (up_bindings s')) (gr_Name g))"
    using EnsureUser_first_login [OF user_clients cache _ roles _ ok] none by (simp add: manager_sample_def)
  with ok none show ?thesis by (auto simp: role_sample_def)
qed

end
