(* ===== verification/GlobalRoles.thy ===== *)
theory GlobalRoles
  imports AccessControl
begin

text \<open>
  Global roles and their bindings in the management cluster: \<^verbatim>\<open>globalrole_handler.go\<close> and
  \<^verbatim>\<open>globalrolebinding_handler.go\<close> of \<^verbatim>\<open>src/pkg/controllers/management/auth\<close>.

  The handler of global roles assigns to the object that the lister returned, which is the one in the cache: the cache of cluster
  roles is part of the state.  The other listers are parameters.  The type metadata in owner references is that of the kind.
  Absent and empty lists of rules are not distinguished.  A handler that fails yields its error alone, without the object it was given.
\<close>

section \<open>Global roles\<close>

record ('c, 'b, 'r, 'l) globalState =
  gs_crCache :: "(string, ClusterRole) gomap"
  gs_clusterRoles :: 'c
  gs_clusterRoleBindings :: 'b
  gs_roles :: 'r
  gs_roleBindings :: 'l

definition globalRoleLabel :: "(string, string) gomap" where
  "globalRoleLabel = [(''authz.management.cattle.io/globalrole'', ''true'')]"

definition crNameAnnotation :: string where
  "crNameAnnotation = ''authz.management.cattle.io/cr-name''"

definition clusterRoleKind :: string where
  "clusterRoleKind = ''ClusterRole''"

definition generateCRName :: "string \<Rightarrow> string" where
  "generateCRName name = ''cattle-globalrole-'' @ name"

definition getCRName :: "GlobalRole \<Rightarrow> string" where
  "getCRName globalRole =
     (case map_of (gr_Annotations globalRole) crNameAnnotation of Some crName \<Rightarrow> crName | None \<Rightarrow> generateCRName (gr_Name globalRole))"

text \<open>The result is the global role as the handler leaves it.\<close>

definition reconcileGlobalRole ::
    "('c, string, ClusterRole) client \<Rightarrow> GlobalRole \<Rightarrow> (('c, 'b, 'r, 'l) globalState, GlobalRole) act" where
  "reconcileGlobalRole crClient globalRole s =
     (let crName = getCRName globalRole in
      case map_of (gs_crCache s) crName of
        Some clusterRole \<Rightarrow>
          if gr_Rules globalRole \<noteq> cr_Rules clusterRole then
            (let clusterRole = clusterRole\<lparr>cr_Rules := gr_Rules globalRole\<rparr> in
             caseA (zoomA gs_clusterRoles gs_clusterRoles_update (cupdate crClient clusterRole))
               (\<lambda>err. raise (Wrapped ''couldn't update ClusterRole'' err))
               (\<lambda>_. ret globalRole) (s\<lparr>gs_crCache := map_put crName clusterRole (gs_crCache s)\<rparr>))
          else ret globalRole s
      | None \<Rightarrow>
          bindA (zoomA gs_clusterRoles gs_clusterRoles_update (ccreate crClient
            \<lparr>cr_Name = crName, cr_Labels = globalRoleLabel, cr_Annotations = [],
             cr_Owners = [\<lparr>ow_Kind = ''GlobalRole'', ow_Name = gr_Name globalRole, ow_UID = gr_UID globalRole\<rparr>],
             cr_Rules = gr_Rules globalRole\<rparr>)) (\<lambda>_.
          ret (globalRole\<lparr>gr_Annotations := map_put crNameAnnotation crName (gr_Annotations globalRole)\<rparr>)) s)"

text \<open>\<^verbatim>\<open>Create\<close> returns the role, so that its annotation is stored; \<^verbatim>\<open>Updated\<close> returns nil.\<close>

definition gr_Create :: "('c, string, ClusterRole) client \<Rightarrow> GlobalRole \<Rightarrow> (('c, 'b, 'r, 'l) globalState, GlobalRole option) act" where
  "gr_Create crClient obj = bindA (reconcileGlobalRole crClient obj) (\<lambda>gr. ret (Some gr))"

definition gr_Updated :: "('c, string, ClusterRole) client \<Rightarrow> GlobalRole \<Rightarrow> (('c, 'b, 'r, 'l) globalState, GlobalRole option) act" where
  "gr_Updated crClient obj = bindA (reconcileGlobalRole crClient obj) (\<lambda>_. ret None)"

definition gr_Remove :: "GlobalRole \<Rightarrow> (('c, 'b, 'r, 'l) globalState, GlobalRole option) act" where
  "gr_Remove obj = ret None"

section \<open>Global role bindings\<close>

definition globalRoleBindingLabel :: "(string, string) gomap" where
  "globalRoleBindingLabel = [(''authz.management.cattle.io/globalrolebinding'', ''true'')]"

definition crbNameAnnotation :: string where
  "crbNameAnnotation = ''authz.management.cattle.io/crb-name''"

definition crbNamePrefix :: string where
  "crbNamePrefix = ''cattle-globalrolebinding-''"

definition globalCatalogRole :: string where "globalCatalogRole = ''global-catalog''"
definition globalCatalogRoleBinding :: string where "globalCatalogRoleBinding = ''global-catalog-binding''"
definition templateResourceRule :: string where "templateResourceRule = ''templates''"
definition templateVersionResourceRule :: string where "templateVersionResourceRule = ''templateversions''"
definition catalogTemplateResourceRule :: string where "catalogTemplateResourceRule = ''catalogtemplates''"
definition catalogTemplateVersionResourceRule :: string where "catalogTemplateVersionResourceRule = ''catalogtemplateversions''"
definition GlobalNamespace :: string where "GlobalNamespace = ''cattle-global-data''"

record ('b, 'r, 'l) globalRoleBindingLifecycle =
  gb_crbLister :: "string \<Rightarrow> ClusterRoleBinding result"
  gb_grLister :: "string \<Rightarrow> GlobalRole result"
  gb_crbClient :: "('b, string, ClusterRoleBinding) client"
  gb_roles :: "('r, string \<times> string, Role) client"
  gb_roleBindings :: "('l, string \<times> string, RoleBinding) client"

text \<open>The catalog rule of one matching rule: the first one makes it, later ones add their verbs.\<close>

definition merge_rule :: "string \<Rightarrow> PolicyRule \<Rightarrow> PolicyRule option \<Rightarrow> PolicyRule option" where
  "merge_rule resource rule acc =
     (case acc of
        None \<Rightarrow> Some \<lparr>p_APIGroups = p_APIGroups rule, p_Resources = [resource], p_ResourceNames = [], p_NonResourceURLs = [], p_Verbs = p_Verbs rule\<rparr>
      | Some r \<Rightarrow> Some (r\<lparr>p_Verbs := fold (\<lambda>v vs. if v \<in> set vs then vs else vs @ [v]) (p_Verbs rule) (p_Verbs r)\<rparr>))"

definition template_resource :: "PolicyRule \<Rightarrow> string \<Rightarrow> PolicyRule option \<times> PolicyRule option \<Rightarrow> PolicyRule option \<times> PolicyRule option" where
  "template_resource rule resource acc =
     (case acc of (template, version) \<Rightarrow>
        if resource = templateResourceRule then (merge_rule catalogTemplateResourceRule rule template, version)
        else if resource = templateVersionResourceRule then (template, merge_rule catalogTemplateVersionResourceRule rule version)
        else acc)"

definition catalog_rules :: "PolicyRule list \<Rightarrow> PolicyRule list" where
  "catalog_rules rs =
     (case fold (\<lambda>rule. fold (template_resource rule) (p_Resources rule)) rs (None, None) of
        (template, version) \<Rightarrow> List.map_filter id [template, version])"

definition addRulesForTemplateAndTemplateVersions ::
    "('b, 'r, 'l) globalRoleBindingLifecycle \<Rightarrow> GlobalRoleBinding \<Rightarrow> Subject \<Rightarrow> (('c, 'b, 'r, 'l) globalState, unit) act" where
  "addRulesForTemplateAndTemplateVersions grb globalRoleBinding subject =
     bindA (case gb_grLister grb (grb_GlobalRoleName globalRoleBinding) of
         Inl err \<Rightarrow> if IsNotFound err then ret [] else raise err
       | Inr gr \<Rightarrow> ret (catalog_rules (gr_Rules gr))) (\<lambda>rules.
     if rules = [] then ret ()
     else
       bindA (caseA (zoomA gs_roles gs_roles_update (cget (gb_roles grb) (GlobalNamespace, globalCatalogRole)))
         (\<lambda>err. if IsNotFound err then
              caseA (zoomA gs_roles gs_roles_update (ccreate (gb_roles grb)
                  \<lparr>ro_Namespace = GlobalNamespace, ro_Name = globalCatalogRole, ro_Labels = [], ro_Owners = [], ro_Rules = rules\<rparr>))
                (\<lambda>err. if IsAlreadyExists err then ret () else raise err) (\<lambda>_. ret ())
            else raise err)
         (\<lambda>_. ret ())) (\<lambda>_.
       let grbName = grb_UserName globalRoleBinding @ ''-'' @ globalCatalogRoleBinding in
       caseA (zoomA gs_roleBindings gs_roleBindings_update (cget (gb_roleBindings grb) (GlobalNamespace, grbName)))
         (\<lambda>err. if IsNotFound err then
              caseA (zoomA gs_roleBindings gs_roleBindings_update (ccreate (gb_roleBindings grb)
                  \<lparr>rb_Namespace = GlobalNamespace, rb_Name = grbName, rb_Labels = [], rb_Owners = [], rb_Subjects = [subject],
                   rb_RoleRef = \<lparr>rr_APIGroup = [], rr_Kind = ''Role'', rr_Name = globalCatalogRole\<rparr>\<rparr>))
                (\<lambda>err. if IsAlreadyExists err then ret () else raise err) (\<lambda>_. ret ())
            else raise err)
         (\<lambda>_. ret ())))"

definition binding_name :: "GlobalRoleBinding \<Rightarrow> string" where
  "binding_name globalRoleBinding = map_get (grb_Annotations globalRoleBinding) crbNameAnnotation (crbNamePrefix @ grb_Name globalRoleBinding)"

definition binding_subject :: "GlobalRoleBinding \<Rightarrow> Subject" where
  "binding_subject globalRoleBinding =
     \<lparr>sj_Kind = ''User'', sj_Name = grb_UserName globalRoleBinding, sj_Namespace = [], sj_APIGroup = rbacGroup\<rparr>"

definition reconcileGlobalRoleBinding ::
    "('b, 'r, 'l) globalRoleBindingLifecycle \<Rightarrow> GlobalRoleBinding \<Rightarrow> (('c, 'b, 'r, 'l) globalState, GlobalRoleBinding) act" where
  "reconcileGlobalRoleBinding grb globalRoleBinding =
     (let crbName = binding_name globalRoleBinding; subject = binding_subject globalRoleBinding;
          gr = gb_grLister grb (grb_GlobalRoleName globalRoleBinding) in
      case gb_crbLister grb crbName of
        Inr crb \<Rightarrow>
          (let updateSubject = [subject] \<noteq> crb_Subjects crb;
               updateRoleRef = (case gr of Inl _ \<Rightarrow> False | Inr g \<Rightarrow> getCRName g \<noteq> rr_Name (crb_RoleRef crb)) in
           bindA (if updateSubject \<or> updateRoleRef then
               caseA (zoomA gs_clusterRoleBindings gs_clusterRoleBindings_update (cupdate (gb_crbClient grb)
                   (crb\<lparr>crb_RoleRef := (case gr of Inr g \<Rightarrow> if updateRoleRef then \<lparr>rr_APIGroup = [], rr_Kind = clusterRoleKind, rr_Name = getCRName g\<rparr>
                                         else crb_RoleRef crb | Inl _ \<Rightarrow> crb_RoleRef crb),
                        crb_Subjects := [subject]\<rparr>)))
                 (\<lambda>err. raise (Wrapped ''couldn't update ClusterRoleBinding'' err)) (\<lambda>_. ret ())
             else ret ()) (\<lambda>_.
           bindA (addRulesForTemplateAndTemplateVersions grb globalRoleBinding subject) (\<lambda>_. ret globalRoleBinding)))
      | Inl _ \<Rightarrow>
          (let crName = (case gr of Inr g \<Rightarrow> getCRName g | Inl _ \<Rightarrow> generateCRName (grb_GlobalRoleName globalRoleBinding)) in
           bindA (zoomA gs_clusterRoleBindings gs_clusterRoleBindings_update (ccreate (gb_crbClient grb)
             \<lparr>crb_Name = crbName, crb_Labels = globalRoleBindingLabel,
              crb_Owners = [\<lparr>ow_Kind = ''GlobalRoleBinding'', ow_Name = grb_Name globalRoleBinding, ow_UID = grb_UID globalRoleBinding\<rparr>],
              crb_Subjects = [subject], crb_RoleRef = \<lparr>rr_APIGroup = [], rr_Kind = clusterRoleKind, rr_Name = crName\<rparr>\<rparr>)) (\<lambda>_.
           bindA (addRulesForTemplateAndTemplateVersions grb globalRoleBinding subject) (\<lambda>_.
           ret (globalRoleBinding\<lparr>grb_Annotations := map_put crbNameAnnotation crbName (grb_Annotations globalRoleBinding)\<rparr>)))))"

definition grb_Create ::
    "('b, 'r, 'l) globalRoleBindingLifecycle \<Rightarrow> GlobalRoleBinding \<Rightarrow> (('c, 'b, 'r, 'l) globalState, GlobalRoleBinding option) act" where
  "grb_Create grb obj = bindA (reconcileGlobalRoleBinding grb obj) (\<lambda>b. ret (Some b))"

definition grb_Updated ::
    "('b, 'r, 'l) globalRoleBindingLifecycle \<Rightarrow> GlobalRoleBinding \<Rightarrow> (('c, 'b, 'r, 'l) globalState, GlobalRoleBinding option) act" where
  "grb_Updated grb obj = bindA (reconcileGlobalRoleBinding grb obj) (\<lambda>_. ret None)"

definition grb_Remove :: "GlobalRoleBinding \<Rightarrow> (('c, 'b, 'r, 'l) globalState, GlobalRoleBinding option) act" where
  "grb_Remove obj = ret None"

end
