(* ===== verification/GlobalRolesFacts.thy ===== *)
theory GlobalRolesFacts
  imports GlobalRoles
begin

text \<open>
  Properties of the handlers of global roles: what a global role and its binding grant in the end, together with the access control of
  the API; the update that is lost when the server refuses it once; and the catalog role that all global roles share.
\<close>

lemma wp_cong: "m s = n s' \<Longrightarrow> wp m Q E s = wp n Q E s'"
  by (simp add: wp_def)

section \<open>What the server stores\<close>

text \<open>The API server fills in the API group of a role reference.\<close>

definition cr_stored :: "ClusterRole \<Rightarrow> ClusterRole \<Rightarrow> bool" where
  "cr_stored x y \<longleftrightarrow> cr_Name y = cr_Name x \<and> cr_Rules y = cr_Rules x"

definition default_ref :: "RoleRef \<Rightarrow> RoleRef" where
  "default_ref r = (if rr_APIGroup r = [] then r\<lparr>rr_APIGroup := rbacGroup\<rparr> else r)"

definition crb_stored :: "ClusterRoleBinding \<Rightarrow> ClusterRoleBinding \<Rightarrow> bool" where
  "crb_stored x y \<longleftrightarrow> crb_Name y = crb_Name x \<and> crb_Subjects y = crb_Subjects x \<and> crb_RoleRef y = default_ref (crb_RoleRef x)"

section \<open>Global roles\<close>

definition cr_cached :: "(string, ClusterRole) gomap \<Rightarrow> (string \<Rightarrow> ClusterRole option) \<Rightarrow> bool" where
  "cr_cached cache roles \<longleftrightarrow>
     (\<forall>n c. map_of cache n = Some c \<longrightarrow> cr_Name c = n \<and> (\<exists>c'. roles n = Some c' \<and> cr_Rules c' = cr_Rules c))"

lemma wp_reconcileGlobalRole:
  assumes "api_client crClient cr_Name cview cr_stored cavail" "cr_cached (gs_crCache s) (cview (gs_clusterRoles s))"
  shows "wp (reconcileGlobalRole crClient gr)
    (\<lambda>gr' s'. getCRName gr' = getCRName gr \<and> gr_Rules gr' = gr_Rules gr \<and> gs_clusterRoleBindings s' = gs_clusterRoleBindings s \<and>
       (\<exists>c. cview (gs_clusterRoles s') (getCRName gr) = Some c \<and> cr_Rules c = gr_Rules gr))
    (\<lambda>_ _. True) s"
proof (cases "map_of (gs_crCache s) (getCRName gr)")
  case None
  let ?role = "\<lparr>cr_Name = getCRName gr, cr_Labels = globalRoleLabel, cr_Annotations = [],
     cr_Owners = [\<lparr>ow_Kind = ''GlobalRole'', ow_Name = gr_Name gr, ow_UID = gr_UID gr\<rparr>], cr_Rules = gr_Rules gr\<rparr>"
  let ?gr = "gr\<lparr>gr_Annotations := map_put crNameAnnotation (getCRName gr) (gr_Annotations gr)\<rparr>"
  have name: "getCRName ?gr = getCRName gr" by (simp add: getCRName_def)
  let ?act = "bindA (zoomA gs_clusterRoles gs_clusterRoles_update (ccreate crClient ?role)) (\<lambda>_. ret ?gr)"
  have run: "reconcileGlobalRole crClient gr s = ?act s"
    by (simp add: reconcileGlobalRole_def Let_def None)
  show ?thesis
    unfolding wp_cong [of "reconcileGlobalRole crClient gr" s ?act s, OF run] wp_simps
    by (rule api_client.wp_create [OF assms(1)]) (use name in \<open>auto simp: cr_stored_def\<close>)
next
  case (Some c)
  then obtain c' where c: "cr_Name c = getCRName gr" "cview (gs_clusterRoles s) (getCRName gr) = Some c'" "cr_Rules c' = cr_Rules c"
    using assms(2) unfolding cr_cached_def by blast
  show ?thesis
  proof (cases "gr_Rules gr = cr_Rules c")
    case True
    then have run: "reconcileGlobalRole crClient gr s = ret gr s" by (simp add: reconcileGlobalRole_def Let_def Some)
    show ?thesis unfolding wp_cong [of "reconcileGlobalRole crClient gr" s "ret gr" s, OF run] wp_simps using True c by simp
  next
    case False
    let ?c = "c\<lparr>cr_Rules := gr_Rules gr\<rparr>"
    let ?act = "caseA (zoomA gs_clusterRoles gs_clusterRoles_update (cupdate crClient ?c))
          (\<lambda>err. raise (Wrapped ''couldn't update ClusterRole'' err)) (\<lambda>_. ret gr)"
    let ?s = "s\<lparr>gs_crCache := map_put (getCRName gr) ?c (gs_crCache s)\<rparr>"
    have run: "reconcileGlobalRole crClient gr s = ?act ?s"
      using False by (simp add: reconcileGlobalRole_def Let_def Some)
    show ?thesis
      unfolding wp_cong [of "reconcileGlobalRole crClient gr" s ?act ?s, OF run] wp_simps
      by (rule api_client.wp_update [OF assms(1)]) (use c in \<open>auto simp: cr_stored_def\<close>)
  qed
qed

text \<open>
  C35. An update that the server refuses is lost: the handler has already put the new rules into the cache, so the retry finds nothing to do and
  reports success, and the server keeps the old rules.
\<close>

theorem reconcileGlobalRole_lost_update:
  assumes "api_client crClient cr_Name cview cr_stored cavail"
    and "map_of (gs_crCache s) (getCRName gr) = Some c" "gr_Rules gr \<noteq> cr_Rules c"
    and "reconcileGlobalRole crClient gr s = (Inl err, s1)"
  shows "reconcileGlobalRole crClient gr s1 = (Inr gr, s1) \<and> cview (gs_clusterRoles s1) = cview (gs_clusterRoles s)"
proof -
  let ?c = "c\<lparr>cr_Rules := gr_Rules gr\<rparr>"
  let ?act = "caseA (zoomA gs_clusterRoles gs_clusterRoles_update (cupdate crClient ?c))
        (\<lambda>err. raise (Wrapped ''couldn't update ClusterRole'' err)) (\<lambda>_. ret gr)"
  let ?s = "s\<lparr>gs_crCache := map_put (getCRName gr) ?c (gs_crCache s)\<rparr>"
  have run: "reconcileGlobalRole crClient gr s = ?act ?s"
    using assms(2,3) by (simp add: reconcileGlobalRole_def Let_def)
  have "wp (reconcileGlobalRole crClient gr) (\<lambda>_ _. True)
      (\<lambda>_ s1. gs_crCache s1 = map_put (getCRName gr) ?c (gs_crCache s) \<and> cview (gs_clusterRoles s1) = cview (gs_clusterRoles s)) s"
    unfolding wp_cong [of "reconcileGlobalRole crClient gr" s ?act ?s, OF run] wp_simps by (rule api_client.wp_update [OF assms(1)]) simp_all
  with assms(4) have "gs_crCache s1 = map_put (getCRName gr) ?c (gs_crCache s)" "cview (gs_clusterRoles s1) = cview (gs_clusterRoles s)"
    by (simp_all add: wp_iff)
  then show ?thesis by (simp add: reconcileGlobalRole_def Let_def)
qed

section \<open>Bindings\<close>

lemma wp_addRules:
  assumes "R (gs_clusterRoles s) (gs_clusterRoleBindings s)"
  shows "wp (addRulesForTemplateAndTemplateVersions grb b subject) (\<lambda>_ s'. R (gs_clusterRoles s') (gs_clusterRoleBindings s')) (\<lambda>_ _. True) s"
  unfolding addRulesForTemplateAndTemplateVersions_def Let_def wp_simps
  by (intro branchI wp_anyI) (use assms in simp_all)

text \<open>The binding a global role binding stands for.\<close>

definition binds :: "ClusterRoleBinding \<Rightarrow> GlobalRoleBinding \<Rightarrow> string \<Rightarrow> bool" where
  "binds crb b crName \<longleftrightarrow>
     crb_Subjects crb = [binding_subject b] \<and> crb_RoleRef crb = \<lparr>rr_APIGroup = rbacGroup, rr_Kind = clusterRoleKind, rr_Name = crName\<rparr>"

lemma wp_reconcileGlobalRoleBinding:
  assumes "api_client (gb_crbClient grb) crb_Name bview crb_stored bavail" "gb_grLister grb (grb_GlobalRoleName b) = Inr gr"
    and "\<And>crb. gb_crbLister grb (binding_name b) = Inr crb \<Longrightarrow> bview (gs_clusterRoleBindings s) (binding_name b) = Some crb \<and>
      rr_APIGroup (crb_RoleRef crb) = rbacGroup \<and> rr_Kind (crb_RoleRef crb) = clusterRoleKind"
  shows "wp (reconcileGlobalRoleBinding grb b)
    (\<lambda>_ s'. gs_clusterRoles s' = gs_clusterRoles s \<and> (\<exists>n crb. bview (gs_clusterRoleBindings s') n = Some crb \<and> binds crb b (getCRName gr)))
    (\<lambda>_ _. True) s"
proof -
  define R where "R cr bs \<longleftrightarrow> cr = gs_clusterRoles s \<and> (\<exists>n crb. bview bs n = Some crb \<and> binds crb b (getCRName gr))" for cr bs
  have rest: "wp (bindA (addRulesForTemplateAndTemplateVersions grb b subject) (\<lambda>_. ret x)) (\<lambda>_ s'. R (gs_clusterRoles s') (gs_clusterRoleBindings s')) (\<lambda>_ _. True) s1"
    if "R (gs_clusterRoles s1) (gs_clusterRoleBindings s1)" for subject x s1
    unfolding wp_bindA by (rule wp_mono [OF wp_addRules [of R, OF that]]) (simp_all add: wp_ret)
  have ref: "r = \<lparr>rr_APIGroup = rbacGroup, rr_Kind = clusterRoleKind, rr_Name = n\<rparr>"
    if "rr_APIGroup r = rbacGroup" "rr_Kind r = clusterRoleKind" "rr_Name r = n" for r n
    using that by simp
  have "wp (reconcileGlobalRoleBinding grb b) (\<lambda>_ s'. R (gs_clusterRoles s') (gs_clusterRoleBindings s')) (\<lambda>_ _. True) s"
  proof (cases "gb_crbLister grb (binding_name b)")
    case (Inl e)
    show ?thesis
      unfolding reconcileGlobalRoleBinding_def Let_def Inl assms(2) sum.case wp_bindA [of "zoomA _ _ _"] wp_zoomA
    proof (rule api_client.wp_create [OF assms(1)], goal_cases)
      case (1 w y)
      then have "R (gs_clusterRoles s) w" by (auto simp: R_def binds_def crb_stored_def default_ref_def)
      then show ?case by (intro rest) simp
    qed simp
  next
    case (Inr crb)
    note cached = assms(3) [OF Inr]
    show ?thesis
    proof (cases "[binding_subject b] \<noteq> crb_Subjects crb \<or> getCRName gr \<noteq> rr_Name (crb_RoleRef crb)")
      case False
      then have "crb_RoleRef crb = \<lparr>rr_APIGroup = rbacGroup, rr_Kind = clusterRoleKind, rr_Name = getCRName gr\<rparr>" by (intro ref) (use cached in simp_all)
      with False have "binds crb b (getCRName gr)" by (simp add: binds_def)
      with cached have "R (gs_clusterRoles s) (gs_clusterRoleBindings s)" unfolding R_def by blast
      with False rest show ?thesis unfolding reconcileGlobalRoleBinding_def Let_def Inr assms(2) by simp
    next
      case True
      let ?crb = "crb\<lparr>crb_RoleRef := (if getCRName gr \<noteq> rr_Name (crb_RoleRef crb) then \<lparr>rr_APIGroup = [], rr_Kind = clusterRoleKind, rr_Name = getCRName gr\<rparr>
          else crb_RoleRef crb), crb_Subjects := [binding_subject b]\<rparr>"
      have new: "R (gs_clusterRoles s) w" if "crb_stored ?crb y" "bview w = (bview (gs_clusterRoleBindings s))(crb_Name ?crb \<mapsto> y)" for w y
        using that cached ref [of "crb_RoleRef crb"] by (auto simp: R_def binds_def crb_stored_def default_ref_def rbacGroup_def split: if_splits)
      have "wp (bindA (caseA (zoomA gs_clusterRoleBindings gs_clusterRoleBindings_update (cupdate (gb_crbClient grb) ?crb))
          (\<lambda>err. raise (Wrapped ''couldn't update ClusterRoleBinding'' err)) (\<lambda>_. ret ()))
          (\<lambda>_. bindA (addRulesForTemplateAndTemplateVersions grb b (binding_subject b)) (\<lambda>_. ret b)))
          (\<lambda>_ s'. R (gs_clusterRoles s') (gs_clusterRoleBindings s')) (\<lambda>_ _. True) s"
        unfolding wp_bindA [of "caseA _ _ _"] wp_caseA wp_zoomA
      proof (rule api_client.wp_update [OF assms(1)], goal_cases)
        case (1 w y)
        from new [OF 1(1,4)] show ?case unfolding wp_ret by (intro rest) simp
      qed (simp add: wp_raise)
      with True show ?thesis unfolding reconcileGlobalRoleBinding_def Let_def Inr assms(2) sum.case by simp
    qed
  qed
  then show ?thesis by (rule wp_mono) (simp_all add: R_def)
qed

section \<open>What global roles grant\<close>

lemma cluster_rulesI:
  "crb \<in> set (ch_clusterRoleBindings ch) \<Longrightarrow> sub \<in> set (crb_Subjects crb) \<Longrightarrow> (sj_Kind sub, sj_Name sub) = x \<Longrightarrow>
   rule \<in> ref_rules ch ''*'' (crb_RoleRef crb) \<Longrightarrow> rule \<in> cluster_rules ch x"
  unfolding cluster_rules_def by blast

lemma bound_rulesI:
  "rb \<in> set (ch_roleBindings ch) \<Longrightarrow> rb_Namespace rb = ns \<Longrightarrow> sub \<in> set (rb_Subjects rb) \<Longrightarrow> (sj_Kind sub, sj_Name sub) = x \<Longrightarrow>
   rule \<in> ref_rules ch ns (rb_RoleRef rb) \<Longrightarrow> rule \<in> bound_rules ch x ns"
  unfolding bound_rules_def by blast

text \<open>The caches of the access control show what the servers hold.\<close>

definition shows_cluster :: "rbacCache \<Rightarrow> (string \<Rightarrow> ClusterRole option) \<Rightarrow> (string \<Rightarrow> ClusterRoleBinding option) \<Rightarrow> bool" where
  "shows_cluster ch roles bindings \<longleftrightarrow>
     (\<forall>n c. roles n = Some c \<longrightarrow> ch_clusterRoles ch n = Inr c) \<and> (\<forall>n b. bindings n = Some b \<longrightarrow> b \<in> set (ch_clusterRoleBindings ch))"

definition shows_namespaced :: "rbacCache \<Rightarrow> (string \<times> string \<Rightarrow> Role option) \<Rightarrow> (string \<times> string \<Rightarrow> RoleBinding option) \<Rightarrow> bool" where
  "shows_namespaced ch roles bindings \<longleftrightarrow>
     (\<forall>ns n r. roles (ns, n) = Some r \<longrightarrow> ch_roles ch ns n = Inr r) \<and> (\<forall>k b. bindings k = Some b \<longrightarrow> b \<in> set (ch_roleBindings ch))"


section \<open>The catalog role\<close>

definition role_key :: "Role \<Rightarrow> string \<times> string" where
  "role_key r = (ro_Namespace r, ro_Name r)"

definition rb_key :: "RoleBinding \<Rightarrow> string \<times> string" where
  "rb_key b = (rb_Namespace b, rb_Name b)"

definition rb_stored :: "RoleBinding \<Rightarrow> RoleBinding \<Rightarrow> bool" where
  "rb_stored x y \<longleftrightarrow> rb_key y = rb_key x \<and> rb_Subjects y = rb_Subjects x \<and> rb_RoleRef y = default_ref (rb_RoleRef x)"

lemma wp_addRules_catalog:
  assumes "api_client (gb_roles grb) role_key rview rstored ravail" "api_client (gb_roleBindings grb) rb_key lview rb_stored lavail"
    and "rview (gs_roles s) (GlobalNamespace, globalCatalogRole) = Some role0" "lavail (gs_roleBindings s)"
    and "lview (gs_roleBindings s) (GlobalNamespace, grb_UserName b @ ''-'' @ globalCatalogRoleBinding) = None"
    and "gb_grLister grb (grb_GlobalRoleName b) = Inr gr" "catalog_rules (gr_Rules gr) \<noteq> []"
  shows "wp (addRulesForTemplateAndTemplateVersions grb b subject)
    (\<lambda>_ s'. rview (gs_roles s') (GlobalNamespace, globalCatalogRole) = Some role0 \<and>
       (\<exists>k rb. lview (gs_roleBindings s') k = Some rb \<and> rb_Namespace rb = GlobalNamespace \<and> rb_Subjects rb = [subject] \<and>
          rb_RoleRef rb = \<lparr>rr_APIGroup = rbacGroup, rr_Kind = ''Role'', rr_Name = globalCatalogRole\<rparr>))
    (\<lambda>_ _. True) s"
  unfolding addRulesForTemplateAndTemplateVersions_def Let_def wp_simps assms(6) sum.case if_not_P [OF assms(7)]
proof (rule api_client.wp_get [OF assms(1)], goal_cases)
  case (1 w x)
  show ?case
    by (intro ifI api_client.wp_get [OF assms(2)] api_client.wp_create [OF assms(2)])
      (use 1 assms(3-5) in \<open>auto simp: rb_stored_def rb_key_def default_ref_def intro!: exI\<close>)
next
  case (2 w e)
  then show ?case using assms(3) by (auto simp: IsNotFound_def)
qed

text \<open>
  C34. All global roles share one catalog role, whose rules are those of the global role that came first: a user whose global role has any rule
  on templates is bound to it and so gets, in the global namespace, whatever that first role allowed, even if the own role allows less.
\<close>

theorem catalog_role_shared:
  assumes "api_client (gb_roles grb) role_key rview rstored ravail" "api_client (gb_roleBindings grb) rb_key lview rb_stored lavail"
    and "rview (gs_roles s) (GlobalNamespace, globalCatalogRole) = Some role0" "lavail (gs_roleBindings s)"
    and "lview (gs_roleBindings s) (GlobalNamespace, grb_UserName b @ ''-'' @ globalCatalogRoleBinding) = None"
    and "gb_grLister grb (grb_GlobalRoleName b) = Inr gr" "catalog_rules (gr_Rules gr) \<noteq> []"
    and "addRulesForTemplateAndTemplateVersions grb b (binding_subject b) s = (Inr (), s')"
    and "shows_namespaced ch (rview (gs_roles s')) (lview (gs_roleBindings s'))" "plain_cache ch"
    and "getUser req = grb_UserName b" "object_ns ob = GlobalNamespace" "rule \<in> set (ro_Rules role0)" "grants_all rule g r v"
  shows "CanDo (NewListPermissionStore ch) g r v req (Some ob) = Inr ()"
proof -
  obtain k rb where rb: "rview (gs_roles s') (GlobalNamespace, globalCatalogRole) = Some role0" "lview (gs_roleBindings s') k = Some rb"
      "rb_Namespace rb = GlobalNamespace" "rb_Subjects rb = [binding_subject b]"
      "rb_RoleRef rb = \<lparr>rr_APIGroup = rbacGroup, rr_Kind = ''Role'', rr_Name = globalCatalogRole\<rparr>"
    using wp_addRules_catalog [OF assms(1-7), of "binding_subject b"] assms(8) by (auto simp: wp_iff)
  then have "ch_roles ch GlobalNamespace globalCatalogRole = Inr role0" "rb \<in> set (ch_roleBindings ch)"
    using assms(9) unfolding shows_namespaced_def by blast+
  with rb assms(13) have "rule \<in> bound_rules ch (''User'', grb_UserName b) GlobalNamespace"
    by (intro bound_rulesI [of rb _ _ "binding_subject b"]) (simp_all add: ref_rules_def binding_subject_def)
  moreover have "(''User'', grb_UserName b) \<in> request_subjects req" using assms(11) by (simp add: request_subjects_def)
  ultimately have "authorized ch req g r v (object_ns ob) (object_name ob)"
    unfolding assms(12) authorized_def using assms(14) by blast
  moreover have "object_ns ob \<noteq> ''*''" using assms(12) by (simp add: GlobalNamespace_def)
  ultimately show ?thesis by (simp add: CanDo_def canAccess_authorized [OF assms(10)])
qed

section \<open>Instances\<close>

text \<open>A server that fills in defaults before it stores an object.\<close>

definition defaulting :: "('o \<Rightarrow> 'o) \<Rightarrow> ('w, 'k, 'o) client \<Rightarrow> ('w, 'k, 'o) client" where
  "defaulting norm cl = cl\<lparr>ccreate := \<lambda>x. ccreate cl (norm x), cupdate := \<lambda>x. cupdate cl (norm x)\<rparr>"

lemma defaulting_client:
  assumes "api_client cl key view stored avail" "\<And>x. key (norm x) = key x" "\<And>x y. stored (norm x) y \<Longrightarrow> stored' x y"
  shows "api_client (defaulting norm cl) key view stored' avail"
proof -
  note a = api_client.get_ok [OF assms(1)] api_client.get_err [OF assms(1)] api_client.list_ok [OF assms(1)] api_client.list_err [OF assms(1)]
    api_client.create_err [OF assms(1)] api_client.update_err [OF assms(1)] api_client.delete_ok [OF assms(1)] api_client.delete_err [OF assms(1)]
    api_client.avail_get [OF assms(1)] api_client.avail_list [OF assms(1)] api_client.avail_delete [OF assms(1)] api_client.view_key [OF assms(1)]
  have sel: "cget (defaulting norm cl) = cget cl" "clist (defaulting norm cl) = clist cl" "cdelete (defaulting norm cl) = cdelete cl"
    "ccreate (defaulting norm cl) x = ccreate cl (norm x)" "cupdate (defaulting norm cl) x = cupdate cl (norm x)" for x
    by (simp_all add: defaulting_def)
  show ?thesis
  proof
    fix x y w w' assume "ccreate (defaulting norm cl) x w = (Inr y, w')"
    then show "stored' x y \<and> view w (key y) = None \<and> view w' = (view w)(key y \<mapsto> y)"
      using api_client.create_ok [OF assms(1), of "norm x" w y w'] assms(3) by (simp add: defaulting_def)
  next
    fix x y w w' assume "cupdate (defaulting norm cl) x w = (Inr y, w')"
    then show "stored' x y \<and> key y = key x \<and> view w (key x) \<noteq> None \<and> view w' = (view w)(key x \<mapsto> y)"
      using api_client.update_ok [OF assms(1), of "norm x" w y w'] assms(2,3) by (simp add: defaulting_def)
  next
    fix x w assume "avail w"
    then show "avail (snd (ccreate (defaulting norm cl) x w)) \<and> (view w (key x) = None \<longrightarrow> (\<exists>y. fst (ccreate (defaulting norm cl) x w) = Inr y))"
      "avail (snd (cupdate (defaulting norm cl) x w)) \<and> (view w (key x) \<noteq> None \<longrightarrow> (\<exists>y. fst (cupdate (defaulting norm cl) x w) = Inr y))"
      using api_client.avail_create [OF assms(1), of w "norm x"] api_client.avail_update [OF assms(1), of w "norm x"] assms(2)
      by (simp_all add: defaulting_def)
  qed (unfold sel, (erule a)+)
qed

definition default_crb :: "ClusterRoleBinding \<Rightarrow> ClusterRoleBinding" where
  "default_crb b = b\<lparr>crb_RoleRef := default_ref (crb_RoleRef b)\<rparr>"

definition default_rb :: "RoleBinding \<Rightarrow> RoleBinding" where
  "default_rb b = b\<lparr>rb_RoleRef := default_ref (rb_RoleRef b)\<rparr>"

interpretation cr_mem: mem_server cr_Name "\<lambda>_ r. r" cr_stored
  by unfold_locales (auto simp: cr_stored_def)

interpretation crb_mem: mem_server crb_Name "\<lambda>_ b. b" "(=)"
  by unfold_locales auto

interpretation ro_mem: mem_server role_key "\<lambda>_ r. r" "(=)"
  by unfold_locales auto

interpretation rb_mem: mem_server rb_key "\<lambda>_ b. b" "(=)"
  by unfold_locales auto

definition sample_lifecycle :: "GlobalRole \<Rightarrow> (ClusterRoleBinding mem, Role mem, RoleBinding mem) globalRoleBindingLifecycle" where
  "sample_lifecycle gr =
     \<lparr>gb_crbLister = (\<lambda>_. Inl NotFound), gb_grLister = (\<lambda>_. Inr gr),
      gb_crbClient = defaulting default_crb (mem_client crb_Name (\<lambda>_ b. b)), gb_roles = mem_client role_key (\<lambda>_ r. r),
      gb_roleBindings = defaulting default_rb (mem_client rb_key (\<lambda>_ b. b))\<rparr>"

lemma sample_lifecycle_clients:
  "api_client (gb_crbClient (sample_lifecycle gr)) crb_Name (mem_find crb_Name) crb_stored mem_avail"
  "api_client (gb_roles (sample_lifecycle gr)) role_key (mem_find role_key) (=) mem_avail"
  "api_client (gb_roleBindings (sample_lifecycle gr)) rb_key (mem_find rb_key) rb_stored mem_avail"
proof -
  show "api_client (gb_roles (sample_lifecycle gr)) role_key (mem_find role_key) (=) mem_avail"
    using ro_mem.mem.api_client_axioms by (simp add: sample_lifecycle_def)
  have "api_client (defaulting default_crb (mem_client crb_Name (\<lambda>_ b. b))) crb_Name (mem_find crb_Name) crb_stored mem_avail"
    by (rule defaulting_client [OF crb_mem.mem.api_client_axioms]) (auto simp: default_crb_def crb_stored_def)
  then show "api_client (gb_crbClient (sample_lifecycle gr)) crb_Name (mem_find crb_Name) crb_stored mem_avail" by (simp add: sample_lifecycle_def)
  have "api_client (defaulting default_rb (mem_client rb_key (\<lambda>_ b. b))) rb_key (mem_find rb_key) rb_stored mem_avail"
    by (rule defaulting_client [OF rb_mem.mem.api_client_axioms]) (auto simp: default_rb_def rb_stored_def rb_key_def)
  then show "api_client (gb_roleBindings (sample_lifecycle gr)) rb_key (mem_find rb_key) rb_stored mem_avail" by (simp add: sample_lifecycle_def)
qed

type_synonym sample_global = "(ClusterRole mem, ClusterRoleBinding mem, Role mem, RoleBinding mem) globalState"

definition cache_of :: "sample_global \<Rightarrow> rbacCache" where
  "cache_of s =
     \<lparr>ch_clusterRoles = (\<lambda>n. case mem_find cr_Name (gs_clusterRoles s) n of None \<Rightarrow> Inl NotFound | Some c \<Rightarrow> Inr c),
      ch_roles = (\<lambda>ns n. case mem_find role_key (gs_roles s) (ns, n) of None \<Rightarrow> Inl NotFound | Some r \<Rightarrow> Inr r),
      ch_clusterRoleBindings = objs (gs_clusterRoleBindings s), ch_roleBindings = objs (gs_roleBindings s)\<rparr>"

lemma mem_find_objs: "mem_find key m k = Some x \<Longrightarrow> x \<in> set (objs m)"
  by (auto simp: mem_find_def find_Some_iff)

lemma cache_of_shows:
  "shows_cluster (cache_of s) (mem_find cr_Name (gs_clusterRoles s)) (mem_find crb_Name (gs_clusterRoleBindings s))"
  "shows_namespaced (cache_of s) (mem_find role_key (gs_roles s)) (mem_find rb_key (gs_roleBindings s))"
  by (simp_all add: shows_cluster_def shows_namespaced_def cache_of_def mem_find_objs)

definition template_role :: "string \<Rightarrow> string list \<Rightarrow> GlobalRole" where
  "template_role name vs =
     \<lparr>gr_Name = name, gr_UID = [], gr_Labels = [], gr_Annotations = [], gr_DisplayName = [],
      gr_Rules = [\<lparr>p_APIGroups = [''management.cattle.io''], p_Resources = [''templates''], p_ResourceNames = [], p_NonResourceURLs = [], p_Verbs = vs\<rparr>],
      gr_NewUserDefault = False\<rparr>"

definition sample_grb :: GlobalRoleBinding where
  "sample_grb = \<lparr>grb_Name = ''grb-1'', grb_UID = [], grb_Labels = [], grb_Annotations = [], grb_UserName = ''u-1'', grb_GlobalRoleName = ''reader''\<rparr>"

definition sample_global_state :: "(string, ClusterRole) gomap \<Rightarrow> ClusterRole list \<Rightarrow> error option list \<Rightarrow> Role list \<Rightarrow> sample_global" where
  "sample_global_state cache crs fs roles =
     \<lparr>gs_crCache = cache, gs_clusterRoles = \<lparr>objs = crs, faults = fs\<rparr>, gs_clusterRoleBindings = \<lparr>objs = [], faults = []\<rparr>,
      gs_roles = \<lparr>objs = roles, faults = []\<rparr>, gs_roleBindings = \<lparr>objs = [], faults = []\<rparr>\<rparr>"

definition u1_request :: Request where
  "u1_request = \<lparr>rq_Header = [(''Impersonate-User'', [''u-1''])], rq_Cookies = [], rq_Scheme = [], rq_Path = []\<rparr>"

definition old_role :: ClusterRole where
  "old_role = \<lparr>cr_Name = ''cattle-globalrole-reader'', cr_Labels = globalRoleLabel, cr_Annotations = [], cr_Owners = [], cr_Rules = []\<rparr>"

abbreviation "cr_client \<equiv> mem_client cr_Name (\<lambda>_ r. r)"
abbreviation "sample_reader \<equiv> template_role ''reader'' [''get'']"

theorem reconcileGlobalRole_lost_update_witness:
  "\<exists>s1. reconcileGlobalRole cr_client sample_reader (sample_global_state [(''cattle-globalrole-reader'', old_role)] [old_role] [Some Conflict] []) =
       (Inl (Wrapped ''couldn't update ClusterRole'' Conflict), s1) \<and>
     reconcileGlobalRole cr_client sample_reader s1 = (Inr sample_reader, s1) \<and>
     mem_find cr_Name (gs_clusterRoles s1) ''cattle-globalrole-reader'' = Some old_role"
proof -
  let ?s = "sample_global_state [(''cattle-globalrole-reader'', old_role)] [old_role] [Some Conflict] []"
  define s1 where "s1 = snd (reconcileGlobalRole cr_client sample_reader ?s)"
  have "fst (reconcileGlobalRole cr_client sample_reader ?s) = Inl (Wrapped ''couldn't update ClusterRole'' Conflict)" by code_simp
  then have run: "reconcileGlobalRole cr_client sample_reader ?s = (Inl (Wrapped ''couldn't update ClusterRole'' Conflict), s1)"
    unfolding s1_def by (metis prod.collapse)
  have "map_of (gs_crCache ?s) (getCRName sample_reader) = Some old_role" "gr_Rules sample_reader \<noteq> cr_Rules old_role"
    "mem_find cr_Name (gs_clusterRoles ?s) ''cattle-globalrole-reader'' = Some old_role" by code_simp+
  with reconcileGlobalRole_lost_update [OF cr_mem.mem.api_client_axioms _ _ run] run show ?thesis by auto
qed

abbreviation "sample_start \<equiv> sample_global_state [] [] [] []"
abbreviation "sample_reader' \<equiv> sample_reader\<lparr>gr_Annotations := [(crNameAnnotation, ''cattle-globalrole-reader'')]\<rparr>"
abbreviation "sample_created \<equiv> snd (gr_Create cr_client sample_reader sample_start)"
abbreviation "sample_granted \<equiv> snd (grb_Create (sample_lifecycle sample_reader') sample_grb sample_created)"

lemma granted_run:
  "fst (gr_Create cr_client sample_reader sample_start) = Inr (Some sample_reader')"
  "fst (grb_Create (sample_lifecycle sample_reader') sample_grb sample_created) = Inr (Some (sample_grb\<lparr>grb_Annotations := [(crbNameAnnotation, ''cattle-globalrolebinding-grb-1'')]\<rparr>))"
  "plain_cache (cache_of sample_granted)"
  by code_simp+


abbreviation "catalog_start \<equiv> snd (addRulesForTemplateAndTemplateVersions (sample_lifecycle (template_role ''owner'' [''*''])) (sample_grb\<lparr>grb_UserName := ''u-0''\<rparr>)
  (binding_subject (sample_grb\<lparr>grb_UserName := ''u-0''\<rparr>)) sample_start)"
abbreviation "catalog_bound \<equiv> snd (addRulesForTemplateAndTemplateVersions (sample_lifecycle sample_reader) sample_grb (binding_subject sample_grb) catalog_start)"
abbreviation "catalog_owner \<equiv> \<lparr>ro_Namespace = GlobalNamespace, ro_Name = globalCatalogRole, ro_Labels = [], ro_Owners = [],
  ro_Rules = catalog_rules (gr_Rules (template_role ''owner'' [''*'']))\<rparr>"

lemma catalog_bound_run:
  "mem_find role_key (gs_roles catalog_start) (GlobalNamespace, globalCatalogRole) = Some catalog_owner"
  "mem_avail (gs_roleBindings catalog_start)"
  "mem_find rb_key (gs_roleBindings catalog_start) (GlobalNamespace, grb_UserName sample_grb @ ''-'' @ globalCatalogRoleBinding) = None"
  "fst (addRulesForTemplateAndTemplateVersions (sample_lifecycle sample_reader) sample_grb (binding_subject sample_grb) catalog_start) = Inr ()"
  "plain_cache (cache_of catalog_bound)"
  by code_simp+

theorem catalog_role_shared_witness:
  "CanDo (NewListPermissionStore (cache_of catalog_bound)) ''management.cattle.io'' ''catalogtemplates'' ''delete'' u1_request
     (Some [(''id'', ''cattle-global-data:tm-1'')]) = Inr ()"
proof -
  have "getUser u1_request = grb_UserName sample_grb" "object_ns [(''id'', ''cattle-global-data:tm-1'')] = GlobalNamespace" by code_simp+
  moreover have "hd (ro_Rules catalog_owner) \<in> set (ro_Rules catalog_owner)"
    "grants_all (hd (ro_Rules catalog_owner)) ''management.cattle.io'' ''catalogtemplates'' ''delete''" "catalog_rules (gr_Rules sample_reader) \<noteq> []"
    by code_simp+
  moreover have "gb_grLister (sample_lifecycle sample_reader) (grb_GlobalRoleName sample_grb) = Inr sample_reader" by (simp add: sample_lifecycle_def)
  moreover have "addRulesForTemplateAndTemplateVersions (sample_lifecycle sample_reader) sample_grb (binding_subject sample_grb) catalog_start = (Inr (), catalog_bound)"
    by (simp only: prod_eq_iff catalog_bound_run(4) fst_conv snd_conv simp_thms)
  ultimately show ?thesis
    by (intro catalog_role_shared [OF sample_lifecycle_clients(2,3) [of sample_reader] catalog_bound_run(1-3) _ _ _ cache_of_shows(2) catalog_bound_run(5)])
qed

end
